(* ===== verification/Prelude.thy ===== *)
theory Prelude
  imports Main
begin

text \<open>
  Shared vocabulary of the development: the error values of the program, computations that
  thread a state and may return early with an error (the shape of every Go function that
  ends in \<open>if err != nil { return err }\<close>), frame reasoning over such computations, and
  the list lemmas that the tables of the store need.
\<close>

section \<open>Errors\<close>

type_synonym time = int \<comment> \<open>nanoseconds since Go's zero time\<close>
type_synonym duration = int \<comment> \<open>nanoseconds\<close>

text \<open>What the database driver reports when a statement is refused or cannot be run.\<close>

datatype db_error =
    UniqueViolation string
  | ForeignKeyViolation string
  | OutOfRange string
  | Unavailable string

datatype err =
    ErrInvalidCredentials | ErrAccountLocked | ErrAccountDisabled | ErrEmailUnverified
  | ErrRequestFailed | ErrTOTPRequired | ErrInvalidTOTP | ErrTOTPAlreadyEnabled
  | ErrPasskeyCeremony | ErrPasskeyNotFound | ErrUnauthorized
  | ErrOAuthProvider | ErrOAuthState | ErrOAuthConflict | ErrOAuthProfile
  | ErrWeakPassword | ErrInvalidEncryptionKey
  | RateLimitError duration
  | ErrNoRows
  | ErrDb db_error
  | ErrText string
  | Wrapped string err

text \<open>\<open>errors.Is\<close>: the error itself or one that it wraps with \<open>%w\<close>.\<close>

fun errors_is :: "err \<Rightarrow> err \<Rightarrow> bool" where
  "errors_is (Wrapped m e) t = (Wrapped m e = t \<or> errors_is e t)"
| "errors_is e t = (e = t)"

section \<open>Computations with state and early return\<close>

type_synonym ('s, 'a) go = "'s \<Rightarrow> (err + 'a) \<times> 's"

named_theorems go_simps "evaluation of the combinators"
named_theorems go_inv "inversion of a computation by its outcome"

definition ret :: "'a \<Rightarrow> ('s, 'a) go" where
  "ret v s = (Inr v, s)"

definition fail :: "err \<Rightarrow> ('s, 'a) go" where
  "fail e s = (Inl e, s)"

definition lift :: "err + 'a \<Rightarrow> ('s, 'a) go" where
  "lift r s = (r, s)"

text \<open>\<open>v, err := m; if err != nil { h(err) }; k(v)\<close>\<close>

definition attempt :: "('s, 'a) go \<Rightarrow> (err \<Rightarrow> ('s, 'b) go) \<Rightarrow> ('a \<Rightarrow> ('s, 'b) go) \<Rightarrow> ('s, 'b) go" where
  "attempt m h k s = (case m s of (Inl e, t) \<Rightarrow> h e t | (Inr v, t) \<Rightarrow> k v t)"

text \<open>\<open>v, err := m; if err != nil { return err }; k(v)\<close>\<close>

definition andthen :: "('s, 'a) go \<Rightarrow> ('a \<Rightarrow> ('s, 'b) go) \<Rightarrow> ('s, 'b) go" where
  "andthen m k s = (case m s of (Inl e, t) \<Rightarrow> (Inl e, t) | (Inr v, t) \<Rightarrow> k v t)"

lemma andthen_is_attempt: "andthen m k = attempt m fail k"
  by (rule ext) (simp add: andthen_def attempt_def fail_def cong: prod.case_cong sum.case_cong)

lemma andthen_ret_left [simp]: "andthen (ret v) k = k v"
  by (rule ext) (simp add: andthen_def ret_def)

lemma andthen_ret_right [simp]: "andthen m ret = m"
  by (rule ext) (auto simp: andthen_def ret_def split: prod.splits sum.splits)

lemma andthen_assoc: "andthen (andthen m k) l = andthen m (\<lambda>v. andthen (k v) l)"
  by (rule ext) (auto simp: andthen_def split: prod.splits sum.splits)

lemma andthen_fail [simp]: "andthen (fail e) k = fail e"
  by (rule ext) (simp add: andthen_def fail_def)

lemma ret_eval [go_simps]: "ret v s = (Inr v, s)"
  and fail_eval [go_simps]: "fail e s = (Inl e, s)"
  and lift_eval [go_simps]: "lift r s = (r, s)"
  by (simp_all add: ret_def fail_def lift_def)

lemma andthen_step [go_simps]:
  "m s = (Inr v, t) \<Longrightarrow> andthen m k s = k v t"
  "m s = (Inl e, t) \<Longrightarrow> andthen m k s = (Inl e, t)"
  by (simp_all add: andthen_def)

lemma attempt_step [go_simps]:
  "m s = (Inr v, t) \<Longrightarrow> attempt m h k s = k v t"
  "m s = (Inl e, t) \<Longrightarrow> attempt m h k s = h e t"
  by (simp_all add: attempt_def)

lemma ret_Inv [go_inv]:
  "ret v s = (Inr a, t) \<longleftrightarrow> v = a \<and> s = t"
  "ret v s = (Inl e, t) \<longleftrightarrow> False"
  by (auto simp: ret_def)

lemma fail_Inv [go_inv]:
  "fail e s = (Inr a, t) \<longleftrightarrow> False"
  "fail e s = (Inl e', t) \<longleftrightarrow> e = e' \<and> s = t"
  by (auto simp: fail_def)

lemma lift_Inv [go_inv]: "lift r s = (r', t) \<longleftrightarrow> r = r' \<and> s = t"
  by (auto simp: lift_def)

lemma andthen_Inr [go_inv]:
  "andthen m k s = (Inr b, t) \<longleftrightarrow> (\<exists>a u. m s = (Inr a, u) \<and> k a u = (Inr b, t))"
  by (auto simp: andthen_def split: prod.splits sum.splits)

lemma andthen_Inl [go_inv]:
  "andthen m k s = (Inl e, t) \<longleftrightarrow>
     m s = (Inl e, t) \<or> (\<exists>a u. m s = (Inr a, u) \<and> k a u = (Inl e, t))"
  by (auto simp: andthen_def split: prod.splits sum.splits)

lemma attempt_Inv [go_inv]:
  "attempt m h k s = (r, t) \<longleftrightarrow>
     (\<exists>e u. m s = (Inl e, u) \<and> h e u = (r, t)) \<or> (\<exists>a u. m s = (Inr a, u) \<and> k a u = (r, t))"
  by (auto simp: attempt_def split: prod.splits sum.splits)

text \<open>A list of computations run in order; the first error stops the loop.\<close>

fun each :: "('a \<Rightarrow> ('s, unit) go) \<Rightarrow> 'a list \<Rightarrow> ('s, unit) go" where
  "each f [] = ret ()"
| "each f (x # xs) = andthen (f x) (\<lambda>_. each f xs)"

section \<open>Frames: what a computation may do to the state\<close>

text \<open>
  \<open>framed R m\<close>: whatever \<open>m\<close> returns, the state it leaves is related to the state it
  started from. The locale collects the rules for any reflexive and transitive \<open>R\<close>; an
  invariant (\<open>I s \<longrightarrow> I t\<close>), a monotone quantity and an untouched component are all such
  relations.
\<close>

definition framed :: "('s \<Rightarrow> 's \<Rightarrow> bool) \<Rightarrow> ('s, 'a) go \<Rightarrow> bool" where
  "framed R m \<longleftrightarrow> (\<forall>s. R s (snd (m s)))"

lemma framedI: "(\<And>s r t. m s = (r, t) \<Longrightarrow> R s t) \<Longrightarrow> framed R m"
  by (simp add: framed_def) (metis prod.collapse)

lemma framedD: "framed R m \<Longrightarrow> m s = (r, t) \<Longrightarrow> R s t"
  by (metis framed_def snd_conv)

locale frame =
  fixes R :: "'s \<Rightarrow> 's \<Rightarrow> bool"
  assumes refl: "R s s"
    and trans: "R s t \<Longrightarrow> R t u \<Longrightarrow> R s u"
begin

lemma framed_ret: "framed R (ret v)"
  by (simp add: framed_def ret_def refl)

lemma framed_fail: "framed R (fail e)"
  by (simp add: framed_def fail_def refl)

lemma framed_lift: "framed R (lift r)"
  by (simp add: framed_def lift_def refl)

lemma framed_attempt:
  assumes "framed R m" and "\<And>e. framed R (h e)" and "\<And>v. framed R (k v)"
  shows "framed R (attempt m h k)"
proof (rule framedI)
  fix s r t
  assume "attempt m h k s = (r, t)"
  then consider e u where "m s = (Inl e, u)" "h e u = (r, t)"
    | v u where "m s = (Inr v, u)" "k v u = (r, t)"
    by (auto simp: attempt_Inv)
  then show "R s t"
    by cases (use assms in \<open>blast intro: trans dest: framedD\<close>)+
qed

lemma framed_andthen:
  "framed R m \<Longrightarrow> (\<And>v. framed R (k v)) \<Longrightarrow> framed R (andthen m k)"
  unfolding andthen_is_attempt by (rule framed_attempt) (auto intro: framed_fail)

lemma framed_each: "(\<And>x. framed R (f x)) \<Longrightarrow> framed R (each f xs)"
  by (induction xs) (auto intro: framed_ret framed_andthen)

lemma framed_if: "(b \<Longrightarrow> framed R m) \<Longrightarrow> (\<not> b \<Longrightarrow> framed R n) \<Longrightarrow> framed R (if b then m else n)"
  by simp

lemma framed_option:
  "(v = None \<Longrightarrow> framed R m) \<Longrightarrow> (\<And>a. v = Some a \<Longrightarrow> framed R (k a)) \<Longrightarrow>
     framed R (case v of None \<Rightarrow> m | Some a \<Rightarrow> k a)"
  by (cases v) auto

lemma framed_prod:
  "(\<And>a b. p = (a, b) \<Longrightarrow> framed R (k a b)) \<Longrightarrow> framed R (case p of (a, b) \<Rightarrow> k a b)"
  by (cases p) auto

lemma framed_sum:
  "(\<And>a. v = Inl a \<Longrightarrow> framed R (m a)) \<Longrightarrow> (\<And>a. v = Inr a \<Longrightarrow> framed R (k a)) \<Longrightarrow>
     framed R (case v of Inl a \<Rightarrow> m a | Inr a \<Rightarrow> k a)"
  by (cases v) auto

lemma framed_list:
  "(v = [] \<Longrightarrow> framed R m) \<Longrightarrow> (\<And>a l. v = a # l \<Longrightarrow> framed R (k a l)) \<Longrightarrow>
     framed R (case v of [] \<Rightarrow> m | a # l \<Rightarrow> k a l)"
  by (cases v) auto

lemma framed_let: "(\<And>a. a = v \<Longrightarrow> framed R (k a)) \<Longrightarrow> framed R (let a = v in k a)"
  by simp

lemmas framed_intros = framed_ret framed_fail framed_lift framed_attempt framed_andthen
  framed_each framed_if framed_option framed_prod framed_sum framed_list framed_let

end

end
