(* ===== verification/GoStrings.thy ===== *)
theory GoStrings
  imports Prelude
begin

text \<open>
  The part of Go's \<open>strings\<close>, \<open>unicode\<close> and \<open>unicode/utf8\<close> packages that the program
  calls. A Go string is a sequence of bytes, so it is a \<^typ>\<open>string\<close> (each \<^typ>\<open>char\<close> is a
  byte); functions that work on code points decode UTF-8 first, with an invalid byte read
  as U+FFFD of width 1, as Go does. The Unicode case tables above ASCII are an argument
  (\<open>ul\<close>): everything else is written out.
\<close>

section \<open>UTF-8\<close>

abbreviation byte :: "char \<Rightarrow> nat" where
  "byte \<equiv> of_char"

abbreviation rune_error :: nat where
  "rune_error \<equiv> 0xFFFD"

definition ascii :: "string \<Rightarrow> bool" where
  "ascii s \<longleftrightarrow> (\<forall>c \<in> set s. byte c < 0x80)"

definition cont :: "char \<Rightarrow> bool" where
  "cont c \<longleftrightarrow> 0x80 \<le> byte c \<and> byte c \<le> 0xBF"

definition decode2 :: "nat \<Rightarrow> string \<Rightarrow> nat \<times> nat" where
  "decode2 b s = (case s of
     c1 # _ \<Rightarrow> if cont c1 then ((b - 0xC0) * 64 + (byte c1 - 0x80), 2) else (rune_error, 1)
   | _ \<Rightarrow> (rune_error, 1))"

definition decode3 :: "nat \<Rightarrow> string \<Rightarrow> nat \<times> nat" where
  "decode3 b s = (case s of
     c1 # c2 # _ \<Rightarrow>
       if (if b = 0xE0 then 0xA0 else 0x80) \<le> byte c1 \<and> byte c1 \<le> (if b = 0xED then 0x9F else 0xBF) \<and> cont c2
       then ((b - 0xE0) * 4096 + (byte c1 - 0x80) * 64 + (byte c2 - 0x80), 3)
       else (rune_error, 1)
   | _ \<Rightarrow> (rune_error, 1))"

definition decode4 :: "nat \<Rightarrow> string \<Rightarrow> nat \<times> nat" where
  "decode4 b s = (case s of
     c1 # c2 # c3 # _ \<Rightarrow>
       if (if b = 0xF0 then 0x90 else 0x80) \<le> byte c1 \<and> byte c1 \<le> (if b = 0xF4 then 0x8F else 0xBF)
          \<and> cont c2 \<and> cont c3
       then ((b - 0xF0) * 262144 + (byte c1 - 0x80) * 4096 + (byte c2 - 0x80) * 64 + (byte c3 - 0x80), 4)
       else (rune_error, 1)
   | _ \<Rightarrow> (rune_error, 1))"

text \<open>\<open>utf8.DecodeRuneInString\<close>: the code point and its width.\<close>

fun decode_rune :: "string \<Rightarrow> nat \<times> nat" where
  "decode_rune [] = (rune_error, 0)"
| "decode_rune (a # s) =
     (let b = byte a in
      if b < 0x80 then (b, 1)
      else if 0xC2 \<le> b \<and> b \<le> 0xDF then decode2 b s
      else if 0xE0 \<le> b \<and> b \<le> 0xEF then decode3 b s
      else if 0xF0 \<le> b \<and> b \<le> 0xF4 then decode4 b s
      else (rune_error, 1))"

lemma decode_rune_width:
  "s \<noteq> [] \<Longrightarrow> 0 < snd (decode_rune s) \<and> snd (decode_rune s) \<le> length s"
  by (cases s) (auto simp: Let_def decode2_def decode3_def decode4_def split: list.splits)

text \<open>A string as the code points a \<open>range\<close> loop sees, each with the bytes it was read from.\<close>

function runes :: "string \<Rightarrow> (nat \<times> string) list" where
  "runes [] = []"
| "runes (a # s) =
     (let (r, n) = decode_rune (a # s) in (r, take n (a # s)) # runes (drop n (a # s)))"
  by pat_completeness auto
termination
proof (relation "measure length", goal_cases)
  case (2 a s p r n)
  then have "0 < n"
    using decode_rune_width [of "a # s"] by (metis list.distinct(1) snd_conv)
  then show ?case by auto
qed simp

lemma concat_runes [simp]: "concat (map snd (runes s)) = s"
  by (induction s rule: runes.induct) (auto simp: Let_def split: prod.splits simp del: decode_rune.simps)

lemma runes_chunks: "(r, c) \<in> set (runes s) \<Longrightarrow> c \<noteq> []"
proof (induction s rule: runes.induct)
  case (2 a s)
  obtain q n where d: "decode_rune (a # s) = (q, n)" by fastforce
  then have "0 < n" using decode_rune_width [of "a # s"] by simp
  with 2 d show ?case by (auto simp del: decode_rune.simps)
qed simp

definition rune_count :: "string \<Rightarrow> nat" where
  "rune_count s = length (runes s)"

lemma length_le_concat: "\<forall>c \<in> set cs. c \<noteq> [] \<Longrightarrow> length cs \<le> length (concat cs)"
  by (induction cs) (auto simp: Suc_le_eq intro: le_less_trans)

lemma rune_count_le_length: "rune_count s \<le> length s"
proof -
  have "\<forall>c \<in> set (map snd (runes s)). c \<noteq> []" by (auto dest: runes_chunks)
  from length_le_concat [OF this] show ?thesis by (simp add: rune_count_def)
qed

lemma runes_ascii: "ascii s \<Longrightarrow> runes s = map (\<lambda>c. (byte c, [c])) s"
  by (induction s) (auto simp: ascii_def)

lemma rune_count_ascii: "ascii s \<Longrightarrow> rune_count s = length s"
  by (simp add: rune_count_def runes_ascii)

text \<open>\<open>utf8.EncodeRune\<close>; surrogates and values past U+10FFFF are written as U+FFFD.\<close>

definition encode_rune :: "nat \<Rightarrow> string" where
  "encode_rune r =
     (let r = (if r > 0x10FFFF \<or> (0xD800 \<le> r \<and> r \<le> 0xDFFF) then rune_error else r) in
      if r < 0x80 then [char_of r]
      else if r < 0x800 then [char_of (0xC0 + r div 64), char_of (0x80 + r mod 64)]
      else if r < 0x10000 then
        [char_of (0xE0 + r div 4096), char_of (0x80 + r div 64 mod 64), char_of (0x80 + r mod 64)]
      else [char_of (0xF0 + r div 262144), char_of (0x80 + r div 4096 mod 64),
            char_of (0x80 + r div 64 mod 64), char_of (0x80 + r mod 64)])"

section \<open>Package strings\<close>

text \<open>\<open>unicode.IsSpace\<close>\<close>

definition is_space :: "nat \<Rightarrow> bool" where
  "is_space r \<longleftrightarrow> (9 \<le> r \<and> r \<le> 13) \<or> r \<in> {0x20, 0x85, 0xA0, 0x1680} \<or> (0x2000 \<le> r \<and> r \<le> 0x200A)
     \<or> r \<in> {0x2028, 0x2029, 0x202F, 0x205F, 0x3000}"

definition strip :: "('a \<Rightarrow> bool) \<Rightarrow> 'a list \<Rightarrow> 'a list" where
  "strip p xs = rev (dropWhile p (rev (dropWhile p xs)))"

lemma strip_set: "set (strip p xs) \<subseteq> set xs"
  unfolding strip_def by (auto dest!: set_dropWhileD)

lemma strip_ends:
  "strip p xs \<noteq> [] \<Longrightarrow> \<not> p (hd (strip p xs)) \<and> \<not> p (last (strip p xs))"
proof -
  assume ne: "strip p xs \<noteq> []"
  let ?ys = "dropWhile p xs"
  have zs: "dropWhile p (rev ?ys) \<noteq> []" using ne by (simp add: strip_def)
  then have l: "\<not> p (last (strip p xs))"
    by (simp add: strip_def last_rev hd_dropWhile)
  have "?ys \<noteq> []" using zs by (metis dropWhile.simps(1) rev.simps(1))
  then have h: "\<not> p (hd ?ys)" by (rule hd_dropWhile)
  obtain ws where "rev ?ys = ws @ dropWhile p (rev ?ys)"
    by (metis takeWhile_dropWhile_id)
  then have "?ys = strip p xs @ rev ws"
    by (metis rev_append rev_rev_ident strip_def)
  with ne h have "\<not> p (hd (strip p xs))" by (metis hd_append2)
  with l show ?thesis by simp
qed

lemma strip_id: "xs = [] \<or> (\<not> p (hd xs) \<and> \<not> p (last xs)) \<Longrightarrow> strip p xs = xs"
proof (cases "xs = []")
  case False
  assume "xs = [] \<or> (\<not> p (hd xs) \<and> \<not> p (last xs))"
  with False have h: "\<not> p (hd xs)" and l: "\<not> p (hd (rev xs))" by (auto simp: hd_rev)
  have keep: "dropWhile p ys = ys" if "ys \<noteq> []" "\<not> p (hd ys)" for ys
    using that by (cases ys) auto
  show ?thesis using False h l by (simp add: strip_def keep)
qed (simp add: strip_def)

lemma strip_idem [simp]: "strip p (strip p xs) = strip p xs"
  using strip_ends strip_id by blast

text \<open>\<open>strings.TrimSpace\<close>\<close>

definition trim_space :: "string \<Rightarrow> string" where
  "trim_space s = concat (map snd (strip (\<lambda>(r, _). is_space r) (runes s)))"

lemma strip_map: "strip p (map f xs) = map f (strip (p \<circ> f) xs)"
  by (simp add: strip_def dropWhile_map rev_map)

lemma trim_space_ascii:
  assumes "ascii s"
  shows "trim_space s = strip (\<lambda>c. is_space (byte c)) s"
proof -
  have "concat (map (\<lambda>c. [c]) cs) = cs" for cs :: string by (induction cs) auto
  with assms show ?thesis
    by (simp add: trim_space_def runes_ascii strip_map o_def)
qed

lemma length_trim_space_ascii: "ascii s \<Longrightarrow> length (trim_space s) \<le> length s"
  unfolding trim_space_ascii strip_def
  by (metis length_dropWhile_le length_rev order_trans)

definition lower_code :: "nat \<Rightarrow> nat" where
  "lower_code r = (if 0x41 \<le> r \<and> r \<le> 0x5A then r + 32 else r)"

text \<open>\<open>strings.ToLower\<close>; \<open>ul\<close> is \<open>unicode.ToLower\<close> on the code points past ASCII.\<close>

definition to_lower :: "(nat \<Rightarrow> nat) \<Rightarrow> string \<Rightarrow> string" where
  "to_lower ul s =
     (if ascii s then map (\<lambda>c. char_of (lower_code (byte c))) s
      else concat (map (\<lambda>(r, _). encode_rune (if r < 0x80 then lower_code r else ul r)) (runes s)))"

lemma lower_code_idem [simp]: "lower_code (lower_code r) = lower_code r"
  by (simp add: lower_code_def)

lemma lower_code_bound [simp]: "r < 0x80 \<Longrightarrow> lower_code r < 0x80"
  by (simp add: lower_code_def)

lemma to_lower_ascii_idem:
  assumes "ascii s"
  shows "ascii (to_lower ul s)" and "to_lower ul (to_lower ul s) = to_lower ul s"
proof -
  let ?f = "\<lambda>c. char_of (lower_code (byte c)) :: char"
  have b: "byte (?f c) = lower_code (byte c)" if "byte c < 0x80" for c
    using lower_code_bound [OF that] by simp
  from assms b show a: "ascii (to_lower ul s)"
    by (auto simp: to_lower_def ascii_def)
  from assms b have "map ?f (map ?f s) = map ?f s"
    by (auto simp: ascii_def)
  with assms a show "to_lower ul (to_lower ul s) = to_lower ul s"
    by (simp add: to_lower_def)
qed

lemma to_lower_id:
  "ascii s \<Longrightarrow> \<forall>c \<in> set s. byte c < 0x41 \<or> 0x5A < byte c \<Longrightarrow> to_lower ul s = s"
  by (auto simp: to_lower_def lower_code_def intro!: map_idI)

text \<open>\<open>strings.Split\<close> with a separator of one byte; the result is never empty.\<close>

fun split_on :: "char \<Rightarrow> string \<Rightarrow> string list" where
  "split_on d [] = [[]]"
| "split_on d (c # s) =
     (if c = d then [] # split_on d s
      else (case split_on d s of [] \<Rightarrow> [[c]] | p # ps \<Rightarrow> (c # p) # ps))"

text \<open>\<open>strings.Join\<close>\<close>

fun join :: "string \<Rightarrow> string list \<Rightarrow> string" where
  "join sep [] = []"
| "join sep [p] = p"
| "join sep (p # ps) = p @ sep @ join sep ps"

lemma split_on_nonempty [simp]: "split_on d s \<noteq> []"
  by (cases s) (auto split: list.splits)

lemma join_split_on: "join [d] (split_on d s) = s"
proof (induction s)
  case (Cons c s)
  obtain p ps where ps: "split_on d s = p # ps"
    using split_on_nonempty by (metis list.exhaust)
  have "join [d] ((c # p) # ps) = c # join [d] (p # ps)" for c p
    by (cases ps) auto
  moreover have "join [d] ([] # p # ps) = d # join [d] (p # ps)" by simp
  ultimately show ?case using Cons ps by simp
qed simp

lemma split_on_parts: "p \<in> set (split_on d s) \<Longrightarrow> d \<notin> set p"
  by (induction s arbitrary: p) (auto split: if_splits list.splits)

lemma split_on_single: "d \<notin> set s \<Longrightarrow> split_on d s = [s]"
  by (induction s) auto

lemma split_on_append: "d \<notin> set p \<Longrightarrow> split_on d (p @ d # s) = p # split_on d s"
  by (induction p) auto

lemma split_on_join:
  "ps \<noteq> [] \<Longrightarrow> \<forall>p \<in> set ps. d \<notin> set p \<Longrightarrow> split_on d (join [d] ps) = ps"
  by (induction "[d]" ps rule: join.induct) (auto simp: split_on_single split_on_append)

definition has_prefix :: "string \<Rightarrow> string \<Rightarrow> bool" where
  "has_prefix s p \<longleftrightarrow> take (length p) s = p"

text \<open>\<open>strings.TrimPrefix\<close>\<close>

definition trim_prefix :: "string \<Rightarrow> string \<Rightarrow> string" where
  "trim_prefix s p = (if has_prefix s p then drop (length p) s else s)"

text \<open>\<open>strings.Contains\<close>\<close>

fun contains_str :: "string \<Rightarrow> string \<Rightarrow> bool" where
  "contains_str [] p = (p = [])"
| "contains_str (c # s) p = (has_prefix (c # s) p \<or> contains_str s p)"

lemma contains_str_iff: "contains_str s p \<longleftrightarrow> (\<exists>u v. s = u @ p @ v)"
proof (induction s)
  case (Cons c s)
  have "has_prefix (c # s) p \<longleftrightarrow> (\<exists>v. c # s = p @ v)"
    by (metis append_eq_conv_conj append_take_drop_id has_prefix_def)
  with Cons show ?case
    by (auto simp: Cons_eq_append_conv)
qed simp

text \<open>\<open>strings.EqualFold(s, t)\<close> for a lower-case ASCII \<open>t\<close>; the two code points outside ASCII
  that fold to an ASCII letter are the long s and the Kelvin sign.\<close>

definition fold_rune :: "nat \<Rightarrow> nat" where
  "fold_rune r = (if r = 0x17F then 0x73 else if r = 0x212A then 0x6B else lower_code r)"

definition equal_fold :: "string \<Rightarrow> string \<Rightarrow> bool" where
  "equal_fold s t \<longleftrightarrow> map (\<lambda>(r, _). fold_rune r) (runes s) = map byte t"

section \<open>Decimal numbers\<close>

fun digits_of :: "nat \<Rightarrow> string" where
  "digits_of n = (if n < 10 then [char_of (48 + n)] else digits_of (n div 10) @ [char_of (48 + n mod 10)])"

declare digits_of.simps [simp del]

text \<open>\<open>%d\<close> of an integer\<close>

definition show_int :: "int \<Rightarrow> string" where
  "show_int i = (if i < 0 then ''-'' @ digits_of (nat (- i)) else digits_of (nat i))"

definition is_digit :: "char \<Rightarrow> bool" where
  "is_digit c \<longleftrightarrow> 48 \<le> byte c \<and> byte c \<le> 57"

fun digits_value :: "nat \<Rightarrow> string \<Rightarrow> nat" where
  "digits_value acc [] = acc"
| "digits_value acc (c # s) = digits_value (10 * acc + (byte c - 48)) s"

text \<open>\<open>strconv.ParseInt(s, 10, bits)\<close>: \<open>None\<close> for a syntax or range error.\<close>

definition parse_int :: "nat \<Rightarrow> string \<Rightarrow> int option" where
  "parse_int bits s =
     (let (neg, ds) = (case s of c # t \<Rightarrow> if c = CHR ''-'' then (True, t)
                                          else if c = CHR ''+'' then (False, t) else (False, s)
                                | [] \<Rightarrow> (False, s)) in
      if ds = [] \<or> \<not> list_all is_digit ds then None
      else (let v = (if neg then - int (digits_value 0 ds) else int (digits_value 0 ds)) in
            if - (2 ^ (bits - 1)) \<le> v \<and> v < 2 ^ (bits - 1) then Some v else None))"

lemma digits_value_append: "digits_value a (s @ t) = digits_value (digits_value a s) t"
  by (induction s arbitrary: a) auto

lemma digits_of_value [simp]: "digits_value 0 (digits_of n) = n"
proof (induction n rule: digits_of.induct)
  case (1 n)
  show ?case
  proof (cases "n < 10")
    case True
    then show ?thesis by (simp add: digits_of.simps [of n])
  next
    case False
    with 1 show ?thesis
      by (simp add: digits_of.simps [of n] digits_value_append)
  qed
qed

lemma digits_of_digits: "list_all is_digit (digits_of n)"
proof (induction n rule: digits_of.induct)
  case (1 n)
  then show ?case
    by (cases "n < 10") (simp_all add: digits_of.simps [of n] is_digit_def)
qed

lemma digits_of_nonempty [simp]: "digits_of n \<noteq> []"
  by (subst digits_of.simps) simp

lemma digits_of_hd: "hd (digits_of n) \<noteq> CHR ''-'' \<and> hd (digits_of n) \<noteq> CHR ''+''"
proof -
  have "is_digit (hd (digits_of n))"
    using digits_of_digits [of n] digits_of_nonempty [of n] by (cases "digits_of n") auto
  then show ?thesis by (auto simp: is_digit_def)
qed

lemma parse_show_nat:
  "int n < 2 ^ (bits - 1) \<Longrightarrow> parse_int bits (digits_of n) = Some (int n)"
proof -
  assume n: "int n < 2 ^ (bits - 1)"
  obtain c t where d: "digits_of n = c # t"
    using digits_of_nonempty by (metis list.exhaust)
  then have "c \<noteq> CHR ''-''" "c \<noteq> CHR ''+''" using digits_of_hd [of n] by auto
  moreover have "list_all is_digit (c # t)" "digits_value 0 (c # t) = n"
    using digits_of_digits [of n] digits_of_value [of n] d by simp_all
  moreover have "- (2 ^ (bits - 1)) \<le> int n"
    by (rule order_trans [of _ 0]) simp_all
  ultimately show ?thesis using n d
    by (simp add: parse_int_def Let_def del: digits_value.simps)
qed

lemma parse_show_neg:
  "int n \<le> 2 ^ (bits - 1) \<Longrightarrow> parse_int bits (''-'' @ digits_of n) = Some (- int n)"
proof -
  assume n: "int n \<le> 2 ^ (bits - 1)"
  moreover have "- int n < 2 ^ (bits - 1)"
    by (rule le_less_trans [of _ 0]) simp_all
  ultimately show ?thesis
    by (simp add: parse_int_def Let_def digits_of_digits)
qed

lemma parse_show_int:
  assumes "- (2 ^ (bits - 1)) \<le> i" and "i < 2 ^ (bits - 1)"
  shows "parse_int bits (show_int i) = Some i"
proof (cases "i < 0")
  case True
  with parse_show_neg [of "nat (- i)" bits] assms show ?thesis by (simp add: show_int_def)
next
  case False
  with parse_show_nat [of "nat i" bits] assms show ?thesis by (simp add: show_int_def)
qed

end
