(* ===== verification/GoValues.thy ===== *)
theory GoValues
  imports GoStrings "HOL-Library.AList" "HOL-Library.List_Lexorder" "HOL-Library.Char_ord"
begin

text \<open>
  Machine integers, durations, the byte encodings (hexadecimal and unpadded URL-safe base64)
  and JSON documents as the program handles them.
\<close>

section \<open>Integers and durations\<close>

text \<open>Two's complement wrap-around of a 64-bit and truncation to a 32-bit unsigned integer.\<close>

definition wrap64 :: "int \<Rightarrow> int" where
  "wrap64 i = (i + 2 ^ 63) mod 2 ^ 64 - 2 ^ 63"

definition uint32_of :: "int \<Rightarrow> int" where
  "uint32_of i = i mod 2 ^ 32"

lemma wrap64_id: "- (2 ^ 63) \<le> i \<Longrightarrow> i < 2 ^ 63 \<Longrightarrow> wrap64 i = i"
  by (simp add: wrap64_def)

lemma wrap64_range: "- (2 ^ 63) \<le> wrap64 i \<and> wrap64 i < 2 ^ 63"
proof -
  have "0 \<le> (i + 2 ^ 63) mod 2 ^ 64" and "(i + 2 ^ 63) mod 2 ^ 64 < 2 ^ 64"
    by simp_all
  then show ?thesis unfolding wrap64_def by simp
qed

abbreviation second :: duration where
  "second \<equiv> 1000000000"

abbreviation minute :: duration where
  "minute \<equiv> 60 * second"

abbreviation hour :: duration where
  "hour \<equiv> 3600 * second"

text \<open>\<open>Time.Sub\<close> saturates at the largest and smallest duration.\<close>

definition time_sub :: "time \<Rightarrow> time \<Rightarrow> duration" where
  "time_sub t u = max (- (2 ^ 63)) (min (2 ^ 63 - 1) (t - u))"

text \<open>Integer division truncates toward zero.\<close>

definition trunc_div :: "int \<Rightarrow> int \<Rightarrow> int" where
  "trunc_div a b = (if (a < 0) = (b < 0) then \<bar>a\<bar> div \<bar>b\<bar> else - (\<bar>a\<bar> div \<bar>b\<bar>))"

lemma trunc_div_pos: "0 \<le> a \<Longrightarrow> 0 < b \<Longrightarrow> trunc_div a b = a div b"
  by (simp add: trunc_div_def)

section \<open>Encodings of bytes\<close>

definition hex_digit :: "nat \<Rightarrow> char" where
  "hex_digit n = ''0123456789abcdef'' ! n"

text \<open>\<open>hex.EncodeToString\<close>\<close>

definition hex_encode :: "string \<Rightarrow> string" where
  "hex_encode s = concat (map (\<lambda>c. [hex_digit (byte c div 16), hex_digit (byte c mod 16)]) s)"

definition b64_digit :: "nat \<Rightarrow> char" where
  "b64_digit n = ''ABCDEFGHIJKLMNOPQRSTUVWXYZabcdefghijklmnopqrstuvwxyz0123456789-_'' ! n"

text \<open>\<open>base64.RawURLEncoding.EncodeToString\<close>\<close>

fun b64url :: "string \<Rightarrow> string" where
  "b64url [] = []"
| "b64url [a] = [b64_digit (byte a div 4), b64_digit (byte a mod 4 * 16)]"
| "b64url [a, b] = [b64_digit (byte a div 4), b64_digit (byte a mod 4 * 16 + byte b div 16),
     b64_digit (byte b mod 16 * 4)]"
| "b64url (a # b # c # s) = b64_digit (byte a div 4) # b64_digit (byte a mod 4 * 16 + byte b div 16)
     # b64_digit (byte b mod 16 * 4 + byte c div 64) # b64_digit (byte c mod 64) # b64url s"

lemma length_hex_encode [simp]: "length (hex_encode s) = 2 * length s"
  by (induction s) (auto simp: hex_encode_def)

lemma length_b64url [simp]: "length (b64url s) = (4 * length s + 2) div 3"
  by (induction s rule: b64url.induct) auto

section \<open>JSON documents\<close>

text \<open>
  A parsed JSON value. \<open>JNum m e\<close> is the number m * 10^e, with e = 0 for a literal without
  fraction or exponent; for a number decoded into a \<open>float64\<close> its digits are the fewest that
  denote it. An object keeps its members in
  document order: when a key is repeated the last one counts.
\<close>

datatype json =
    JNull
  | JBool bool
  | JNum int int
  | JStr string
  | JArr "json list"
  | JObj "(string \<times> json) list"

text \<open>The Go map that an object decodes into.\<close>

definition members :: "(string \<times> json) list \<Rightarrow> (string \<times> json) list" where
  "members kvs = AList.clearjunk (rev kvs)"

definition member_get :: "(string \<times> json) list \<Rightarrow> string \<Rightarrow> json option" where
  "member_get kvs k = map_of (rev kvs) k"

lemma member_get_members: "map_of (members kvs) k = member_get kvs k"
  by (simp add: members_def member_get_def map_of_clearjunk)

fun strip_zeros :: "string \<Rightarrow> string" where
  "strip_zeros [] = []"
| "strip_zeros (c # s) = (let t = strip_zeros s in if t = [] \<and> c = CHR ''0'' then [] else c # t)"

text \<open>\<open>%v\<close> of a \<open>float64\<close>: \<open>%g\<close> with the fewest digits, exponent form below 1e-4 and from 1e+06 on.\<close>

definition sprint_float :: "int \<Rightarrow> int \<Rightarrow> string" where
  "sprint_float m e =
     (if m = 0 then ''0''
      else (let all = digits_of (nat \<bar>m\<bar>); ds = strip_zeros all; nd = int (length ds);
                dp = int (length all) + e; ex = dp - 1; sign = (if m < 0 then ''-'' else '''') in
        if ex < - 4 \<or> ex \<ge> 6 then
          sign @ [hd ds] @ (if nd > 1 then ''.'' @ tl ds else '''') @ ''e'' @ (if ex < 0 then ''-'' else ''+'')
            @ (if \<bar>ex\<bar> < 10 then ''0'' else '''') @ show_int \<bar>ex\<bar>
        else if dp \<le> 0 then sign @ ''0.'' @ replicate (nat (- dp)) (CHR ''0'') @ ds
        else if nd \<le> dp then sign @ ds @ replicate (nat (dp - nd)) (CHR ''0'')
        else sign @ take (nat dp) ds @ ''.'' @ drop (nat dp) ds))"

text \<open>\<open>fmt.Sprint\<close> of a decoded value; a map prints in key order.\<close>

fun sprint :: "json \<Rightarrow> string" where
  "sprint JNull = ''<nil>''"
| "sprint (JBool b) = (if b then ''true'' else ''false'')"
| "sprint (JNum m e) = sprint_float m e"
| "sprint (JStr s) = s"
| "sprint (JArr vs) = ''['' @ join '' '' (map sprint vs) @ '']''"
| "sprint (JObj kvs) = ''map['' @ join '' ''
     (map (\<lambda>(k, v). k @ '':'' @ v)
        (sort_key fst (AList.clearjunk (rev (map (\<lambda>(k, v). (k, sprint v)) kvs))))) @ '']''"

end
