(* ===== verification/NetIP.thy ===== *)
theory NetIP
  imports GoValues "HOL-Library.Word"
begin

unbundle bit_operations_syntax

text \<open>
  The part of \<open>net\<close> and \<open>net/netip\<close> that the program calls: parsing and printing addresses,
  CIDR prefixes and the splitting of host and port. An IPv4 address is a 32-bit word, an IPv6
  address a 128-bit word with a zone, empty when there is none.
\<close>

section \<open>Addresses\<close>

datatype addr = V4 "32 word" | V6 "128 word" string

definition octet :: "string \<Rightarrow> nat option" where
  "octet s = (if s = [] \<or> \<not> list_all is_digit s \<or> (length s > 1 \<and> hd s = CHR ''0'') \<or> digits_value 0 s > 255
     then None else Some (digits_value 0 s))"

definition parseIPv4 :: "string \<Rightarrow> 32 word option" where
  "parseIPv4 s = (case map octet (split_on (CHR ''.'') s) of
     [Some a, Some b, Some c, Some d] \<Rightarrow> Some (of_nat (((a * 256 + b) * 256 + c) * 256 + d))
   | _ \<Rightarrow> None)"

definition hex_val :: "char \<Rightarrow> nat option" where
  "hex_val c = (let b = byte c in
     if 48 \<le> b \<and> b \<le> 57 then Some (b - 48) else if 97 \<le> b \<and> b \<le> 102 then Some (b - 87)
     else if 65 \<le> b \<and> b \<le> 70 then Some (b - 55) else None)"

definition hex_value :: "string \<Rightarrow> nat" where
  "hex_value s = foldl (\<lambda>a c. a * 16 + the (hex_val c)) 0 s"

text \<open>
  The loop over the colon-separated groups: at most \<open>k\<close> more of them, those read so far, and where
  the double colon stood. An embedded IPv4 address counts for two groups.
\<close>

fun v6_groups :: "nat \<Rightarrow> nat list \<Rightarrow> nat option \<Rightarrow> string \<Rightarrow> (nat list \<times> nat option) option" where
  "v6_groups 0 gs el s = (if s = [] then Some (gs, el) else None)"
| "v6_groups (Suc k) gs el s =
     (let ds = takeWhile (\<lambda>c. hex_val c \<noteq> None) s; r = dropWhile (\<lambda>c. hex_val c \<noteq> None) s in
      if ds = [] \<or> length ds > 4 then None
      else if r \<noteq> [] \<and> hd r = CHR ''.'' then
        (if (el = None \<and> length gs \<noteq> 6) \<or> length gs + 2 > 8 then None
         else (case parseIPv4 s of None \<Rightarrow> None
           | Some v \<Rightarrow> Some (gs @ [unat v div 65536, unat v mod 65536], el)))
      else (let gs' = gs @ [hex_value ds] in
        (case r of [] \<Rightarrow> Some (gs', el)
         | c # t \<Rightarrow> if c \<noteq> CHR '':'' \<or> t = [] then None
             else if hd t = CHR '':'' then
               (if el \<noteq> None then None
                else if tl t = [] then Some (gs', Some (length gs'))
                else v6_groups k gs' (Some (length gs')) (tl t))
             else v6_groups k gs' el t)))"

definition expand_groups :: "nat list \<times> nat option \<Rightarrow> nat list option" where
  "expand_groups = (\<lambda>(gs, el). if length gs < 8
     then (case el of None \<Rightarrow> None | Some e \<Rightarrow> Some (take e gs @ replicate (8 - length gs) 0 @ drop e gs))
     else if el \<noteq> None then None else Some gs)"

definition groups_word :: "nat list \<Rightarrow> 128 word" where
  "groups_word gs = foldl (\<lambda>a g. a * 65536 + of_nat g) 0 gs"

definition parseIPv6 :: "string \<Rightarrow> addr option" where
  "parseIPv6 t =
     (let s = takeWhile (\<lambda>c. c \<noteq> CHR ''%'') t; z = dropWhile (\<lambda>c. c \<noteq> CHR ''%'') t; zone = drop 1 z;
          lead = has_prefix s ''::''; s' = (if lead then drop 2 s else s) in
      if z \<noteq> [] \<and> zone = [] then None
      else if lead \<and> s' = [] then Some (V6 0 zone)
      else (case v6_groups 8 [] (if lead then Some 0 else None) s' of
          None \<Rightarrow> None
        | Some r \<Rightarrow> (case expand_groups r of None \<Rightarrow> None | Some gs \<Rightarrow> Some (V6 (groups_word gs) zone))))"

text \<open>The first of the separators decides which family is parsed.\<close>

definition ParseAddr :: "string \<Rightarrow> addr option" where
  "ParseAddr s = (case find (\<lambda>c. c \<in> {CHR ''.'', CHR '':'', CHR ''%''}) s of
     None \<Rightarrow> None
   | Some c \<Rightarrow> if c = CHR ''.'' then map_option V4 (parseIPv4 s)
               else if c = CHR '':'' then parseIPv6 s else None)"

fun Zone :: "addr \<Rightarrow> string" where
  "Zone (V4 _) = []"
| "Zone (V6 _ z) = z"

definition Is4 :: "addr \<Rightarrow> bool" where
  "Is4 a = (case a of V4 _ \<Rightarrow> True | V6 _ _ \<Rightarrow> False)"

text \<open>\<open>net.ParseIP\<close> succeeds on an address without a zone.\<close>

definition ParseIP :: "string \<Rightarrow> addr option" where
  "ParseIP s = (case ParseAddr s of None \<Rightarrow> None | Some a \<Rightarrow> if Zone a = [] then Some a else None)"

definition mapped :: "128 word \<Rightarrow> bool" where
  "mapped w \<longleftrightarrow> drop_bit 32 w = 0xFFFF"

fun Unmap :: "addr \<Rightarrow> addr" where
  "Unmap (V4 w) = V4 w"
| "Unmap (V6 w z) = (if mapped w then V4 (ucast w) else V6 w z)"

lemma Unmap_idem [simp]: "Unmap (Unmap a) = Unmap a"
  by (cases a) auto

section \<open>Printing\<close>

definition string4 :: "32 word \<Rightarrow> string" where
  "string4 w = join ''.'' (map (\<lambda>i. digits_of (unat (take_bit 8 (drop_bit i w)))) [24, 16, 8, 0])"

fun hex_of :: "nat \<Rightarrow> string" where
  "hex_of n = (if n < 16 then [hex_digit n] else hex_of (n div 16) @ [hex_digit (n mod 16)])"

declare hex_of.simps [simp del]

definition groups_of :: "128 word \<Rightarrow> nat list" where
  "groups_of w = map (\<lambda>i. unat (take_bit 16 (drop_bit (112 - 16 * i) w))) [0..<8]"

text \<open>The longest run of at least two zero groups, the first of them on a tie: start and end.\<close>

definition zero_run :: "nat list \<Rightarrow> nat \<Rightarrow> nat" where
  "zero_run gs i = length (takeWhile (\<lambda>g. g = 0) (drop i gs))"

definition zero_range :: "nat list \<Rightarrow> (nat \<times> nat) option" where
  "zero_range gs = foldl (\<lambda>best i. let l = zero_run gs i in
     if l \<ge> 2 \<and> (case best of None \<Rightarrow> True | Some (a, b) \<Rightarrow> l > b - a) then Some (i, i + l) else best) None [0..<8]"

definition string6 :: "128 word \<Rightarrow> string \<Rightarrow> string" where
  "string6 w z = (let gs = groups_of w in
     (case zero_range gs of
        None \<Rightarrow> join '':'' (map hex_of gs)
      | Some (a, b) \<Rightarrow> join '':'' (map hex_of (take a gs)) @ ''::'' @ join '':'' (map hex_of (drop b gs)))
     @ (if z = [] then [] else CHR ''%'' # z))"

fun addr_String :: "addr \<Rightarrow> string" where
  "addr_String (V4 w) = string4 w"
| "addr_String (V6 w z) = (if mapped w then ''::ffff:'' @ string4 (ucast w) @ (if z = [] then [] else CHR ''%'' # z)
     else string6 w z)"

section \<open>Prefixes\<close>

text \<open>An address without zone and a number of bits; \<open>None\<close> where the number does not fit the family.\<close>

record prefix =
  px_addr :: addr
  px_bits :: "nat option"

fun withoutZone :: "addr \<Rightarrow> addr" where
  "withoutZone (V4 w) = V4 w"
| "withoutZone (V6 w _) = V6 w []"

definition BitLen :: "addr \<Rightarrow> nat" where
  "BitLen a = (if Is4 a then 32 else 128)"

definition PrefixFrom :: "addr \<Rightarrow> nat \<Rightarrow> prefix" where
  "PrefixFrom a bits = \<lparr>px_addr = withoutZone a, px_bits = (if bits \<le> BitLen a then Some bits else None)\<rparr>"

definition ParsePrefix :: "string \<Rightarrow> prefix option" where
  "ParsePrefix s =
     (let r = rev s; bitsStr = rev (takeWhile (\<lambda>c. c \<noteq> CHR ''/'') r); ip = rev (drop 1 (dropWhile (\<lambda>c. c \<noteq> CHR ''/'') r)) in
      if CHR ''/'' \<notin> set s then None
      else (case ParseAddr ip of None \<Rightarrow> None
        | Some a \<Rightarrow>
            if Zone a \<noteq> [] then None
            else if length bitsStr > 1 \<and> \<not> (49 \<le> byte (hd bitsStr) \<and> byte (hd bitsStr) \<le> 57) then None
            else (case parse_int 64 bitsStr of None \<Rightarrow> None
              | Some bits \<Rightarrow> if bits < 0 \<or> bits > int (BitLen a) then None else Some (PrefixFrom a (nat bits)))))"

fun mask_addr :: "nat \<Rightarrow> addr \<Rightarrow> addr" where
  "mask_addr n (V4 w) = V4 (push_bit (32 - n) (drop_bit (32 - n) w))"
| "mask_addr n (V6 w z) = V6 (push_bit (128 - n) (drop_bit (128 - n) w)) []"

definition Masked :: "prefix \<Rightarrow> prefix" where
  "Masked p = (case px_bits p of None \<Rightarrow> p | Some n \<Rightarrow> p\<lparr>px_addr := mask_addr n (px_addr p)\<rparr>)"

definition prefix_Contains :: "prefix \<Rightarrow> addr \<Rightarrow> bool" where
  "prefix_Contains p a = (case px_bits p of
     None \<Rightarrow> False
   | Some n \<Rightarrow> Zone a = [] \<and> (case (px_addr p, a) of
         (V4 v, V4 w) \<Rightarrow> drop_bit (32 - n) (w XOR v) = 0
       | (V6 v _, V6 w _) \<Rightarrow> drop_bit (128 - n) (w XOR v) = 0
       | _ \<Rightarrow> False))"

section \<open>Host and port\<close>

definition last_colon :: "string \<Rightarrow> string \<times> string" where
  "last_colon s = (let r = rev s in
     (rev (drop 1 (dropWhile (\<lambda>c. c \<noteq> CHR '':'') r)), rev (takeWhile (\<lambda>c. c \<noteq> CHR '':'') r)))"

definition SplitHostPort :: "string \<Rightarrow> (string \<times> string) option" where
  "SplitHostPort s =
     (if CHR '':'' \<notin> set s then None
      else (let (front, port) = last_colon s in
        if hd s = CHR ''['' then
          (let host = takeWhile (\<lambda>c. c \<noteq> CHR '']'') (tl s) in
           if front = CHR ''['' # host @ '']'' \<and> CHR ''['' \<notin> set (tl s) \<and> CHR '']'' \<notin> set port
           then Some (host, port) else None)
        else if CHR '':'' \<in> set front \<or> CHR ''['' \<in> set s \<or> CHR '']'' \<in> set s then None
        else Some (front, port)))"

section \<open>Facts\<close>

lemma xor_zero_iff: "a XOR b = 0 \<longleftrightarrow> a = (b :: 'a :: len word)"
proof
  assume "a XOR b = 0"
  then have "(a XOR b) XOR b = 0 XOR b" by simp
  then show "a = b" by (simp only: xor.assoc xor_self_eq xor.right_neutral xor.left_neutral)
qed simp

lemma drop_bit_xor_eq:
  "drop_bit n (a XOR b) = (0 :: 'a :: len word) \<longleftrightarrow> drop_bit n a = drop_bit n b"
  by (simp only: drop_bit_xor xor_zero_iff)

lemma drop_bit_eq_iff:
  "drop_bit n a = drop_bit n b \<longleftrightarrow> unat a div 2 ^ n = unat b div (2 ^ n :: nat)" for a b :: "'a :: len word"
  by (metis drop_bit_eq_div unat_drop_bit_eq unsigned_word_eqI)

lemma prefix_Contains_V4:
  "px_bits p = Some n \<Longrightarrow> px_addr p = V4 v \<Longrightarrow>
     prefix_Contains p (V4 w) \<longleftrightarrow> unat w div 2 ^ (32 - n) = unat v div 2 ^ (32 - n)"
  by (simp add: prefix_Contains_def drop_bit_xor_eq drop_bit_eq_iff del: drop_bit_xor)

lemma last_colon_app:
  assumes "CHR '':'' \<in> set s"
  shows "fst (last_colon s) @ CHR '':'' # snd (last_colon s) = s" and "CHR '':'' \<notin> set (snd (last_colon s))"
proof -
  let ?p = "\<lambda>c. c \<noteq> CHR '':''"
  have ne: "dropWhile ?p (rev s) \<noteq> []" using assms by simp
  from hd_dropWhile [OF this] have "hd (dropWhile ?p (rev s)) = CHR '':''" by simp
  with ne obtain t where t: "dropWhile ?p (rev s) = CHR '':'' # t" by (cases "dropWhile ?p (rev s)") auto
  have "takeWhile ?p (rev s) @ CHR '':'' # t = rev s"
    using takeWhile_dropWhile_id [of ?p "rev s"] unfolding t .
  from arg_cong [OF this, of rev] t show "fst (last_colon s) @ CHR '':'' # snd (last_colon s) = s"
    by (simp add: last_colon_def Let_def)
  show "CHR '':'' \<notin> set (snd (last_colon s))"
    using set_takeWhileD [of "CHR '':''" ?p "rev s"] by (auto simp: last_colon_def Let_def)
qed

end
