(* ===== verification/Validation.thy ===== *)
theory Validation
  imports NetIP
begin

text \<open>
  \<open>internal/validation/validation.go\<close>: the errors collected per field and code, the checks that
  add to them, and their rendering. The nested Go maps are association lists in insertion order;
  nothing reads them in an order (the message is only taken from a single entry). An argument of
  a check is a JSON value, an integer of Go being \<open>JNum m 0\<close>.
\<close>

type_synonym code_values = "(string \<times> json) list"
type_synonym field_errors = "(string \<times> code_values) list"

definition requestValidationFailedMessage :: string where
  "requestValidationFailedMessage = ''request validation failed''"

section \<open>The values stored for a code\<close>

definition arg :: "json list \<Rightarrow> nat \<Rightarrow> string \<Rightarrow> (string \<times> json) list" where
  "arg args i key = (if i < length args then [(key, args ! i)] else [])"

definition value_of_code :: "string \<Rightarrow> json list \<Rightarrow> json" where
  "value_of_code code args =
     (if code = ''required'' \<or> code = ''email'' then JBool True
      else if code = ''minlength'' \<or> code = ''maxlength''
        then JObj (arg args 0 ''requiredLength'' @ arg args 1 ''actualLength'')
      else if code = ''pattern'' then JObj (arg args 0 ''requiredPattern'')
      else if code = ''between'' then JObj (arg args 0 ''min'' @ arg args 1 ''max'')
      else if code = ''exclusive'' then JObj (arg args 0 ''other'')
      else (case args of [] \<Rightarrow> JBool True | [a] \<Rightarrow> a | _ \<Rightarrow> JArr args))"

text \<open>Values are immutable here: cloning one gives it back.\<close>

definition cloneValue :: "json \<Rightarrow> json" where
  "cloneValue v = v"

text \<open>\<open>%v\<close> of an argument and of a missing one.\<close>

fun show_any :: "json option \<Rightarrow> string" where
  "show_any (Some (JNum m e)) = show_int m"
| "show_any (Some v) = sprint v"
| "show_any None = ''<nil>''"

definition message :: "string \<Rightarrow> string \<Rightarrow> json \<Rightarrow> string" where
  "message field code v =
     (if code = ''required'' then field @ '' is required''
      else if code = ''email'' then field @ '' must be a valid email address''
      else if code = ''pattern'' then
        (if field = ''email'' then ''email must be a valid email address'' else field @ '' format is invalid'')
      else (case v of
          JObj p \<Rightarrow>
            if code = ''minlength'' then
              field @ '' must be at least '' @ show_any (member_get p ''requiredLength'') @ '' characters''
            else if code = ''maxlength'' then
              field @ '' must be '' @ show_any (member_get p ''requiredLength'') @ '' characters or fewer''
            else if code = ''between'' then
              field @ '' must be between '' @ show_any (member_get p ''min'') @ '' and '' @ show_any (member_get p ''max'')
            else if code = ''exclusive'' then
              ''provide either '' @ field @ '' or '' @ show_any (member_get p ''other'') @ '', not both''
            else requestValidationFailedMessage
        | _ \<Rightarrow> requestValidationFailedMessage))"

section \<open>The collection\<close>

definition new_errors :: field_errors where
  "new_errors = []"

text \<open>The first value for a field and code stays.\<close>

definition Add :: "field_errors \<Rightarrow> string \<Rightarrow> string \<Rightarrow> json list \<Rightarrow> field_errors" where
  "Add es field code args = (case map_of es field of
     None \<Rightarrow> es @ [(field, [(code, value_of_code code args)])]
   | Some fe \<Rightarrow> if map_of fe code \<noteq> None then es
       else AList.update field (fe @ [(code, value_of_code code args)]) es)"

definition ErrOrNil :: "field_errors \<Rightarrow> field_errors option" where
  "ErrOrNil es = (if es = [] then None else Some es)"

definition Errors_Error :: "field_errors \<Rightarrow> string" where
  "Errors_Error es = (case es of
     [(field, [(code, v)])] \<Rightarrow> message field code v
   | _ \<Rightarrow> requestValidationFailedMessage)"

definition FieldMap :: "field_errors \<Rightarrow> field_errors option" where
  "FieldMap es = (if es = [] then None
     else Some (map (\<lambda>(field, fe). (field, map (\<lambda>(code, v). (code, cloneValue v)) fe)) es))"

section \<open>The checks\<close>

definition NotBlank :: "field_errors \<Rightarrow> string \<Rightarrow> string \<Rightarrow> bool \<times> field_errors" where
  "NotBlank es field v = (if trim_space v = '''' then (True, Add es field ''required'' []) else (False, es))"

abbreviation go_int :: "int \<Rightarrow> json" where
  "go_int i \<equiv> JNum i 0"

definition MinRunes :: "field_errors \<Rightarrow> string \<Rightarrow> string \<Rightarrow> int \<Rightarrow> field_errors" where
  "MinRunes es field v n = (if int (rune_count v) < n
     then Add es field ''minlength'' [go_int n, go_int (int (rune_count v))] else es)"

definition MaxRunes :: "field_errors \<Rightarrow> string \<Rightarrow> string \<Rightarrow> int \<Rightarrow> field_errors" where
  "MaxRunes es field v n = (if int (rune_count v) > n
     then Add es field ''maxlength'' [go_int n, go_int (int (rune_count v))] else es)"

text \<open>
  \<open>mail.ParseAddress\<close> gives back a value unchanged exactly when the value is a bare address
  specification: a dot atom, an at sign, and a dot atom or an address literal. Display names,
  angle brackets, quotes, comments and blanks are all dropped from what it returns.
\<close>

definition valid_rune :: "nat \<times> string \<Rightarrow> bool" where
  "valid_rune rc \<longleftrightarrow> \<not> (fst rc = rune_error \<and> length (snd rc) = 1)"

definition atext :: "nat \<times> string \<Rightarrow> bool" where
  "atext rc \<longleftrightarrow> valid_rune rc \<and> (0x80 \<le> fst rc \<or> (0x21 \<le> fst rc \<and> fst rc \<le> 0x7E \<and>
     fst rc \<notin> set (map byte ''()<>[]:;@,\"'') \<and> fst rc \<noteq> 0x5C))"

fun no_double_dot :: "nat list \<Rightarrow> bool" where
  "no_double_dot (a # b # rs) = (\<not> (a = 0x2E \<and> b = 0x2E) \<and> no_double_dot (b # rs))"
| "no_double_dot _ = True"

definition dot_atom :: "(nat \<times> string) list \<Rightarrow> bool" where
  "dot_atom rs \<longleftrightarrow> rs \<noteq> [] \<and> list_all atext rs \<and> fst (hd rs) \<noteq> 0x2E \<and> fst (last rs) \<noteq> 0x2E \<and>
     no_double_dot (map fst rs)"

definition domain_literal :: "(nat \<times> string) list \<Rightarrow> bool" where
  "domain_literal rs \<longleftrightarrow> rs \<noteq> [] \<and> fst (hd rs) = 0x5B \<and>
     map fst (dropWhile (\<lambda>rc. fst rc \<noteq> 0x5D) (tl rs)) = [0x5D] \<and>
     ParseIP (concat (map snd (takeWhile (\<lambda>rc. fst rc \<noteq> 0x5D) (tl rs)))) \<noteq> None"

definition bare_address :: "string \<Rightarrow> bool" where
  "bare_address v =
     (let l = takeWhile (\<lambda>rc. fst rc \<noteq> 0x40) (runes v); r = dropWhile (\<lambda>rc. fst rc \<noteq> 0x40) (runes v) in
      r \<noteq> [] \<and> dot_atom l \<and> (dot_atom (tl r) \<or> domain_literal (tl r)))"

definition IsEmail :: "field_errors \<Rightarrow> string \<Rightarrow> string \<Rightarrow> field_errors" where
  "IsEmail es field v = (if bare_address v then es else Add es field ''email'' [])"

definition Between :: "(int \<Rightarrow> json) \<Rightarrow> field_errors \<Rightarrow> string \<Rightarrow> int \<Rightarrow> int \<Rightarrow> int \<Rightarrow> field_errors" where
  "Between show_val es field v lo hi =
     (if v < lo \<or> v > hi then Add es field ''between'' [show_val lo, show_val hi] else es)"

record pattern =
  pat_text :: string
  pat_match :: "string \<Rightarrow> bool"

definition Matches :: "field_errors \<Rightarrow> string \<Rightarrow> string \<Rightarrow> pattern \<Rightarrow> field_errors" where
  "Matches es field v p = (if pat_match p v then es else Add es field ''pattern'' [JStr (pat_text p)])"

definition In :: "field_errors \<Rightarrow> string \<Rightarrow> string \<Rightarrow> string list \<Rightarrow> field_errors" where
  "In es field v options = (if v \<in> set options then es else Add es field ''in'' [JArr (map JStr options)])"

definition Exclusive :: "field_errors \<Rightarrow> string \<Rightarrow> string \<Rightarrow> string \<Rightarrow> string \<Rightarrow> field_errors" where
  "Exclusive es field1 value1 field2 value2 =
     (if (value1 \<noteq> '''' \<and> value2 \<noteq> '''') \<or> (value1 = '''' \<and> value2 = '''')
      then Add (Add es field1 ''exclusive'' [JStr field2]) field2 ''exclusive'' [JStr field1] else es)"

section \<open>The contract of the collection\<close>

text \<open>What has been reported for a field and code, as a partial function.\<close>

definition reported :: "field_errors \<Rightarrow> string \<Rightarrow> string \<Rightarrow> json option" where
  "reported es field code = (case map_of es field of None \<Rightarrow> None | Some fe \<Rightarrow> map_of fe code)"

definition fields_ok :: "field_errors \<Rightarrow> bool" where
  "fields_ok es \<longleftrightarrow> distinct (map fst es) \<and> (\<forall>(f, fe) \<in> set es. fe \<noteq> [] \<and> distinct (map fst fe))"

lemma new_ok: "fields_ok new_errors"
  by (simp add: fields_ok_def new_errors_def)

lemma Add_not_nil [simp]: "Add es field code args \<noteq> []"
  by (auto simp: Add_def split: option.splits dest: map_of_SomeD)

lemma map_of_snoc: "map_of (xs @ [(k, v)]) k' = (case map_of xs k' of None \<Rightarrow> if k' = k then Some v else None | Some w \<Rightarrow> Some w)"
  by (induction xs) auto

lemma reported_Add:
  "reported (Add es field code args) f c =
     (if f = field \<and> c = code \<and> reported es f c = None then Some (value_of_code code args) else reported es f c)"
  by (auto simp: reported_def Add_def map_of_snoc update_conv' map_add_def split: option.splits)

lemma Add_ok:
  assumes "fields_ok es"
  shows "fields_ok (Add es field code args)"
proof (cases "map_of es field")
  case None
  then have "field \<notin> fst ` set es" by (simp add: map_of_eq_None_iff)
  moreover from None have "Add es field code args = es @ [(field, [(code, value_of_code code args)])]"
    by (simp add: Add_def)
  ultimately show ?thesis using assms
    by (auto simp: fields_ok_def)
next
  case (Some fe)
  then have fe: "(field, fe) \<in> set es" by (rule map_of_SomeD)
  with assms have "distinct (map fst fe)" and d: "distinct (map fst es)" by (auto simp: fields_ok_def)
  moreover have "(f, g) \<in> set (AList.update field v es) \<Longrightarrow> (f = field \<and> g = v) \<or> (f, g) \<in> set es" for f g v
    using d by (induction es) (auto split: if_splits)
  ultimately show ?thesis using Some assms
    by (fastforce simp: Add_def fields_ok_def map_of_eq_None_iff distinct_update)
qed

lemma ErrOrNil_None: "ErrOrNil es = None \<longleftrightarrow> es = []"
  by (simp add: ErrOrNil_def)

text \<open>An empty collection stays empty exactly when the check passes.\<close>

lemma checks_nil:
  "snd (NotBlank es field v) = [] \<longleftrightarrow> es = [] \<and> trim_space v \<noteq> ''''"
  "fst (NotBlank es field v) \<longleftrightarrow> trim_space v = ''''"
  "MinRunes es field v n = [] \<longleftrightarrow> es = [] \<and> n \<le> int (rune_count v)"
  "MaxRunes es field v n = [] \<longleftrightarrow> es = [] \<and> int (rune_count v) \<le> n"
  "IsEmail es field v = [] \<longleftrightarrow> es = [] \<and> bare_address v"
  "Matches es field v p = [] \<longleftrightarrow> es = [] \<and> pat_match p v"
  "Between sv es field i lo hi = [] \<longleftrightarrow> es = [] \<and> lo \<le> i \<and> i \<le> hi"
  "In es field v options = [] \<longleftrightarrow> es = [] \<and> v \<in> set options"
  by (auto simp: NotBlank_def MinRunes_def MaxRunes_def IsEmail_def Matches_def Between_def In_def)

end
