(* ===== verification/GoJson.thy ===== *)
theory GoJson
  imports Prelude GoValues
begin

text \<open>
  Decoding a JSON document into a Go struct (\<open>encoding/json\<close>): the members are taken in
  document order; a member whose key matches no field exactly is matched ignoring case; \<open>null\<close>
  leaves a field as it is; a value of the wrong type makes the whole decoding fail.
\<close>

type_synonym 'r field = "string \<times> (json \<Rightarrow> 'r \<Rightarrow> 'r option)"

definition field_for :: "'r field list \<Rightarrow> string \<Rightarrow> 'r field option" where
  "field_for fs k = (case find (\<lambda>f. fst f = k) fs of
     Some f \<Rightarrow> Some f | None \<Rightarrow> find (\<lambda>f. equal_fold k (fst f)) fs)"

fun decode_members :: "'r field list \<Rightarrow> (string \<times> json) list \<Rightarrow> 'r \<Rightarrow> 'r option" where
  "decode_members fs [] r = Some r"
| "decode_members fs ((k, v) # kvs) r =
     (case field_for fs k of
        None \<Rightarrow> decode_members fs kvs r
      | Some f \<Rightarrow> (case snd f v r of None \<Rightarrow> None | Some r' \<Rightarrow> decode_members fs kvs r'))"

fun decode_struct :: "'r field list \<Rightarrow> json \<Rightarrow> 'r \<Rightarrow> 'r option" where
  "decode_struct fs (JObj kvs) r = decode_members fs kvs r"
| "decode_struct fs JNull r = Some r"
| "decode_struct fs _ r = None"

fun string_field :: "(string \<Rightarrow> 'r \<Rightarrow> 'r) \<Rightarrow> json \<Rightarrow> 'r \<Rightarrow> 'r option" where
  "string_field put (JStr s) r = Some (put s r)"
| "string_field put JNull r = Some r"
| "string_field put _ r = None"

text \<open>An integer field takes a literal without fraction or exponent that fits 64 bits.\<close>

fun int64_field :: "(int \<Rightarrow> 'r \<Rightarrow> 'r) \<Rightarrow> json \<Rightarrow> 'r \<Rightarrow> 'r option" where
  "int64_field put (JNum m e) r = (if e = 0 \<and> - (2 ^ 63) \<le> m \<and> m < 2 ^ 63 then Some (put m r) else None)"
| "int64_field put JNull r = Some r"
| "int64_field put _ r = None"

fun parsed_field :: "(string \<Rightarrow> 'v option) \<Rightarrow> ('v \<Rightarrow> 'r \<Rightarrow> 'r) \<Rightarrow> json \<Rightarrow> 'r \<Rightarrow> 'r option" where
  "parsed_field parse put (JStr s) r = (case parse s of None \<Rightarrow> None | Some v \<Rightarrow> Some (put v r))"
| "parsed_field parse put JNull r = Some r"
| "parsed_field parse put _ r = None"

text \<open>An object decoded into a \<open>map[string]any\<close>; \<open>null\<close> gives the nil map.\<close>

fun decode_map :: "json \<Rightarrow> (string \<times> json) list option" where
  "decode_map (JObj kvs) = Some kvs"
| "decode_map JNull = Some []"
| "decode_map _ = None"

text \<open>With \<open>DisallowUnknownFields\<close>, a member that matches no field is an error too.\<close>

definition decode_strict :: "'r field list \<Rightarrow> json \<Rightarrow> 'r \<Rightarrow> 'r option" where
  "decode_strict fs j r = (case j of
     JObj kvs \<Rightarrow> if \<exists>(k, v) \<in> set kvs. field_for fs k = None then None else decode_members fs kvs r
   | _ \<Rightarrow> decode_struct fs j r)"

text \<open>A \<open>json.RawMessage\<close> takes any value, \<open>null\<close> included.\<close>

definition raw_field :: "(json \<Rightarrow> 'r \<Rightarrow> 'r) \<Rightarrow> json \<Rightarrow> 'r \<Rightarrow> 'r option" where
  "raw_field put v r = Some (put v r)"

lemma decode_members_cons:
  "field_for fs k = Some f \<Longrightarrow> snd f v r = Some r' \<Longrightarrow> decode_members fs ((k, v) # kvs) r = decode_members fs kvs r'"
  by simp

end
