(* ===== verification/Models.thy ===== *)
theory Models
  imports GoValues
begin

text \<open>
  The tables of the store (\<open>internal/store/sqlc/models.go\<close>, created by the migrations under
  \<open>db/migrations\<close>) and the constraints the schema declares on them. A table is the list of
  its rows; a nullable column is an option. \<open>seqs\<close> holds the next value of each identity
  column.
\<close>

section \<open>Rows\<close>

datatype token_kind = PasswordReset | EmailVerification | AccountRecovery

fun token_kind_text :: "token_kind \<Rightarrow> string" where
  "token_kind_text PasswordReset = ''password_reset''"
| "token_kind_text EmailVerification = ''email_verification''"
| "token_kind_text AccountRecovery = ''account_recovery''"

record email_outbox =
  em_id :: int
  em_template :: string
  em_recipient :: string
  em_subject :: string
  em_payload :: json
  em_available_at :: time
  em_sent_at :: "time option"
  em_attempts :: int
  em_last_error :: "string option"
  em_created_at :: time
  em_updated_at :: time

record oauth_account =
  oa_id :: int
  oa_user_id :: int
  oa_provider :: string
  oa_provider_user_id :: string
  oa_access_token_ciphertext :: "string option"
  oa_refresh_token_ciphertext :: "string option"
  oa_token_expires_at :: "time option"
  oa_created_at :: time
  oa_updated_at :: time

record passkey_credential =
  pk_id :: int
  pk_user_id :: int
  pk_credential_id :: string
  pk_credential_public_key :: string
  pk_attestation_type :: string
  pk_aaguid :: "string option"
  pk_sign_count :: int
  pk_clone_warning :: bool
  pk_transports :: "string list"
  pk_name :: "string option"
  pk_credential_data :: string
  pk_created_at :: time
  pk_updated_at :: time

record role =
  role_id :: int
  role_name :: string
  role_description :: "string option"
  role_created_at :: time

record totp_configuration =
  tc_id :: int
  tc_user_id :: int
  tc_secret_ciphertext :: string
  tc_secret_nonce :: string
  tc_enabled_at :: "time option"
  tc_created_at :: time
  tc_updated_at :: time

record user =
  u_id :: int
  u_username :: string
  u_email :: string
  u_password_hash :: "string option"
  u_email_verified_at :: "time option"
  u_last_login_at :: "time option"
  u_last_seen_at :: "time option"
  u_is_active :: bool
  u_disabled_reason :: "string option"
  u_disabled_at :: "time option"
  u_failed_login_count :: int
  u_locked_until :: "time option"
  u_created_at :: time
  u_updated_at :: time
  u_auth_version :: int
  u_last_failed_login_at :: "time option"

record user_role =
  ur_user_id :: int
  ur_role_id :: int
  ur_created_at :: time

record user_token =
  t_id :: int
  t_user_id :: int
  t_kind :: token_kind
  t_hash :: string
  t_expires_at :: time
  t_used_at :: "time option"
  t_created_at :: time

record sequences =
  sq_users :: int
  sq_passkeys :: int
  sq_oauth :: int
  sq_totp :: int
  sq_tokens :: int
  sq_outbox :: int

record db =
  users :: "user list"
  passkeys :: "passkey_credential list"
  oauth_accounts :: "oauth_account list"
  totp_configs :: "totp_configuration list"
  user_tokens :: "user_token list"
  roles :: "role list"
  user_roles :: "user_role list"
  outbox :: "email_outbox list"
  seqs :: sequences

text \<open>The database as the migrations leave it: the two built-in roles and no other row.\<close>

definition initial_db :: db where
  "initial_db = \<lparr>users = [], passkeys = [], oauth_accounts = [], totp_configs = [], user_tokens = [],
     roles = [\<lparr>role_id = 1, role_name = ''admin'', role_description = Some ''Full administrative access'', role_created_at = 0\<rparr>,
              \<lparr>role_id = 2, role_name = ''user'', role_description = Some ''Default application user'', role_created_at = 0\<rparr>],
     user_roles = [], outbox = [],
     seqs = \<lparr>sq_users = 1, sq_passkeys = 1, sq_oauth = 1, sq_totp = 1, sq_tokens = 1, sq_outbox = 1\<rparr>\<rparr>"

section \<open>Statements on the rows of a table\<close>

definition select_one :: "('r \<Rightarrow> bool) \<Rightarrow> 'r list \<Rightarrow> err + 'r" where
  "select_one p rows = (case find p rows of None \<Rightarrow> Inl ErrNoRows | Some r \<Rightarrow> Inr r)"

definition update_rows :: "('r \<Rightarrow> bool) \<Rightarrow> ('r \<Rightarrow> 'r) \<Rightarrow> 'r list \<Rightarrow> 'r list" where
  "update_rows p f rows = map (\<lambda>r. if p r then f r else r) rows"

named_theorems row_simps "selection and update of rows"

lemma select_one_Inr: "select_one p rows = Inr r \<longleftrightarrow> find p rows = Some r"
  by (auto simp: select_one_def split: option.splits)

lemma select_one_Inl: "select_one p rows = Inl e \<longleftrightarrow> e = ErrNoRows \<and> (\<forall>r \<in> set rows. \<not> p r)"
  by (auto simp: select_one_def find_None_iff find_Some_iff split: option.splits)

lemma find_SomeD: "find p rows = Some r \<Longrightarrow> r \<in> set rows \<and> p r"
  by (auto simp: find_Some_iff)

lemma find_key:
  "distinct (map key rows) \<Longrightarrow> r \<in> set rows \<Longrightarrow> find (\<lambda>s. key s = key r) rows = Some r"
  by (induction rows) auto

lemma find_key_of:
  "distinct (map key rows) \<Longrightarrow> r \<in> set rows \<Longrightarrow> k = key r \<Longrightarrow> find (\<lambda>s. key s = k) rows = Some r"
  by (simp add: find_key)

lemma map_key_update [row_simps]:
  "(\<And>r. key (f r) = key r) \<Longrightarrow> map key (update_rows p f rows) = map key rows"
  by (simp add: update_rows_def)

lemma set_update_rows:
  "set (update_rows p f rows) = f ` {r \<in> set rows. p r} \<union> {r \<in> set rows. \<not> p r}"
  by (auto simp: update_rows_def)

lemma find_update_rows:
  assumes "\<And>r. q (f r) = q r"
  shows "find q (update_rows p f rows) = map_option (\<lambda>r. if p r then f r else r) (find q rows)"
  using assms by (induction rows) (auto simp: update_rows_def)

lemma distinct_map_filter_rows: "distinct (map key rows) \<Longrightarrow> distinct (map key (filter p rows))"
  by (induction rows) auto

lemma distinct_map_snoc:
  "distinct (map key rows) \<Longrightarrow> \<forall>r \<in> set rows. key r \<noteq> key s \<Longrightarrow> distinct (map key (rows @ [s]))"
  by auto

section \<open>The schema's constraints\<close>

definition user_ids :: "db \<Rightarrow> int set" where
  "user_ids d = u_id ` set (users d)"

lemma user_ids_frame [simp]:
  "user_ids (d\<lparr>passkeys := a\<rparr>) = user_ids d" "user_ids (d\<lparr>oauth_accounts := b\<rparr>) = user_ids d"
  "user_ids (d\<lparr>totp_configs := c\<rparr>) = user_ids d" "user_ids (d\<lparr>user_tokens := e\<rparr>) = user_ids d"
  "user_ids (d\<lparr>roles := f\<rparr>) = user_ids d" "user_ids (d\<lparr>user_roles := g\<rparr>) = user_ids d"
  "user_ids (d\<lparr>outbox := h\<rparr>) = user_ids d" "user_ids (d\<lparr>seqs := i\<rparr>) = user_ids d"
  by (simp_all add: user_ids_def)

definition users_ok :: "user list \<Rightarrow> int \<Rightarrow> bool" where
  "users_ok us nxt \<longleftrightarrow> 0 < nxt \<and> distinct (map u_id us) \<and> distinct (map u_username us) \<and> distinct (map u_email us) \<and>
     (\<forall>u \<in> set us. 0 < u_id u \<and> u_id u < nxt \<and> 1 \<le> u_auth_version u \<and> u_auth_version u < 2 ^ 63 \<and>
        0 \<le> u_failed_login_count u \<and> u_failed_login_count u < 2 ^ 31)"

definition tokens_ok :: "int set \<Rightarrow> user_token list \<Rightarrow> int \<Rightarrow> bool" where
  "tokens_ok ids ts nxt \<longleftrightarrow> distinct (map t_id ts) \<and> distinct (map t_hash ts) \<and>
     (\<forall>t \<in> set ts. t_id t < nxt \<and> t_user_id t \<in> ids)"

definition totp_ok :: "int set \<Rightarrow> totp_configuration list \<Rightarrow> bool" where
  "totp_ok ids cs \<longleftrightarrow> distinct (map tc_user_id cs) \<and> (\<forall>c \<in> set cs. tc_user_id c \<in> ids)"

definition oauth_ok :: "int set \<Rightarrow> oauth_account list \<Rightarrow> bool" where
  "oauth_ok ids as \<longleftrightarrow> distinct (map (\<lambda>a. (oa_provider a, oa_provider_user_id a)) as) \<and>
     distinct (map (\<lambda>a. (oa_user_id a, oa_provider a)) as) \<and> (\<forall>a \<in> set as. oa_user_id a \<in> ids)"

definition passkeys_ok :: "int set \<Rightarrow> passkey_credential list \<Rightarrow> int \<Rightarrow> bool" where
  "passkeys_ok ids ps nxt \<longleftrightarrow> distinct (map pk_id ps) \<and> distinct (map pk_credential_id ps) \<and>
     (\<forall>p \<in> set ps. pk_id p < nxt \<and> pk_user_id p \<in> ids)"

definition roles_ok :: "int set \<Rightarrow> role list \<Rightarrow> user_role list \<Rightarrow> bool" where
  "roles_ok ids rs urs \<longleftrightarrow> distinct (map role_id rs) \<and> distinct (map role_name rs) \<and>
     distinct (map (\<lambda>r. (ur_user_id r, ur_role_id r)) urs) \<and>
     (\<forall>r \<in> set urs. ur_user_id r \<in> ids \<and> ur_role_id r \<in> role_id ` set rs)"

definition outbox_ok :: "email_outbox list \<Rightarrow> int \<Rightarrow> bool" where
  "outbox_ok es nxt \<longleftrightarrow> distinct (map em_id es) \<and>
     (\<forall>e \<in> set es. em_id e < nxt \<and> 0 \<le> em_attempts e \<and> em_attempts e < 2 ^ 31)"

definition db_ok :: "db \<Rightarrow> bool" where
  "db_ok d \<longleftrightarrow> users_ok (users d) (sq_users (seqs d)) \<and>
     tokens_ok (user_ids d) (user_tokens d) (sq_tokens (seqs d)) \<and>
     totp_ok (user_ids d) (totp_configs d) \<and>
     oauth_ok (user_ids d) (oauth_accounts d) \<and>
     passkeys_ok (user_ids d) (passkeys d) (sq_passkeys (seqs d)) \<and>
     roles_ok (user_ids d) (roles d) (user_roles d) \<and>
     outbox_ok (outbox d) (sq_outbox (seqs d))"

lemma initial_db_ok: "db_ok initial_db"
  by (simp add: db_ok_def initial_db_def users_ok_def tokens_ok_def totp_ok_def oauth_ok_def
      passkeys_ok_def roles_ok_def outbox_ok_def user_ids_def)

lemma next_mono:
  "users_ok us n \<Longrightarrow> n \<le> m \<Longrightarrow> users_ok us m"
  "tokens_ok ids ts n \<Longrightarrow> n \<le> m \<Longrightarrow> tokens_ok ids ts m"
  "passkeys_ok ids ps n \<Longrightarrow> n \<le> m \<Longrightarrow> passkeys_ok ids ps m"
  "outbox_ok es n \<Longrightarrow> n \<le> m \<Longrightarrow> outbox_ok es m"
  unfolding users_ok_def tokens_ok_def passkeys_ok_def outbox_ok_def
  by (fastforce dest: bspec)+

end
