(* ===== verification/Config.thy ===== *)
theory Config
  imports GoValues
begin

text \<open>
  \<open>internal/config/config.go\<close>: the configuration records, the defaults and checks that
  \<open>Load\<close> applies to the decoded file and environment, and the translation of an environment
  variable name to a configuration key by walking the record's field tags.
\<close>

section \<open>The configuration records\<close>

record app_config =
  app_name :: string
  app_env :: string
  app_log_level :: string

record http_config =
  http_address :: string
  http_read_timeout :: duration
  http_read_header_timeout :: duration
  http_write_timeout :: duration
  http_idle_timeout :: duration
  http_shutdown_timeout :: duration
  http_trusted_proxies :: "string list"

record database_config =
  database_url :: string
  database_max_open_conns :: int
  database_max_idle_conns :: int
  database_conn_max_lifetime :: duration
  database_conn_max_idle_time :: duration

record session_config =
  session_cookie_name :: string
  session_lifetime :: duration
  session_idle_timeout :: duration
  session_same_site :: string
  session_secure :: bool
  session_http_only :: bool
  session_persist :: bool

record security_config =
  sec_allowed_origins :: "string list"
  sec_encryption_key :: string
  sec_authorization_cache_ttl :: duration
  sec_password_reset_ttl :: duration
  sec_email_verification_ttl :: duration
  sec_recovery_ttl :: duration
  sec_failed_login_threshold :: int
  sec_failed_login_window :: duration
  sec_inactivity_disable_after :: duration
  sec_totp_issuer :: string

record provider_config =
  prov_enabled :: bool
  prov_client_id :: string
  prov_client_secret :: string
  prov_auth_url :: string
  prov_token_url :: string
  prov_user_info_url :: string
  prov_redirect_url :: string
  prov_scopes :: "string list"
  prov_subject_field :: string
  prov_email_field :: string
  prov_email_verified_field :: string
  prov_username_field :: string
  prov_name_field :: string

record oauth_config =
  oauth_state_ttl :: duration
  oauth_state_bytes :: int
  oauth_pkce_verifier_bytes :: int
  oauth_providers :: "(string \<times> provider_config) list"

record webauthn_config =
  webauthn_rp_id :: string
  webauthn_rp_display_name :: string
  webauthn_rp_origins :: "string list"

record mailer_config =
  mailer_enabled :: bool
  mailer_from :: string
  mailer_host :: string
  mailer_port :: int
  mailer_username :: string
  mailer_password :: string
  mailer_require_tls :: bool

record river_config =
  river_enabled :: bool
  river_email_outbox_every :: duration
  river_email_outbox_retention :: duration
  river_cleanup_every :: duration
  river_inactivity_check_every :: duration
  river_max_workers :: int

record config =
  cfg_app :: app_config
  cfg_http :: http_config
  cfg_database :: database_config
  cfg_session :: session_config
  cfg_security :: security_config
  cfg_oauth :: oauth_config
  cfg_webauthn :: webauthn_config
  cfg_mailer :: mailer_config
  cfg_river :: river_config

definition riverQueueMaxWorkers :: int where
  "riverQueueMaxWorkers = 10000"

section \<open>Defaults and checks of Load\<close>

definition default_oauth :: "oauth_config \<Rightarrow> oauth_config" where
  "default_oauth o1 =
     (let o2 = (if oauth_state_ttl o1 \<le> 0 then o1\<lparr>oauth_state_ttl := 10 * minute\<rparr> else o1);
          o3 = (if oauth_state_bytes o2 \<le> 0 then o2\<lparr>oauth_state_bytes := 32\<rparr> else o2)
      in (if oauth_pkce_verifier_bytes o3 \<le> 0 then o3\<lparr>oauth_pkce_verifier_bytes := 32\<rparr> else o3))"

definition or_default :: "bool \<Rightarrow> 'a \<Rightarrow> 'a \<Rightarrow> 'a" where
  "or_default missing d v = (if missing then d else v)"

definition default_security :: "app_config \<Rightarrow> security_config \<Rightarrow> security_config" where
  "default_security a s = s\<lparr>
     sec_authorization_cache_ttl := or_default (sec_authorization_cache_ttl s \<le> 0) (5 * second) (sec_authorization_cache_ttl s),
     sec_password_reset_ttl := or_default (sec_password_reset_ttl s = 0) hour (sec_password_reset_ttl s),
     sec_email_verification_ttl := or_default (sec_email_verification_ttl s = 0) (24 * hour) (sec_email_verification_ttl s),
     sec_recovery_ttl := or_default (sec_recovery_ttl s = 0) (30 * minute) (sec_recovery_ttl s),
     sec_failed_login_threshold := or_default (sec_failed_login_threshold s = 0) 5 (sec_failed_login_threshold s),
     sec_failed_login_window := or_default (sec_failed_login_window s = 0) (15 * minute) (sec_failed_login_window s),
     sec_inactivity_disable_after := or_default (sec_inactivity_disable_after s = 0) (365 * 24 * hour) (sec_inactivity_disable_after s),
     sec_totp_issuer := or_default (sec_totp_issuer s = '''') (app_name a) (sec_totp_issuer s)\<rparr>"

definition load_defaults :: "config \<Rightarrow> config" where
  "load_defaults c =
     (let a = (if app_name (cfg_app c) = '''' then (cfg_app c)\<lparr>app_name := ''base''\<rparr> else cfg_app c);
          r = cfg_river c
      in c\<lparr>cfg_app := a,
           cfg_oauth := default_oauth (cfg_oauth c),
           cfg_river := (if river_email_outbox_retention r \<le> 0
                         then r\<lparr>river_email_outbox_retention := 30 * 24 * hour\<rparr> else r),
           cfg_security := default_security a (cfg_security c)\<rparr>)"

text \<open>The providers are a Go map: which incomplete one is reported depends on the iteration
  order, which the order of the list stands for.\<close>

definition provider_incomplete :: "provider_config \<Rightarrow> bool" where
  "provider_incomplete p \<longleftrightarrow> prov_enabled p \<and>
     (prov_client_id p = '''' \<or> prov_client_secret p = '''' \<or> prov_auth_url p = '''' \<or>
      prov_token_url p = '''' \<or> prov_user_info_url p = '''' \<or> prov_redirect_url p = '''')"

fun check_providers :: "(string \<times> provider_config) list \<Rightarrow> string option" where
  "check_providers [] = None"
| "check_providers ((name, p) # ps) =
     (if provider_incomplete p
      then Some (''oauth.providers.'' @ name @ '' must set client_id, client_secret, auth_url, token_url, user_info_url, and redirect_url when enabled'')
      else check_providers ps)"

definition defaultEncryptionKey :: string where
  "defaultEncryptionKey = ''0123456789abcdef0123456789abcdef''"

definition check_security :: "string \<Rightarrow> security_config \<Rightarrow> string option" where
  "check_security env s =
     (if length (sec_encryption_key s) < 32
      then Some ''security.encryption_key must be at least 32 characters''
      else if sec_encryption_key s = defaultEncryptionKey \<and> env \<noteq> ''development'' \<and> env \<noteq> ''test''
      then Some ''security.encryption_key must be changed from the default value in non-development environments''
      else if sec_password_reset_ttl s < 0 \<or> sec_email_verification_ttl s < 0 \<or> sec_recovery_ttl s < 0
      then Some ''security token TTL values must be greater than zero''
      else if sec_failed_login_threshold s < 1
      then Some ''security.failed_login_threshold must be greater than zero''
      else if sec_failed_login_window s < 0
      then Some ''security.failed_login_window must be greater than zero''
      else if sec_inactivity_disable_after s < 0
      then Some ''security.inactivity_disable_after must be greater than zero''
      else None)"

definition check_database :: "database_config \<Rightarrow> string option" where
  "check_database d =
     (if database_max_open_conns d < 0 \<or> database_max_open_conns d > 2 ^ 31 - 1
      then Some (''database.max_open_conns must be between 0 and '' @ show_int (2 ^ 31 - 1))
      else if database_max_idle_conns d < 0
      then Some ''database.max_idle_conns must not be negative''
      else None)"

definition check_mailer :: "mailer_config \<Rightarrow> string option" where
  "check_mailer m =
     (if mailer_enabled m \<and> (trim_space (mailer_from m) = '''' \<or> trim_space (mailer_host m) = '''' \<or>
         mailer_port m < 1 \<or> mailer_port m > 65535)
      then Some ''mailer.from, mailer.host, and a valid mailer.port are required when mailer.enabled=true''
      else None)"

definition check_river :: "river_config \<Rightarrow> string option" where
  "check_river r =
     (if \<not> river_enabled r then None
      else if river_email_outbox_every r \<le> 0
      then Some ''river.email_outbox_every must be greater than zero when river.enabled=true''
      else if river_cleanup_every r \<le> 0
      then Some ''river.cleanup_every must be greater than zero when river.enabled=true''
      else if river_inactivity_check_every r \<le> 0
      then Some ''river.inactivity_check_every must be greater than zero when river.enabled=true''
      else if river_max_workers r < 1 \<or> river_max_workers r > riverQueueMaxWorkers
      then Some (''river.max_workers must be between 1 and '' @ show_int riverQueueMaxWorkers @ '' when river.enabled=true'')
      else None)"

text \<open>
  \<open>Load\<close> from the point where the file and the environment have been decoded into a
  \<^typ>\<open>config\<close> (package koanf does that): defaults, then the checks in order, the first
  failing one being the error.
\<close>

definition Load :: "(nat \<Rightarrow> nat) \<Rightarrow> config \<Rightarrow> string + config" where
  "Load ul decoded =
     (let c = load_defaults decoded;
          appEnv = to_lower ul (trim_space (app_env (cfg_app c))) in
      case check_providers (oauth_providers (cfg_oauth c)) of Some m \<Rightarrow> Inl m
      | None \<Rightarrow>
        if appEnv \<noteq> ''development'' \<and> appEnv \<noteq> ''test'' \<and> appEnv \<noteq> ''production''
        then Inl ''app.env must be development, test, or production''
        else (case check_security appEnv (cfg_security c) of Some m \<Rightarrow> Inl m
        | None \<Rightarrow> (case check_database (cfg_database c) of Some m \<Rightarrow> Inl m
        | None \<Rightarrow> (case check_mailer (cfg_mailer c) of Some m \<Rightarrow> Inl m
        | None \<Rightarrow> (case check_river (cfg_river c) of Some m \<Rightarrow> Inl m
        | None \<Rightarrow> Inr (c\<lparr>cfg_app := (cfg_app c)\<lparr>app_env := appEnv\<rparr>\<rparr>))))))"

section \<open>What a loaded configuration guarantees\<close>

definition sound_config :: "config \<Rightarrow> bool" where
  "sound_config c \<longleftrightarrow>
     app_env (cfg_app c) \<in> {''development'', ''test'', ''production''} \<and>
     app_name (cfg_app c) \<noteq> '''' \<and>
     0 < oauth_state_ttl (cfg_oauth c) \<and> 0 < oauth_state_bytes (cfg_oauth c) \<and>
     0 < oauth_pkce_verifier_bytes (cfg_oauth c) \<and>
     (\<forall>(n, p) \<in> set (oauth_providers (cfg_oauth c)). prov_enabled p \<longrightarrow>
        prov_client_id p \<noteq> '''' \<and> prov_client_secret p \<noteq> '''' \<and> prov_auth_url p \<noteq> '''' \<and>
        prov_token_url p \<noteq> '''' \<and> prov_user_info_url p \<noteq> '''' \<and> prov_redirect_url p \<noteq> '''') \<and>
     32 \<le> length (sec_encryption_key (cfg_security c)) \<and>
     (app_env (cfg_app c) = ''production'' \<longrightarrow> sec_encryption_key (cfg_security c) \<noteq> defaultEncryptionKey) \<and>
     0 < sec_authorization_cache_ttl (cfg_security c) \<and>
     0 < sec_password_reset_ttl (cfg_security c) \<and> 0 < sec_email_verification_ttl (cfg_security c) \<and>
     0 < sec_recovery_ttl (cfg_security c) \<and>
     0 < sec_failed_login_threshold (cfg_security c) \<and> 0 < sec_failed_login_window (cfg_security c) \<and>
     0 < sec_inactivity_disable_after (cfg_security c) \<and>
     0 \<le> database_max_open_conns (cfg_database c) \<and> database_max_open_conns (cfg_database c) < 2 ^ 31 \<and>
     0 \<le> database_max_idle_conns (cfg_database c) \<and>
     (mailer_enabled (cfg_mailer c) \<longrightarrow> 1 \<le> mailer_port (cfg_mailer c) \<and> mailer_port (cfg_mailer c) \<le> 65535 \<and>
        trim_space (mailer_from (cfg_mailer c)) \<noteq> '''' \<and> trim_space (mailer_host (cfg_mailer c)) \<noteq> '''') \<and>
     0 < river_email_outbox_retention (cfg_river c) \<and>
     (river_enabled (cfg_river c) \<longrightarrow> 0 < river_email_outbox_every (cfg_river c) \<and>
        0 < river_cleanup_every (cfg_river c) \<and> 0 < river_inactivity_check_every (cfg_river c) \<and>
        1 \<le> river_max_workers (cfg_river c) \<and> river_max_workers (cfg_river c) \<le> riverQueueMaxWorkers)"

lemma check_providers_None:
  "check_providers ps = None \<longleftrightarrow> (\<forall>(n, p) \<in> set ps. \<not> provider_incomplete p)"
  by (induction ps rule: check_providers.induct) auto

lemma default_oauth_simps [simp]:
  "oauth_state_ttl (default_oauth oc) = (if oauth_state_ttl oc \<le> 0 then 10 * minute else oauth_state_ttl oc)"
  "oauth_state_bytes (default_oauth oc) = (if oauth_state_bytes oc \<le> 0 then 32 else oauth_state_bytes oc)"
  "oauth_pkce_verifier_bytes (default_oauth oc) =
     (if oauth_pkce_verifier_bytes oc \<le> 0 then 32 else oauth_pkce_verifier_bytes oc)"
  "oauth_providers (default_oauth oc) = oauth_providers oc"
  by (simp_all add: default_oauth_def Let_def)

lemma load_defaults_simps:
  "cfg_oauth (load_defaults c) = default_oauth (cfg_oauth c)"
  "app_name (cfg_app (load_defaults c)) \<noteq> ''''"
  "app_env (cfg_app (load_defaults c)) = app_env (cfg_app c)"
  "cfg_database (load_defaults c) = cfg_database c"
  "cfg_mailer (load_defaults c) = cfg_mailer c"
  "0 < river_email_outbox_retention (cfg_river (load_defaults c))"
  by (simp_all add: load_defaults_def Let_def)

lemma load_defaults_security:
  fixes c
  defines "s \<equiv> cfg_security (load_defaults c)"
  shows "0 < sec_authorization_cache_ttl s" "sec_password_reset_ttl s \<noteq> 0"
    "sec_email_verification_ttl s \<noteq> 0" "sec_recovery_ttl s \<noteq> 0" "sec_failed_login_threshold s \<noteq> 0"
    "sec_failed_login_window s \<noteq> 0" "sec_inactivity_disable_after s \<noteq> 0"
  by (simp_all add: s_def load_defaults_def Let_def default_security_def or_default_def)

lemma check_security_None:
  "check_security env s = None \<longleftrightarrow>
     32 \<le> length (sec_encryption_key s) \<and>
     (sec_encryption_key s = defaultEncryptionKey \<longrightarrow> env = ''development'' \<or> env = ''test'') \<and>
     0 \<le> sec_password_reset_ttl s \<and> 0 \<le> sec_email_verification_ttl s \<and> 0 \<le> sec_recovery_ttl s \<and>
     1 \<le> sec_failed_login_threshold s \<and> 0 \<le> sec_failed_login_window s \<and> 0 \<le> sec_inactivity_disable_after s"
  by (auto simp: check_security_def not_less)

lemma check_rest_None:
  "check_database d = None \<longleftrightarrow> 0 \<le> database_max_open_conns d \<and> database_max_open_conns d < 2 ^ 31
     \<and> 0 \<le> database_max_idle_conns d"
  "check_mailer m = None \<longleftrightarrow> (mailer_enabled m \<longrightarrow> trim_space (mailer_from m) \<noteq> '''' \<and>
     trim_space (mailer_host m) \<noteq> '''' \<and> 1 \<le> mailer_port m \<and> mailer_port m \<le> 65535)"
  "check_river r = None \<longleftrightarrow> (river_enabled r \<longrightarrow> 0 < river_email_outbox_every r \<and>
     0 < river_cleanup_every r \<and> 0 < river_inactivity_check_every r \<and> 1 \<le> river_max_workers r \<and>
     river_max_workers r \<le> riverQueueMaxWorkers)"
  by (auto simp: check_database_def check_mailer_def check_river_def)

lemma Load_Inr:
  assumes "Load ul d = Inr c"
  defines "l \<equiv> load_defaults d"
  defines "e \<equiv> to_lower ul (trim_space (app_env (cfg_app l)))"
  shows "c = l\<lparr>cfg_app := (cfg_app l)\<lparr>app_env := e\<rparr>\<rparr>"
    and "check_providers (oauth_providers (cfg_oauth l)) = None"
    and "e \<in> {''development'', ''test'', ''production''}"
    and "check_security e (cfg_security l) = None" and "check_database (cfg_database l) = None"
    and "check_mailer (cfg_mailer l) = None" and "check_river (cfg_river l) = None"
  using assms by (auto simp: Load_def Let_def split: option.splits if_splits)

section \<open>Environment variables\<close>

text \<open>The Go types that occur in \<open>Config\<close>, as reflection shows them, with the field tags.\<close>

datatype gtype =
    GBool
  | GInt
  | GDuration
  | GString
  | GSlice gtype
  | GMap gtype
  | GPtr gtype
  | GStruct "(string \<times> gtype) list"

fun indirectType :: "gtype \<Rightarrow> gtype" where
  "indirectType (GPtr t) = indirectType t"
| "indirectType t = t"

definition providerFields :: "(string \<times> gtype) list" where
  "providerFields = [
    (''enabled'', GBool), (''client_id'', GString), (''client_secret'', GString),
    (''auth_url'', GString), (''token_url'', GString), (''user_info_url'', GString),
    (''redirect_url'', GString), (''scopes'', GSlice GString), (''subject_field'', GString),
    (''email_field'', GString), (''email_verified_field'', GString), (''username_field'', GString),
    (''name_field'', GString)]"

definition configFields :: "(string \<times> gtype) list" where
  "configFields = [
    (''app'', GStruct [(''name'', GString), (''env'', GString), (''log_level'', GString)]),
    (''http'', GStruct [(''address'', GString), (''read_timeout'', GDuration), (''read_header_timeout'', GDuration),
       (''write_timeout'', GDuration), (''idle_timeout'', GDuration), (''shutdown_timeout'', GDuration),
       (''trusted_proxies'', GSlice GString)]),
    (''database'', GStruct [(''url'', GString), (''max_open_conns'', GInt), (''max_idle_conns'', GInt),
       (''conn_max_lifetime'', GDuration), (''conn_max_idle_time'', GDuration)]),
    (''session'', GStruct [(''cookie_name'', GString), (''lifetime'', GDuration), (''idle_timeout'', GDuration),
       (''same_site'', GString), (''secure'', GBool), (''http_only'', GBool), (''persist'', GBool)]),
    (''security'', GStruct [(''allowed_origins'', GSlice GString), (''encryption_key'', GString),
       (''authorization_cache_ttl'', GDuration), (''password_reset_ttl'', GDuration),
       (''email_verification_ttl'', GDuration), (''recovery_ttl'', GDuration),
       (''failed_login_threshold'', GInt), (''failed_login_window'', GDuration),
       (''inactivity_disable_after'', GDuration), (''totp_issuer'', GString)]),
    (''oauth'', GStruct [(''state_ttl'', GDuration), (''state_bytes'', GInt), (''pkce_verifier_bytes'', GInt),
       (''providers'', GMap (GStruct providerFields))]),
    (''webauthn'', GStruct [(''rp_id'', GString), (''rp_display_name'', GString), (''rp_origins'', GSlice GString)]),
    (''mailer'', GStruct [(''enabled'', GBool), (''from'', GString), (''host'', GString), (''port'', GInt),
       (''username'', GString), (''password'', GString), (''require_tls'', GBool)]),
    (''river'', GStruct [(''enabled'', GBool), (''email_outbox_every'', GDuration),
       (''email_outbox_retention'', GDuration), (''cleanup_every'', GDuration),
       (''inactivity_check_every'', GDuration), (''max_workers'', GInt)])]"

definition configType :: gtype where
  "configType = GStruct configFields"

definition hasTokenPrefix :: "string list \<Rightarrow> string list \<Rightarrow> bool" where
  "hasTokenPrefix tokens pre \<longleftrightarrow> length pre \<le> length tokens \<and> take (length pre) tokens = pre"

definition nested :: "gtype \<Rightarrow> bool" where
  "nested t \<longleftrightarrow> (case t of GStruct _ \<Rightarrow> True | GMap _ \<Rightarrow> True | _ \<Rightarrow> False)"

lemma size_indirectType: "size (indirectType t) \<le> size t"
  by (induction t rule: indirectType.induct) auto

text \<open>
  \<open>matchEnvTokens\<close>: the first function handles the kind of the type, \<open>match_fields\<close> is its loop
  over the fields of a struct and \<open>match_keys\<close> the loop over the length of a map key.
\<close>

function matchEnvTokens :: "gtype \<Rightarrow> string list \<Rightarrow> string list \<Rightarrow> (string list \<times> gtype) option"
  and match_fields :: "(string \<times> gtype) list \<Rightarrow> string list \<Rightarrow> string list \<Rightarrow> (string list \<times> gtype) option"
  and match_keys :: "gtype \<Rightarrow> nat \<Rightarrow> string list \<Rightarrow> string list \<Rightarrow> (string list \<times> gtype) option" where
  "matchEnvTokens t tokens path =
     (case indirectType t of
        GStruct fs \<Rightarrow> match_fields fs tokens path
      | GMap e \<Rightarrow> match_keys (indirectType e) 1 tokens path
      | _ \<Rightarrow> None)"
| "match_fields [] tokens path = None"
| "match_fields ((tag, ft) # fs) tokens path =
     (let tagTokens = split_on CHR ''_'' tag; fieldType = indirectType ft;
          nextPath = path @ [tag]; remaining = drop (length tagTokens) tokens in
      if tag = '''' \<or> tag = ''-'' \<or> \<not> hasTokenPrefix tokens tagTokens then match_fields fs tokens path
      else if remaining = [] then Some (nextPath, fieldType)
      else (case (if nested fieldType then matchEnvTokens fieldType remaining nextPath else None) of
              Some r \<Rightarrow> Some r
            | None \<Rightarrow> match_fields fs tokens path))"
| "match_keys e n tokens path =
     (if length tokens < n then None
      else (let nextPath = path @ [join ''_'' (take n tokens)]; remaining = drop n tokens in
        if remaining = [] then Some (nextPath, e)
        else (case (if nested e then matchEnvTokens e remaining nextPath else None) of
                Some r \<Rightarrow> Some r
              | None \<Rightarrow> match_keys e (Suc n) tokens path)))"
  by pat_completeness auto
termination
proof (relation "measures [case_sum (\<lambda>(t, _). 2 * size t)
    (case_sum (\<lambda>(fs, _). 2 * size_list (size_prod (\<lambda>_. 0) size) fs + 1) (\<lambda>(e, _). 2 * size e + 1)),
    case_sum (\<lambda>_. 0) (case_sum (\<lambda>(fs, _). length fs) (\<lambda>(e, n, tokens, _). Suc (length tokens) - n))]",
    goal_cases)
  case (2 t tokens path e)
  then show ?case using size_indirectType [of t] size_indirectType [of e] by auto
next
  case (3 t tokens path fs)
  then show ?case using size_indirectType [of t] by (auto simp: size_list_conv_sum_list)
next
  case (5 tag ft fs)
  then show ?case using size_indirectType [of ft] by auto
qed auto

definition envVarToConfigKey :: "(nat \<Rightarrow> nat) \<Rightarrow> string \<Rightarrow> (string \<times> gtype) option" where
  "envVarToConfigKey ul raw =
     (let trimmed = trim_prefix raw ''BASE_'' in
      if trimmed = '''' then None
      else (case matchEnvTokens configType (split_on CHR ''_'' (to_lower ul trimmed)) [] of
              None \<Rightarrow> None
            | Some (path, ft) \<Rightarrow> Some (join ''.'' path, ft)))"


text \<open>
  \<open>parseEnvValue\<close>: the text of a variable is converted to the kind of the field it sets; a text that
  does not convert is passed on as it is. The parser of durations is an argument.
\<close>

datatype env_value = EDuration int | EBool bool | EInt int | EStrings "string list" | EText string

definition ParseBool :: "string \<Rightarrow> bool option" where
  "ParseBool s =
     (if s \<in> {''1'', ''t'', ''T'', ''TRUE'', ''true'', ''True''} then Some True
      else if s \<in> {''0'', ''f'', ''F'', ''FALSE'', ''false'', ''False''} then Some False else None)"

definition or_text :: "string \<Rightarrow> ('a \<Rightarrow> env_value) \<Rightarrow> 'a option \<Rightarrow> env_value" where
  "or_text v f parsed = (case parsed of Some p \<Rightarrow> f p | None \<Rightarrow> EText v)"

definition parseEnvValue :: "(string \<Rightarrow> int option) \<Rightarrow> gtype \<Rightarrow> string \<Rightarrow> env_value" where
  "parseEnvValue parseDuration fieldType v =
     (case indirectType fieldType of
        GDuration \<Rightarrow> or_text v EDuration (parseDuration v)
      | GBool \<Rightarrow> or_text v EBool (ParseBool v)
      | GInt \<Rightarrow> or_text v EInt (parse_int 64 v)
      | GSlice elemType \<Rightarrow>
          if indirectType elemType = GString
          then (if trim_space v = '''' then EStrings [] else EStrings (map trim_space (split_on CHR '','' v)))
          else EText v
      | _ \<Rightarrow> EText v)"


section \<open>The sources of the configuration\<close>

text \<open>
  The part of package koanf that \<open>Load\<close> uses: the outcome of reading the file, what the entries of the
  environment make of the keys read so far, and the decoding of the result into the record.
\<close>

record 'k koanf =
  kf_file :: "string + 'k"
  kf_env :: "(string \<times> env_value) list \<Rightarrow> 'k \<Rightarrow> string + 'k"
  kf_Unmarshal :: "'k \<Rightarrow> string + config"

text \<open>
  The entries that the callback gives for the variables with the prefix; one that answers with an empty
  key is left out by the provider.
\<close>

definition env_entries :: "(nat \<Rightarrow> nat) \<Rightarrow> (string \<Rightarrow> int option) \<Rightarrow> (string \<times> string) list \<Rightarrow> (string \<times> env_value) list" where
  "env_entries ul parseDuration environ = List.map_filter (\<lambda>(raw, v).
     if \<not> has_prefix raw ''BASE_'' then None
     else (case envVarToConfigKey ul raw of None \<Rightarrow> None
       | Some (key, fieldType) \<Rightarrow> Some (key, parseEnvValue parseDuration fieldType v))) environ"

definition load_sources :: "(nat \<Rightarrow> nat) \<Rightarrow> (string \<Rightarrow> int option) \<Rightarrow> 'k koanf \<Rightarrow> (string \<times> string) list \<Rightarrow> string + config" where
  "load_sources ul parseDuration K environ = (case kf_file K of
     Inl e \<Rightarrow> Inl (''load config file: '' @ e)
   | Inr k \<Rightarrow> (case kf_env K (env_entries ul parseDuration environ) k of
       Inl e \<Rightarrow> Inl (''load environment: '' @ e)
     | Inr k \<Rightarrow> (case kf_Unmarshal K k of
         Inl e \<Rightarrow> Inl (''unmarshal config: '' @ e)
       | Inr decoded \<Rightarrow> Load ul decoded)))"

end
