(* ===== verification/Externals.thy ===== *)
theory Externals
  imports Models Config Complex_Main
begin

text \<open>
  What surrounds the program's own code: the database connection, the clocks, randomness,
  the cryptographic primitives, the rate limiter, the TOTP and WebAuthn libraries and the
  HTTP client. Each is a parameter (a field of \<open>ext\<close>). A stateful or unreliable service
  is a function of the log of all calls made so far, so that it may answer the same
  question differently every time; nothing is assumed about these functions except where a
  theorem says so.
\<close>

section \<open>Values exchanged with the libraries\<close>

record bucket_config =
  bc_capacity :: rat
  bc_refill_per_second :: rat
  bc_cost_per_request :: rat
  bc_deny_retry_floor :: duration

record decision =
  dec_allowed :: bool
  dec_retry_after :: duration

record http_request =
  hq_method :: string
  hq_url :: string
  hq_headers :: "(string \<times> string) list"
  hq_form :: "(string \<times> string) list"

text \<open>A response: its status, its body as text and what the JSON decoder makes of it.\<close>

record http_response =
  hs_status :: int
  hs_text :: string
  hs_json :: "err + json"

record wa_credential =
  cr_id :: string
  cr_public_key :: string
  cr_attestation_type :: string
  cr_transport :: "string list"
  cr_aaguid :: string
  cr_sign_count :: int
  cr_clone_warning :: bool

record passkey_user =
  pu_user :: user
  pu_credentials :: "wa_credential list"

datatype call =
    CDb string
  | CRand nat
  | CArgonHash string
  | CLimiter string bucket_config
  | CTotpGenerate string string
  | CHttp http_request
  | CWebAuthn string
  | CSmtp string string
  | CSession string

record ext =
  x_dbfault :: "call list \<Rightarrow> string option" \<comment> \<open>the statement cannot be run\<close>
  x_rand :: "call list \<Rightarrow> nat \<Rightarrow> string option" \<comment> \<open>\<open>rand.Read\<close>\<close>
  x_lower :: "nat \<Rightarrow> nat" \<comment> \<open>\<open>unicode.ToLower\<close> past ASCII\<close>
  x_sha256 :: "string \<Rightarrow> string"
  x_aead_seal :: "string \<Rightarrow> string \<Rightarrow> string \<Rightarrow> string" \<comment> \<open>key, nonce, plaintext\<close>
  x_aead_open :: "string \<Rightarrow> string \<Rightarrow> string \<Rightarrow> string option" \<comment> \<open>key, nonce, ciphertext\<close>
  x_argon_hash :: "call list \<Rightarrow> string \<Rightarrow> err + string"
  x_argon_compare :: "string \<Rightarrow> string \<Rightarrow> err + bool" \<comment> \<open>password, hash\<close>
  x_sentinel_hash :: string \<comment> \<open>the hash computed when the package is initialised\<close>
  x_limiter :: "call list \<Rightarrow> string \<Rightarrow> bucket_config \<Rightarrow> err + decision"
  x_totp_generate :: "call list \<Rightarrow> string \<Rightarrow> string \<Rightarrow> err + (string \<times> string)"
  x_totp_validate :: "string \<Rightarrow> string \<Rightarrow> time \<Rightarrow> err + bool" \<comment> \<open>code, secret, instant\<close>
  x_http :: "call list \<Rightarrow> http_request \<Rightarrow> err + http_response"
  x_url :: "string \<Rightarrow> (string \<times> string) list \<Rightarrow> string option" \<comment> \<open>\<open>url.Parse\<close>, query replaced\<close>
  x_time_text :: "time \<Rightarrow> string" \<comment> \<open>RFC 3339\<close>
  x_time_parse :: "string \<Rightarrow> time option"
  x_cred_marshal :: "wa_credential \<Rightarrow> err + string"
  x_cred_unmarshal :: "string \<Rightarrow> wa_credential option"
  x_wa_begin_registration :: "call list \<Rightarrow> passkey_user \<Rightarrow> err + (string \<times> string)"
  x_wa_session :: "string \<Rightarrow> string option" \<comment> \<open>decoding of \<open>SessionData\<close>\<close>
  x_wa_finish_registration :: "passkey_user \<Rightarrow> string \<Rightarrow> json \<Rightarrow> err + wa_credential"
  x_wa_begin_login :: "call list \<Rightarrow> err + (string \<times> string)"
  x_wa_assertion :: "string \<Rightarrow> json \<Rightarrow> err + (string \<times> string)" \<comment> \<open>raw id and user handle\<close>
  x_wa_verify :: "passkey_user \<Rightarrow> string \<Rightarrow> json \<Rightarrow> err + wa_credential"

section \<open>The world\<close>

record world =
  wdb :: db
  wlog :: "call list" \<comment> \<open>newest first\<close>
  wnow :: time \<comment> \<open>\<open>time.Now\<close> of the application host\<close>
  wdbnow :: time \<comment> \<open>\<open>NOW()\<close> of the database host\<close>

type_synonym 'a io = "(world, 'a) go"

definition time_Now :: "time io" where
  "time_Now w = (Inr (wnow w), w)"

definition extern :: "call \<Rightarrow> (call list \<Rightarrow> err + 'a) \<Rightarrow> 'a io" where
  "extern c f w = (f (c # wlog w), w\<lparr>wlog := c # wlog w\<rparr>)"

text \<open>Running one statement: it either cannot be run, or takes effect as a whole.\<close>

definition query :: "ext \<Rightarrow> string \<Rightarrow> (time \<Rightarrow> db \<Rightarrow> (err + 'a) \<times> db) \<Rightarrow> 'a io" where
  "query x name f w =
     (let w' = w\<lparr>wlog := CDb name # wlog w\<rparr> in
      case x_dbfault x (wlog w') of
        Some m \<Rightarrow> (Inl (ErrDb (Unavailable m)), w')
      | None \<Rightarrow> (case f (wdbnow w) (wdb w) of (r, d) \<Rightarrow> (r, w'\<lparr>wdb := d\<rparr>)))"

definition rand_Read :: "ext \<Rightarrow> nat \<Rightarrow> string io" where
  "rand_Read x n = extern (CRand n) (\<lambda>l. case x_rand x l n of
     None \<Rightarrow> Inl (ErrText ''crypto/rand'') | Some s \<Rightarrow> Inr s)"

lemma time_Now_Inv [go_inv]: "time_Now w = (r, t) \<longleftrightarrow> r = Inr (wnow w) \<and> t = w"
  by (auto simp: time_Now_def)

lemma time_Now_eval [go_simps]: "time_Now w = (Inr (wnow w), w)"
  by (simp add: time_Now_def)

lemma extern_Inv [go_inv]: "extern c f w = (r, t) \<longleftrightarrow> r = f (c # wlog w) \<and> t = w\<lparr>wlog := c # wlog w\<rparr>"
  by (auto simp: extern_def)

lemma query_Inr [go_inv]:
  "query x n f w = (Inr v, t) \<longleftrightarrow> x_dbfault x (CDb n # wlog w) = None \<and>
     (\<exists>d. f (wdbnow w) (wdb w) = (Inr v, d) \<and> t = w\<lparr>wlog := CDb n # wlog w, wdb := d\<rparr>)"
  by (auto simp: query_def Let_def split: option.splits prod.splits)

lemma query_Inl [go_inv]:
  "query x n f w = (Inl e, t) \<longleftrightarrow>
     (\<exists>m. x_dbfault x (CDb n # wlog w) = Some m \<and> e = ErrDb (Unavailable m) \<and>
          t = w\<lparr>wlog := CDb n # wlog w\<rparr>) \<or>
     (x_dbfault x (CDb n # wlog w) = None \<and>
     (\<exists>d. f (wdbnow w) (wdb w) = (Inl e, d) \<and> t = w\<lparr>wlog := CDb n # wlog w, wdb := d\<rparr>))"
  by (auto simp: query_def Let_def split: option.splits prod.splits)

section \<open>Frames over the world\<close>

text \<open>
  A relation between worlds that every statement of a component obeys is respected by whatever the
  component composes from them. It holds over any call to the outside, and over what a rolled back
  transaction leaves: every table as it was, the identity counters advanced.
\<close>

locale io_frame = frame R for R :: "world \<Rightarrow> world \<Rightarrow> bool" +
  assumes R_call: "R w (w\<lparr>wlog := c # wlog w\<rparr>)"
    and R_rollback: "R w t \<Longrightarrow> R w (t\<lparr>wdb := (wdb w)\<lparr>seqs := seqs (wdb t)\<rparr>\<rparr>)"
begin

abbreviation obeys :: "'a io \<Rightarrow> bool" where
  "obeys m \<equiv> framed R m"

lemma obeys_time_Now: "obeys time_Now"
  by (rule framedI) (auto simp: go_inv refl)

lemma obeys_extern: "obeys (extern c f)"
  by (rule framedI) (auto simp: extern_def R_call)

lemma obeys_rand_Read: "obeys (rand_Read x n)"
  unfolding rand_Read_def by (rule obeys_extern)

lemmas obeys_intros = framed_intros obeys_time_Now obeys_extern obeys_rand_Read

end

text \<open>A relation between databases is such a relation.\<close>

locale db_frame =
  fixes Q :: "db \<Rightarrow> db \<Rightarrow> bool"
  assumes Q_refl: "Q d d"
    and Q_trans: "Q d e \<Longrightarrow> Q e f \<Longrightarrow> Q d f"
    and Q_rollback: "Q d e \<Longrightarrow> Q d (d\<lparr>seqs := seqs e\<rparr>)"

sublocale db_frame \<subseteq> io_frame "\<lambda>w t. Q (wdb w) (wdb t)"
  by unfold_locales (auto intro: Q_refl Q_trans Q_rollback)

context db_frame
begin

lemma obeys_query:
  assumes "\<And>now d. Q d (snd (f now d))"
  shows "obeys (query x n f)"
proof (rule framedI)
  fix w r t
  assume "query x n f w = (r, t)"
  then show "Q (wdb w) (wdb t)"
    using assms [of "wdb w" "wdbnow w"]
    by (auto simp: query_def Let_def Q_refl split: option.splits prod.splits)
qed

end

text \<open>Two frames: the schema's constraints are kept, and the tables are not written at all.\<close>

definition keeps_ok :: "db \<Rightarrow> db \<Rightarrow> bool" where
  "keeps_ok d e \<longleftrightarrow> (db_ok d \<longrightarrow> db_ok e \<and> sq_users (seqs d) \<le> sq_users (seqs e) \<and>
     sq_tokens (seqs d) \<le> sq_tokens (seqs e) \<and> sq_passkeys (seqs d) \<le> sq_passkeys (seqs e) \<and>
     sq_outbox (seqs d) \<le> sq_outbox (seqs e))"

interpretation ok: db_frame keeps_ok
proof
  fix d e
  assume "keeps_ok d e"
  then show "keeps_ok d (d\<lparr>seqs := seqs e\<rparr>)"
    by (auto simp: keeps_ok_def db_ok_def user_ids_def intro: next_mono)
qed (auto simp: keeps_ok_def)

interpretation read_only: db_frame "\<lambda>d e. e = d"
  by unfold_locales auto

end
