(* ===== verification/SqlcUsers.thy ===== *)
theory SqlcUsers
  imports Externals
begin

text \<open>
  \<open>internal/store/sqlc/users.sql.go\<close> and the password statement of \<open>auth.sql.go\<close>: one
  definition per generated function, with the SQL of its statement as the effect on the
  \<^const>\<open>users\<close> table. The trigger \<open>trg_users_updated_at\<close> is part of every update.
\<close>

definition update_user :: "int \<Rightarrow> (user \<Rightarrow> user) \<Rightarrow> time \<Rightarrow> db \<Rightarrow> db" where
  "update_user i f now d =
     d\<lparr>users := update_rows (\<lambda>u. u_id u = i) (\<lambda>u. (f u)\<lparr>u_updated_at := now\<rparr>) (users d)\<rparr>"

definition CreateUser :: "ext \<Rightarrow> string \<Rightarrow> string \<Rightarrow> user io" where
  "CreateUser x username email = query x ''CreateUser'' (\<lambda>now d.
     let i = sq_users (seqs d); d1 = d\<lparr>seqs := (seqs d)\<lparr>sq_users := i + 1\<rparr>\<rparr> in
     if \<exists>u \<in> set (users d). u_username u = username
     then (Inl (ErrDb (UniqueViolation ''users_username_key'')), d1)
     else if \<exists>u \<in> set (users d). u_email u = email
     then (Inl (ErrDb (UniqueViolation ''users_email_key'')), d1)
     else (let u = \<lparr>u_id = i, u_username = username, u_email = email, u_password_hash = None,
                    u_email_verified_at = None, u_last_login_at = None, u_last_seen_at = None,
                    u_is_active = True, u_disabled_reason = None, u_disabled_at = None,
                    u_failed_login_count = 0, u_locked_until = None, u_created_at = now,
                    u_updated_at = now, u_auth_version = 1, u_last_failed_login_at = None\<rparr>
           in (Inr u, d1\<lparr>users := users d @ [u]\<rparr>)))"

definition DisableInactiveUsers :: "ext \<Rightarrow> time option \<Rightarrow> user list io" where
  "DisableInactiveUsers x before = query x ''DisableInactiveUsers'' (\<lambda>now d.
     let idle = (\<lambda>u. u_is_active u \<and> (case before of None \<Rightarrow> False
            | Some b \<Rightarrow> (case u_last_login_at u of None \<Rightarrow> u_created_at u | Some t \<Rightarrow> t) < b));
         f = (\<lambda>u. u\<lparr>u_is_active := False, u_disabled_reason := Some ''inactivity'',
                     u_disabled_at := Some now, u_updated_at := now\<rparr>)
     in (Inr (map f (filter idle (users d))), d\<lparr>users := update_rows idle f (users d)\<rparr>))"

definition GetUserByEmail :: "ext \<Rightarrow> string \<Rightarrow> user io" where
  "GetUserByEmail x email = query x ''GetUserByEmail'' (\<lambda>now d.
     (select_one (\<lambda>u. u_email u = email) (users d), d))"

definition GetUserByID :: "ext \<Rightarrow> int \<Rightarrow> user io" where
  "GetUserByID x i = query x ''GetUserByID'' (\<lambda>now d. (select_one (\<lambda>u. u_id u = i) (users d), d))"

definition GetUserWithPasswordByEmail :: "ext \<Rightarrow> string \<Rightarrow> user io" where
  "GetUserWithPasswordByEmail x email = query x ''GetUserWithPasswordByEmail'' (\<lambda>now d.
     (select_one (\<lambda>u. u_email u = email \<and> u_password_hash u \<noteq> None) (users d), d))"

definition IncrementUserAuthVersion :: "ext \<Rightarrow> int \<Rightarrow> int io" where
  "IncrementUserAuthVersion x i = query x ''IncrementUserAuthVersion'' (\<lambda>now d.
     case select_one (\<lambda>u. u_id u = i) (users d) of
       Inl e \<Rightarrow> (Inl e, d)
     | Inr u \<Rightarrow> if 2 ^ 63 \<le> u_auth_version u + 1 then (Inl (ErrDb (OutOfRange ''bigint'')), d)
                else (Inr (u_auth_version u + 1),
                      update_user i (\<lambda>u. u\<lparr>u_auth_version := u_auth_version u + 1\<rparr>) now d))"

definition LockUserUntil :: "ext \<Rightarrow> int \<Rightarrow> time option \<Rightarrow> string option \<Rightarrow> unit io" where
  "LockUserUntil x i until reason = query x ''LockUserUntil'' (\<lambda>now d.
     (Inr (), update_user i (\<lambda>u. u\<lparr>u_locked_until := until, u_disabled_reason := reason\<rparr>) now d))"

definition MarkUserEmailVerified :: "ext \<Rightarrow> int \<Rightarrow> unit io" where
  "MarkUserEmailVerified x i = query x ''MarkUserEmailVerified'' (\<lambda>now d.
     (Inr (), update_user i (\<lambda>u. u\<lparr>u_email_verified_at := Some now\<rparr>) now d))"

text \<open>The count that \<open>RecordFailedLogin\<close> writes: 1 when the previous failure is outside the window.\<close>

definition next_failed_count :: "time \<Rightarrow> int \<Rightarrow> user \<Rightarrow> int" where
  "next_failed_count now window u =
     (case u_last_failed_login_at u of
        None \<Rightarrow> 1
      | Some t \<Rightarrow> if t < now - window * second then 1 else u_failed_login_count u + 1)"

definition RecordFailedLogin :: "ext \<Rightarrow> int \<Rightarrow> int \<Rightarrow> user io" where
  "RecordFailedLogin x window i = query x ''RecordFailedLogin'' (\<lambda>now d.
     case select_one (\<lambda>u. u_id u = i) (users d) of
       Inl e \<Rightarrow> (Inl e, d)
     | Inr u \<Rightarrow> if 2 ^ 31 \<le> next_failed_count now window u then (Inl (ErrDb (OutOfRange ''integer'')), d)
                else (let f = (\<lambda>u. u\<lparr>u_failed_login_count := next_failed_count now window u,
                                      u_last_failed_login_at := Some now\<rparr>) in
                      (Inr ((f u)\<lparr>u_updated_at := now\<rparr>), update_user i f now d)))"

definition clear_lock_reason :: "string option \<Rightarrow> string option" where
  "clear_lock_reason r = (if r = Some ''failed_login_attempts'' then None else r)"

definition ResetLoginFailures :: "ext \<Rightarrow> int \<Rightarrow> unit io" where
  "ResetLoginFailures x i = query x ''ResetLoginFailures'' (\<lambda>now d.
     (Inr (), update_user i (\<lambda>u. u\<lparr>u_failed_login_count := 0, u_last_failed_login_at := None,
        u_locked_until := None, u_disabled_reason := clear_lock_reason (u_disabled_reason u)\<rparr>) now d))"

definition RestoreUserAccess :: "ext \<Rightarrow> int \<Rightarrow> unit io" where
  "RestoreUserAccess x i = query x ''RestoreUserAccess'' (\<lambda>now d.
     (Inr (), update_user i (\<lambda>u. u\<lparr>u_is_active := True,
        u_email_verified_at := (case u_email_verified_at u of None \<Rightarrow> Some now | Some t \<Rightarrow> Some t),
        u_failed_login_count := 0, u_last_failed_login_at := None, u_locked_until := None,
        u_disabled_reason := None, u_disabled_at := None\<rparr>) now d))"

definition TouchUserSeen :: "ext \<Rightarrow> int \<Rightarrow> unit io" where
  "TouchUserSeen x i = query x ''TouchUserSeen'' (\<lambda>now d.
     (Inr (), update_user i (\<lambda>u. u\<lparr>u_last_seen_at := Some now\<rparr>) now d))"

definition UpdateUserLastLogin :: "ext \<Rightarrow> int \<Rightarrow> unit io" where
  "UpdateUserLastLogin x i = query x ''UpdateUserLastLogin'' (\<lambda>now d.
     (Inr (), update_user i (\<lambda>u. u\<lparr>u_last_login_at := Some now, u_last_seen_at := Some now,
        u_failed_login_count := 0, u_last_failed_login_at := None, u_locked_until := None,
        u_disabled_reason := clear_lock_reason (u_disabled_reason u)\<rparr>) now d))"

definition SetUserPasswordHash :: "ext \<Rightarrow> int \<Rightarrow> string option \<Rightarrow> user io" where
  "SetUserPasswordHash x i h = query x ''SetUserPasswordHash'' (\<lambda>now d.
     case select_one (\<lambda>u. u_id u = i) (users d) of
       Inl e \<Rightarrow> (Inl e, d)
     | Inr u \<Rightarrow> (Inr (u\<lparr>u_password_hash := h, u_updated_at := now\<rparr>),
                 update_user i (\<lambda>u. u\<lparr>u_password_hash := h\<rparr>) now d))"

section \<open>The constraints are kept\<close>

text \<open>An update of user rows that leaves the keys alone and keeps the counters in range.\<close>

definition tame :: "(user \<Rightarrow> user) \<Rightarrow> bool" where
  "tame f \<longleftrightarrow> (\<forall>u. u_id (f u) = u_id u \<and> u_username (f u) = u_username u \<and> u_email (f u) = u_email u)"

lemma users_ok_update:
  assumes "users_ok us n" and "tame f"
    and "\<And>u. u \<in> set us \<Longrightarrow> p u \<Longrightarrow> 1 \<le> u_auth_version (f u) \<and> u_auth_version (f u) < 2 ^ 63 \<and>
           0 \<le> u_failed_login_count (f u) \<and> u_failed_login_count (f u) < 2 ^ 31"
  shows "users_ok (update_rows p f us) n"
  using assms unfolding users_ok_def tame_def
  by (auto simp: map_key_update set_update_rows)

lemma user_ids_update: "tame f \<Longrightarrow> user_ids (d\<lparr>users := update_rows p f (users d)\<rparr>) = user_ids d"
  by (simp add: user_ids_def tame_def map_key_update flip: set_map)

lemma keeps_ok_update:
  assumes "tame f"
    and "\<And>u. users_ok (users d) (sq_users (seqs d)) \<Longrightarrow> u \<in> set (users d) \<Longrightarrow> p u \<Longrightarrow>
           1 \<le> u_auth_version (f u) \<and> u_auth_version (f u) < 2 ^ 63 \<and>
           0 \<le> u_failed_login_count (f u) \<and> u_failed_login_count (f u) < 2 ^ 31"
  shows "keeps_ok d (d\<lparr>users := update_rows p f (users d)\<rparr>)"
  using assms by (simp add: keeps_ok_def db_ok_def user_ids_update users_ok_update)

lemma keeps_ok_update_user:
  assumes "tame f"
    and "\<And>u. users_ok (users d) (sq_users (seqs d)) \<Longrightarrow> u \<in> set (users d) \<Longrightarrow> u_id u = i \<Longrightarrow>
           1 \<le> u_auth_version (f u) \<and> u_auth_version (f u) < 2 ^ 63 \<and>
           0 \<le> u_failed_login_count (f u) \<and> u_failed_login_count (f u) < 2 ^ 31"
  shows "keeps_ok d (update_user i f now d)"
  unfolding update_user_def using assms by (intro keeps_ok_update) (simp_all add: tame_def)

lemma users_ok_bounds:
  "users_ok us n \<Longrightarrow> u \<in> set us \<Longrightarrow>
     0 < u_id u \<and> u_id u < n \<and> 1 \<le> u_auth_version u \<and> u_auth_version u < 2 ^ 63 \<and>
     0 \<le> u_failed_login_count u \<and> u_failed_login_count u < 2 ^ 31"
  by (auto simp: users_ok_def)

lemma keeps_ok_update_mild:
  assumes "tame f"
    and "\<And>u. u_auth_version (f u) = u_auth_version u"
    and "\<And>u. u_failed_login_count (f u) = u_failed_login_count u \<or> u_failed_login_count (f u) = 0"
  shows "keeps_ok d (update_user i f now d)"
proof (rule keeps_ok_update_user [OF assms(1)])
  fix u
  assume "users_ok (users d) (sq_users (seqs d))" and "u \<in> set (users d)"
  from users_ok_bounds [OF this] assms(2,3) [of u]
  show "1 \<le> u_auth_version (f u) \<and> u_auth_version (f u) < 2 ^ 63 \<and>
      0 \<le> u_failed_login_count (f u) \<and> u_failed_login_count (f u) < 2 ^ 31" by auto
qed

lemma users_ok_unique:
  "users_ok us n \<Longrightarrow> find (\<lambda>u. u_id u = i) us = Some u \<Longrightarrow> v \<in> set us \<Longrightarrow> u_id v = i \<Longrightarrow> v = u"
  using find_key_of [of u_id us v i] by (auto simp: users_ok_def)

lemma ids_ok_mono:
  "tokens_ok ids ts n \<Longrightarrow> ids \<subseteq> ids' \<Longrightarrow> tokens_ok ids' ts n"
  "totp_ok ids cs \<Longrightarrow> ids \<subseteq> ids' \<Longrightarrow> totp_ok ids' cs"
  "oauth_ok ids as \<Longrightarrow> ids \<subseteq> ids' \<Longrightarrow> oauth_ok ids' as"
  "passkeys_ok ids ps m \<Longrightarrow> ids \<subseteq> ids' \<Longrightarrow> passkeys_ok ids' ps m"
  "roles_ok ids rs urs \<Longrightarrow> ids \<subseteq> ids' \<Longrightarrow> roles_ok ids' rs urs"
  unfolding tokens_ok_def totp_ok_def oauth_ok_def passkeys_ok_def roles_ok_def by blast+

lemma users_ok_insert:
  assumes "users_ok us n" and "u_id u = n"
    and "\<forall>v \<in> set us. u_username v \<noteq> u_username u" and "\<forall>v \<in> set us. u_email v \<noteq> u_email u"
    and "u_auth_version u = 1" and "u_failed_login_count u = 0"
  shows "users_ok (us @ [u]) (n + 1)"
  using assms by (fastforce simp: users_ok_def)

lemma CreateUser_ok: "ok.obeys (CreateUser x username email)"
  unfolding CreateUser_def
proof (rule ok.obeys_query, goal_cases)
  case (1 now d)
  have mono: "users_ok us n \<Longrightarrow> users_ok us (n + 1)" for us n
    by (erule next_mono) simp
  have ids: "user_ids (e\<lparr>users := users d @ [u]\<rparr>) = insert (u_id u) (user_ids d)" for e u
    by (auto simp: user_ids_def)
  show ?case
    by (auto simp: keeps_ok_def db_ok_def Let_def mono ids
        intro!: users_ok_insert intro: ids_ok_mono(1-5) [OF _ subset_insertI])
qed

lemma DisableInactiveUsers_ok: "ok.obeys (DisableInactiveUsers x before)"
  unfolding DisableInactiveUsers_def
  by (rule ok.obeys_query) (auto simp: Let_def tame_def dest: users_ok_bounds intro!: keeps_ok_update)

lemma reads_users_ok:
  "ok.obeys (GetUserByEmail x email)" "ok.obeys (GetUserByID x i)"
  "ok.obeys (GetUserWithPasswordByEmail x email)"
  unfolding GetUserByEmail_def GetUserByID_def GetUserWithPasswordByEmail_def
  by (rule ok.obeys_query, simp add: ok.Q_refl)+

lemma IncrementUserAuthVersion_ok: "ok.obeys (IncrementUserAuthVersion x i)"
  unfolding IncrementUserAuthVersion_def
proof (rule ok.obeys_query, goal_cases)
  case (1 now d)
  have *: "1 \<le> u_auth_version v + 1 \<and> u_auth_version v + 1 < 2 ^ 63"
    if "users_ok (users d) (sq_users (seqs d))" "find (\<lambda>u. u_id u = i) (users d) = Some u"
      "\<not> 2 ^ 63 \<le> u_auth_version u + 1" "v \<in> set (users d)" "u_id v = i" for u v
    using users_ok_unique [OF that(1,2,4,5)] users_ok_bounds [OF that(1,4)] that(3) by simp
  show ?case
    by (auto simp: tame_def ok.Q_refl select_one_Inr dest: users_ok_bounds *
        split: sum.splits intro!: keeps_ok_update_user)
qed

lemma RecordFailedLogin_ok: "ok.obeys (RecordFailedLogin x window i)"
  unfolding RecordFailedLogin_def
proof (rule ok.obeys_query, goal_cases)
  case (1 now d)
  have *: "0 \<le> next_failed_count now window v \<and> next_failed_count now window v < 2 ^ 31"
    if "users_ok (users d) (sq_users (seqs d))" "find (\<lambda>u. u_id u = i) (users d) = Some u"
      "\<not> 2 ^ 31 \<le> next_failed_count now window u" "v \<in> set (users d)" "u_id v = i" for u v
    using users_ok_unique [OF that(1,2,4,5)] users_ok_bounds [OF that(1,4)] that(3)
    by (simp add: next_failed_count_def split: option.splits)
  show ?case
    by (auto simp: tame_def ok.Q_refl select_one_Inr Let_def dest: users_ok_bounds *
        split: sum.splits intro!: keeps_ok_update_user)
qed

lemma writes_users_ok:
  "ok.obeys (LockUserUntil x i until reason)" "ok.obeys (MarkUserEmailVerified x i)"
  "ok.obeys (ResetLoginFailures x i)" "ok.obeys (RestoreUserAccess x i)"
  "ok.obeys (TouchUserSeen x i)" "ok.obeys (UpdateUserLastLogin x i)"
  unfolding LockUserUntil_def MarkUserEmailVerified_def ResetLoginFailures_def RestoreUserAccess_def
    TouchUserSeen_def UpdateUserLastLogin_def
  by (rule ok.obeys_query, simp, rule keeps_ok_update_mild; simp add: tame_def)+

lemma SetUserPasswordHash_ok: "ok.obeys (SetUserPasswordHash x i h)"
  unfolding SetUserPasswordHash_def
  by (rule ok.obeys_query)
    (auto simp: ok.Q_refl tame_def split: sum.splits intro!: keeps_ok_update_mild)

lemmas sqlc_users_ok = CreateUser_ok DisableInactiveUsers_ok reads_users_ok
  IncrementUserAuthVersion_ok RecordFailedLogin_ok writes_users_ok SetUserPasswordHash_ok

end
