(* ===== verification/SqlcAuth.thy ===== *)
theory SqlcAuth
  imports SqlcUsers
begin

text \<open>
  \<open>internal/store/sqlc/auth.sql.go\<close>: the statements on the \<^const>\<open>user_tokens\<close> table, and the
  contract of a ledger of single-use tokens that they implement.
\<close>

text \<open>The condition under which a token can still be consumed.\<close>

definition live :: "string \<Rightarrow> token_kind \<Rightarrow> time \<Rightarrow> user_token \<Rightarrow> bool" where
  "live h k now t \<longleftrightarrow> t_hash t = h \<and> t_kind t = k \<and> t_used_at t = None \<and> now < t_expires_at t"

definition ConsumeUserToken :: "ext \<Rightarrow> string \<Rightarrow> token_kind \<Rightarrow> user_token io" where
  "ConsumeUserToken x h k = query x ''ConsumeUserToken'' (\<lambda>now d.
     case select_one (live h k now) (user_tokens d) of
       Inl e \<Rightarrow> (Inl e, d)
     | Inr t \<Rightarrow> (Inr (t\<lparr>t_used_at := Some now\<rparr>),
                 d\<lparr>user_tokens := update_rows (live h k now) (\<lambda>t. t\<lparr>t_used_at := Some now\<rparr>) (user_tokens d)\<rparr>))"

definition CreateUserToken :: "ext \<Rightarrow> int \<Rightarrow> token_kind \<Rightarrow> string \<Rightarrow> time \<Rightarrow> user_token io" where
  "CreateUserToken x i k h expires = query x ''CreateUserToken'' (\<lambda>now d.
     let n = sq_tokens (seqs d); d1 = d\<lparr>seqs := (seqs d)\<lparr>sq_tokens := n + 1\<rparr>\<rparr> in
     if \<exists>t \<in> set (user_tokens d). t_hash t = h
     then (Inl (ErrDb (UniqueViolation ''user_tokens_token_hash_key'')), d1)
     else if i \<notin> user_ids d
     then (Inl (ErrDb (ForeignKeyViolation ''user_tokens_user_id_fkey'')), d1)
     else (let t = \<lparr>t_id = n, t_user_id = i, t_kind = k, t_hash = h, t_expires_at = expires,
                    t_used_at = None, t_created_at = now\<rparr>
           in (Inr t, d1\<lparr>user_tokens := user_tokens d @ [t]\<rparr>)))"

definition delete_tokens :: "(user_token \<Rightarrow> bool) \<Rightarrow> db \<Rightarrow> (err + int) \<times> db" where
  "delete_tokens p d = (Inr (int (length (filter p (user_tokens d)))),
     d\<lparr>user_tokens := filter (\<lambda>t. \<not> p t) (user_tokens d)\<rparr>)"

definition DeleteExpiredUserTokens :: "ext \<Rightarrow> int io" where
  "DeleteExpiredUserTokens x = query x ''DeleteExpiredUserTokens'' (\<lambda>now d.
     delete_tokens (\<lambda>t. t_expires_at t < now \<and> t_used_at t = None) d)"

definition DeleteUsedUserTokens :: "ext \<Rightarrow> int io" where
  "DeleteUsedUserTokens x = query x ''DeleteUsedUserTokens'' (\<lambda>now d.
     delete_tokens (\<lambda>t. t_used_at t \<noteq> None) d)"

definition ExpireUserTokens :: "ext \<Rightarrow> int \<Rightarrow> token_kind \<Rightarrow> unit io" where
  "ExpireUserTokens x i k = query x ''ExpireUserTokens'' (\<lambda>now d.
     (Inr (), d\<lparr>user_tokens := update_rows
        (\<lambda>t. t_user_id t = i \<and> t_kind t = k \<and> t_used_at t = None \<and> now < t_expires_at t)
        (\<lambda>t. t\<lparr>t_expires_at := now\<rparr>) (user_tokens d)\<rparr>))"

definition GetUserToken :: "ext \<Rightarrow> string \<Rightarrow> token_kind \<Rightarrow> user_token io" where
  "GetUserToken x h k = query x ''GetUserToken'' (\<lambda>now d.
     (select_one (live h k now) (user_tokens d), d))"

definition UseUserToken :: "ext \<Rightarrow> int \<Rightarrow> unit io" where
  "UseUserToken x i = query x ''UseUserToken'' (\<lambda>now d.
     (Inr (), d\<lparr>user_tokens := update_rows (\<lambda>t. t_id t = i) (\<lambda>t. t\<lparr>t_used_at := Some now\<rparr>) (user_tokens d)\<rparr>))"

section \<open>The constraints are kept\<close>

lemma tokens_ok_update:
  assumes "tokens_ok ids ts n"
    and "\<And>t. t_id (f t) = t_id t \<and> t_hash (f t) = t_hash t \<and> t_user_id (f t) = t_user_id t"
  shows "tokens_ok ids (update_rows p f ts) n"
  using assms by (auto simp: tokens_ok_def map_key_update set_update_rows)

lemma tokens_ok_filter: "tokens_ok ids ts n \<Longrightarrow> tokens_ok ids (filter p ts) n"
  by (auto simp: tokens_ok_def distinct_map_filter_rows)

lemma tokens_ok_insert:
  "tokens_ok ids ts n \<Longrightarrow> t_id t = n \<Longrightarrow> \<forall>s \<in> set ts. t_hash s \<noteq> t_hash t \<Longrightarrow> t_user_id t \<in> ids \<Longrightarrow>
     tokens_ok ids (ts @ [t]) (n + 1)"
  by (fastforce simp: tokens_ok_def)

lemma keeps_ok_tokens:
  assumes "tokens_ok (user_ids d) (user_tokens d) (sq_tokens (seqs d)) \<Longrightarrow>
      tokens_ok (user_ids d) ts (sq_tokens (seqs d))"
  shows "keeps_ok d (d\<lparr>user_tokens := ts\<rparr>)"
proof -
  have "user_ids (d\<lparr>user_tokens := ts\<rparr>) = user_ids d" by (simp add: user_ids_def)
  with assms show ?thesis by (simp add: keeps_ok_def db_ok_def)
qed

lemma CreateUserToken_ok: "ok.obeys (CreateUserToken x i k h expires)"
  unfolding CreateUserToken_def
proof (rule ok.obeys_query, goal_cases)
  case (1 now d)
  have mono: "tokens_ok ids ts n \<Longrightarrow> tokens_ok ids ts (n + 1)" for ids ts n
    by (erule next_mono) simp
  show ?case
    by (auto simp: keeps_ok_def db_ok_def Let_def mono intro!: tokens_ok_insert)
qed

lemma ConsumeUserToken_ok: "ok.obeys (ConsumeUserToken x h k)"
  unfolding ConsumeUserToken_def
  by (rule ok.obeys_query) (auto split: sum.splits simp: ok.Q_refl intro!: keeps_ok_tokens tokens_ok_update)

lemma changes_tokens_ok:
  "ok.obeys (DeleteExpiredUserTokens x)" "ok.obeys (DeleteUsedUserTokens x)"
  "ok.obeys (ExpireUserTokens x i k)" "ok.obeys (UseUserToken x i)"
  unfolding DeleteExpiredUserTokens_def DeleteUsedUserTokens_def ExpireUserTokens_def
    UseUserToken_def delete_tokens_def
  by (rule ok.obeys_query, simp, rule keeps_ok_tokens; simp add: tokens_ok_update tokens_ok_filter)+

lemma GetUserToken_ok: "ok.obeys (GetUserToken x h k)"
  unfolding GetUserToken_def by (rule ok.obeys_query) (simp add: ok.Q_refl)

lemmas sqlc_auth_ok = ConsumeUserToken_ok CreateUserToken_ok changes_tokens_ok GetUserToken_ok

section \<open>A ledger of single-use tokens\<close>

text \<open>
  What the account flows rely on: consuming a token that can be redeemed succeeds and tells
  whose it is; a token that cannot be redeemed is refused; once consumed, it can no longer be
  redeemed, at any later time and for any kind; and consuming one token leaves the others.
\<close>

locale token_ledger =
  fixes redeemable :: "'l \<Rightarrow> 'h \<Rightarrow> 'k \<Rightarrow> time \<Rightarrow> int option"
    and consume :: "'h \<Rightarrow> 'k \<Rightarrow> time \<Rightarrow> 'l \<Rightarrow> (err + int) \<times> 'l"
    and valid :: "'l \<Rightarrow> bool"
  assumes consume_live: "valid l \<Longrightarrow> redeemable l h k now = Some i \<Longrightarrow> fst (consume h k now l) = Inr i"
    and consume_dead: "valid l \<Longrightarrow> redeemable l h k now = None \<Longrightarrow> consume h k now l = (Inl ErrNoRows, l)"
    and consume_valid: "valid l \<Longrightarrow> valid (snd (consume h k now l))"
    and consumed: "valid l \<Longrightarrow> redeemable l h k now = Some i \<Longrightarrow>
        redeemable (snd (consume h k now l)) h k' now' = None"
    and others: "valid l \<Longrightarrow> h' \<noteq> h \<Longrightarrow>
        redeemable (snd (consume h k now l)) h' k' now' = redeemable l h' k' now'"
begin

lemma second_use_refused:
  assumes "valid l" and "fst (consume h k now l) = Inr i"
  shows "fst (consume h k' now' (snd (consume h k now l))) = Inl ErrNoRows"
proof (cases "redeemable l h k now")
  case None
  with assms consume_dead show ?thesis by fastforce
next
  case (Some j)
  with assms have "redeemable (snd (consume h k now l)) h k' now' = None"
    by (simp add: consumed)
  with assms show ?thesis by (simp add: consume_dead consume_valid)
qed

lemma consume_order:
  assumes "valid l" and "h \<noteq> h'"
  shows "fst (consume h' k' now' (snd (consume h k now l))) = fst (consume h' k' now' l)"
proof (cases "redeemable l h' k' now'")
  case None
  moreover from assms None have "redeemable (snd (consume h k now l)) h' k' now' = None"
    by (simp add: others)
  ultimately show ?thesis using assms by (simp add: consume_dead consume_valid)
next
  case (Some i)
  moreover from assms Some have "redeemable (snd (consume h k now l)) h' k' now' = Some i"
    by (simp add: others)
  ultimately show ?thesis using assms by (simp add: consume_live consume_valid)
qed

end

text \<open>The ledger of the store: the rows of \<^const>\<open>user_tokens\<close>, with the hash unique.\<close>

definition redeemable :: "user_token list \<Rightarrow> string \<Rightarrow> token_kind \<Rightarrow> time \<Rightarrow> int option" where
  "redeemable ts h k now = map_option t_user_id (find (live h k now) ts)"

definition consume_rows :: "string \<Rightarrow> token_kind \<Rightarrow> time \<Rightarrow> user_token list \<Rightarrow> (err + int) \<times> user_token list" where
  "consume_rows h k now ts = (case select_one (live h k now) ts of
     Inl e \<Rightarrow> (Inl e, ts)
   | Inr t \<Rightarrow> (Inr (t_user_id t), update_rows (live h k now) (\<lambda>t. t\<lparr>t_used_at := Some now\<rparr>) ts))"

abbreviation hashes_unique :: "user_token list \<Rightarrow> bool" where
  "hashes_unique ts \<equiv> distinct (map t_hash ts)"

lemma live_unique:
  "hashes_unique ts \<Longrightarrow> t \<in> set ts \<Longrightarrow> s \<in> set ts \<Longrightarrow> live h k now t \<Longrightarrow> live h k' now' s \<Longrightarrow> s = t"
  by (auto simp: live_def distinct_map inj_on_def)

lemma not_live_after:
  assumes "hashes_unique ts" and "find (live h k now) ts = Some t"
    and "s \<in> set (update_rows (live h k now) (\<lambda>t. t\<lparr>t_used_at := Some now\<rparr>) ts)"
  shows "\<not> live h k' now' s"
proof
  assume l: "live h k' now' s"
  from assms(2) have t: "t \<in> set ts" "live h k now t" by (auto dest: find_SomeD)
  from l have "t_used_at s = None" by (simp add: live_def)
  with assms(3) have s: "s \<in> set ts" "\<not> live h k now s" by (auto simp: set_update_rows)
  from live_unique [OF assms(1) t(1) s(1) t(2) l] t(2) s(2) show False by simp
qed

lemma find_live_other:
  "h' \<noteq> h \<Longrightarrow> map_option t_user_id (find (live h' k' now')
     (update_rows (live h k now) (\<lambda>t. t\<lparr>t_used_at := Some now\<rparr>) ts)) =
   map_option t_user_id (find (live h' k' now') ts)"
  by (induction ts) (auto simp: update_rows_def live_def)

interpretation tokens: token_ledger redeemable consume_rows hashes_unique
proof (unfold_locales, goal_cases)
  case (1 l h k now i)
  then show ?case by (auto simp: redeemable_def consume_rows_def select_one_def)
next
  case (2 l h k now)
  then show ?case by (auto simp: redeemable_def consume_rows_def select_one_def)
next
  case (3 l h k now)
  then show ?case
    by (auto simp: consume_rows_def map_key_update split: sum.splits)
next
  case (4 l h k now i k' now')
  then obtain t where "find (live h k now) l = Some t" by (auto simp: redeemable_def)
  with 4(1) not_live_after [OF 4(1)] show ?case
    by (auto simp: redeemable_def consume_rows_def select_one_def find_None_iff)
next
  case (5 l h' h k now k' now')
  then show ?case
    by (auto simp: redeemable_def consume_rows_def find_live_other split: sum.splits)
qed

text \<open>The statement and the ledger operation agree.\<close>

lemma ConsumeUserToken_rows:
  "x_dbfault x (CDb ''ConsumeUserToken'' # wlog w) = None \<Longrightarrow>
     map_sum id t_user_id (fst (ConsumeUserToken x h k w)) =
       fst (consume_rows h k (wdbnow w) (user_tokens (wdb w))) \<and>
     user_tokens (wdb (snd (ConsumeUserToken x h k w))) =
       snd (consume_rows h k (wdbnow w) (user_tokens (wdb w)))"
  by (cases "select_one (live h k (wdbnow w)) (user_tokens (wdb w))")
    (simp_all add: ConsumeUserToken_def query_def consume_rows_def)

end
