(* ===== verification/SqlcTables.thy ===== *)
theory SqlcTables
  imports SqlcAuth
begin

text \<open>
  The remaining generated query files of \<open>internal/store/sqlc\<close>: \<open>rbac.sql.go\<close>, \<open>totp.sql.go\<close>,
  \<open>oauth.sql.go\<close>, \<open>passkeys.sql.go\<close> and \<open>mailer.sql.go\<close>, one definition per function.
\<close>

section \<open>Roles\<close>

definition AddUserRole :: "ext \<Rightarrow> int \<Rightarrow> int \<Rightarrow> unit io" where
  "AddUserRole x i r = query x ''AddUserRole'' (\<lambda>now d.
     if \<exists>ur \<in> set (user_roles d). ur_user_id ur = i \<and> ur_role_id ur = r then (Inr (), d)
     else if i \<notin> user_ids d then (Inl (ErrDb (ForeignKeyViolation ''user_roles_user_id_fkey'')), d)
     else if r \<notin> role_id ` set (roles d) then (Inl (ErrDb (ForeignKeyViolation ''user_roles_role_id_fkey'')), d)
     else (Inr (), d\<lparr>user_roles := user_roles d @ [\<lparr>ur_user_id = i, ur_role_id = r, ur_created_at = now\<rparr>]\<rparr>))"

definition GetRoleByName :: "ext \<Rightarrow> string \<Rightarrow> role io" where
  "GetRoleByName x n = query x ''GetRoleByName'' (\<lambda>now d. (select_one (\<lambda>r. role_name r = n) (roles d), d))"

text \<open>The names of the roles joined to a user; ordering is by the bytes of the name.\<close>

definition role_names :: "int \<Rightarrow> db \<Rightarrow> string list" where
  "role_names i d = sort (concat (map (\<lambda>r. map (\<lambda>_. role_name r)
     (filter (\<lambda>ur. ur_role_id ur = role_id r \<and> ur_user_id ur = i) (user_roles d))) (roles d)))"

definition ListUserRoleNames :: "ext \<Rightarrow> int \<Rightarrow> string list io" where
  "ListUserRoleNames x i = query x ''ListUserRoleNames'' (\<lambda>now d. (Inr (role_names i d), d))"

lemma role_names_iff:
  "n \<in> set (role_names i d) \<longleftrightarrow>
     (\<exists>r \<in> set (roles d). role_name r = n \<and> (\<exists>ur \<in> set (user_roles d). ur_role_id ur = role_id r \<and> ur_user_id ur = i))"
  by (auto simp: role_names_def)

section \<open>TOTP configurations\<close>

definition DeleteTotpConfigurationByUserID :: "ext \<Rightarrow> int \<Rightarrow> unit io" where
  "DeleteTotpConfigurationByUserID x i = query x ''DeleteTotpConfigurationByUserID'' (\<lambda>now d.
     (Inr (), d\<lparr>totp_configs := filter (\<lambda>c. tc_user_id c \<noteq> i) (totp_configs d)\<rparr>))"

definition EnableTotpConfiguration :: "ext \<Rightarrow> int \<Rightarrow> unit io" where
  "EnableTotpConfiguration x i = query x ''EnableTotpConfiguration'' (\<lambda>now d.
     (Inr (), d\<lparr>totp_configs := update_rows (\<lambda>c. tc_user_id c = i)
        (\<lambda>c. c\<lparr>tc_enabled_at := Some now, tc_updated_at := now\<rparr>) (totp_configs d)\<rparr>))"

definition GetTotpConfigurationByUserID :: "ext \<Rightarrow> int \<Rightarrow> totp_configuration io" where
  "GetTotpConfigurationByUserID x i = query x ''GetTotpConfigurationByUserID'' (\<lambda>now d.
     (select_one (\<lambda>c. tc_user_id c = i) (totp_configs d), d))"

definition UpsertTotpConfiguration :: "ext \<Rightarrow> int \<Rightarrow> string \<Rightarrow> string \<Rightarrow> time option \<Rightarrow> totp_configuration io" where
  "UpsertTotpConfiguration x i ct nonce enabled = query x ''UpsertTotpConfiguration'' (\<lambda>now d.
     let n = sq_totp (seqs d); d1 = d\<lparr>seqs := (seqs d)\<lparr>sq_totp := n + 1\<rparr>\<rparr>;
         f = (\<lambda>c. c\<lparr>tc_secret_ciphertext := ct, tc_secret_nonce := nonce, tc_enabled_at := enabled,
                    tc_updated_at := now\<rparr>) in
     case find (\<lambda>c. tc_user_id c = i) (totp_configs d) of
       Some c \<Rightarrow> (Inr (f c), d1\<lparr>totp_configs := update_rows (\<lambda>c. tc_user_id c = i) f (totp_configs d)\<rparr>)
     | None \<Rightarrow>
         if i \<notin> user_ids d then (Inl (ErrDb (ForeignKeyViolation ''totp_configurations_user_id_fkey'')), d1)
         else (let c = \<lparr>tc_id = n, tc_user_id = i, tc_secret_ciphertext = ct, tc_secret_nonce = nonce,
                        tc_enabled_at = enabled, tc_created_at = now, tc_updated_at = now\<rparr>
               in (Inr c, d1\<lparr>totp_configs := totp_configs d @ [c]\<rparr>)))"

section \<open>OAuth accounts\<close>

definition GetOAuthAccountByProviderIdentity :: "ext \<Rightarrow> string \<Rightarrow> string \<Rightarrow> oauth_account io" where
  "GetOAuthAccountByProviderIdentity x p pid = query x ''GetOAuthAccountByProviderIdentity'' (\<lambda>now d.
     (select_one (\<lambda>a. oa_provider a = p \<and> oa_provider_user_id a = pid) (oauth_accounts d), d))"

definition GetOAuthAccountByUserIDAndProvider :: "ext \<Rightarrow> int \<Rightarrow> string \<Rightarrow> oauth_account io" where
  "GetOAuthAccountByUserIDAndProvider x i p = query x ''GetOAuthAccountByUserIDAndProvider'' (\<lambda>now d.
     (select_one (\<lambda>a. oa_user_id a = i \<and> oa_provider a = p) (oauth_accounts d), d))"

text \<open>
  The upsert is keyed on the provider identity; the second unique constraint, one account per
  user and provider, is checked against the other rows and refuses the statement.
\<close>

definition UpsertOAuthAccount ::
  "ext \<Rightarrow> int \<Rightarrow> string \<Rightarrow> string \<Rightarrow> string option \<Rightarrow> string option \<Rightarrow> time option \<Rightarrow> oauth_account io" where
  "UpsertOAuthAccount x i p pid access refresh expires = query x ''UpsertOAuthAccount'' (\<lambda>now d.
     let n = sq_oauth (seqs d); d1 = d\<lparr>seqs := (seqs d)\<lparr>sq_oauth := n + 1\<rparr>\<rparr>;
         same = (\<lambda>a. oa_provider a = p \<and> oa_provider_user_id a = pid);
         f = (\<lambda>a. a\<lparr>oa_user_id := i, oa_access_token_ciphertext := access, oa_refresh_token_ciphertext := refresh,
                    oa_token_expires_at := expires, oa_updated_at := now\<rparr>) in
     if \<exists>a \<in> set (oauth_accounts d). \<not> same a \<and> oa_user_id a = i \<and> oa_provider a = p
     then (Inl (ErrDb (UniqueViolation ''oauth_accounts_user_id_provider_key'')), d1)
     else if i \<notin> user_ids d then (Inl (ErrDb (ForeignKeyViolation ''oauth_accounts_user_id_fkey'')), d1)
     else (case find same (oauth_accounts d) of
       Some a \<Rightarrow> (Inr (f a), d1\<lparr>oauth_accounts := update_rows same f (oauth_accounts d)\<rparr>)
     | None \<Rightarrow> (let a = \<lparr>oa_id = n, oa_user_id = i, oa_provider = p, oa_provider_user_id = pid,
                        oa_access_token_ciphertext = access, oa_refresh_token_ciphertext = refresh,
                        oa_token_expires_at = expires, oa_created_at = now, oa_updated_at = now\<rparr>
                in (Inr a, d1\<lparr>oauth_accounts := oauth_accounts d @ [a]\<rparr>))))"

section \<open>Passkeys\<close>

definition CreatePasskeyCredential :: "ext \<Rightarrow> passkey_credential \<Rightarrow> passkey_credential io" where
  "CreatePasskeyCredential x arg = query x ''CreatePasskeyCredential'' (\<lambda>now d.
     let n = sq_passkeys (seqs d); d1 = d\<lparr>seqs := (seqs d)\<lparr>sq_passkeys := n + 1\<rparr>\<rparr> in
     if \<exists>p \<in> set (passkeys d). pk_credential_id p = pk_credential_id arg
     then (Inl (ErrDb (UniqueViolation ''passkey_credentials_credential_id_key'')), d1)
     else if pk_user_id arg \<notin> user_ids d
     then (Inl (ErrDb (ForeignKeyViolation ''passkey_credentials_user_id_fkey'')), d1)
     else (let p = arg\<lparr>pk_id := n, pk_created_at := now, pk_updated_at := now\<rparr>
           in (Inr p, d1\<lparr>passkeys := passkeys d @ [p]\<rparr>)))"

definition DeletePasskeyCredential :: "ext \<Rightarrow> int \<Rightarrow> int \<Rightarrow> int io" where
  "DeletePasskeyCredential x pid uid = query x ''DeletePasskeyCredential'' (\<lambda>now d.
     let hit = (\<lambda>p. pk_id p = pid \<and> pk_user_id p = uid) in
     (Inr (int (length (filter hit (passkeys d)))), d\<lparr>passkeys := filter (\<lambda>p. \<not> hit p) (passkeys d)\<rparr>))"

definition ListPasskeyCredentialsByUserID :: "ext \<Rightarrow> int \<Rightarrow> passkey_credential list io" where
  "ListPasskeyCredentialsByUserID x uid = query x ''ListPasskeyCredentialsByUserID'' (\<lambda>now d.
     (Inr (sort_key pk_id (filter (\<lambda>p. pk_user_id p = uid) (passkeys d))), d))"

definition UpdatePasskeyCredential :: "ext \<Rightarrow> passkey_credential \<Rightarrow> unit io" where
  "UpdatePasskeyCredential x arg = query x ''UpdatePasskeyCredential'' (\<lambda>now d.
     (Inr (), d\<lparr>passkeys := update_rows (\<lambda>p. pk_credential_id p = pk_credential_id arg)
        (\<lambda>p. p\<lparr>pk_credential_public_key := pk_credential_public_key arg,
               pk_attestation_type := pk_attestation_type arg, pk_aaguid := pk_aaguid arg,
               pk_sign_count := pk_sign_count arg, pk_clone_warning := pk_clone_warning arg,
               pk_transports := pk_transports arg,
               pk_name := (case pk_name arg of None \<Rightarrow> pk_name p | Some n \<Rightarrow> Some n),
               pk_credential_data := pk_credential_data arg, pk_updated_at := now\<rparr>) (passkeys d)\<rparr>))"

section \<open>The email outbox\<close>

definition DeleteFailedEmailsBefore :: "ext \<Rightarrow> time \<Rightarrow> int io" where
  "DeleteFailedEmailsBefore x before = query x ''DeleteFailedEmailsBefore'' (\<lambda>now d.
     let hit = (\<lambda>e. em_sent_at e = None \<and> em_last_error e \<noteq> None \<and> em_available_at e < before) in
     (Inr (int (length (filter hit (outbox d)))), d\<lparr>outbox := filter (\<lambda>e. \<not> hit e) (outbox d)\<rparr>))"

definition DeleteSentEmailsBefore :: "ext \<Rightarrow> time option \<Rightarrow> int io" where
  "DeleteSentEmailsBefore x before = query x ''DeleteSentEmailsBefore'' (\<lambda>now d.
     let hit = (\<lambda>e. case (em_sent_at e, before) of (Some s, Some b) \<Rightarrow> s < b | _ \<Rightarrow> False) in
     (Inr (int (length (filter hit (outbox d)))), d\<lparr>outbox := filter (\<lambda>e. \<not> hit e) (outbox d)\<rparr>))"

definition EnqueueEmail :: "ext \<Rightarrow> string \<Rightarrow> string \<Rightarrow> string \<Rightarrow> json \<Rightarrow> time \<Rightarrow> email_outbox io" where
  "EnqueueEmail x template recipient subject payload available = query x ''EnqueueEmail'' (\<lambda>now d.
     let n = sq_outbox (seqs d);
         e = \<lparr>em_id = n, em_template = template, em_recipient = recipient, em_subject = subject,
              em_payload = payload, em_available_at = available, em_sent_at = None, em_attempts = 0,
              em_last_error = None, em_created_at = now, em_updated_at = now\<rparr>
     in (Inr e, d\<lparr>seqs := (seqs d)\<lparr>sq_outbox := n + 1\<rparr>, outbox := outbox d @ [e]\<rparr>))"

definition pending :: "time \<Rightarrow> email_outbox \<Rightarrow> bool" where
  "pending now e \<longleftrightarrow> em_sent_at e = None \<and> em_available_at e \<le> now"

definition ListPendingEmails :: "ext \<Rightarrow> nat \<Rightarrow> email_outbox list io" where
  "ListPendingEmails x limit = query x ''ListPendingEmails'' (\<lambda>now d.
     (Inr (take limit (sort_key em_available_at (filter (pending now) (outbox d)))), d))"

definition MarkEmailFailed :: "ext \<Rightarrow> string option \<Rightarrow> int \<Rightarrow> int \<Rightarrow> unit io" where
  "MarkEmailFailed x error delay i = query x ''MarkEmailFailed'' (\<lambda>now d.
     if \<exists>e \<in> set (outbox d). em_id e = i \<and> 2 ^ 31 \<le> em_attempts e + 1
     then (Inl (ErrDb (OutOfRange ''integer'')), d)
     else (Inr (), d\<lparr>outbox := update_rows (\<lambda>e. em_id e = i)
        (\<lambda>e. e\<lparr>em_attempts := em_attempts e + 1, em_last_error := error,
               em_available_at := now + delay * second, em_updated_at := now\<rparr>) (outbox d)\<rparr>))"

definition MarkEmailSent :: "ext \<Rightarrow> int \<Rightarrow> unit io" where
  "MarkEmailSent x i = query x ''MarkEmailSent'' (\<lambda>now d.
     (Inr (), d\<lparr>outbox := update_rows (\<lambda>e. em_id e = i)
        (\<lambda>e. e\<lparr>em_sent_at := Some now, em_updated_at := now\<rparr>) (outbox d)\<rparr>))"

section \<open>The constraints are kept\<close>

lemma keeps_ok_table:
  "(roles_ok (user_ids d) (roles d) (user_roles d) \<Longrightarrow> roles_ok (user_ids d) (roles d) urs) \<Longrightarrow>
     keeps_ok d (d\<lparr>user_roles := urs\<rparr>)"
  "(totp_ok (user_ids d) (totp_configs d) \<Longrightarrow> totp_ok (user_ids d) cs) \<Longrightarrow>
     keeps_ok d (d\<lparr>totp_configs := cs\<rparr>)"
  "(passkeys_ok (user_ids d) (passkeys d) (sq_passkeys (seqs d)) \<Longrightarrow>
      passkeys_ok (user_ids d) ps (sq_passkeys (seqs d))) \<Longrightarrow> keeps_ok d (d\<lparr>passkeys := ps\<rparr>)"
  "(outbox_ok (outbox d) (sq_outbox (seqs d)) \<Longrightarrow> outbox_ok es (sq_outbox (seqs d))) \<Longrightarrow>
     keeps_ok d (d\<lparr>outbox := es\<rparr>)"
  by (simp_all add: keeps_ok_def db_ok_def)

lemma totp_ok_changes:
  "totp_ok ids cs \<Longrightarrow> (\<And>c. tc_user_id (f c) = tc_user_id c) \<Longrightarrow> totp_ok ids (update_rows p f cs)"
  "totp_ok ids cs \<Longrightarrow> totp_ok ids (filter p cs)"
  "totp_ok ids cs \<Longrightarrow> \<forall>b \<in> set cs. tc_user_id b \<noteq> tc_user_id c \<Longrightarrow> tc_user_id c \<in> ids \<Longrightarrow> totp_ok ids (cs @ [c])"
  by (auto simp: totp_ok_def map_key_update set_update_rows distinct_map_filter_rows)

lemma passkeys_ok_changes:
  "passkeys_ok ids ps n \<Longrightarrow> (\<And>p. pk_id (f p) = pk_id p \<and> pk_credential_id (f p) = pk_credential_id p \<and>
     pk_user_id (f p) = pk_user_id p) \<Longrightarrow> passkeys_ok ids (update_rows q f ps) n"
  "passkeys_ok ids ps n \<Longrightarrow> passkeys_ok ids (filter q ps) n"
  "passkeys_ok ids ps n \<Longrightarrow> pk_id p = n \<Longrightarrow> \<forall>r \<in> set ps. pk_credential_id r \<noteq> pk_credential_id p \<Longrightarrow>
     pk_user_id p \<in> ids \<Longrightarrow> passkeys_ok ids (ps @ [p]) (n + 1)"
  by (auto simp: passkeys_ok_def map_key_update set_update_rows distinct_map_filter_rows)

lemma outbox_ok_changes:
  "outbox_ok es n \<Longrightarrow> (\<And>e. em_id (f e) = em_id e) \<Longrightarrow>
     (\<And>e. e \<in> set es \<Longrightarrow> q e \<Longrightarrow> 0 \<le> em_attempts (f e) \<and> em_attempts (f e) < 2 ^ 31) \<Longrightarrow>
     outbox_ok (update_rows q f es) n"
  "outbox_ok es n \<Longrightarrow> outbox_ok (filter q es) n"
  "outbox_ok es n \<Longrightarrow> em_id e = n \<Longrightarrow> em_attempts e = 0 \<Longrightarrow> outbox_ok (es @ [e]) (n + 1)"
  by (auto simp: outbox_ok_def map_key_update set_update_rows distinct_map_filter_rows)

lemma rbac_ok:
  "ok.obeys (AddUserRole x i r)" "ok.obeys (GetRoleByName x n)" "ok.obeys (ListUserRoleNames x i)"
  unfolding AddUserRole_def GetRoleByName_def ListUserRoleNames_def
  by (rule ok.obeys_query, force simp: ok.Q_refl roles_ok_def intro!: keeps_ok_table)+

lemma totp_reads_ok:
  "ok.obeys (DeleteTotpConfigurationByUserID x i)" "ok.obeys (EnableTotpConfiguration x i)"
  "ok.obeys (GetTotpConfigurationByUserID x i)"
  unfolding DeleteTotpConfigurationByUserID_def EnableTotpConfiguration_def GetTotpConfigurationByUserID_def
  by (rule ok.obeys_query, auto simp: ok.Q_refl intro!: keeps_ok_table totp_ok_changes)+

lemma UpsertTotpConfiguration_ok: "ok.obeys (UpsertTotpConfiguration x i ct nonce enabled)"
  unfolding UpsertTotpConfiguration_def
  by (rule ok.obeys_query)
    (auto simp: keeps_ok_def db_ok_def Let_def find_None_iff split: option.splits intro!: totp_ok_changes)

lemma oauth_reads_ok:
  "ok.obeys (GetOAuthAccountByProviderIdentity x p pid)" "ok.obeys (GetOAuthAccountByUserIDAndProvider x i p)"
  unfolding GetOAuthAccountByProviderIdentity_def GetOAuthAccountByUserIDAndProvider_def
  by (rule ok.obeys_query, simp add: ok.Q_refl)+

lemma oauth_ok_update:
  assumes "oauth_ok ids as" and "i \<in> ids"
    and f: "\<And>a. oa_provider (f a) = oa_provider a \<and>
       oa_provider_user_id (f a) = oa_provider_user_id a \<and> oa_user_id (f a) = i"
    and free: "\<forall>a \<in> set as. oa_user_id a = i \<and> oa_provider a = p \<longrightarrow> oa_provider_user_id a = pid"
  shows "oauth_ok ids (update_rows (\<lambda>a. oa_provider a = p \<and> oa_provider_user_id a = pid) f as)"
proof -
  let ?same = "\<lambda>a. oa_provider a = p \<and> oa_provider_user_id a = pid"
  let ?u = "\<lambda>a. if ?same a then f a else a"
  let ?key = "\<lambda>a. (oa_user_id a, oa_provider a)"
  from assms(1) have d: "distinct as"
    and id: "inj_on (\<lambda>a. (oa_provider a, oa_provider_user_id a)) (set as)" and key: "inj_on ?key (set as)"
    by (auto simp: oauth_ok_def distinct_map)
  have "inj_on (?key \<circ> ?u) (set as)"
  proof (rule inj_onI)
    fix a b
    assume ab: "a \<in> set as" "b \<in> set as" "(?key \<circ> ?u) a = (?key \<circ> ?u) b"
    show "a = b"
    proof (cases "?same a \<or> ?same b")
      case True
      with ab f free have "?same a \<and> ?same b" by (auto split: if_splits)
      with id ab show ?thesis by (auto dest: inj_onD)
    next
      case False
      with key ab show ?thesis by (auto dest: inj_onD)
    qed
  qed
  with d have "distinct (map ?key (update_rows ?same f as))"
    by (simp add: update_rows_def distinct_map comp_def)
  with assms(1,2) f show ?thesis
    by (simp add: oauth_ok_def map_key_update set_update_rows ball_Un)
qed

lemma oauth_ok_insert:
  "oauth_ok ids as \<Longrightarrow> oa_user_id a \<in> ids \<Longrightarrow>
     \<forall>b \<in> set as. \<not> (oa_provider b = oa_provider a \<and> oa_provider_user_id b = oa_provider_user_id a) \<Longrightarrow>
     \<forall>b \<in> set as. \<not> (oa_user_id b = oa_user_id a \<and> oa_provider b = oa_provider a) \<Longrightarrow> oauth_ok ids (as @ [a])"
  by (auto simp: oauth_ok_def)

lemma UpsertOAuthAccount_ok: "ok.obeys (UpsertOAuthAccount x i p pid access refresh expires)"
  unfolding UpsertOAuthAccount_def
proof (rule ok.obeys_query, goal_cases)
  case (1 now d)
  show ?case
    by (auto simp: keeps_ok_def db_ok_def Let_def find_None_iff split: option.splits
        intro!: oauth_ok_update oauth_ok_insert)
qed

lemma CreatePasskeyCredential_ok: "ok.obeys (CreatePasskeyCredential x arg)"
  unfolding CreatePasskeyCredential_def
proof (rule ok.obeys_query, goal_cases)
  case (1 now d)
  have mono: "passkeys_ok ids ps n \<Longrightarrow> passkeys_ok ids ps (n + 1)" for ids ps n
    by (erule next_mono) simp
  show ?case
    by (auto simp: keeps_ok_def db_ok_def Let_def mono intro!: passkeys_ok_changes)
qed

lemma passkeys_rest_ok:
  "ok.obeys (DeletePasskeyCredential x pid uid)" "ok.obeys (ListPasskeyCredentialsByUserID x uid)"
  "ok.obeys (UpdatePasskeyCredential x arg)"
  unfolding DeletePasskeyCredential_def ListPasskeyCredentialsByUserID_def UpdatePasskeyCredential_def
  by (rule ok.obeys_query, auto simp: ok.Q_refl Let_def intro!: keeps_ok_table passkeys_ok_changes)+

lemma outbox_rest_ok:
  "ok.obeys (DeleteFailedEmailsBefore x b)" "ok.obeys (DeleteSentEmailsBefore x c)"
  "ok.obeys (ListPendingEmails x n)"
  unfolding DeleteFailedEmailsBefore_def DeleteSentEmailsBefore_def ListPendingEmails_def
  by (rule ok.obeys_query, auto simp: ok.Q_refl Let_def intro!: keeps_ok_table outbox_ok_changes)+

lemma outbox_ok_attempts: "outbox_ok es n \<Longrightarrow> e \<in> set es \<Longrightarrow> 0 \<le> em_attempts e \<and> em_attempts e < 2 ^ 31"
  by (simp add: outbox_ok_def)

lemma EnqueueEmail_ok: "ok.obeys (EnqueueEmail x template recipient subject payload available)"
  unfolding EnqueueEmail_def
  by (rule ok.obeys_query) (auto simp: keeps_ok_def db_ok_def Let_def intro!: outbox_ok_changes)

lemma MarkEmailSent_ok: "ok.obeys (MarkEmailSent x i)"
  unfolding MarkEmailSent_def
  by (rule ok.obeys_query) (auto dest: outbox_ok_attempts intro!: keeps_ok_table outbox_ok_changes)

lemma MarkEmailFailed_ok: "ok.obeys (MarkEmailFailed x error delay i)"
  unfolding MarkEmailFailed_def
  by (rule ok.obeys_query)
    (auto simp: ok.Q_refl not_le dest: outbox_ok_attempts intro!: keeps_ok_table outbox_ok_changes)

lemmas sqlc_tables_ok = rbac_ok totp_reads_ok UpsertTotpConfiguration_ok oauth_reads_ok
  UpsertOAuthAccount_ok CreatePasskeyCredential_ok passkeys_rest_ok outbox_rest_ok
  EnqueueEmail_ok MarkEmailSent_ok MarkEmailFailed_ok

lemmas sqlc_ok = sqlc_users_ok sqlc_auth_ok sqlc_tables_ok

end
