(* ===== verification/SqlcRules.thy ===== *)
theory SqlcRules
  imports SqlcTables
begin

text \<open>
  Inversion rules for the statements: when a statement returns, what it read and which world
  it leaves. \<open>runs\<close> says that the statement could be run, \<open>after\<close> is its effect.
\<close>

definition runs :: "ext \<Rightarrow> string \<Rightarrow> world \<Rightarrow> bool" where
  "runs x n w \<longleftrightarrow> x_dbfault x (CDb n # wlog w) = None"

definition after :: "string \<Rightarrow> (db \<Rightarrow> db) \<Rightarrow> world \<Rightarrow> world" where
  "after n f w = w\<lparr>wlog := CDb n # wlog w, wdb := f (wdb w)\<rparr>"

lemma after_simps [simp]:
  "wdb (after n f w) = f (wdb w)" "wlog (after n f w) = CDb n # wlog w"
  "wnow (after n f w) = wnow w" "wdbnow (after n f w) = wdbnow w"
  by (simp_all add: after_def)

named_theorems sql_inv "inversion of a statement by its result"

lemma query_after:
  "query x n f w = (Inr v, t) \<longleftrightarrow> runs x n w \<and>
     (\<exists>d. f (wdbnow w) (wdb w) = (Inr v, d) \<and> t = after n (\<lambda>_. d) w)"
  by (auto simp: query_Inr runs_def after_def)

lemma query_read:
  "query x n (\<lambda>now d. (f now d, d)) w = (Inr v, t) \<longleftrightarrow> runs x n w \<and>
     f (wdbnow w) (wdb w) = Inr v \<and> t = after n id w"
  by (auto simp: query_after after_def)

lemma query_write:
  "query x n (\<lambda>now d. (Inr (g now d), f now d)) w = (Inr v, t) \<longleftrightarrow> runs x n w \<and>
     v = g (wdbnow w) (wdb w) \<and> t = after n (f (wdbnow w)) w"
  by (auto simp: query_after after_def)

section \<open>Users\<close>

lemma GetUser_Inr [sql_inv]:
  "GetUserByEmail x email w = (Inr u, t) \<longleftrightarrow> runs x ''GetUserByEmail'' w \<and>
     find (\<lambda>u. u_email u = email) (users (wdb w)) = Some u \<and> t = after ''GetUserByEmail'' id w"
  "GetUserByID x i w = (Inr u, t) \<longleftrightarrow> runs x ''GetUserByID'' w \<and>
     find (\<lambda>u. u_id u = i) (users (wdb w)) = Some u \<and> t = after ''GetUserByID'' id w"
  "GetUserWithPasswordByEmail x email w = (Inr u, t) \<longleftrightarrow> runs x ''GetUserWithPasswordByEmail'' w \<and>
     find (\<lambda>u. u_email u = email \<and> u_password_hash u \<noteq> None) (users (wdb w)) = Some u \<and>
     t = after ''GetUserWithPasswordByEmail'' id w"
  by (simp_all add: GetUserByEmail_def GetUserByID_def GetUserWithPasswordByEmail_def query_read select_one_Inr)

lemma IncrementUserAuthVersion_Inr [sql_inv]:
  "IncrementUserAuthVersion x i w = (Inr v, t) \<longleftrightarrow> runs x ''IncrementUserAuthVersion'' w \<and>
     (\<exists>u. find (\<lambda>u. u_id u = i) (users (wdb w)) = Some u \<and> u_auth_version u + 1 < 2 ^ 63 \<and>
       v = u_auth_version u + 1) \<and>
     t = after ''IncrementUserAuthVersion''
           (update_user i (\<lambda>u. u\<lparr>u_auth_version := u_auth_version u + 1\<rparr>) (wdbnow w)) w"
  by (auto simp: IncrementUserAuthVersion_def query_after select_one_def after_def split: option.splits)

lemma SetUserPasswordHash_Inr [sql_inv]:
  "SetUserPasswordHash x i h w = (Inr v, t) \<longleftrightarrow> runs x ''SetUserPasswordHash'' w \<and>
     (\<exists>u. find (\<lambda>u. u_id u = i) (users (wdb w)) = Some u \<and>
       v = u\<lparr>u_password_hash := h, u_updated_at := wdbnow w\<rparr>) \<and>
     t = after ''SetUserPasswordHash'' (update_user i (\<lambda>u. u\<lparr>u_password_hash := h\<rparr>) (wdbnow w)) w"
  by (auto simp: SetUserPasswordHash_def query_after select_one_def after_def split: option.splits)

lemma user_writes_Inr [sql_inv]:
  "LockUserUntil x i until reason w = (Inr v, t) \<longleftrightarrow> runs x ''LockUserUntil'' w \<and>
     t = after ''LockUserUntil'' (update_user i (\<lambda>u. u\<lparr>u_locked_until := until, u_disabled_reason := reason\<rparr>) (wdbnow w)) w"
  "MarkUserEmailVerified x i w = (Inr v, t) \<longleftrightarrow> runs x ''MarkUserEmailVerified'' w \<and>
     t = after ''MarkUserEmailVerified'' (update_user i (\<lambda>u. u\<lparr>u_email_verified_at := Some (wdbnow w)\<rparr>) (wdbnow w)) w"
  "ResetLoginFailures x i w = (Inr v, t) \<longleftrightarrow> runs x ''ResetLoginFailures'' w \<and>
     t = after ''ResetLoginFailures'' (update_user i (\<lambda>u. u\<lparr>u_failed_login_count := 0, u_last_failed_login_at := None,
        u_locked_until := None, u_disabled_reason := clear_lock_reason (u_disabled_reason u)\<rparr>) (wdbnow w)) w"
  "RestoreUserAccess x i w = (Inr v, t) \<longleftrightarrow> runs x ''RestoreUserAccess'' w \<and>
     t = after ''RestoreUserAccess'' (update_user i (\<lambda>u. u\<lparr>u_is_active := True,
        u_email_verified_at := (case u_email_verified_at u of None \<Rightarrow> Some (wdbnow w) | Some t \<Rightarrow> Some t),
        u_failed_login_count := 0, u_last_failed_login_at := None, u_locked_until := None,
        u_disabled_reason := None, u_disabled_at := None\<rparr>) (wdbnow w)) w"
  "UpdateUserLastLogin x i w = (Inr v, t) \<longleftrightarrow> runs x ''UpdateUserLastLogin'' w \<and>
     t = after ''UpdateUserLastLogin'' (update_user i (\<lambda>u. u\<lparr>u_last_login_at := Some (wdbnow w), u_last_seen_at := Some (wdbnow w),
        u_failed_login_count := 0, u_last_failed_login_at := None, u_locked_until := None,
        u_disabled_reason := clear_lock_reason (u_disabled_reason u)\<rparr>) (wdbnow w)) w"
  by (simp_all add: LockUserUntil_def MarkUserEmailVerified_def ResetLoginFailures_def RestoreUserAccess_def
      UpdateUserLastLogin_def query_write)

lemma RecordFailedLogin_Inr [sql_inv]:
  "RecordFailedLogin x window i w = (Inr v, t) \<longleftrightarrow> runs x ''RecordFailedLogin'' w \<and>
     (\<exists>u. find (\<lambda>u. u_id u = i) (users (wdb w)) = Some u \<and> next_failed_count (wdbnow w) window u < 2 ^ 31 \<and>
       v = u\<lparr>u_failed_login_count := next_failed_count (wdbnow w) window u,
             u_last_failed_login_at := Some (wdbnow w), u_updated_at := wdbnow w\<rparr>) \<and>
     t = after ''RecordFailedLogin'' (update_user i (\<lambda>u. u\<lparr>u_failed_login_count := next_failed_count (wdbnow w) window u,
             u_last_failed_login_at := Some (wdbnow w)\<rparr>) (wdbnow w)) w"
  by (auto simp: RecordFailedLogin_def query_after select_one_def after_def Let_def split: option.splits)

lemma CreateUser_Inr [sql_inv]:
  "CreateUser x username email w = (Inr v, t) \<longleftrightarrow> runs x ''CreateUser'' w \<and>
     (\<forall>u \<in> set (users (wdb w)). u_username u \<noteq> username \<and> u_email u \<noteq> email) \<and>
     v = \<lparr>u_id = sq_users (seqs (wdb w)), u_username = username, u_email = email, u_password_hash = None,
          u_email_verified_at = None, u_last_login_at = None, u_last_seen_at = None,
          u_is_active = True, u_disabled_reason = None, u_disabled_at = None,
          u_failed_login_count = 0, u_locked_until = None, u_created_at = wdbnow w,
          u_updated_at = wdbnow w, u_auth_version = 1, u_last_failed_login_at = None\<rparr> \<and>
     t = after ''CreateUser'' (\<lambda>d. d\<lparr>seqs := (seqs d)\<lparr>sq_users := sq_users (seqs d) + 1\<rparr>, users := users d @ [v]\<rparr>) w"
  by (auto simp: CreateUser_def query_after after_def Let_def split: if_splits)

section \<open>Tokens\<close>

lemma ConsumeUserToken_Inr [sql_inv]:
  "ConsumeUserToken x h k w = (Inr v, t) \<longleftrightarrow> runs x ''ConsumeUserToken'' w \<and>
     (\<exists>r. find (live h k (wdbnow w)) (user_tokens (wdb w)) = Some r \<and> v = r\<lparr>t_used_at := Some (wdbnow w)\<rparr>) \<and>
     t = after ''ConsumeUserToken'' (\<lambda>d. d\<lparr>user_tokens := update_rows (live h k (wdbnow w))
           (\<lambda>t. t\<lparr>t_used_at := Some (wdbnow w)\<rparr>) (user_tokens d)\<rparr>) w"
  by (auto simp: ConsumeUserToken_def query_after select_one_def after_def split: option.splits)

lemma ConsumeUserToken_Inl:
  "ConsumeUserToken x h k w = (Inl e, t) \<longleftrightarrow>
     (\<not> runs x ''ConsumeUserToken'' w \<and> (\<exists>m. x_dbfault x (CDb ''ConsumeUserToken'' # wlog w) = Some m \<and> e = ErrDb (Unavailable m)) \<or>
      runs x ''ConsumeUserToken'' w \<and> e = ErrNoRows \<and> find (live h k (wdbnow w)) (user_tokens (wdb w)) = None) \<and>
     t = after ''ConsumeUserToken'' id w"
  by (auto simp: ConsumeUserToken_def query_Inl runs_def select_one_def after_def split: option.splits)

lemma CreateUserToken_Inr [sql_inv]:
  "CreateUserToken x i k h expires w = (Inr v, t) \<longleftrightarrow> runs x ''CreateUserToken'' w \<and>
     (\<forall>s \<in> set (user_tokens (wdb w)). t_hash s \<noteq> h) \<and> i \<in> user_ids (wdb w) \<and>
     v = \<lparr>t_id = sq_tokens (seqs (wdb w)), t_user_id = i, t_kind = k, t_hash = h, t_expires_at = expires,
          t_used_at = None, t_created_at = wdbnow w\<rparr> \<and>
     t = after ''CreateUserToken'' (\<lambda>d. d\<lparr>seqs := (seqs d)\<lparr>sq_tokens := sq_tokens (seqs d) + 1\<rparr>,
           user_tokens := user_tokens d @ [v]\<rparr>) w"
  by (auto simp: CreateUserToken_def query_after after_def Let_def split: if_splits)

lemma ExpireUserTokens_Inr [sql_inv]:
  "ExpireUserTokens x i k w = (Inr v, t) \<longleftrightarrow> runs x ''ExpireUserTokens'' w \<and>
     t = after ''ExpireUserTokens'' (\<lambda>d. d\<lparr>user_tokens := update_rows
        (\<lambda>t. t_user_id t = i \<and> t_kind t = k \<and> t_used_at t = None \<and> wdbnow w < t_expires_at t)
        (\<lambda>t. t\<lparr>t_expires_at := wdbnow w\<rparr>) (user_tokens d)\<rparr>) w"
  by (simp add: ExpireUserTokens_def query_write)

section \<open>Roles, second factors and mail\<close>

lemma role_reads_Inr [sql_inv]:
  "GetRoleByName x n w = (Inr r, t) \<longleftrightarrow> runs x ''GetRoleByName'' w \<and>
     find (\<lambda>r. role_name r = n) (roles (wdb w)) = Some r \<and> t = after ''GetRoleByName'' id w"
  "ListUserRoleNames x i w = (Inr rs, t) \<longleftrightarrow> runs x ''ListUserRoleNames'' w \<and>
     rs = role_names i (wdb w) \<and> t = after ''ListUserRoleNames'' id w"
  by (auto simp: GetRoleByName_def ListUserRoleNames_def query_read select_one_Inr)

lemma totp_Inr [sql_inv]:
  "GetTotpConfigurationByUserID x i w = (Inr c, t) \<longleftrightarrow> runs x ''GetTotpConfigurationByUserID'' w \<and>
     find (\<lambda>c. tc_user_id c = i) (totp_configs (wdb w)) = Some c \<and> t = after ''GetTotpConfigurationByUserID'' id w"
  "DeleteTotpConfigurationByUserID x i w = (Inr v, t) \<longleftrightarrow> runs x ''DeleteTotpConfigurationByUserID'' w \<and>
     t = after ''DeleteTotpConfigurationByUserID''
           (\<lambda>d. d\<lparr>totp_configs := filter (\<lambda>c. tc_user_id c \<noteq> i) (totp_configs d)\<rparr>) w"
  "EnableTotpConfiguration x i w = (Inr v, t) \<longleftrightarrow> runs x ''EnableTotpConfiguration'' w \<and>
     t = after ''EnableTotpConfiguration'' (\<lambda>d. d\<lparr>totp_configs := update_rows (\<lambda>c. tc_user_id c = i)
        (\<lambda>c. c\<lparr>tc_enabled_at := Some (wdbnow w), tc_updated_at := wdbnow w\<rparr>) (totp_configs d)\<rparr>) w"
  by (auto simp: GetTotpConfigurationByUserID_def DeleteTotpConfigurationByUserID_def
      EnableTotpConfiguration_def query_read query_write select_one_Inr)

lemma AddUserRole_Inr [sql_inv]:
  "AddUserRole x i r w = (Inr v, t) \<longleftrightarrow> runs x ''AddUserRole'' w \<and>
     (if \<exists>ur \<in> set (user_roles (wdb w)). ur_user_id ur = i \<and> ur_role_id ur = r then t = after ''AddUserRole'' id w
      else i \<in> user_ids (wdb w) \<and> r \<in> role_id ` set (roles (wdb w)) \<and>
        t = after ''AddUserRole'' (\<lambda>d. d\<lparr>user_roles := user_roles d @ [\<lparr>ur_user_id = i, ur_role_id = r, ur_created_at = wdbnow w\<rparr>]\<rparr>) w)"
  by (auto simp: AddUserRole_def query_after after_def split: if_splits)

text \<open>A read that finds no row, or a statement that cannot be run, changes nothing.\<close>

lemma reads_Inl [sql_inv]:
  "GetTotpConfigurationByUserID x i w = (Inl e, t) \<longleftrightarrow> t = after ''GetTotpConfigurationByUserID'' id w \<and>
     ((\<exists>m. x_dbfault x (CDb ''GetTotpConfigurationByUserID'' # wlog w) = Some m \<and> e = ErrDb (Unavailable m)) \<or>
      runs x ''GetTotpConfigurationByUserID'' w \<and> e = ErrNoRows \<and> (\<forall>c \<in> set (totp_configs (wdb w)). tc_user_id c \<noteq> i))"
  "GetUserByEmail x email w = (Inl e, t) \<longleftrightarrow> t = after ''GetUserByEmail'' id w \<and>
     ((\<exists>m. x_dbfault x (CDb ''GetUserByEmail'' # wlog w) = Some m \<and> e = ErrDb (Unavailable m)) \<or>
      runs x ''GetUserByEmail'' w \<and> e = ErrNoRows \<and> (\<forall>u \<in> set (users (wdb w)). u_email u \<noteq> email))"
  "GetUserByID x i w = (Inl e, t) \<longleftrightarrow> t = after ''GetUserByID'' id w \<and>
     ((\<exists>m. x_dbfault x (CDb ''GetUserByID'' # wlog w) = Some m \<and> e = ErrDb (Unavailable m)) \<or>
      runs x ''GetUserByID'' w \<and> e = ErrNoRows \<and> (\<forall>u \<in> set (users (wdb w)). u_id u \<noteq> i))"
  by (auto simp: GetTotpConfigurationByUserID_def GetUserByEmail_def GetUserByID_def query_Inl
      runs_def after_def select_one_Inl)

lemma EnqueueEmail_Inr [sql_inv]:
  "EnqueueEmail x template recipient subject payload available w = (Inr v, t) \<longleftrightarrow> runs x ''EnqueueEmail'' w \<and>
     v = \<lparr>em_id = sq_outbox (seqs (wdb w)), em_template = template, em_recipient = recipient, em_subject = subject,
          em_payload = payload, em_available_at = available, em_sent_at = None, em_attempts = 0,
          em_last_error = None, em_created_at = wdbnow w, em_updated_at = wdbnow w\<rparr> \<and>
     t = after ''EnqueueEmail'' (\<lambda>d. d\<lparr>seqs := (seqs d)\<lparr>sq_outbox := sq_outbox (seqs d) + 1\<rparr>, outbox := outbox d @ [v]\<rparr>) w"
  by (auto simp: EnqueueEmail_def query_after after_def Let_def)

end
