(* ===== verification/Database.thy ===== *)
theory Database
  imports SqlcRules
begin

text \<open>
  \<open>internal/database/database.go\<close>: the transaction wrapper every multi-statement operation of
  the service goes through, and the opening of the connection pool.
\<close>

section \<open>Transactions\<close>

definition begin_tx :: "ext \<Rightarrow> unit io" where
  "begin_tx x = query x ''BEGIN'' (\<lambda>now d. (Inr (), d))"

definition commit_tx :: "ext \<Rightarrow> unit io" where
  "commit_tx x = query x ''COMMIT'' (\<lambda>now d. (Inr (), d))"

text \<open>
  What a roll back to the database \<open>d\<close> leaves: the tables of \<open>d\<close>; the identity counters are
  not transactional and keep the values they reached.
\<close>

definition rollback_to :: "db \<Rightarrow> world \<Rightarrow> world" where
  "rollback_to d w = w\<lparr>wdb := d\<lparr>seqs := seqs (wdb w)\<rparr>\<rparr>"

text \<open>
  \<open>WithTx\<close>: the function's error is returned after the deferred roll back; a commit that is
  refused is the operation's error too, and leaves nothing.
\<close>

definition WithTx :: "ext \<Rightarrow> 'a io \<Rightarrow> 'a io" where
  "WithTx x fn = andthen (begin_tx x) (\<lambda>_ w0.
     attempt fn (\<lambda>e w. (Inl e, rollback_to (wdb w0) w))
       (\<lambda>v. attempt (commit_tx x) (\<lambda>e w. (Inl e, rollback_to (wdb w0) w)) (\<lambda>_. ret v)) w0)"

lemma begin_tx_Inr [go_inv]:
  "begin_tx x w = (Inr v, t) \<longleftrightarrow> x_dbfault x (CDb ''BEGIN'' # wlog w) = None \<and> t = w\<lparr>wlog := CDb ''BEGIN'' # wlog w\<rparr>"
  by (auto simp: begin_tx_def go_inv)

lemma begin_tx_Inl [go_inv]:
  "begin_tx x w = (Inl e, t) \<longleftrightarrow> (\<exists>m. x_dbfault x (CDb ''BEGIN'' # wlog w) = Some m \<and>
     e = ErrDb (Unavailable m) \<and> t = w\<lparr>wlog := CDb ''BEGIN'' # wlog w\<rparr>)"
  by (auto simp: begin_tx_def go_inv)

lemma commit_tx_Inr [go_inv]:
  "commit_tx x w = (Inr v, t) \<longleftrightarrow> x_dbfault x (CDb ''COMMIT'' # wlog w) = None \<and> t = w\<lparr>wlog := CDb ''COMMIT'' # wlog w\<rparr>"
  by (auto simp: commit_tx_def go_inv)

lemma commit_tx_Inl [go_inv]:
  "commit_tx x w = (Inl e, t) \<longleftrightarrow> (\<exists>m. x_dbfault x (CDb ''COMMIT'' # wlog w) = Some m \<and>
     e = ErrDb (Unavailable m) \<and> t = w\<lparr>wlog := CDb ''COMMIT'' # wlog w\<rparr>)"
  by (auto simp: commit_tx_def go_inv)

text \<open>A successful transaction is a successful run of its function on the same tables.\<close>

lemma WithTx_Inr:
  "WithTx x fn w = (Inr v, t) \<longleftrightarrow>
     x_dbfault x (CDb ''BEGIN'' # wlog w) = None \<and>
     (\<exists>u. fn (w\<lparr>wlog := CDb ''BEGIN'' # wlog w\<rparr>) = (Inr v, u) \<and>
          x_dbfault x (CDb ''COMMIT'' # wlog u) = None \<and> t = u\<lparr>wlog := CDb ''COMMIT'' # wlog u\<rparr>)"
  by (auto simp: WithTx_def go_inv rollback_to_def)

lemma WithTx_Inl_tables:
  assumes "WithTx x fn w = (Inl e, t)"
  shows "(wdb t)\<lparr>seqs := seqs (wdb w)\<rparr> = wdb w"
proof -
  from assms consider "wdb t = wdb w" | u where "t = rollback_to (wdb w) u"
    by (fastforce simp: WithTx_def go_inv)
  then show ?thesis by cases (simp_all add: rollback_to_def)
qed

lemma WithTx_cases:
  assumes "WithTx x fn w = (r, t)"
  obtains "t = w\<lparr>wlog := CDb ''BEGIN'' # wlog w\<rparr>"
    | r' u where "fn (w\<lparr>wlog := CDb ''BEGIN'' # wlog w\<rparr>) = (r', u)" "t = rollback_to (wdb w) u"
    | r' u where "fn (w\<lparr>wlog := CDb ''BEGIN'' # wlog w\<rparr>) = (r', u)" "t = u\<lparr>wlog := CDb ''COMMIT'' # wlog u\<rparr>"
    | r' u where "fn (w\<lparr>wlog := CDb ''BEGIN'' # wlog w\<rparr>) = (r', u)"
        "t = rollback_to (wdb w) (u\<lparr>wlog := CDb ''COMMIT'' # wlog u\<rparr>)"
proof (cases r)
  case (Inr v)
  with assms that(3) show ?thesis by (auto simp: WithTx_Inr)
next
  case (Inl e)
  with assms that(1,2,4) show ?thesis by (auto simp: WithTx_def go_inv)
qed

context io_frame
begin

lemma obeys_WithTx:
  assumes "obeys fn"
  shows "obeys (WithTx x fn)"
proof (rule framedI)
  fix w r t
  assume run: "WithTx x fn w = (r, t)"
  let ?w0 = "w\<lparr>wlog := CDb ''BEGIN'' # wlog w\<rparr>"
  have fn: "R w u" if "fn ?w0 = (r', u)" for r' u
    using framedD [OF assms that] R_call trans by blast
  have commit: "R w (u\<lparr>wlog := c # wlog u\<rparr>)" if "R w u" for u c
    using that R_call trans by blast
  from run show "R w t"
    by (cases rule: WithTx_cases) (auto simp: rollback_to_def R_call dest!: fn intro: commit R_rollback dest: R_rollback [OF commit])
qed

end

section \<open>Opening the pool\<close>

record pool =
  pool_url :: string
  pool_max_open :: int
  pool_max_idle :: int
  pool_max_lifetime :: duration
  pool_max_idle_time :: duration
  pool_closed :: bool

text \<open>
  \<open>Open\<close>, given the outcomes of \<open>sql.Open\<close> and of the ping, which has five seconds. On a
  failed ping the handle is closed. The second component is the handle that was made.
\<close>

definition Open :: "(string \<Rightarrow> err option) \<Rightarrow> (pool \<Rightarrow> duration \<Rightarrow> err option) \<Rightarrow> database_config \<Rightarrow>
    (err + pool) \<times> pool option" where
  "Open sql_open ping cfg =
     (case sql_open (database_url cfg) of
        Some e \<Rightarrow> (Inl (Wrapped ''open database handle'' e), None)
      | None \<Rightarrow>
          let p = \<lparr>pool_url = database_url cfg, pool_max_open = database_max_open_conns cfg,
                   pool_max_idle = database_max_idle_conns cfg,
                   pool_max_lifetime = database_conn_max_lifetime cfg,
                   pool_max_idle_time = database_conn_max_idle_time cfg, pool_closed = False\<rparr> in
          (case ping p (5 * second) of
             Some e \<Rightarrow> (Inl (Wrapped ''ping database'' e), Some (p\<lparr>pool_closed := True\<rparr>))
           | None \<Rightarrow> (Inr p, Some p)))"

end
