(* ===== verification/Crypto.thy ===== *)
theory Crypto
  imports Database
begin

text \<open>
  \<open>internal/auth/crypto.go\<close>, \<open>password.go\<close> and \<open>tokens.go\<close>: sealing of stored secrets,
  password hashing and the random tokens sent by email.
\<close>

section \<open>Sealing secrets\<close>

text \<open>The cipher is determined by its key: the first 32 bytes of the configured one.\<close>

definition newGCM :: "string \<Rightarrow> err + string" where
  "newGCM key = (if length key < 32 then Inl ErrInvalidEncryptionKey else Inr (take 32 key))"

definition gcm_nonce_size :: nat where
  "gcm_nonce_size = 12"

definition encryptSecret :: "ext \<Rightarrow> string \<Rightarrow> string \<Rightarrow> (string \<times> string) io" where
  "encryptSecret x secret key =
     andthen (lift (newGCM key)) (\<lambda>k.
     andthen (rand_Read x gcm_nonce_size) (\<lambda>nonce.
     ret (x_aead_seal x k nonce secret, nonce)))"

text \<open>A nonce of the wrong length makes the cipher panic.\<close>

definition gcm_panic :: err where
  "gcm_panic = ErrText ''panic: crypto/cipher: incorrect nonce length given to GCM''"

definition decryptSecret :: "ext \<Rightarrow> string \<Rightarrow> string \<Rightarrow> string \<Rightarrow> err + string" where
  "decryptSecret x ciphertext nonce key =
     (case newGCM key of
        Inl e \<Rightarrow> Inl e
      | Inr k \<Rightarrow> if length nonce \<noteq> gcm_nonce_size then Inl gcm_panic
                 else (case x_aead_open x k nonce ciphertext of
                         None \<Rightarrow> Inl (ErrText ''cipher: message authentication failed'')
                       | Some plain \<Rightarrow> Inr plain))"

text \<open>What the code relies on: a successful read fills the buffer, and opening inverts sealing.\<close>

definition rand_fills :: "ext \<Rightarrow> bool" where
  "rand_fills x \<longleftrightarrow> (\<forall>l n s. x_rand x l n = Some s \<longrightarrow> length s = n)"

definition aead_opens :: "ext \<Rightarrow> bool" where
  "aead_opens x \<longleftrightarrow> (\<forall>k n p. length k = 32 \<longrightarrow> length n = gcm_nonce_size \<longrightarrow>
     x_aead_open x k n (x_aead_seal x k n p) = Some p)"

lemma rand_Read_length:
  "rand_fills x \<Longrightarrow> rand_Read x n w = (Inr s, t) \<Longrightarrow> length s = n"
  by (auto simp: rand_fills_def rand_Read_def extern_def split: option.splits)

lemma newGCM_Inr: "newGCM key = Inr k \<longleftrightarrow> 32 \<le> length key \<and> k = take 32 key"
  by (auto simp: newGCM_def)

lemma encryptSecret_Inr:
  "encryptSecret x secret key w = (Inr (ct, nonce), t) \<longleftrightarrow> 32 \<le> length key \<and>
     rand_Read x gcm_nonce_size w = (Inr nonce, t) \<and> ct = x_aead_seal x (take 32 key) nonce secret"
  by (auto simp: encryptSecret_def go_inv newGCM_Inr)

lemma decrypt_encrypt:
  assumes "rand_fills x" and "aead_opens x"
    and "encryptSecret x secret key w = (Inr (ct, nonce), t)"
  shows "decryptSecret x ct nonce key = Inr secret"
proof -
  from assms(3) have k: "32 \<le> length key" "ct = x_aead_seal x (take 32 key) nonce secret"
    and r: "rand_Read x gcm_nonce_size w = (Inr nonce, t)" by (simp_all add: encryptSecret_Inr)
  from rand_Read_length [OF assms(1) r] k assms(2) show ?thesis
    by (simp add: decryptSecret_def newGCM_def aead_opens_def)
qed

section \<open>Passwords\<close>

definition HashPassword :: "ext \<Rightarrow> string \<Rightarrow> string io" where
  "HashPassword x password =
     (if length (trim_space password) < 12 then fail ErrWeakPassword
      else extern (CArgonHash password) (\<lambda>l. x_argon_hash x l password))"

definition ComparePassword :: "ext \<Rightarrow> string \<Rightarrow> string \<Rightarrow> err + bool" where
  "ComparePassword x password hash = x_argon_compare x password hash"

definition compareWithInvalidCredentialsSentinel :: "ext \<Rightarrow> string \<Rightarrow> err option" where
  "compareWithInvalidCredentialsSentinel x password =
     (case ComparePassword x password (x_sentinel_hash x) of Inl e \<Rightarrow> Some e | Inr _ \<Rightarrow> None)"

text \<open>What the code relies on: verification of a created hash is verification of its password.\<close>

definition argon_sound :: "ext \<Rightarrow> bool" where
  "argon_sound x \<longleftrightarrow> (\<forall>l p q h. x_argon_hash x l p = Inr h \<longrightarrow> x_argon_compare x q h = Inr (q = p))"

lemma HashPassword_Inr:
  "HashPassword x p w = (Inr h, t) \<longleftrightarrow> 12 \<le> length (trim_space p) \<and>
     x_argon_hash x (CArgonHash p # wlog w) p = Inr h \<and> t = w\<lparr>wlog := CArgonHash p # wlog w\<rparr>"
  by (auto simp: HashPassword_def go_inv)

lemma HashPassword_weak: "HashPassword x p w = (Inl e, t) \<Longrightarrow> 12 \<le> length (trim_space p) \<Longrightarrow>
    x_argon_hash x (CArgonHash p # wlog w) p = Inl e"
  by (auto simp: HashPassword_def go_inv)

section \<open>Tokens\<close>

definition HashToken :: "ext \<Rightarrow> string \<Rightarrow> string" where
  "HashToken x token = hex_encode (x_sha256 x token)"

definition NewToken :: "ext \<Rightarrow> (string \<times> string) io" where
  "NewToken x = andthen (rand_Read x 32) (\<lambda>raw.
     let plain = b64url raw in ret (plain, hex_encode (x_sha256 x plain)))"

lemma NewToken_Inr:
  "NewToken x w = (Inr (plain, h), t) \<longleftrightarrow>
     (\<exists>raw. rand_Read x 32 w = (Inr raw, t) \<and> plain = b64url raw) \<and> h = HashToken x plain"
  by (auto simp: NewToken_def HashToken_def go_inv Let_def)

lemma NewToken_length: "rand_fills x \<Longrightarrow> NewToken x w = (Inr (plain, h), t) \<Longrightarrow> length plain = 43"
  by (auto simp: NewToken_Inr dest: rand_Read_length)

context io_frame
begin

lemma obeys_crypto:
  "obeys (encryptSecret x s k)" "obeys (HashPassword x p)" "obeys (NewToken x)"
  unfolding encryptSecret_def HashPassword_def NewToken_def
  by (intro obeys_intros)+

lemmas obeys_basics = obeys_intros obeys_WithTx obeys_crypto

end

end
