(* ===== verification/Accounts.thy ===== *)
theory Accounts
  imports Crypto
begin

text \<open>
  \<open>internal/auth/service.go\<close>: registration, password login with rate limiting, lockout and the
  second factor, the flows started by an emailed token, and session validation. The OAuth and
  passkey entry points of the same file are in their own theories.
\<close>

section \<open>The service\<close>

record oauth_client =
  oc_name :: string
  oc_config :: provider_config

record service =
  sv_cfg :: config
  sv_limit :: bucket_config
  sv_oauth :: "string \<rightharpoonup> oauth_client"

record principal =
  p_user_id :: int
  p_username :: string
  p_email :: string
  p_roles :: "string list"
  p_totp_enabled :: bool
  p_verified :: bool
  p_auth_version :: int

record totp_setup =
  ts_secret :: string
  ts_issuer :: string
  ts_account :: string
  ts_url :: string

record register_input =
  ri_username :: string
  ri_email :: string
  ri_password :: string

record login_input =
  li_email :: string
  li_password :: string
  li_totp_code :: string
  li_ip_address :: string
  li_user_agent :: string

definition seconds_of :: "duration \<Rightarrow> rat" where
  "seconds_of d = of_int d / 1000000000"

definition login_bucket :: "int \<Rightarrow> duration \<Rightarrow> bucket_config" where
  "login_bucket n window = \<lparr>bc_capacity = of_int n, bc_refill_per_second = of_int n / seconds_of window,
     bc_cost_per_request = 1, bc_deny_retry_floor = second\<rparr>"

abbreviation sv_security :: "service \<Rightarrow> security_config" where
  "sv_security s \<equiv> cfg_security (sv_cfg s)"

text \<open>
  \<open>NewService\<close>, given the outcome of creating the limiter's table and of the WebAuthn
  library's own check, and the clients built from the OAuth configuration.
\<close>

definition NewService :: "err option \<Rightarrow> err option \<Rightarrow> (config \<Rightarrow> string \<rightharpoonup> oauth_client) \<Rightarrow> config \<Rightarrow> err + service" where
  "NewService limiter_init wa_new clients c =
     (let n = sec_failed_login_threshold (cfg_security c); window = sec_failed_login_window (cfg_security c) in
      if n \<le> 0 then Inl (ErrText ''security.failed_login_threshold must be greater than zero'')
      else if window \<le> 0 then Inl (ErrText ''security.failed_login_window must be greater than zero'')
      else (case limiter_init of Some e \<Rightarrow> Inl (Wrapped ''init rate limiter'' e)
        | None \<Rightarrow> (case wa_new of Some e \<Rightarrow> Inl (Wrapped ''init webauthn'' e)
        | None \<Rightarrow> Inr \<lparr>sv_cfg = c, sv_limit = login_bucket n window, sv_oauth = clients c\<rparr>)))"

section \<open>Helpers\<close>

definition normalize :: "ext \<Rightarrow> string \<Rightarrow> string" where
  "normalize x s = to_lower (x_lower x) (trim_space s)"

definition null_string :: "string option \<Rightarrow> string" where
  "null_string v = (case v of None \<Rightarrow> '''' | Some s \<Rightarrow> s)"

text \<open>\<open>json.Marshal\<close> of a Go map writes the keys in order.\<close>

definition token_payload :: "string \<Rightarrow> string \<Rightarrow> json" where
  "token_payload token email = JObj [(''email'', JStr email), (''token'', JStr token)]"

definition locked_at :: "user \<Rightarrow> time \<Rightarrow> bool" where
  "locked_at u now = (case u_locked_until u of None \<Rightarrow> False | Some t \<Rightarrow> now < t)"

definition principalFromUser :: "user \<Rightarrow> string list \<Rightarrow> principal" where
  "principalFromUser u rs = \<lparr>p_user_id = u_id u, p_username = u_username u, p_email = u_email u, p_roles = rs,
     p_totp_enabled = False, p_verified = (u_email_verified_at u \<noteq> None), p_auth_version = u_auth_version u\<rparr>"

definition validateUserAccount :: "user \<Rightarrow> unit io" where
  "validateUserAccount u =
     (if \<not> u_is_active u then fail ErrAccountDisabled
      else andthen time_Now (\<lambda>now.
        if locked_at u now then fail ErrAccountLocked
        else if u_email_verified_at u = None then fail ErrEmailUnverified
        else ret ()))"

definition userAccountIsUsable :: "user \<Rightarrow> time \<Rightarrow> bool" where
  "userAccountIsUsable u now \<longleftrightarrow> u_is_active u \<and> (u_locked_until u = None \<or> \<not> locked_at u now) \<and>
     u_email_verified_at u \<noteq> None"

definition principalWithFactors :: "ext \<Rightarrow> user \<Rightarrow> string list \<Rightarrow> principal io" where
  "principalWithFactors x u rs =
     (let p = principalFromUser u rs in
      attempt (GetTotpConfigurationByUserID x (u_id u))
        (\<lambda>e. if errors_is e ErrNoRows then ret p else fail e)
        (\<lambda>c. if tc_enabled_at c \<noteq> None then ret (p\<lparr>p_totp_enabled := True\<rparr>) else ret p))"

definition completeUserAuthentication :: "ext \<Rightarrow> int \<Rightarrow> bool \<Rightarrow> principal io" where
  "completeUserAuthentication x i updateLastLogin =
     andthen (GetUserByID x i) (\<lambda>u.
     andthen (validateUserAccount u) (\<lambda>_.
     andthen (if updateLastLogin then andthen (UpdateUserLastLogin x i) (\<lambda>_. GetUserByID x i) else ret u) (\<lambda>u.
     andthen (ListUserRoleNames x i) (\<lambda>rs.
     principalWithFactors x u rs))))"

section \<open>Registration\<close>

definition immediateEmailAvailableAt :: "time io" where
  "immediateEmailAvailableAt = andthen time_Now (\<lambda>now. ret (now - second))"

text \<open>The function that the transaction runs.\<close>

definition registerTx :: "ext \<Rightarrow> service \<Rightarrow> string \<Rightarrow> string \<Rightarrow> string \<Rightarrow> string \<Rightarrow> string \<Rightarrow> principal io" where
  "registerTx x s username email passwordHash plainToken tokenHash =
     andthen (CreateUser x username email) (\<lambda>u.
     andthen (SetUserPasswordHash x (u_id u) (Some passwordHash)) (\<lambda>_.
     andthen (GetRoleByName x ''user'') (\<lambda>r.
     andthen (AddUserRole x (u_id u) (role_id r)) (\<lambda>_.
     andthen time_Now (\<lambda>now.
     andthen (CreateUserToken x (u_id u) EmailVerification tokenHash
                (now + sec_email_verification_ttl (sv_security s))) (\<lambda>_.
     andthen immediateEmailAvailableAt (\<lambda>available.
     andthen (EnqueueEmail x ''verify-email'' (u_email u) ''Verify your account''
                (token_payload plainToken (u_email u)) available) (\<lambda>_.
     andthen (ListUserRoleNames x (u_id u)) (\<lambda>rs.
     ret (principalFromUser u rs))))))))))"

definition Register :: "ext \<Rightarrow> service \<Rightarrow> register_input \<Rightarrow> principal io" where
  "Register x s inp =
     (let username = normalize x (ri_username inp); email = normalize x (ri_email inp) in
      andthen (HashPassword x (ri_password inp)) (\<lambda>passwordHash.
      attempt (NewToken x) (\<lambda>e. fail (Wrapped ''create verification token'' e)) (\<lambda>(plainToken, tokenHash).
      WithTx x (registerTx x s username email passwordHash plainToken tokenHash))))"

section \<open>Password login\<close>

definition login_email_key :: "string \<Rightarrow> string" where
  "login_email_key email = ''login:email:'' @ email"

definition login_ip_key :: "string \<Rightarrow> string" where
  "login_ip_key ip = ''login:ip:'' @ ip"

definition limiter_Allow :: "ext \<Rightarrow> string \<Rightarrow> bucket_config \<Rightarrow> decision io" where
  "limiter_Allow x key b = extern (CLimiter key b) (\<lambda>l. x_limiter x l key b)"

definition enforceRateLimit :: "ext \<Rightarrow> service \<Rightarrow> string \<Rightarrow> string \<Rightarrow> unit io" where
  "enforceRateLimit x s email ip =
     andthen (limiter_Allow x (login_email_key email) (sv_limit s)) (\<lambda>d.
     if \<not> dec_allowed d then fail (RateLimitError (dec_retry_after d))
     else if ip = '''' then ret ()
     else andthen (limiter_Allow x (login_ip_key ip)
            (login_bucket (wrap64 (sec_failed_login_threshold (sv_security s) * 4))
               (sec_failed_login_window (sv_security s)))) (\<lambda>d.
          if \<not> dec_allowed d then fail (RateLimitError (dec_retry_after d)) else ret ()))"

definition handleFailedLogin :: "ext \<Rightarrow> service \<Rightarrow> user \<Rightarrow> unit io" where
  "handleFailedLogin x s u =
     (let windowSeconds = max 1 (trunc_div (sec_failed_login_window (sv_security s)) second) in
      andthen (RecordFailedLogin x windowSeconds (u_id u)) (\<lambda>updated.
      if sec_failed_login_threshold (sv_security s) \<le> u_failed_login_count updated
      then andthen time_Now (\<lambda>now.
             LockUserUntil x (u_id u) (Some (now + sec_failed_login_window (sv_security s)))
               (Some ''failed_login_attempts''))
      else ret ()))"

definition validateTOTPCode :: "ext \<Rightarrow> string \<Rightarrow> string \<Rightarrow> bool io" where
  "validateTOTPCode x secret code = andthen time_Now (\<lambda>now.
     ret (case x_totp_validate x code secret now of Inl _ \<Rightarrow> False | Inr valid \<Rightarrow> valid))"

definition validateSecondFactor :: "ext \<Rightarrow> service \<Rightarrow> int \<Rightarrow> string \<Rightarrow> unit io" where
  "validateSecondFactor x s i code =
     attempt (GetTotpConfigurationByUserID x i)
       (\<lambda>e. if errors_is e ErrNoRows then ret () else fail e)
       (\<lambda>c. if tc_enabled_at c = None then ret ()
            else andthen (lift (decryptSecret x (tc_secret_ciphertext c) (tc_secret_nonce c)
                     (sec_encryption_key (sv_security s)))) (\<lambda>secret.
                 if code = '''' then fail ErrTOTPRequired
                 else andthen (validateTOTPCode x secret code) (\<lambda>valid.
                   if \<not> valid then fail ErrInvalidTOTP else ret ())))"

definition LoginWithPassword :: "ext \<Rightarrow> service \<Rightarrow> login_input \<Rightarrow> principal io" where
  "LoginWithPassword x s inp =
     (let email = normalize x (li_email inp) in
      andthen (enforceRateLimit x s email (li_ip_address inp)) (\<lambda>_.
      attempt (GetUserWithPasswordByEmail x email)
        (\<lambda>e. if errors_is e ErrNoRows
             then (case compareWithInvalidCredentialsSentinel x (li_password inp) of
                     Some e' \<Rightarrow> fail e' | None \<Rightarrow> fail ErrInvalidCredentials)
             else fail e)
        (\<lambda>u.
      andthen (lift (ComparePassword x (li_password inp) (null_string (u_password_hash u)))) (\<lambda>matched.
      if \<not> u_is_active u then fail ErrAccountDisabled
      else andthen time_Now (\<lambda>now.
      if locked_at u now then fail ErrAccountLocked
      else if u_email_verified_at u = None then fail ErrEmailUnverified
      else if \<not> matched then andthen (handleFailedLogin x s u) (\<lambda>_. fail ErrInvalidCredentials)
      else attempt (validateSecondFactor x s (u_id u) (li_totp_code inp))
             (\<lambda>e. andthen (handleFailedLogin x s u) (\<lambda>_. fail e))
             (\<lambda>_. completeUserAuthentication x (u_id u) True))))))"

section \<open>Two-factor setup\<close>

definition BeginTOTPSetup :: "ext \<Rightarrow> service \<Rightarrow> int \<Rightarrow> totp_setup io" where
  "BeginTOTPSetup x s i =
     andthen (GetUserByID x i) (\<lambda>u.
     andthen (attempt (GetTotpConfigurationByUserID x i)
                (\<lambda>e. if errors_is e ErrNoRows then ret () else fail e)
                (\<lambda>c. if tc_enabled_at c \<noteq> None then fail ErrTOTPAlreadyEnabled else ret ())) (\<lambda>_.
     let issuer = sec_totp_issuer (sv_security s) in
     attempt (extern (CTotpGenerate issuer (u_email u)) (\<lambda>l. x_totp_generate x l issuer (u_email u)))
       (\<lambda>e. fail (Wrapped ''generate totp secret'' e)) (\<lambda>(secret, url).
     andthen (encryptSecret x secret (sec_encryption_key (sv_security s))) (\<lambda>(ciphertext, nonce).
     andthen (UpsertTotpConfiguration x i ciphertext nonce None) (\<lambda>_.
     ret \<lparr>ts_secret = secret, ts_issuer = issuer, ts_account = u_email u, ts_url = url\<rparr>)))))"

definition ConfirmTOTPSetup :: "ext \<Rightarrow> service \<Rightarrow> int \<Rightarrow> string \<Rightarrow> unit io" where
  "ConfirmTOTPSetup x s i code =
     andthen (GetTotpConfigurationByUserID x i) (\<lambda>c.
     andthen (lift (decryptSecret x (tc_secret_ciphertext c) (tc_secret_nonce c)
        (sec_encryption_key (sv_security s)))) (\<lambda>secret.
     andthen (validateTOTPCode x secret code) (\<lambda>valid.
     if \<not> valid then fail ErrInvalidTOTP
     else WithTx x (EnableTotpConfiguration x i))))"

definition DisableTOTP :: "ext \<Rightarrow> int \<Rightarrow> unit io" where
  "DisableTOTP x i = WithTx x (DeleteTotpConfigurationByUserID x i)"

section \<open>Flows started by an emailed token\<close>

text \<open>The first step they share: a token that cannot be consumed is a failed request.\<close>

definition consume_or_fail :: "ext \<Rightarrow> token_kind \<Rightarrow> string \<Rightarrow> user_token io" where
  "consume_or_fail x k token =
     attempt (ConsumeUserToken x (HashToken x (trim_space token)) k)
       (\<lambda>e. if errors_is e ErrNoRows then fail ErrRequestFailed else fail e) ret"

definition VerifyEmail :: "ext \<Rightarrow> string \<Rightarrow> unit io" where
  "VerifyEmail x token = WithTx x
     (andthen (consume_or_fail x EmailVerification token) (\<lambda>t. MarkUserEmailVerified x (t_user_id t)))"

definition RecoverAccount :: "ext \<Rightarrow> string \<Rightarrow> string \<Rightarrow> unit io" where
  "RecoverAccount x token password =
     andthen (HashPassword x password) (\<lambda>passwordHash.
     WithTx x
       (andthen (consume_or_fail x AccountRecovery token) (\<lambda>t.
        andthen (SetUserPasswordHash x (t_user_id t) (Some passwordHash)) (\<lambda>_.
        andthen (RestoreUserAccess x (t_user_id t)) (\<lambda>_.
        andthen (DeleteTotpConfigurationByUserID x (t_user_id t)) (\<lambda>_.
        andthen (IncrementUserAuthVersion x (t_user_id t)) (\<lambda>_. ret ())))))))"

definition ResetPassword :: "ext \<Rightarrow> string \<Rightarrow> string \<Rightarrow> unit io" where
  "ResetPassword x token password =
     andthen (HashPassword x password) (\<lambda>passwordHash.
     WithTx x
       (andthen (consume_or_fail x PasswordReset token) (\<lambda>t.
        andthen (SetUserPasswordHash x (t_user_id t) (Some passwordHash)) (\<lambda>_.
        andthen (IncrementUserAuthVersion x (t_user_id t)) (\<lambda>_.
        ResetLoginFailures x (t_user_id t))))))"

record token_email_request =
  te_kind :: token_kind
  te_ttl :: duration
  te_template :: string
  te_subject :: string
  te_only_unverified :: bool

definition requestTokenEmail :: "ext \<Rightarrow> string \<Rightarrow> token_email_request \<Rightarrow> unit io" where
  "requestTokenEmail x email rq =
     attempt (GetUserByEmail x (normalize x email))
       (\<lambda>e. if errors_is e ErrNoRows then ret () else fail e) (\<lambda>u.
     if te_only_unverified rq \<and> u_email_verified_at u \<noteq> None then ret ()
     else andthen (NewToken x) (\<lambda>(plainToken, tokenHash).
       let payload = token_payload plainToken (u_email u) in
       WithTx x
         (andthen (ExpireUserTokens x (u_id u) (te_kind rq)) (\<lambda>_.
          andthen time_Now (\<lambda>now.
          andthen (CreateUserToken x (u_id u) (te_kind rq) tokenHash (now + te_ttl rq)) (\<lambda>_.
          andthen immediateEmailAvailableAt (\<lambda>available.
          andthen (EnqueueEmail x (te_template rq) (u_email u) (te_subject rq) payload available) (\<lambda>_. ret ()))))))))"

definition RequestPasswordReset :: "ext \<Rightarrow> service \<Rightarrow> string \<Rightarrow> unit io" where
  "RequestPasswordReset x s email = requestTokenEmail x email
     \<lparr>te_kind = PasswordReset, te_ttl = sec_password_reset_ttl (sv_security s),
      te_template = ''password-reset'', te_subject = ''Reset your password'', te_only_unverified = False\<rparr>"

definition RequestAccountRecovery :: "ext \<Rightarrow> service \<Rightarrow> string \<Rightarrow> unit io" where
  "RequestAccountRecovery x s email = requestTokenEmail x email
     \<lparr>te_kind = AccountRecovery, te_ttl = sec_recovery_ttl (sv_security s),
      te_template = ''account-recovery'', te_subject = ''Recover your account'', te_only_unverified = False\<rparr>"

definition RequestEmailVerification :: "ext \<Rightarrow> service \<Rightarrow> string \<Rightarrow> unit io" where
  "RequestEmailVerification x s email = requestTokenEmail x email
     \<lparr>te_kind = EmailVerification, te_ttl = sec_email_verification_ttl (sv_security s),
      te_template = ''verify-email'', te_subject = ''Verify your account'', te_only_unverified = True\<rparr>"

section \<open>Sessions\<close>

definition CurrentUser :: "ext \<Rightarrow> int \<Rightarrow> principal io" where
  "CurrentUser x i = (if i = 0 then fail ErrUnauthorized else completeUserAuthentication x i False)"

definition ValidateSession :: "ext \<Rightarrow> int \<Rightarrow> int \<Rightarrow> bool io" where
  "ValidateSession x i version =
     (if i = 0 \<or> version = 0 then ret False
      else attempt (GetUserByID x i)
        (\<lambda>e. if errors_is e ErrNoRows then ret False else fail e)
        (\<lambda>u. andthen time_Now (\<lambda>now.
          if \<not> userAccountIsUsable u now then ret False
          else ret (u_auth_version u = version))))"

definition UserRoleNames :: "ext \<Rightarrow> int \<Rightarrow> string list io" where
  "UserRoleNames x i =
     (if i = 0 then fail ErrUnauthorized
      else andthen (GetUserByID x i) (\<lambda>u. andthen (validateUserAccount u) (\<lambda>_. ListUserRoleNames x i)))"

end
