(* ===== verification/AccountFlows.thy ===== *)
theory AccountFlows
  imports Accounts
begin

text \<open>
  What the operations of \<open>Accounts\<close> do, seen through a small abstract view of the store: who
  is a usable user, which second factor is on, which session a browser holds is valid.
\<close>

section \<open>The abstract view\<close>

definition user_at :: "int \<Rightarrow> db \<Rightarrow> user option" where
  "user_at i d = find (\<lambda>u. u_id u = i) (users d)"

definition totp_at :: "int \<Rightarrow> db \<Rightarrow> totp_configuration option" where
  "totp_at i d = find (\<lambda>c. tc_user_id c = i) (totp_configs d)"

definition totp_enabled :: "int \<Rightarrow> db \<Rightarrow> bool" where
  "totp_enabled i d = (case totp_at i d of None \<Rightarrow> False | Some c \<Rightarrow> tc_enabled_at c \<noteq> None)"

definition session_valid :: "db \<Rightarrow> time \<Rightarrow> int \<Rightarrow> int \<Rightarrow> bool" where
  "session_valid d now i version \<longleftrightarrow> i \<noteq> 0 \<and> version \<noteq> 0 \<and>
     (case user_at i d of None \<Rightarrow> False
      | Some u \<Rightarrow> userAccountIsUsable u now \<and> u_auth_version u = version)"

lemma user_atD: "user_at i d = Some u \<Longrightarrow> u \<in> set (users d) \<and> u_id u = i"
  by (auto simp: user_at_def dest: find_SomeD)

lemma user_at_update_user:
  "tame f \<Longrightarrow> user_at j (update_user i f now d) =
     map_option (\<lambda>u. if u_id u = i then (f u)\<lparr>u_updated_at := now\<rparr> else u) (user_at j d)"
  unfolding user_at_def update_user_def by (simp add: find_update_rows tame_def)

lemma user_at_update_same:
  "tame f \<Longrightarrow> user_at i (update_user i f now d) = map_option (\<lambda>u. (f u)\<lparr>u_updated_at := now\<rparr>) (user_at i d)"
  by (cases "user_at i d") (auto simp: user_at_update_user dest: user_atD)

lemma user_at_update_other:
  "tame f \<Longrightarrow> j \<noteq> i \<Longrightarrow> user_at j (update_user i f now d) = user_at j d"
  by (cases "user_at j d") (auto simp: user_at_update_user dest: user_atD)

lemma update_user_frame [simp]:
  "user_tokens (update_user i f now d) = user_tokens d" "totp_configs (update_user i f now d) = totp_configs d"
  "roles (update_user i f now d) = roles d" "user_roles (update_user i f now d) = user_roles d"
  "passkeys (update_user i f now d) = passkeys d" "oauth_accounts (update_user i f now d) = oauth_accounts d"
  "outbox (update_user i f now d) = outbox d" "seqs (update_user i f now d) = seqs d"
  by (simp_all add: update_user_def)

lemma user_at_frame [simp]:
  "user_at i (d\<lparr>passkeys := a\<rparr>) = user_at i d" "user_at i (d\<lparr>oauth_accounts := b\<rparr>) = user_at i d"
  "user_at i (d\<lparr>totp_configs := c\<rparr>) = user_at i d" "user_at i (d\<lparr>user_tokens := e\<rparr>) = user_at i d"
  "user_at i (d\<lparr>roles := f\<rparr>) = user_at i d" "user_at i (d\<lparr>user_roles := g\<rparr>) = user_at i d"
  "user_at i (d\<lparr>outbox := h\<rparr>) = user_at i d" "user_at i (d\<lparr>seqs := q\<rparr>) = user_at i d"
  by (simp_all add: user_at_def)

lemma tame_simps [simp]:
  "tame (\<lambda>u. u\<lparr>u_password_hash := h\<rparr>)" "tame (\<lambda>u. u\<lparr>u_auth_version := v u\<rparr>)"
  "tame (\<lambda>u. u\<lparr>u_email_verified_at := e u\<rparr>)"
  "tame (\<lambda>u. u\<lparr>u_locked_until := l, u_disabled_reason := r\<rparr>)"
  "tame (\<lambda>u. u\<lparr>u_failed_login_count := n u, u_last_failed_login_at := a\<rparr>)"
  "tame (\<lambda>u. u\<lparr>u_failed_login_count := 0, u_last_failed_login_at := None, u_locked_until := None,
      u_disabled_reason := dr u\<rparr>)"
  "tame (\<lambda>u. u\<lparr>u_last_login_at := a, u_last_seen_at := b, u_failed_login_count := 0,
      u_last_failed_login_at := None, u_locked_until := None, u_disabled_reason := dr u\<rparr>)"
  "tame (\<lambda>u. u\<lparr>u_is_active := True, u_email_verified_at := e u, u_failed_login_count := 0,
      u_last_failed_login_at := None, u_locked_until := None, u_disabled_reason := None, u_disabled_at := None\<rparr>)"
  by (simp_all add: tame_def)

section \<open>Account checks and the principal\<close>

lemma usable_iff:
  "userAccountIsUsable u now \<longleftrightarrow> u_is_active u \<and> \<not> locked_at u now \<and> u_email_verified_at u \<noteq> None"
  by (auto simp: userAccountIsUsable_def locked_at_def)

lemma validateUserAccount_Inr [go_inv]:
  "validateUserAccount u w = (Inr v, t) \<longleftrightarrow> userAccountIsUsable u (wnow w) \<and> t = w"
  by (auto simp: validateUserAccount_def usable_iff go_inv)

lemma validateUserAccount_Inl [go_inv]:
  "validateUserAccount u w = (Inl e, t) \<longleftrightarrow> t = w \<and>
     (if \<not> u_is_active u then e = ErrAccountDisabled else if locked_at u (wnow w) then e = ErrAccountLocked
      else u_email_verified_at u = None \<and> e = ErrEmailUnverified)"
  by (auto simp: validateUserAccount_def go_inv)

text \<open>The session check and the account check agree.\<close>

lemma session_valid_usable:
  "user_at i d = Some u \<Longrightarrow> i \<noteq> 0 \<Longrightarrow> u_auth_version u \<noteq> 0 \<Longrightarrow>
     session_valid d now i (u_auth_version u) \<longleftrightarrow> userAccountIsUsable u now"
  by (simp add: session_valid_def)

lemma principalWithFactors_Inr:
  assumes "principalWithFactors x u rs w = (Inr p, t)"
  shows "p = (principalFromUser u rs)\<lparr>p_totp_enabled := totp_enabled (u_id u) (wdb w)\<rparr> \<and> wdb t = wdb w \<and>
     wnow t = wnow w \<and> wdbnow t = wdbnow w"
  using assms
  by (auto simp: principalWithFactors_def Let_def go_inv sql_inv totp_enabled_def totp_at_def
      principalFromUser_def dest: find_SomeD split: if_splits option.splits)

definition record_login :: "int \<Rightarrow> time \<Rightarrow> db \<Rightarrow> db" where
  "record_login i now d = update_user i (\<lambda>u. u\<lparr>u_last_login_at := Some now, u_last_seen_at := Some now,
     u_failed_login_count := 0, u_last_failed_login_at := None, u_locked_until := None,
     u_disabled_reason := clear_lock_reason (u_disabled_reason u)\<rparr>) now d"

lemma totp_frame [simp]: "totp_enabled i (record_login j now d) = totp_enabled i d"
  "role_names i (record_login j now d) = role_names i d"
  by (simp_all add: record_login_def totp_enabled_def totp_at_def role_names_def)

definition principal_of :: "user \<Rightarrow> db \<Rightarrow> principal" where
  "principal_of u d = (principalFromUser u (role_names (u_id u) d))\<lparr>p_totp_enabled := totp_enabled (u_id u) d\<rparr>"

lemma completeUserAuthentication_Inr:
  assumes "completeUserAuthentication x i up w = (Inr p, t)"
  obtains u where "user_at i (wdb w) = Some u" "userAccountIsUsable u (wnow w)" "p = principal_of u (wdb w)"
    "wdb t = (if up then record_login i (wdbnow w) (wdb w) else wdb w)"
proof -
  from assms obtain u w0 u1 w1 rs w2 where get: "GetUserByID x i w = (Inr u, w0)"
    and ok: "userAccountIsUsable u (wnow w0)"
    and step: "(if up then andthen (UpdateUserLastLogin x i) (\<lambda>_. GetUserByID x i) else ret u) w0 = (Inr u1, w1)"
    and list: "ListUserRoleNames x i w1 = (Inr rs, w2)" and p: "principalWithFactors x u1 rs w2 = (Inr p, t)"
    by (auto simp: completeUserAuthentication_def andthen_Inr validateUserAccount_Inr)
  from get ok have u: "user_at i (wdb w) = Some u" "userAccountIsUsable u (wnow w)" and w0: "wdb w0 = wdb w" "wdbnow w0 = wdbnow w"
    by (auto simp: sql_inv user_at_def)
  from step u(1) w0 have w1: "wdb w1 = (if up then record_login i (wdbnow w) (wdb w) else wdb w)"
    and u1: "user_at i (wdb w1) = Some u1"
    by (auto simp: go_inv sql_inv user_at_def record_login_def split: if_splits)
  from list have rs: "rs = role_names i (wdb w1)" and w2: "wdb w2 = wdb w1" by (auto simp: sql_inv)
  from u1 w1 u(1) have "principalFromUser u1 rs = principalFromUser u rs"
    by (auto simp: record_login_def user_at_update_same principalFromUser_def split: if_splits)
  with principalWithFactors_Inr [OF p] user_atD [OF u(1)] user_atD [OF u1] w1 w2 rs
  have "p = principal_of u (wdb w)" "wdb t = wdb w1"
    by (auto simp: principal_of_def split: if_splits)
  with that u w1 show ?thesis by simp
qed

lemma principal_of_simps [simp]:
  "p_user_id (principal_of u d) = u_id u" "p_username (principal_of u d) = u_username u"
  "p_email (principal_of u d) = u_email u" "p_auth_version (principal_of u d) = u_auth_version u"
  "p_verified (principal_of u d) = (u_email_verified_at u \<noteq> None)"
  "p_totp_enabled (principal_of u d) = totp_enabled (u_id u) d"
  "p_roles (principal_of u d) = role_names (u_id u) d"
  by (simp_all add: principal_of_def principalFromUser_def)

lemma ValidateSession_Inr:
  "ValidateSession x i v w = (Inr b, t) \<Longrightarrow> b = session_valid (wdb w) (wnow w) i v \<and> wdb t = wdb w"
  by (auto simp: ValidateSession_def session_valid_def user_at_def go_inv sql_inv dest: find_SomeD
      split: if_splits option.splits)

section \<open>Password login\<close>

lemma limiter_Allow_Inr [go_inv]:
  "limiter_Allow x key b w = (Inr d, t) \<longleftrightarrow> x_limiter x (CLimiter key b # wlog w) key b = Inr d \<and>
     t = w\<lparr>wlog := CLimiter key b # wlog w\<rparr>"
  by (auto simp: limiter_Allow_def go_inv)

definition admitted :: "ext \<Rightarrow> service \<Rightarrow> string \<Rightarrow> call list \<Rightarrow> bool" where
  "admitted x s email l \<longleftrightarrow>
     (case x_limiter x (CLimiter (login_email_key email) (sv_limit s) # l) (login_email_key email) (sv_limit s) of
        Inl _ \<Rightarrow> False | Inr d \<Rightarrow> dec_allowed d)"

lemma enforceRateLimit_Inr:
  "enforceRateLimit x s email ip w = (Inr v, t) \<Longrightarrow>
     admitted x s email (wlog w) \<and> wdb t = wdb w \<and> wnow t = wnow w \<and> wdbnow t = wdbnow w"
  by (auto simp: enforceRateLimit_def admitted_def go_inv split: if_splits)

text \<open>The second factor is satisfied: none is on, or the code is valid for the decrypted secret.\<close>

definition second_factor_ok :: "ext \<Rightarrow> string \<Rightarrow> db \<Rightarrow> int \<Rightarrow> string \<Rightarrow> time \<Rightarrow> bool" where
  "second_factor_ok x key d i code now \<longleftrightarrow>
     (case totp_at i d of None \<Rightarrow> True
      | Some c \<Rightarrow> tc_enabled_at c = None \<or>
          (\<exists>secret. decryptSecret x (tc_secret_ciphertext c) (tc_secret_nonce c) key = Inr secret \<and>
             code \<noteq> '''' \<and> x_totp_validate x code secret now = Inr True))"

lemma validateTOTPCode_Inr [go_inv]:
  "validateTOTPCode x secret code w = (Inr b, t) \<longleftrightarrow>
     b = (x_totp_validate x code secret (wnow w) = Inr True) \<and> t = w"
  "validateTOTPCode x secret code w = (Inl e, t) \<longleftrightarrow> False"
  by (auto simp: validateTOTPCode_def go_inv split: sum.splits)

lemma validateSecondFactor_Inr:
  "validateSecondFactor x s i code w = (Inr v, t) \<Longrightarrow>
     second_factor_ok x (sec_encryption_key (sv_security s)) (wdb w) i code (wnow w) \<and> wdb t = wdb w \<and>
     wnow t = wnow w \<and> wdbnow t = wdbnow w"
  by (auto simp: validateSecondFactor_def second_factor_ok_def totp_at_def go_inv sql_inv
      split: if_splits option.splits dest: find_SomeD)

lemma LoginWithPassword_Inr:
  assumes "LoginWithPassword x s inp w = (Inr p, t)"
  obtains u h w' where "find (\<lambda>u. u_email u = normalize x (li_email inp) \<and> u_password_hash u \<noteq> None) (users (wdb w)) = Some u"
    "u_password_hash u = Some h" "x_argon_compare x (li_password inp) h = Inr True"
    "userAccountIsUsable u (wnow w)"
    "second_factor_ok x (sec_encryption_key (sv_security s)) (wdb w) (u_id u) (li_totp_code inp) (wnow w)"
    "admitted x s (normalize x (li_email inp)) (wlog w)"
    "completeUserAuthentication x (u_id u) True w' = (Inr p, t)"
    "wdb w' = wdb w" "wnow w' = wnow w" "wdbnow w' = wdbnow w"
proof -
  from assms obtain w1 u w2 w3 where
    lim: "enforceRateLimit x s (normalize x (li_email inp)) (li_ip_address inp) w = (Inr (), w1)" and
    get: "GetUserWithPasswordByEmail x (normalize x (li_email inp)) w1 = (Inr u, w2)" and
    cmp: "ComparePassword x (li_password inp) (null_string (u_password_hash u)) = Inr True" and
    use: "userAccountIsUsable u (wnow w2)" and
    sf: "validateSecondFactor x s (u_id u) (li_totp_code inp) w2 = (Inr (), w3)" and
    comp: "completeUserAuthentication x (u_id u) True w3 = (Inr p, t)"
    by (fastforce simp: LoginWithPassword_def Let_def go_inv usable_iff split: if_splits option.splits)
  note 1 = enforceRateLimit_Inr [OF lim] and 2 = validateSecondFactor_Inr [OF sf]
  from get 1 have u: "find (\<lambda>u. u_email u = normalize x (li_email inp) \<and> u_password_hash u \<noteq> None) (users (wdb w)) = Some u"
    and w2: "wdb w2 = wdb w" "wnow w2 = wnow w" "wdbnow w2 = wdbnow w"
    by (auto simp: sql_inv)
  from find_SomeD [OF u] obtain h where "u_password_hash u = Some h" by auto
  with that u w2 1 2 cmp use comp show ?thesis by (auto simp: ComparePassword_def null_string_def)
qed

section \<open>Failed logins and the lock\<close>

definition failure_window :: "service \<Rightarrow> int" where
  "failure_window s = max 1 (trunc_div (sec_failed_login_window (sv_security s)) second)"

lemma handleFailedLogin_Inr:
  assumes "handleFailedLogin x s u w = (Inr v, t)" and "user_at (u_id u) (wdb w) = Some r"
  defines "n \<equiv> next_failed_count (wdbnow w) (failure_window s) r"
  shows "\<exists>r'. user_at (u_id u) (wdb t) = Some r' \<and> u_failed_login_count r' = n \<and>
     u_last_failed_login_at r' = Some (wdbnow w) \<and> u_is_active r' = u_is_active r \<and>
     u_locked_until r' = (if sec_failed_login_threshold (sv_security s) \<le> n
        then Some (wnow w + sec_failed_login_window (sv_security s)) else u_locked_until r) \<and>
     wnow t = wnow w \<and> wdbnow t = wdbnow w"
  using assms
  by (auto simp: handleFailedLogin_def failure_window_def user_at_def [symmetric] user_at_update_same
      Let_def go_inv sql_inv split: if_splits)

section \<open>Redeeming an emailed token\<close>

lemma consume_or_fail_Inr:
  "consume_or_fail x k token w = (Inr t, w') \<Longrightarrow>
     redeemable (user_tokens (wdb w)) (HashToken x (trim_space token)) k (wdbnow w) = Some (t_user_id t) \<and>
     wdb w' = (wdb w)\<lparr>user_tokens :=
       snd (consume_rows (HashToken x (trim_space token)) k (wdbnow w) (user_tokens (wdb w)))\<rparr> \<and>
     wnow w' = wnow w \<and> wdbnow w' = wdbnow w"
  by (auto simp: consume_or_fail_def redeemable_def consume_rows_def select_one_def go_inv sql_inv split: if_splits)

lemma consume_or_fail_Inl:
  "consume_or_fail x k token w = (Inl e, w') \<Longrightarrow> runs x ''ConsumeUserToken'' w \<Longrightarrow>
     e = ErrRequestFailed \<and> redeemable (user_tokens (wdb w)) (HashToken x (trim_space token)) k (wdbnow w) = None \<and>
     wdb w' = wdb w"
  by (auto simp: consume_or_fail_def redeemable_def go_inv ConsumeUserToken_Inl runs_def split: if_splits)

text \<open>The password hash that a flow stores, and the rows it leaves alone.\<close>

lemma ResetPassword_effect:
  assumes "ResetPassword x token password w = (Inr (), t)"
  obtains i u h l v where
    "redeemable (user_tokens (wdb w)) (HashToken x (trim_space token)) PasswordReset (wdbnow w) = Some i"
    "user_at i (wdb w) = Some u" "x_argon_hash x l password = Inr h" "12 \<le> length (trim_space password)"
    "wdb t = update_user i (\<lambda>u. u\<lparr>u_failed_login_count := 0, u_last_failed_login_at := None, u_locked_until := None,
               u_disabled_reason := clear_lock_reason (u_disabled_reason u)\<rparr>) (wdbnow w)
         (update_user i (\<lambda>u. u\<lparr>u_auth_version := u_auth_version u + 1\<rparr>) (wdbnow w)
         (update_user i (\<lambda>u. u\<lparr>u_password_hash := Some h\<rparr>) (wdbnow w)
           ((wdb w)\<lparr>user_tokens := snd (consume_rows (HashToken x (trim_space token)) PasswordReset (wdbnow w)
              (user_tokens (wdb w)))\<rparr>)))"
proof -
  from assms obtain h w1 where hash: "HashPassword x password w = (Inr h, w1)"
    and tx: "WithTx x (andthen (consume_or_fail x PasswordReset token) (\<lambda>t.
        andthen (SetUserPasswordHash x (t_user_id t) (Some h)) (\<lambda>_.
        andthen (IncrementUserAuthVersion x (t_user_id t)) (\<lambda>_.
        ResetLoginFailures x (t_user_id t))))) w1 = (Inr (), t)"
    by (auto simp: ResetPassword_def andthen_Inr)
  from hash have w1: "wdb w1 = wdb w" "wdbnow w1 = wdbnow w" and h: "12 \<le> length (trim_space password)"
    "x_argon_hash x (CArgonHash password # wlog w) password = Inr h" by (auto simp: HashPassword_Inr)
  let ?w2 = "w1\<lparr>wlog := CDb ''BEGIN'' # wlog w1\<rparr>"
  from tx obtain r w3 u where c: "consume_or_fail x PasswordReset token ?w2 = (Inr r, w3)"
    and u: "user_at (t_user_id r) (wdb w3) = Some u"
    and t: "wdb t = update_user (t_user_id r) (\<lambda>u. u\<lparr>u_failed_login_count := 0, u_last_failed_login_at := None, u_locked_until := None,
               u_disabled_reason := clear_lock_reason (u_disabled_reason u)\<rparr>) (wdbnow w3)
         (update_user (t_user_id r) (\<lambda>u. u\<lparr>u_auth_version := u_auth_version u + 1\<rparr>) (wdbnow w3)
         (update_user (t_user_id r) (\<lambda>u. u\<lparr>u_password_hash := Some h\<rparr>) (wdbnow w3) (wdb w3)))"
    by (auto simp: WithTx_Inr andthen_Inr sql_inv user_at_def)
  from consume_or_fail_Inr [OF c] u t w1 h that [of "t_user_id r" u _ h] show ?thesis by auto
qed

lemma RecoverAccount_effect:
  assumes "RecoverAccount x token password w = (Inr (), t)"
  obtains i u h l where
    "redeemable (user_tokens (wdb w)) (HashToken x (trim_space token)) AccountRecovery (wdbnow w) = Some i"
    "user_at i (wdb w) = Some u" "x_argon_hash x l password = Inr h" "12 \<le> length (trim_space password)"
    "wdb t = update_user i (\<lambda>u. u\<lparr>u_auth_version := u_auth_version u + 1\<rparr>) (wdbnow w)
         ((\<lambda>d. d\<lparr>totp_configs := filter (\<lambda>c. tc_user_id c \<noteq> i) (totp_configs d)\<rparr>)
         (update_user i (\<lambda>u. u\<lparr>u_is_active := True,
              u_email_verified_at := (case u_email_verified_at u of None \<Rightarrow> Some (wdbnow w) | Some t \<Rightarrow> Some t),
              u_failed_login_count := 0, u_last_failed_login_at := None, u_locked_until := None,
              u_disabled_reason := None, u_disabled_at := None\<rparr>) (wdbnow w)
         (update_user i (\<lambda>u. u\<lparr>u_password_hash := Some h\<rparr>) (wdbnow w)
           ((wdb w)\<lparr>user_tokens := snd (consume_rows (HashToken x (trim_space token)) AccountRecovery (wdbnow w)
              (user_tokens (wdb w)))\<rparr>))))"
proof -
  from assms obtain h w1 where hash: "HashPassword x password w = (Inr h, w1)"
    and tx: "WithTx x (andthen (consume_or_fail x AccountRecovery token) (\<lambda>t.
        andthen (SetUserPasswordHash x (t_user_id t) (Some h)) (\<lambda>_.
        andthen (RestoreUserAccess x (t_user_id t)) (\<lambda>_.
        andthen (DeleteTotpConfigurationByUserID x (t_user_id t)) (\<lambda>_.
        andthen (IncrementUserAuthVersion x (t_user_id t)) (\<lambda>_. ret ())))))) w1 = (Inr (), t)"
    by (auto simp: RecoverAccount_def andthen_Inr)
  from hash have w1: "wdb w1 = wdb w" "wdbnow w1 = wdbnow w" and h: "12 \<le> length (trim_space password)"
    "x_argon_hash x (CArgonHash password # wlog w) password = Inr h" by (auto simp: HashPassword_Inr)
  let ?w2 = "w1\<lparr>wlog := CDb ''BEGIN'' # wlog w1\<rparr>"
  from tx obtain r w3 u where c: "consume_or_fail x AccountRecovery token ?w2 = (Inr r, w3)"
    and u: "user_at (t_user_id r) (wdb w3) = Some u"
    and t: "wdb t = update_user (t_user_id r) (\<lambda>u. u\<lparr>u_auth_version := u_auth_version u + 1\<rparr>) (wdbnow w3)
         ((\<lambda>d. d\<lparr>totp_configs := filter (\<lambda>c. tc_user_id c \<noteq> t_user_id r) (totp_configs d)\<rparr>)
         (update_user (t_user_id r) (\<lambda>u. u\<lparr>u_is_active := True,
              u_email_verified_at := (case u_email_verified_at u of None \<Rightarrow> Some (wdbnow w3) | Some t \<Rightarrow> Some t),
              u_failed_login_count := 0, u_last_failed_login_at := None, u_locked_until := None,
              u_disabled_reason := None, u_disabled_at := None\<rparr>) (wdbnow w3)
         (update_user (t_user_id r) (\<lambda>u. u\<lparr>u_password_hash := Some h\<rparr>) (wdbnow w3) (wdb w3))))"
    by (auto simp: WithTx_Inr andthen_Inr ret_Inv sql_inv user_at_def cong: option.case_cong)
  from consume_or_fail_Inr [OF c] u t w1 h that [of "t_user_id r" u _ h] show ?thesis by (auto cong: option.case_cong)
qed

end
