(* ===== verification/AccountInvariants.thy ===== *)
theory AccountInvariants
  imports AccountFlows
begin

text \<open>
  Two frames that every account operation respects, whatever its outcome: the schema's
  constraints, and the monotonicity of each user's session version, from which a revoked
  session stays revoked.
\<close>

section \<open>The statements\<close>

lemmas statement_defs = CreateUser_def DisableInactiveUsers_def LockUserUntil_def MarkUserEmailVerified_def ResetLoginFailures_def
  RestoreUserAccess_def TouchUserSeen_def UpdateUserLastLogin_def SetUserPasswordHash_def IncrementUserAuthVersion_def
  RecordFailedLogin_def GetUserByEmail_def GetUserByID_def GetUserWithPasswordByEmail_def ConsumeUserToken_def
  CreateUserToken_def DeleteExpiredUserTokens_def DeleteUsedUserTokens_def ExpireUserTokens_def UseUserToken_def
  GetUserToken_def delete_tokens_def AddUserRole_def GetRoleByName_def ListUserRoleNames_def
  DeleteTotpConfigurationByUserID_def EnableTotpConfiguration_def GetTotpConfigurationByUserID_def
  UpsertTotpConfiguration_def GetOAuthAccountByProviderIdentity_def GetOAuthAccountByUserIDAndProvider_def
  UpsertOAuthAccount_def CreatePasskeyCredential_def DeletePasskeyCredential_def ListPasskeyCredentialsByUserID_def
  UpdatePasskeyCredential_def DeleteFailedEmailsBefore_def DeleteSentEmailsBefore_def ListPendingEmails_def
  MarkEmailFailed_def MarkEmailSent_def EnqueueEmail_def

section \<open>What every account keeps\<close>

text \<open>
  A user that goes from \<open>u\<close> to \<open>v\<close> is the same account: name, email and creation stay, a verified email
  stays verified, and the version of its sessions does not go back.
\<close>

definition same_account :: "user \<Rightarrow> user \<Rightarrow> bool" where
  "same_account u v \<longleftrightarrow> u_auth_version u \<le> u_auth_version v \<and> u_username v = u_username u \<and> u_email v = u_email u \<and>
     u_created_at v = u_created_at u \<and> (u_email_verified_at u \<noteq> None \<longrightarrow> u_email_verified_at v \<noteq> None)"

text \<open>Every account stays, with its roles and with the identities of the OAuth providers.\<close>

definition identities :: "oauth_account list \<Rightarrow> (string \<times> string) set" where
  "identities as = (\<lambda>a. (oa_provider a, oa_provider_user_id a)) ` set as"

lemma identities_update:
  "(\<And>a. oa_provider (f a) = oa_provider a \<and> oa_provider_user_id (f a) = oa_provider_user_id a) \<Longrightarrow>
     identities (update_rows p f as) = identities as"
proof -
  assume f: "\<And>a. oa_provider (f a) = oa_provider a \<and> oa_provider_user_id (f a) = oa_provider_user_id a"
  have "(\<lambda>a. (oa_provider a, oa_provider_user_id a)) (if p a then f a else a) = (oa_provider a, oa_provider_user_id a)" for a
    using f by simp
  then show ?thesis unfolding identities_def update_rows_def set_map image_image by (rule image_cong [OF refl])
qed

lemma identities_append [simp]: "identities (as @ bs) = identities as \<union> identities bs"
  by (simp add: identities_def image_Un)

definition account_le :: "db \<Rightarrow> db \<Rightarrow> bool" where
  "account_le d e \<longleftrightarrow> (\<forall>i u. user_at i d = Some u \<longrightarrow> (\<exists>v. user_at i e = Some v \<and> same_account u v)) \<and>
     set (user_roles d) \<subseteq> set (user_roles e) \<and> roles e = roles d \<and> identities (oauth_accounts d) \<subseteq> identities (oauth_accounts e)"

lemma same_account_refl [simp]: "same_account u u"
  by (simp add: same_account_def)

lemma same_account_trans: "same_account u v \<Longrightarrow> same_account v w \<Longrightarrow> same_account u w"
  by (auto simp: same_account_def)

interpretation versions: db_frame account_le
proof
  fix d e f
  show "account_le d d" by (simp add: account_le_def)
  show "account_le d e \<Longrightarrow> account_le e f \<Longrightarrow> account_le d f"
    unfolding account_le_def by (metis same_account_trans subset_trans)
  show "account_le d e \<Longrightarrow> account_le d (d\<lparr>seqs := seqs e\<rparr>)"
    by (simp add: account_le_def user_at_def)
qed

lemma account_le_same:
  "users e = users d \<Longrightarrow> set (user_roles d) \<subseteq> set (user_roles e) \<Longrightarrow> roles e = roles d \<Longrightarrow>
     identities (oauth_accounts d) \<subseteq> identities (oauth_accounts e) \<Longrightarrow> account_le d e"
  by (simp add: account_le_def user_at_def)

lemma account_le_users:
  "(\<And>i u. user_at i d = Some u \<Longrightarrow> \<exists>v. user_at i e = Some v \<and> same_account u v) \<Longrightarrow> user_roles e = user_roles d \<Longrightarrow>
     roles e = roles d \<Longrightarrow> oauth_accounts e = oauth_accounts d \<Longrightarrow> account_le d e"
  by (simp add: account_le_def)

lemma account_le_update:
  assumes "tame f" and "\<And>u. same_account u (f u)"
  shows "account_le d (update_user i f now d)"
proof (rule account_le_users)
  fix j u
  assume u: "user_at j d = Some u"
  have "same_account u ((f u)\<lparr>u_updated_at := now\<rparr>)" using assms(2) [of u] by (simp add: same_account_def)
  with u show "\<exists>v. user_at j (update_user i f now d) = Some v \<and> same_account u v"
    using assms(1) by (auto simp: user_at_update_user)
qed (simp_all add: update_user_def)

lemma account_le_rows:
  "(\<And>u. u_id (f u) = u_id u \<and> same_account u (f u)) \<Longrightarrow> account_le d (d\<lparr>users := update_rows p f (users d)\<rparr>)"
  by (rule account_le_users) (force simp: user_at_def find_update_rows)+

lemma account_le_insert:
  assumes "users e = users d @ [u]" and "user_roles e = user_roles d" and "roles e = roles d" and "oauth_accounts e = oauth_accounts d"
  shows "account_le d e"
proof (rule account_le_users)
  have "find p xs = Some v \<Longrightarrow> find p (xs @ ys) = Some v" for p xs ys and v :: user
    by (induction xs) auto
  with assms(1) show "user_at i d = Some v \<Longrightarrow> \<exists>v'. user_at i e = Some v' \<and> same_account v v'" for i v
    by (auto simp: user_at_def)
qed (rule assms)+

lemma user_writes_versions:
  "versions.obeys (CreateUser x username email)" "versions.obeys (DisableInactiveUsers x before)"
  "versions.obeys (LockUserUntil x i until reason)" "versions.obeys (MarkUserEmailVerified x i)"
  "versions.obeys (ResetLoginFailures x i)" "versions.obeys (RestoreUserAccess x i)"
  "versions.obeys (TouchUserSeen x i)" "versions.obeys (UpdateUserLastLogin x i)"
  "versions.obeys (SetUserPasswordHash x i h)" "versions.obeys (IncrementUserAuthVersion x i)"
  "versions.obeys (RecordFailedLogin x window i)"
  unfolding CreateUser_def DisableInactiveUsers_def LockUserUntil_def MarkUserEmailVerified_def
    ResetLoginFailures_def RestoreUserAccess_def TouchUserSeen_def UpdateUserLastLogin_def
    SetUserPasswordHash_def IncrementUserAuthVersion_def RecordFailedLogin_def
  by (rule versions.obeys_query;
      auto simp: Let_def tame_def same_account_def versions.Q_refl
        split: sum.splits option.splits intro: account_le_same account_le_insert intro!: account_le_update account_le_rows)+

lemma user_reads_versions:
  "versions.obeys (GetUserByEmail x email)" "versions.obeys (GetUserByID x i)"
  "versions.obeys (GetUserWithPasswordByEmail x email)"
  unfolding GetUserByEmail_def GetUserByID_def GetUserWithPasswordByEmail_def
  by (rule versions.obeys_query; simp add: versions.Q_refl)+

lemma token_versions:
  "versions.obeys (ConsumeUserToken x h k)" "versions.obeys (CreateUserToken x i k h expires)"
  "versions.obeys (DeleteExpiredUserTokens x)" "versions.obeys (DeleteUsedUserTokens x)"
  "versions.obeys (ExpireUserTokens x i k)" "versions.obeys (UseUserToken x i)"
  "versions.obeys (GetUserToken x h k)"
  unfolding ConsumeUserToken_def CreateUserToken_def DeleteExpiredUserTokens_def DeleteUsedUserTokens_def
    ExpireUserTokens_def UseUserToken_def GetUserToken_def delete_tokens_def
  by (rule versions.obeys_query; auto simp: Let_def identities_update intro!: account_le_same split: sum.splits)+

lemma table_versions:
  "versions.obeys (AddUserRole x i r)" "versions.obeys (GetRoleByName x n)" "versions.obeys (ListUserRoleNames x i)"
  "versions.obeys (DeleteTotpConfigurationByUserID x i)" "versions.obeys (EnableTotpConfiguration x i)"
  "versions.obeys (GetTotpConfigurationByUserID x i)" "versions.obeys (UpsertTotpConfiguration x i ct nonce enabled)"
  unfolding AddUserRole_def GetRoleByName_def ListUserRoleNames_def DeleteTotpConfigurationByUserID_def
    EnableTotpConfiguration_def GetTotpConfigurationByUserID_def UpsertTotpConfiguration_def
  by (rule versions.obeys_query; auto simp: Let_def identities_update intro!: account_le_same split: option.splits)+

lemma external_tables_versions:
  "versions.obeys (GetOAuthAccountByProviderIdentity x p pid)" "versions.obeys (GetOAuthAccountByUserIDAndProvider x i p)"
  "versions.obeys (UpsertOAuthAccount x i p pid access refresh expires)"
  "versions.obeys (CreatePasskeyCredential x arg)" "versions.obeys (DeletePasskeyCredential x i uid)"
  "versions.obeys (ListPasskeyCredentialsByUserID x uid)" "versions.obeys (UpdatePasskeyCredential x arg)"
  unfolding GetOAuthAccountByProviderIdentity_def GetOAuthAccountByUserIDAndProvider_def UpsertOAuthAccount_def
    CreatePasskeyCredential_def DeletePasskeyCredential_def ListPasskeyCredentialsByUserID_def UpdatePasskeyCredential_def
  by (rule versions.obeys_query; auto simp: Let_def identities_update intro!: account_le_same split: option.splits)+

lemma outbox_versions:
  "versions.obeys (DeleteFailedEmailsBefore x b)" "versions.obeys (DeleteSentEmailsBefore x c)"
  "versions.obeys (EnqueueEmail x template recipient subject payload available)"
  "versions.obeys (ListPendingEmails x n)" "versions.obeys (MarkEmailFailed x error delay e)"
  "versions.obeys (MarkEmailSent x e)"
  unfolding DeleteFailedEmailsBefore_def DeleteSentEmailsBefore_def EnqueueEmail_def ListPendingEmails_def
    MarkEmailFailed_def MarkEmailSent_def
  by (rule versions.obeys_query; auto simp: Let_def identities_update intro!: account_le_same)+

lemmas sqlc_versions = user_writes_versions user_reads_versions token_versions table_versions
  external_tables_versions outbox_versions

section \<open>Every account operation keeps a frame that the statements keep\<close>

text \<open>The subjects of the emails that the account flows queue.\<close>

definition account_subjects :: "string set" where
  "account_subjects = {''Verify your account'', ''Reset your password'', ''Recover your account''}"

text \<open>
  The contract of the statements with the operations: a relation between worlds that every statement
  keeps is kept by every operation. Only for the insertion into the outbox may the relation depend on
  what is inserted.
\<close>

locale sqlc_frame = io_frame +
  assumes user_statements: "obeys (CreateUser x username email)" "obeys (DisableInactiveUsers x before)"
      "obeys (LockUserUntil x i until reason)" "obeys (MarkUserEmailVerified x i)" "obeys (ResetLoginFailures x i)"
      "obeys (RestoreUserAccess x i)" "obeys (TouchUserSeen x i)" "obeys (UpdateUserLastLogin x i)"
      "obeys (SetUserPasswordHash x i h)" "obeys (IncrementUserAuthVersion x i)" "obeys (RecordFailedLogin x window i)"
      "obeys (GetUserByEmail x email)" "obeys (GetUserByID x i)" "obeys (GetUserWithPasswordByEmail x email)"
    and token_statements: "obeys (ConsumeUserToken x hash kind)" "obeys (CreateUserToken x i kind hash expires)"
      "obeys (DeleteExpiredUserTokens x)" "obeys (DeleteUsedUserTokens x)" "obeys (ExpireUserTokens x i kind)"
      "obeys (UseUserToken x i)" "obeys (GetUserToken x hash kind)"
    and table_statements: "obeys (AddUserRole x i r)" "obeys (GetRoleByName x name)" "obeys (ListUserRoleNames x i)"
      "obeys (DeleteTotpConfigurationByUserID x i)" "obeys (EnableTotpConfiguration x i)"
      "obeys (GetTotpConfigurationByUserID x i)" "obeys (UpsertTotpConfiguration x i ct nonce enabled)"
    and external_statements: "obeys (GetOAuthAccountByProviderIdentity x p pid)" "obeys (GetOAuthAccountByUserIDAndProvider x i p)"
      "obeys (UpsertOAuthAccount x i p pid access refresh texp)"
      "obeys (CreatePasskeyCredential x arg)" "obeys (DeletePasskeyCredential x i uid)"
      "obeys (ListPasskeyCredentialsByUserID x uid)" "obeys (UpdatePasskeyCredential x arg)"
    and outbox_statements: "obeys (DeleteFailedEmailsBefore x b)" "obeys (DeleteSentEmailsBefore x c)"
      "obeys (ListPendingEmails x n)" "obeys (MarkEmailFailed x error delay e)" "obeys (MarkEmailSent x e)"
    and enqueue: "subject \<in> account_subjects \<Longrightarrow> obeys (EnqueueEmail x template recipient subject payload available)"
begin

lemmas statements = user_statements token_statements table_statements external_statements outbox_statements

lemma obeys_validateUserAccount: "obeys (validateUserAccount u)"
  unfolding validateUserAccount_def by (intro obeys_basics)

lemma obeys_helpers:
  "obeys (principalWithFactors x u rs)" "obeys immediateEmailAvailableAt" "obeys (enforceRateLimit x s email ip)"
  "obeys (handleFailedLogin x s u)" "obeys (validateTOTPCode x secret code)" "obeys (consume_or_fail x k token)"
  unfolding principalWithFactors_def immediateEmailAvailableAt_def limiter_Allow_def enforceRateLimit_def
    handleFailedLogin_def validateTOTPCode_def consume_or_fail_def
  by (intro obeys_basics statements)+

lemma obeys_completeUserAuthentication: "obeys (completeUserAuthentication x i up)"
  unfolding completeUserAuthentication_def
  by (intro obeys_basics statements obeys_helpers obeys_validateUserAccount)

lemma obeys_validateSecondFactor: "obeys (validateSecondFactor x s i code)"
  unfolding validateSecondFactor_def by (intro obeys_basics statements obeys_helpers)

lemmas account_helpers = obeys_helpers obeys_completeUserAuthentication obeys_validateSecondFactor obeys_validateUserAccount

lemma obeys_registerTx: "obeys (registerTx x s username email h plain tokenHash)"
  unfolding registerTx_def
  by (intro obeys_basics statements enqueue account_helpers) (simp add: account_subjects_def)

lemma obeys_requestTokenEmail:
  assumes "te_subject rq \<in> account_subjects"
  shows "obeys (requestTokenEmail x email rq)"
  unfolding requestTokenEmail_def
  by (intro obeys_basics statements enqueue assms account_helpers)

lemma obeys_requests:
  "obeys (RequestPasswordReset x s email)" "obeys (RequestAccountRecovery x s email)" "obeys (RequestEmailVerification x s email)"
  unfolding RequestPasswordReset_def RequestAccountRecovery_def RequestEmailVerification_def
  by (intro obeys_requestTokenEmail, simp add: account_subjects_def)+

lemma obeys_accounts:
  "obeys (Register x s ri)" "obeys (LoginWithPassword x s li)" "obeys (BeginTOTPSetup x s i)"
  "obeys (ConfirmTOTPSetup x s i code)" "obeys (DisableTOTP x i)" "obeys (VerifyEmail x token)"
  "obeys (RecoverAccount x token pw)" "obeys (ResetPassword x token pw)" "obeys (CurrentUser x i)"
  "obeys (ValidateSession x i v)" "obeys (UserRoleNames x i)"
  unfolding Register_def LoginWithPassword_def BeginTOTPSetup_def ConfirmTOTPSetup_def DisableTOTP_def
    VerifyEmail_def RecoverAccount_def ResetPassword_def CurrentUser_def ValidateSession_def UserRoleNames_def
  by (intro obeys_basics statements obeys_registerTx account_helpers)+

end

interpretation ok: sqlc_frame "\<lambda>w t. keeps_ok (wdb w) (wdb t)"
  by unfold_locales (rule sqlc_ok)+

interpretation versions: sqlc_frame "\<lambda>w t. account_le (wdb w) (wdb t)"
  by unfold_locales (rule sqlc_versions)+

section \<open>The log only grows\<close>

text \<open>The calls made to the outside are never forgotten, not even by a rolled back transaction, and the clocks
  stand still.\<close>

definition history :: "world \<Rightarrow> world \<Rightarrow> bool" where
  "history w t \<longleftrightarrow> (\<exists>cs. wlog t = cs @ wlog w) \<and> wnow t = wnow w \<and> wdbnow t = wdbnow w"

interpretation history: io_frame history
proof
  fix w t u :: world and c
  show "history w w" by (simp add: history_def)
  show "history w t \<Longrightarrow> history t u \<Longrightarrow> history w u" by (auto simp: history_def)
  show "history w (w\<lparr>wlog := c # wlog w\<rparr>)" by (simp add: history_def)
  show "history w t \<Longrightarrow> history w (t\<lparr>wdb := (wdb w)\<lparr>seqs := seqs (wdb t)\<rparr>\<rparr>)" by (simp add: history_def)
qed

lemma history_query: "history.obeys (query x n f)"
  by (rule framedI) (auto simp: query_def Let_def history_def split: option.splits prod.splits)

interpretation history: sqlc_frame history
  by (unfold_locales, unfold statement_defs) (rule history_query)+

end
