(* ===== verification/Samples.thy ===== *)
theory Samples
  imports Accounts
begin

text \<open>
  A concrete environment and a small store, on which the properties with hypotheses are
  exercised. The cryptographic functions are transparent, the limiter always admits, every
  statement runs.
\<close>

definition demo_config :: config where
  "demo_config = \<lparr>
     cfg_app = \<lparr>app_name = ''base'', app_env = ''test'', app_log_level = ''info''\<rparr>,
     cfg_http = \<lparr>http_address = '':8080'', http_read_timeout = 15 * second, http_read_header_timeout = 5 * second,
        http_write_timeout = 30 * second, http_idle_timeout = 60 * second, http_shutdown_timeout = 10 * second,
        http_trusted_proxies = [''10.0.0.0/8'']\<rparr>,
     cfg_database = \<lparr>database_url = ''postgres://db'', database_max_open_conns = 10, database_max_idle_conns = 5,
        database_conn_max_lifetime = 30 * minute, database_conn_max_idle_time = 5 * minute\<rparr>,
     cfg_session = \<lparr>session_cookie_name = ''base_session'', session_lifetime = 24 * hour, session_idle_timeout = 2 * hour,
        session_same_site = ''lax'', session_secure = True, session_http_only = True, session_persist = True\<rparr>,
     cfg_security = \<lparr>sec_allowed_origins = [''https://app.example''],
        sec_encryption_key = ''0123456789abcdef0123456789abcdef'', sec_authorization_cache_ttl = 5 * second,
        sec_password_reset_ttl = hour, sec_email_verification_ttl = 24 * hour, sec_recovery_ttl = 30 * minute,
        sec_failed_login_threshold = 3, sec_failed_login_window = 15 * minute,
        sec_inactivity_disable_after = 365 * 24 * hour, sec_totp_issuer = ''base''\<rparr>,
     cfg_oauth = \<lparr>oauth_state_ttl = 10 * minute, oauth_state_bytes = 32, oauth_pkce_verifier_bytes = 32, oauth_providers = []\<rparr>,
     cfg_webauthn = \<lparr>webauthn_rp_id = ''localhost'', webauthn_rp_display_name = ''base'', webauthn_rp_origins = [''https://app.example'']\<rparr>,
     cfg_mailer = \<lparr>mailer_enabled = True, mailer_from = ''noreply@example'', mailer_host = ''mail'', mailer_port = 25,
        mailer_username = '''', mailer_password = '''', mailer_require_tls = False\<rparr>,
     cfg_river = \<lparr>river_enabled = True, river_email_outbox_every = 10 * second, river_email_outbox_retention = 720 * hour,
        river_cleanup_every = hour, river_inactivity_check_every = 24 * hour, river_max_workers = 10\<rparr>\<rparr>"

definition demo_service :: service where
  "demo_service = \<lparr>sv_cfg = demo_config, sv_limit = login_bucket 3 (15 * minute), sv_oauth = Map.empty\<rparr>"

definition demo_ext :: ext where
  "demo_ext = \<lparr>x_dbfault = \<lambda>_. None,
     x_rand = \<lambda>l n. Some (replicate n (char_of (length l))),
     x_lower = \<lambda>r. r,
     x_sha256 = \<lambda>s. s,
     x_aead_seal = \<lambda>k n p. p,
     x_aead_open = \<lambda>k n c. Some c,
     x_argon_hash = \<lambda>l p. Inr p,
     x_argon_compare = \<lambda>p h. Inr (p = h),
     x_sentinel_hash = ''sentinel'',
     x_limiter = \<lambda>l key b. Inr \<lparr>dec_allowed = True, dec_retry_after = 0\<rparr>,
     x_totp_generate = \<lambda>l issuer account. Inr (''SECRET'', ''otpauth://totp''),
     x_totp_validate = \<lambda>code secret now. Inr (code = ''123456''),
     x_http = \<lambda>l rq. Inl (ErrText ''no route''),
     x_url = \<lambda>u q. Some u,
     x_time_text = \<lambda>t. ''t'',
     x_time_parse = \<lambda>s. Some 0,
     x_cred_marshal = \<lambda>c. Inr ''credential'',
     x_cred_unmarshal = \<lambda>s. None,
     x_wa_begin_registration = \<lambda>l u. Inr (''options'', ''session''),
     x_wa_session = \<lambda>s. Some s,
     x_wa_finish_registration = \<lambda>u s c. Inl (ErrText ''webauthn''),
     x_wa_begin_login = \<lambda>l. Inr (''options'', ''session''),
     x_wa_assertion = \<lambda>s c. Inl (ErrText ''webauthn''),
     x_wa_verify = \<lambda>u s c. Inl (ErrText ''webauthn'')\<rparr>"

lemma demo_ext_simps [simp]:
  "x_dbfault demo_ext l = None" "x_rand demo_ext l n = Some (replicate n (char_of (length l)))"
  "x_lower demo_ext r = r" "x_sha256 demo_ext s = s" "x_aead_seal demo_ext k nonce s = s"
  "x_aead_open demo_ext k nonce s = Some s" "x_argon_hash demo_ext l s = Inr s"
  "x_argon_compare demo_ext s h = Inr (s = h)"
  "x_limiter demo_ext l k b = Inr \<lparr>dec_allowed = True, dec_retry_after = 0\<rparr>"
  "x_totp_validate demo_ext code secret now = Inr (code = ''123456'')"
  by (simp_all add: demo_ext_def)

definition demo_user :: user where
  "demo_user = \<lparr>u_id = 1, u_username = ''ada'', u_email = ''ada@example'', u_password_hash = Some ''correct horse battery'',
     u_email_verified_at = Some 5, u_last_login_at = None, u_last_seen_at = None, u_is_active = True,
     u_disabled_reason = None, u_disabled_at = None, u_failed_login_count = 0, u_locked_until = None,
     u_created_at = 1, u_updated_at = 1, u_auth_version = 1, u_last_failed_login_at = None\<rparr>"

definition demo_token :: "token_kind \<Rightarrow> string \<Rightarrow> int \<Rightarrow> user_token" where
  "demo_token k plain i = \<lparr>t_id = i, t_user_id = 1, t_kind = k, t_hash = hex_encode plain,
     t_expires_at = 1000 * second, t_used_at = None, t_created_at = 1\<rparr>"

definition demo_db :: db where
  "demo_db = initial_db\<lparr>users := [demo_user],
     user_tokens := [demo_token PasswordReset ''r'' 1, demo_token AccountRecovery ''a'' 2, demo_token EmailVerification ''v'' 3],
     totp_configs := [\<lparr>tc_id = 1, tc_user_id = 1, tc_secret_ciphertext = ''SECRET'', tc_secret_nonce = ''nnnnnnnnnnnn'',
        tc_enabled_at = Some 7, tc_created_at = 6, tc_updated_at = 7\<rparr>],
     user_roles := [\<lparr>ur_user_id = 1, ur_role_id = 2, ur_created_at = 1\<rparr>],
     seqs := \<lparr>sq_users = 2, sq_passkeys = 1, sq_oauth = 1, sq_totp = 2, sq_tokens = 4, sq_outbox = 1\<rparr>\<rparr>"

definition demo_world :: world where
  "demo_world = \<lparr>wdb = demo_db, wlog = [], wnow = 100 * second, wdbnow = 100 * second\<rparr>"

lemma demo_db_ok: "db_ok demo_db"
  by (simp add: db_ok_def demo_db_def initial_db_def users_ok_def tokens_ok_def totp_ok_def oauth_ok_def
      passkeys_ok_def roles_ok_def outbox_ok_def user_ids_def demo_user_def demo_token_def hex_encode_def hex_digit_def)

text \<open>Rule sets that evaluate a run on the sample.\<close>

lemmas trim_simps = trim_space_ascii ascii_def strip_def is_space_def

lemmas run_simps = andthen_def attempt_def ret_def fail_def lift_def time_Now_def extern_def query_def Let_def
  select_one_def update_rows_def begin_tx_def commit_tx_def WithTx_def rollback_to_def rand_Read_def

lemmas demo_simps = demo_world_def demo_db_def demo_token_def demo_user_def hex_encode_def hex_digit_def

lemmas statement_simps = ConsumeUserToken_def SetUserPasswordHash_def IncrementUserAuthVersion_def
  ResetLoginFailures_def RestoreUserAccess_def MarkUserEmailVerified_def DeleteTotpConfigurationByUserID_def
  GetUserByEmail_def GetUserByID_def GetUserWithPasswordByEmail_def UpdateUserLastLogin_def ListUserRoleNames_def
  GetTotpConfigurationByUserID_def RecordFailedLogin_def LockUserUntil_def CreateUser_def GetRoleByName_def
  AddUserRole_def CreateUserToken_def EnqueueEmail_def ExpireUserTokens_def live_def update_user_def
  next_failed_count_def clear_lock_reason_def role_names_def user_ids_def

lemmas login_simps = LoginWithPassword_def enforceRateLimit_def limiter_Allow_def normalize_def ComparePassword_def
  null_string_def locked_at_def handleFailedLogin_def validateSecondFactor_def validateTOTPCode_def
  completeUserAuthentication_def validateUserAccount_def principalWithFactors_def principalFromUser_def
  decryptSecret_def newGCM_def gcm_nonce_size_def to_lower_id
  demo_service_def demo_config_def trunc_div_def compareWithInvalidCredentialsSentinel_def

end
