(* ===== verification/Passkeys.thy ===== *)
theory Passkeys
  imports AccountInvariants Samples
begin

text \<open>
  \<open>internal/auth/passkeys.go\<close>: the passkey ceremonies around the WebAuthn library, the stored
  credentials and their encoding, and the user handle.
\<close>

section \<open>The user handle\<close>

text \<open>\<open>binary.BigEndian.PutUint64\<close> and \<open>Uint64\<close> on eight bytes.\<close>

fun be_bytes :: "nat \<Rightarrow> nat \<Rightarrow> string" where
  "be_bytes 0 n = []"
| "be_bytes (Suc k) n = be_bytes k (n div 256) @ [char_of (n mod 256)]"

fun be_value :: "nat \<Rightarrow> string \<Rightarrow> nat" where
  "be_value acc [] = acc"
| "be_value acc (c # s) = be_value (acc * 256 + byte c) s"

definition WebAuthnID :: "passkey_user \<Rightarrow> string" where
  "WebAuthnID u = be_bytes 8 (nat (u_id (pu_user u) mod 2 ^ 64))"

definition handle_user_id :: "string \<Rightarrow> int" where
  "handle_user_id h = wrap64 (int (be_value 0 h))"

definition WebAuthnName :: "passkey_user \<Rightarrow> string" where
  "WebAuthnName u = u_username (pu_user u)"

definition WebAuthnDisplayName :: "passkey_user \<Rightarrow> string" where
  "WebAuthnDisplayName u = u_email (pu_user u)"

definition WebAuthnCredentials :: "passkey_user \<Rightarrow> wa_credential list" where
  "WebAuthnCredentials u = pu_credentials u"

section \<open>Credentials and their rows\<close>

definition credentialFromRow :: "ext \<Rightarrow> passkey_credential \<Rightarrow> wa_credential" where
  "credentialFromRow x row =
     (let plain = \<lparr>cr_id = pk_credential_id row, cr_public_key = pk_credential_public_key row,
                   cr_attestation_type = pk_attestation_type row, cr_transport = pk_transports row,
                   cr_aaguid = null_string (pk_aaguid row), cr_sign_count = uint32_of (pk_sign_count row),
                   cr_clone_warning = pk_clone_warning row\<rparr> in
      if pk_credential_data row \<noteq> '''' \<and> pk_credential_data row \<noteq> ''{}''
      then (case x_cred_unmarshal x (pk_credential_data row) of
          None \<Rightarrow> plain
        | Some c \<Rightarrow> c\<lparr>
            cr_id := (if cr_id c = '''' then pk_credential_id row else cr_id c),
            cr_public_key := (if cr_public_key c = '''' then pk_credential_public_key row else cr_public_key c),
            cr_attestation_type := (if cr_attestation_type c = '''' then pk_attestation_type row else cr_attestation_type c),
            cr_transport := (if cr_transport c = [] \<and> pk_transports row \<noteq> [] then pk_transports row else cr_transport c),
            cr_sign_count := (if cr_sign_count c = 0 then uint32_of (pk_sign_count row) else cr_sign_count c),
            cr_clone_warning := (if \<not> cr_clone_warning c then pk_clone_warning row else cr_clone_warning c),
            cr_aaguid := (if cr_aaguid c = '''' \<and> pk_aaguid row \<noteq> None then null_string (pk_aaguid row) else cr_aaguid c)\<rparr>)
      else plain)"

text \<open>The columns that both the insert and the update derive from a credential.\<close>

definition credential_columns :: "wa_credential \<Rightarrow> string \<Rightarrow> int \<Rightarrow> string option \<Rightarrow> passkey_credential" where
  "credential_columns c credentialData userID name =
     \<lparr>pk_id = 0, pk_user_id = userID, pk_credential_id = cr_id c, pk_credential_public_key = cr_public_key c,
      pk_attestation_type = cr_attestation_type c,
      pk_aaguid = (if length (cr_aaguid c) = 16 then Some (cr_aaguid c) else None),
      pk_sign_count = cr_sign_count c, pk_clone_warning = cr_clone_warning c, pk_transports = cr_transport c,
      pk_name = name, pk_credential_data = credentialData, pk_created_at = 0, pk_updated_at = 0\<rparr>"

definition persistPasskeyCredential :: "ext \<Rightarrow> int \<Rightarrow> wa_credential \<Rightarrow> string \<Rightarrow> unit io" where
  "persistPasskeyCredential x userID c name =
     attempt (lift (x_cred_marshal x c)) (\<lambda>e. fail (Wrapped ''marshal passkey credential'' e)) (\<lambda>credentialData.
     andthen (CreatePasskeyCredential x (credential_columns c credentialData userID
        (Some (if name = '''' then ''Passkey'' else name)))) (\<lambda>_. ret ()))"

definition updatePasskeyCredential :: "ext \<Rightarrow> wa_credential \<Rightarrow> unit io" where
  "updatePasskeyCredential x c =
     attempt (lift (x_cred_marshal x c)) (\<lambda>e. fail (Wrapped ''marshal updated passkey credential'' e)) (\<lambda>credentialData.
     UpdatePasskeyCredential x (credential_columns c credentialData 0 None))"

section \<open>Loading\<close>

definition loadPasskeyUser :: "ext \<Rightarrow> int \<Rightarrow> passkey_user io" where
  "loadPasskeyUser x userID =
     andthen (GetUserByID x userID) (\<lambda>u.
     andthen (ListPasskeyCredentialsByUserID x userID) (\<lambda>rows.
     ret \<lparr>pu_user = u, pu_credentials = map (credentialFromRow x) rows\<rparr>))"

definition loadPasskeyUserByHandle :: "ext \<Rightarrow> string \<Rightarrow> string \<Rightarrow> passkey_user io" where
  "loadPasskeyUserByHandle x rawID userHandle =
     (if length userHandle \<noteq> 8 then fail (ErrText ''invalid user handle'')
      else andthen (loadPasskeyUser x (handle_user_id userHandle)) (\<lambda>u.
        if \<exists>c \<in> set (pu_credentials u). cr_id c = rawID then ret u
        else fail (ErrText ''passkey not found for user'')))"

definition decodePasskeySession :: "ext \<Rightarrow> string \<Rightarrow> err + string" where
  "decodePasskeySession x sessionJSON =
     (if trim_space sessionJSON = '''' then Inl ErrPasskeyCeremony
      else (case x_wa_session x sessionJSON of
        None \<Rightarrow> Inl (Wrapped ''decode passkey session'' (ErrText ''json''))
      | Some session \<Rightarrow> Inr session))"

section \<open>The ceremonies\<close>

text \<open>The library's session value encodes to JSON without failing.\<close>

definition BeginPasskeyRegistration :: "ext \<Rightarrow> int \<Rightarrow> (string \<times> string) io" where
  "BeginPasskeyRegistration x userID =
     andthen (loadPasskeyUser x userID) (\<lambda>u.
     extern (CWebAuthn ''BeginRegistration'') (\<lambda>l. x_wa_begin_registration x l u))"

definition FinishPasskeyRegistration :: "ext \<Rightarrow> int \<Rightarrow> string \<Rightarrow> json \<Rightarrow> string \<Rightarrow> unit io" where
  "FinishPasskeyRegistration x userID sessionJSON credentialJSON name =
     andthen (lift (decodePasskeySession x sessionJSON)) (\<lambda>session.
     andthen (loadPasskeyUser x userID) (\<lambda>u.
     andthen (lift (x_wa_finish_registration x u session credentialJSON)) (\<lambda>c.
     persistPasskeyCredential x userID c (trim_space name))))"

definition BeginPasskeyLogin :: "ext \<Rightarrow> (string \<times> string) io" where
  "BeginPasskeyLogin x = extern (CWebAuthn ''BeginDiscoverableLogin'') (\<lambda>l. x_wa_begin_login x l)"

text \<open>
  The library reads the credential's raw id and user handle, asks for the user with them, and
  verifies the assertion against that user; a lookup that fails is reported as its own error.
\<close>

definition FinishPasskeyLogin :: "ext \<Rightarrow> string \<Rightarrow> json \<Rightarrow> principal io" where
  "FinishPasskeyLogin x sessionJSON credentialJSON =
     andthen (lift (decodePasskeySession x sessionJSON)) (\<lambda>session.
     andthen (lift (x_wa_assertion x session credentialJSON)) (\<lambda>(rawID, userHandle).
     attempt (loadPasskeyUserByHandle x rawID userHandle)
       (\<lambda>e. fail (ErrText ''failed to lookup client-side discoverable credential'')) (\<lambda>u.
     andthen (lift (x_wa_verify x u session credentialJSON)) (\<lambda>c.
     andthen (updatePasskeyCredential x c) (\<lambda>_.
     completeUserAuthentication x (u_id (pu_user u)) True)))))"

section \<open>Managing passkeys\<close>

record passkey =
  pv_id :: int
  pv_name :: string
  pv_transports :: "string list"
  pv_created_at :: time
  pv_updated_at :: time

definition passkey_view :: "passkey_credential \<Rightarrow> passkey" where
  "passkey_view row = \<lparr>pv_id = pk_id row,
     pv_name = (case pk_name row of None \<Rightarrow> ''Passkey'' | Some n \<Rightarrow> if trim_space n \<noteq> '''' then n else ''Passkey''),
     pv_transports = pk_transports row, pv_created_at = pk_created_at row, pv_updated_at = pk_updated_at row\<rparr>"

definition ListPasskeys :: "ext \<Rightarrow> int \<Rightarrow> passkey list io" where
  "ListPasskeys x userID =
     (if userID = 0 then fail ErrUnauthorized
      else andthen (GetUserByID x userID) (\<lambda>u.
      andthen (validateUserAccount u) (\<lambda>_.
      andthen (ListPasskeyCredentialsByUserID x userID) (\<lambda>rows.
      ret (map passkey_view rows)))))"

definition DeletePasskey :: "ext \<Rightarrow> int \<Rightarrow> int \<Rightarrow> unit io" where
  "DeletePasskey x userID passkeyID =
     (if userID = 0 then fail ErrUnauthorized
      else andthen (GetUserByID x userID) (\<lambda>u.
      andthen (validateUserAccount u) (\<lambda>_.
      andthen (DeletePasskeyCredential x passkeyID userID) (\<lambda>deleted.
      if deleted = 0 then fail ErrPasskeyNotFound else ret ()))))"

end
