(* ===== verification/OAuth.thy ===== *)
theory OAuth
  imports AccountInvariants GoJson
begin

text \<open>
  \<open>internal/auth/oauth.go\<close> and the two OAuth entry points of \<open>service.go\<close>: the authorization
  code flow with PKCE against a configured provider, and the mapping of the provider's identity
  to a local user, in login and in link mode. A JSON document that could not be parsed, or is
  blank, is \<^const>\<open>None\<close>.
\<close>

section \<open>Values\<close>

definition oauthModeLink :: string where "oauthModeLink = ''link''"
definition oauthModeLogin :: string where "oauthModeLogin = ''login''"
definition defaultUserRole :: string where "defaultUserRole = ''user''"

record oauth_result =
  or_principal :: principal
  or_provider :: string
  or_mode :: string
  or_created :: bool
  or_linked :: bool

record oauth_tokens =
  ot_access_token :: string
  ot_refresh_token :: string
  ot_expiry :: time

record oauth_profile =
  op_subject :: string
  op_email :: string
  op_email_verified :: bool
  op_username :: string
  op_name :: string

record oauth_flow_state =
  of_provider :: string
  of_state :: string
  of_code_verifier :: string
  of_started_at :: time
  of_link_user_id :: int

section \<open>Providers\<close>

definition applyOAuthProviderDefaults :: "provider_config \<Rightarrow> provider_config" where
  "applyOAuthProviderDefaults c = c\<lparr>
     prov_scopes := (if prov_scopes c = [] then [''openid'', ''email'', ''profile''] else prov_scopes c),
     prov_subject_field := or_default (prov_subject_field c = '''') ''sub'' (prov_subject_field c),
     prov_email_field := or_default (prov_email_field c = '''') ''email'' (prov_email_field c),
     prov_email_verified_field := or_default (prov_email_verified_field c = '''') ''email_verified'' (prov_email_verified_field c),
     prov_username_field := or_default (prov_username_field c = '''') ''preferred_username'' (prov_username_field c),
     prov_name_field := or_default (prov_name_field c = '''') ''name'' (prov_name_field c)\<rparr>"

text \<open>The map of clients, filled in the order in which the configured providers are visited.\<close>

definition newOAuthProviderClients :: "ext \<Rightarrow> oauth_config \<Rightarrow> string \<rightharpoonup> oauth_client" where
  "newOAuthProviderClients x cfg = foldl (\<lambda>ps (name, c).
     if \<not> prov_enabled c then ps
     else ps(normalize x name \<mapsto> \<lparr>oc_name = normalize x name, oc_config = applyOAuthProviderDefaults c\<rparr>))
     Map.empty (oauth_providers cfg)"

definition oauthProvider :: "ext \<Rightarrow> service \<Rightarrow> string \<Rightarrow> err + (oauth_client \<times> string)" where
  "oauthProvider x s name = (case sv_oauth s (normalize x name) of
     None \<Rightarrow> Inl ErrOAuthProvider | Some c \<Rightarrow> Inr (c, normalize x name))"

text \<open>The query of the URL, in the order in which \<open>url.Values.Encode\<close> writes it.\<close>

definition AuthorizationURL :: "ext \<Rightarrow> oauth_client \<Rightarrow> string \<Rightarrow> string \<Rightarrow> string" where
  "AuthorizationURL x c state codeChallenge =
     (case x_url x (prov_auth_url (oc_config c))
        [(''client_id'', prov_client_id (oc_config c)), (''code_challenge'', codeChallenge),
         (''code_challenge_method'', ''S256''), (''redirect_uri'', prov_redirect_url (oc_config c)),
         (''response_type'', ''code''), (''scope'', join '' '' (prov_scopes (oc_config c))), (''state'', state)] of
        None \<Rightarrow> prov_auth_url (oc_config c)
      | Some u \<Rightarrow> u)"

definition http_Do :: "ext \<Rightarrow> http_request \<Rightarrow> http_response io" where
  "http_Do x rq = extern (CHttp rq) (\<lambda>l. x_http x l rq)"

definition endpoint_error :: "string \<Rightarrow> http_response \<Rightarrow> err" where
  "endpoint_error name r = ErrText (name @ '' endpoint returned '' @ show_int (hs_status r) @ '': ''
     @ trim_space (take 4096 (hs_text r)))"

definition success_status :: "http_response \<Rightarrow> bool" where
  "success_status r \<longleftrightarrow> 200 \<le> hs_status r \<and> hs_status r < 300"

record token_payload_fields =
  tp_access_token :: string
  tp_refresh_token :: string
  tp_expires_in :: int

definition token_fields :: "token_payload_fields field list" where
  "token_fields =
     [(''access_token'', string_field (\<lambda>v r. r\<lparr>tp_access_token := v\<rparr>)),
      (''refresh_token'', string_field (\<lambda>v r. r\<lparr>tp_refresh_token := v\<rparr>)),
      (''expires_in'', int64_field (\<lambda>v r. r\<lparr>tp_expires_in := v\<rparr>))]"

text \<open>\<open>time.Duration(payload.ExpiresIn) * time.Second\<close> is a product of 64-bit integers.\<close>

definition token_expiry :: "time \<Rightarrow> int \<Rightarrow> time" where
  "token_expiry now expires_in = (if expires_in > 0 then now + wrap64 (expires_in * second) else 0)"

definition ExchangeCode :: "ext \<Rightarrow> oauth_client \<Rightarrow> string \<Rightarrow> string \<Rightarrow> oauth_tokens io" where
  "ExchangeCode x c code codeVerifier =
     andthen (http_Do x \<lparr>hq_method = ''POST'', hq_url = prov_token_url (oc_config c),
        hq_headers = [(''Content-Type'', ''application/x-www-form-urlencoded'')],
        hq_form = [(''client_id'', prov_client_id (oc_config c)), (''client_secret'', prov_client_secret (oc_config c)),
          (''code'', code), (''code_verifier'', codeVerifier), (''grant_type'', ''authorization_code''),
          (''redirect_uri'', prov_redirect_url (oc_config c))]\<rparr>) (\<lambda>r.
     if \<not> success_status r then fail (endpoint_error ''token'' r)
     else andthen (lift (hs_json r)) (\<lambda>j.
     case decode_struct token_fields j \<lparr>tp_access_token = '''', tp_refresh_token = '''', tp_expires_in = 0\<rparr> of
       None \<Rightarrow> fail (ErrText ''json: cannot unmarshal token response'')
     | Some p \<Rightarrow>
         if trim_space (tp_access_token p) = '''' then fail ErrRequestFailed
         else andthen time_Now (\<lambda>now.
           ret \<lparr>ot_access_token = trim_space (tp_access_token p), ot_refresh_token = trim_space (tp_refresh_token p),
                ot_expiry = token_expiry now (tp_expires_in p)\<rparr>)))"

definition payloadString :: "(string \<times> json) list \<Rightarrow> string \<Rightarrow> string" where
  "payloadString payload field = (case member_get payload field of
     None \<Rightarrow> '''' | Some (JStr s) \<Rightarrow> trim_space s | Some v \<Rightarrow> trim_space (sprint v))"

definition payloadBool :: "(string \<times> json) list \<Rightarrow> string \<Rightarrow> bool \<Rightarrow> bool" where
  "payloadBool payload field defaultValue =
     (if trim_space field = '''' then defaultValue
      else (case member_get payload field of
        None \<Rightarrow> defaultValue
      | Some (JBool b) \<Rightarrow> b
      | Some (JStr s) \<Rightarrow> equal_fold (trim_space s) ''true''
      | Some _ \<Rightarrow> defaultValue))"

definition FetchProfile :: "ext \<Rightarrow> oauth_client \<Rightarrow> string \<Rightarrow> oauth_profile io" where
  "FetchProfile x c accessToken =
     andthen (http_Do x \<lparr>hq_method = ''GET'', hq_url = prov_user_info_url (oc_config c),
        hq_headers = [(''Authorization'', ''Bearer '' @ accessToken)], hq_form = []\<rparr>) (\<lambda>r.
     if \<not> success_status r then fail (endpoint_error ''userinfo'' r)
     else andthen (lift (hs_json r)) (\<lambda>j.
     case decode_map j of
       None \<Rightarrow> fail (ErrText ''json: cannot unmarshal userinfo response'')
     | Some payload \<Rightarrow> ret
         \<lparr>op_subject = payloadString payload (prov_subject_field (oc_config c)),
          op_email = normalize x (payloadString payload (prov_email_field (oc_config c))),
          op_email_verified = payloadBool payload (prov_email_verified_field (oc_config c)) False,
          op_username = payloadString payload (prov_username_field (oc_config c)),
          op_name = payloadString payload (prov_name_field (oc_config c))\<rparr>))"

section \<open>The flow kept in the session\<close>

definition encodeOAuthFlow :: "ext \<Rightarrow> oauth_flow_state \<Rightarrow> json" where
  "encodeOAuthFlow x f = JObj
     ([(''provider'', JStr (of_provider f)), (''state'', JStr (of_state f)),
       (''code_verifier'', JStr (of_code_verifier f)), (''started_at'', JStr (x_time_text x (of_started_at f)))]
      @ (if of_link_user_id f = 0 then [] else [(''link_user_id'', JNum (of_link_user_id f) 0)]))"

definition flow_fields :: "ext \<Rightarrow> oauth_flow_state field list" where
  "flow_fields x =
     [(''provider'', string_field (\<lambda>v r. r\<lparr>of_provider := v\<rparr>)),
      (''state'', string_field (\<lambda>v r. r\<lparr>of_state := v\<rparr>)),
      (''code_verifier'', string_field (\<lambda>v r. r\<lparr>of_code_verifier := v\<rparr>)),
      (''started_at'', parsed_field (x_time_parse x) (\<lambda>v r. r\<lparr>of_started_at := v\<rparr>)),
      (''link_user_id'', int64_field (\<lambda>v r. r\<lparr>of_link_user_id := v\<rparr>))]"

definition decodeOAuthFlow :: "ext \<Rightarrow> json option \<Rightarrow> err + oauth_flow_state" where
  "decodeOAuthFlow x doc = (case doc of None \<Rightarrow> Inl ErrOAuthState
     | Some j \<Rightarrow> (case decode_struct (flow_fields x) j
           \<lparr>of_provider = '''', of_state = '''', of_code_verifier = '''', of_started_at = 0, of_link_user_id = 0\<rparr> of
         None \<Rightarrow> Inl ErrOAuthState | Some f \<Rightarrow> Inr f))"

definition randomToken :: "ext \<Rightarrow> int \<Rightarrow> string io" where
  "randomToken x n = (if n < 0 then fail (ErrText ''panic: runtime error: makeslice: len out of range'')
     else andthen (rand_Read x (nat n)) (\<lambda>raw. ret (b64url raw)))"

definition pkceCodeChallenge :: "ext \<Rightarrow> string \<Rightarrow> string" where
  "pkceCodeChallenge x verifier = b64url (x_sha256 x verifier)"

definition modeForUserID :: "int \<Rightarrow> string" where
  "modeForUserID i = (if i \<noteq> 0 then oauthModeLink else oauthModeLogin)"

definition OAuthAuthorizationURL :: "ext \<Rightarrow> service \<Rightarrow> string \<Rightarrow> int \<Rightarrow> (string \<times> json \<times> string) io" where
  "OAuthAuthorizationURL x s provider currentUserID =
     andthen (lift (oauthProvider x s provider)) (\<lambda>(client, normalizedProvider).
     andthen (randomToken x (oauth_state_bytes (cfg_oauth (sv_cfg s)))) (\<lambda>state.
     andthen (randomToken x (oauth_pkce_verifier_bytes (cfg_oauth (sv_cfg s)))) (\<lambda>verifier.
     andthen time_Now (\<lambda>now.
     ret (AuthorizationURL x client state (pkceCodeChallenge x verifier),
          encodeOAuthFlow x \<lparr>of_provider = normalizedProvider, of_state = state, of_code_verifier = verifier,
            of_started_at = now, of_link_user_id = currentUserID\<rparr>,
          modeForUserID currentUserID)))))"

section \<open>The local user\<close>

definition sealStoredSecret :: "ext \<Rightarrow> string \<Rightarrow> string \<Rightarrow> string option io" where
  "sealStoredSecret x value key =
     (if trim_space value = '''' then ret None
      else andthen (encryptSecret x value key) (\<lambda>(ciphertext, nonce). ret (Some (nonce @ ciphertext))))"

definition username_rune :: "nat \<Rightarrow> bool" where
  "username_rune r \<longleftrightarrow> (0x61 \<le> r \<and> r \<le> 0x7A) \<or> (0x30 \<le> r \<and> r \<le> 0x39) \<or> r \<in> {0x2D, 0x5F, 0x2E}"

definition sanitizeUsername :: "ext \<Rightarrow> string \<Rightarrow> string" where
  "sanitizeUsername x value = strip (\<lambda>c. c \<in> set ''-._'')
     (concat (map (\<lambda>(r, _). if username_rune r then [char_of r] else []) (runes (normalize x value))))"

definition oauth_base_name :: "ext \<Rightarrow> string \<Rightarrow> oauth_profile \<Rightarrow> string" where
  "oauth_base_name x provider p =
     (let v1 = op_username p; v2 = (if v1 = '''' then op_name p else v1);
          v3 = (if v2 = '''' then hd (split_on (CHR ''@'') (op_email p)) else v2);
          v4 = sanitizeUsername x v3
      in if v4 = '''' then provider else v4)"

definition generateOAuthUsername :: "ext \<Rightarrow> string \<Rightarrow> oauth_profile \<Rightarrow> string io" where
  "generateOAuthUsername x provider p =
     attempt (randomToken x 4)
       (\<lambda>e. ret (oauth_base_name x provider p @ ''-user''))
       (\<lambda>suffix. ret (oauth_base_name x provider p @ ''-'' @ to_lower (x_lower x) (take 6 suffix)))"

definition createOAuthUser :: "ext \<Rightarrow> string \<Rightarrow> oauth_profile \<Rightarrow> user io" where
  "createOAuthUser x provider p =
     (if trim_space (op_email p) = '''' \<or> \<not> op_email_verified p then fail ErrOAuthProfile
      else andthen (generateOAuthUsername x provider p) (\<lambda>username.
      andthen (CreateUser x username (trim_space (op_email p))) (\<lambda>u.
      andthen (MarkUserEmailVerified x (u_id u)) (\<lambda>_.
      andthen time_Now (\<lambda>now.
      andthen (GetRoleByName x defaultUserRole) (\<lambda>r.
      andthen (AddUserRole x (u_id u) (role_id r)) (\<lambda>_.
      ret (u\<lparr>u_email_verified_at := Some now\<rparr>))))))))"

definition nullTime :: "time \<Rightarrow> time option" where
  "nullTime t = (if t = 0 then None else Some t)"

text \<open>
  The first half of \<open>completeOAuthFlow\<close>: whose login this is, with the flags linked and
  created of the result.
\<close>

definition resolveOAuthUser :: "ext \<Rightarrow> string \<Rightarrow> oauth_flow_state \<Rightarrow> oauth_profile \<Rightarrow> (int \<times> bool \<times> bool) io" where
  "resolveOAuthUser x provider f p =
     attempt (GetOAuthAccountByProviderIdentity x provider (trim_space (op_subject p)))
       (\<lambda>e. if \<not> errors_is e ErrNoRows then fail e
            else if of_link_user_id f = 0
            then attempt (GetUserByEmail x (op_email p))
              (\<lambda>e. if \<not> errors_is e ErrNoRows then fail e
                   else andthen (createOAuthUser x provider p) (\<lambda>u. ret (u_id u, False, True)))
              (\<lambda>u. if \<not> u_is_active u then fail ErrAccountDisabled
                   else andthen time_Now (\<lambda>now.
                     if locked_at u now then fail ErrAccountLocked else ret (u_id u, True, False)))
            else ret (of_link_user_id f, False, False))
       (\<lambda>a. if of_link_user_id f \<noteq> 0 \<and> oa_user_id a \<noteq> of_link_user_id f then fail ErrOAuthConflict
            else ret (oa_user_id a, False, False))"

definition checkOAuthLink :: "ext \<Rightarrow> string \<Rightarrow> oauth_flow_state \<Rightarrow> oauth_profile \<Rightarrow> bool \<Rightarrow> bool io" where
  "checkOAuthLink x provider f p linked =
     (if of_link_user_id f \<noteq> 0
      then attempt (GetOAuthAccountByUserIDAndProvider x (of_link_user_id f) provider)
        (\<lambda>e. if \<not> errors_is e ErrNoRows then fail e else ret True)
        (\<lambda>a. if oa_provider_user_id a \<noteq> trim_space (op_subject p) then fail ErrOAuthConflict else ret True)
      else ret linked)"

definition completeOAuthFlow ::
  "ext \<Rightarrow> service \<Rightarrow> string \<Rightarrow> oauth_flow_state \<Rightarrow> oauth_profile \<Rightarrow> oauth_tokens \<Rightarrow> oauth_result io" where
  "completeOAuthFlow x s provider f p tokens =
     andthen (resolveOAuthUser x provider f p) (\<lambda>(userID, linked0, created).
     andthen (checkOAuthLink x provider f p linked0) (\<lambda>linked.
     andthen (sealStoredSecret x (ot_access_token tokens) (sec_encryption_key (sv_security s))) (\<lambda>sealedAccess.
     andthen (if ot_refresh_token tokens \<noteq> ''''
              then sealStoredSecret x (ot_refresh_token tokens) (sec_encryption_key (sv_security s)) else ret None) (\<lambda>sealedRefresh.
     andthen (UpsertOAuthAccount x userID provider (trim_space (op_subject p)) sealedAccess sealedRefresh
                (nullTime (ot_expiry tokens))) (\<lambda>_.
     andthen (completeUserAuthentication x userID (of_link_user_id f = 0)) (\<lambda>principal.
     ret \<lparr>or_principal = principal, or_provider = provider, or_mode = modeForUserID (of_link_user_id f),
          or_created = created, or_linked = linked\<rparr>))))))"

text \<open>The checks on the returned state, before the provider is contacted.\<close>

definition flow_fresh :: "service \<Rightarrow> oauth_flow_state \<Rightarrow> time \<Rightarrow> bool" where
  "flow_fresh s f now \<longleftrightarrow> \<not> (of_started_at f = 0 \<or> of_started_at f > now + minute \<or>
     time_sub now (of_started_at f) > oauth_state_ttl (cfg_oauth (sv_cfg s)))"

definition CompleteOAuthAuthentication ::
  "ext \<Rightarrow> service \<Rightarrow> string \<Rightarrow> json option \<Rightarrow> string \<Rightarrow> string \<Rightarrow> int \<Rightarrow> oauth_result io" where
  "CompleteOAuthAuthentication x s provider sessionJSON state code currentUserID =
     andthen (lift (decodeOAuthFlow x sessionJSON)) (\<lambda>f.
     andthen time_Now (\<lambda>now.
     if \<not> flow_fresh s f now then fail ErrOAuthState
     else andthen (lift (oauthProvider x s provider)) (\<lambda>(client, normalizedProvider).
     if of_provider f \<noteq> normalizedProvider \<or> of_state f \<noteq> state \<or> code = '''' then fail ErrOAuthState
     else if of_link_user_id f \<noteq> 0 \<and> of_link_user_id f \<noteq> currentUserID then fail ErrOAuthState
     else attempt (ExchangeCode x client code (of_code_verifier f)) (\<lambda>e. fail (Wrapped ''exchange oauth code'' e)) (\<lambda>tokens.
     attempt (FetchProfile x client (ot_access_token tokens)) (\<lambda>e. fail (Wrapped ''fetch oauth profile'' e)) (\<lambda>p.
     if op_subject p = '''' \<or> op_email p = '''' \<or> \<not> op_email_verified p then fail ErrOAuthProfile
     else WithTx x (completeOAuthFlow x s normalizedProvider f p tokens))))))"

end
