(* ===== verification/Cache.thy ===== *)
theory Cache
  imports Prelude
begin

text \<open>
  \<open>internal/cache/cache.go\<close>: the cache with a time to live, and the contract its client, the role
  check, relies on. The items are an association list without repeated keys; values are
  immutable here, so cloning one is the identity on it.
\<close>

record 'v entry =
  en_value :: 'v
  en_expires_at :: time

record ('k, 'v) cache =
  ca_ttl :: duration
  ca_items :: "'k \<rightharpoonup> 'v entry"

text \<open>The nil cache of \<open>New\<close> with a time to live that is not positive is \<^const>\<open>None\<close>.\<close>

definition New :: "duration \<Rightarrow> ('k, 'v) cache option" where
  "New ttl = (if ttl \<le> 0 then None else Some \<lparr>ca_ttl = ttl, ca_items = Map.empty\<rparr>)"

definition expired :: "'v entry \<Rightarrow> time \<Rightarrow> bool" where
  "expired e now \<longleftrightarrow> now > en_expires_at e"

definition Sweep :: "('k, 'v) cache option \<Rightarrow> time \<Rightarrow> ('k, 'v) cache option" where
  "Sweep c now = map_option (\<lambda>c. c\<lparr>ca_items := (\<lambda>k. case ca_items c k of None \<Rightarrow> None
     | Some e \<Rightarrow> if expired e now then None else Some e)\<rparr>) c"

text \<open>A lookup returns what it found and the cache it leaves; an expired entry is dropped.\<close>

definition Get :: "('k, 'v) cache option \<Rightarrow> 'k \<Rightarrow> time \<Rightarrow> 'v option \<times> ('k, 'v) cache option" where
  "Get c key now = (case c of None \<Rightarrow> (None, None)
     | Some c \<Rightarrow> (case ca_items c key of
         None \<Rightarrow> (None, Some c)
       | Some e \<Rightarrow> if expired e now then (None, Some (c\<lparr>ca_items := (ca_items c)(key := None)\<rparr>))
                   else (Some (en_value e), Some c)))"

definition Set :: "('k, 'v) cache option \<Rightarrow> 'k \<Rightarrow> 'v \<Rightarrow> time \<Rightarrow> ('k, 'v) cache option" where
  "Set c key v now = map_option (\<lambda>c. c\<lparr>ca_items := (ca_items c)(key \<mapsto> \<lparr>en_value = v, en_expires_at = now + ca_ttl c\<rparr>)\<rparr>) c"

section \<open>The contract\<close>

text \<open>
  A stored value is answered until its time to live has passed and no longer; the other
  operations change no answer from their instant on. A cache whose time to live is not
  positive answers nothing.
\<close>

locale ttl_cache =
  fixes valid :: "'c \<Rightarrow> bool"
    and store :: "'c \<Rightarrow> 'k \<Rightarrow> 'v \<Rightarrow> time \<Rightarrow> 'c"
    and look :: "'c \<Rightarrow> 'k \<Rightarrow> time \<Rightarrow> 'v option \<times> 'c"
    and sweep :: "'c \<Rightarrow> time \<Rightarrow> 'c"
    and ttl :: "'c \<Rightarrow> duration"
  assumes look_keeps: "t \<le> u \<Longrightarrow> fst (look (snd (look c k t)) k' u) = fst (look c k' u)"
    and sweep_keeps: "t \<le> u \<Longrightarrow> fst (look (sweep c t) k' u) = fst (look c k' u)"
    and store_answer: "valid c \<Longrightarrow> fst (look (store c k v t) k' u) =
      (if k' = k then (if 0 < ttl c \<and> u \<le> t + ttl c then Some v else None) else fst (look c k' u))"
    and ttl_same: "ttl (snd (look c k t)) = ttl c" "ttl (sweep c t) = ttl c" "ttl (store c k v t) = ttl c"
    and valid_same: "valid c \<Longrightarrow> valid (snd (look c k t))" "valid c \<Longrightarrow> valid (sweep c t)" "valid c \<Longrightarrow> valid (store c k v t)"
begin

abbreviation answer :: "'c \<Rightarrow> 'k \<Rightarrow> time \<Rightarrow> 'v option" where
  "answer c k t \<equiv> fst (look c k t)"
text \<open>
  Reading through the cache: a hit is the answer, a miss asks \<open>f\<close> and stores its result. If every
  answer of the cache was right at most \<open>ttl\<close> before the instant it is given, reading through keeps
  it so: the value returned was right at some instant of that interval.
\<close>

definition read_through :: "'c \<Rightarrow> 'k \<Rightarrow> time \<Rightarrow> ('k \<Rightarrow> 'v) \<Rightarrow> 'v \<times> 'c" where
  "read_through c k t f = (case look c k t of (Some v, c') \<Rightarrow> (v, c') | (None, c') \<Rightarrow> (f k, store c' k (f k) t))"

definition recent :: "(time \<Rightarrow> 'k \<Rightarrow> 'v) \<Rightarrow> 'c \<Rightarrow> time \<Rightarrow> bool" where
  "recent truth c now \<longleftrightarrow> (\<forall>k u v. now \<le> u \<and> answer c k u = Some v \<longrightarrow> (\<exists>s. s \<le> now \<and> u \<le> s + ttl c \<and> v = truth s k))"

lemma recent_mono: "recent truth c now \<Longrightarrow> now \<le> now' \<Longrightarrow> recent truth c now'"
  unfolding recent_def by (meson order_trans)

lemma read_through_recent:
  assumes "recent truth c now" and "valid c" and "0 \<le> ttl c"
  shows "recent truth (snd (read_through c k now (truth now))) now"
    and "\<exists>s. s \<le> now \<and> now \<le> s + ttl c \<and> fst (read_through c k now (truth now)) = truth s k"
proof -
  obtain r c' where lk: "look c k now = (r, c')" by (cases "look c k now")
  then have r: "r = answer c k now" by simp
  from lk look_keeps [of now _ c k] have keep: "now \<le> u \<Longrightarrow> answer c' k' u = answer c k' u" for u k' by simp
  have ttl: "ttl c' = ttl c" and val: "valid c'" using ttl_same(1) [of c k now] valid_same(1) [OF assms(2), of k now] lk by simp_all
  have c': "recent truth c' now" using assms(1) keep unfolding recent_def ttl by metis
  show "recent truth (snd (read_through c k now (truth now))) now"
  proof (cases r)
    case None
    have "recent truth (store c' k (truth now k) now) now"
      using c' assms(3) unfolding recent_def store_answer [OF val] ttl_same(3) by (auto simp: ttl split: if_splits)
    with None lk show ?thesis by (simp add: read_through_def)
  qed (use c' lk in \<open>simp add: read_through_def\<close>)
  show "\<exists>s. s \<le> now \<and> now \<le> s + ttl c \<and> fst (read_through c k now (truth now)) = truth s k"
  proof (cases r)
    case None
    with lk assms(3) show ?thesis by (auto simp: read_through_def intro!: exI [of _ now])
  next
    case (Some v)
    with r assms(1) have "\<exists>s. s \<le> now \<and> now \<le> s + ttl c \<and> v = truth s k" by (auto simp: recent_def)
    with Some lk show ?thesis by (simp add: read_through_def)
  qed
qed

end

definition cache_ttl :: "('k, 'v) cache option \<Rightarrow> duration" where
  "cache_ttl c = (case c of None \<Rightarrow> 0 | Some c \<Rightarrow> ca_ttl c)"

definition cache_valid :: "('k, 'v) cache option \<Rightarrow> bool" where
  "cache_valid c \<longleftrightarrow> (case c of None \<Rightarrow> True | Some c \<Rightarrow> 0 < ca_ttl c)"

lemma New_valid: "cache_valid (New ttl)" "0 \<le> cache_ttl (New ttl)"
  by (simp_all add: New_def cache_valid_def cache_ttl_def)

interpretation roles: ttl_cache cache_valid Set Get Sweep cache_ttl
proof (unfold_locales, goal_cases)
  case (1 t u c k k')
  then show ?case by (auto simp: Get_def expired_def split: option.splits)
next
  case (2 t u c k')
  then show ?case by (auto simp: Get_def Sweep_def expired_def split: option.splits)
next
  case (3 c k v t k' u)
  then show ?case by (auto simp: Get_def Set_def expired_def cache_valid_def cache_ttl_def split: option.splits)
qed (auto simp: Get_def Set_def Sweep_def cache_valid_def cache_ttl_def split: option.splits)
end
