(* ===== verification/Web.thy ===== *)
theory Web
  imports Validation GoJson Passkeys OAuth Cache
begin

text \<open>
  What the HTTP layer works with: requests, responses (\<open>internal/httpapi/jsonio\<close>), the session
  of a request, and the state that a request is served in. The session manager, the tokenizer of
  \<open>encoding/json\<close> and the database driver's ping are parameters.
\<close>

section \<open>Requests and responses\<close>

record request =
  rq_method :: string
  rq_path :: "string list"
  rq_params :: "(string \<times> string) list" \<comment> \<open>parameters of the route\<close>
  rq_query :: "(string \<times> string) list"
  rq_headers :: "(string \<times> string) list"
  rq_remote_addr :: string
  rq_cookie :: string \<comment> \<open>the session cookie, empty without one\<close>
  rq_body :: string

datatype body = NoBody | DataBody json | ErrorBody string string "field_errors option" | TextBody string

record response =
  rs_status :: int
  rs_headers :: "(string \<times> string) list"
  rs_body :: body

text \<open>The first value under a key, the empty string without one.\<close>

definition first_of :: "(string \<times> string) list \<Rightarrow> string \<Rightarrow> string" where
  "first_of kvs k = (case map_of kvs k of None \<Rightarrow> '''' | Some v \<Rightarrow> v)"

abbreviation Header_Get :: "request \<Rightarrow> string \<Rightarrow> string" where
  "Header_Get rq k \<equiv> first_of (rq_headers rq) k"

definition WriteJSON :: "int \<Rightarrow> json \<Rightarrow> response" where
  "WriteJSON status data = \<lparr>rs_status = status, rs_headers = [(''Content-Type'', ''application/json'')], rs_body = DataBody data\<rparr>"

text \<open>An empty map of fields is left out of the encoded error.\<close>

definition WriteErrorWithFields :: "int \<Rightarrow> string \<Rightarrow> string \<Rightarrow> field_errors option \<Rightarrow> response" where
  "WriteErrorWithFields status code msg fm =
     \<lparr>rs_status = status, rs_headers = [(''Content-Type'', ''application/json'')], rs_body = ErrorBody code msg fm\<rparr>"

definition WriteError :: "int \<Rightarrow> string \<Rightarrow> string \<Rightarrow> response" where
  "WriteError status code msg = WriteErrorWithFields status code msg None"

text \<open>Every \<open>Validate\<close> of the program reports a collection of field errors.\<close>

definition WriteValidationError :: "field_errors \<Rightarrow> response" where
  "WriteValidationError es = WriteErrorWithFields 400 ''validation_failed'' (Errors_Error es) (FieldMap es)"

section \<open>The text of an error\<close>

definition pad :: "nat \<Rightarrow> string \<Rightarrow> string" where
  "pad n s = replicate (n - length s) (CHR ''0'') @ s"

definition fraction :: "nat \<Rightarrow> nat \<Rightarrow> string" where
  "fraction prec v = (let d = v mod 10 ^ prec in
     if d = 0 then '''' else ''.'' @ strip_zeros (pad prec (digits_of d)))"

text \<open>\<open>Duration.String\<close>\<close>

definition duration_String :: "duration \<Rightarrow> string" where
  "duration_String d =
     (let u = nat \<bar>d\<bar>; sign = (if d < 0 then ''-'' else '''');
          sec = u div 10 ^ 9; m = sec div 60; h = m div 60 in
      if u = 0 then ''0s''
      else sign @
        (if u < 10 ^ 3 then digits_of u @ ''ns''
         else if u < 10 ^ 6 then digits_of (u div 10 ^ 3) @ fraction 3 u @ [char_of (0xC2::nat), char_of (0xB5::nat), CHR ''s'']
         else if u < 10 ^ 9 then digits_of (u div 10 ^ 6) @ fraction 6 u @ ''ms''
         else (if h > 0 then digits_of h @ ''h'' else '''') @ (if m > 0 then digits_of (m mod 60) @ ''m'' else '''') @
              digits_of (sec mod 60) @ fraction 9 u @ ''s''))"

text \<open>The text of a driver's error is the driver's; its kind stands for it.\<close>

fun db_error_text :: "db_error \<Rightarrow> string" where
  "db_error_text (UniqueViolation s) = s"
| "db_error_text (ForeignKeyViolation s) = s"
| "db_error_text (OutOfRange s) = s"
| "db_error_text (Unavailable s) = s"

fun err_Error :: "err \<Rightarrow> string" where
  "err_Error ErrInvalidCredentials = ''invalid credentials''"
| "err_Error ErrAccountLocked = ''account is locked''"
| "err_Error ErrAccountDisabled = ''account is disabled''"
| "err_Error ErrEmailUnverified = ''email verification required''"
| "err_Error ErrRequestFailed = ''request failed''"
| "err_Error ErrTOTPRequired = ''two-factor authentication required''"
| "err_Error ErrInvalidTOTP = ''invalid two-factor code''"
| "err_Error ErrTOTPAlreadyEnabled = ''two-factor authentication is already enabled''"
| "err_Error ErrPasskeyCeremony = ''passkey ceremony not initialized''"
| "err_Error ErrPasskeyNotFound = ''passkey not found''"
| "err_Error ErrUnauthorized = ''authentication required''"
| "err_Error ErrOAuthProvider = ''oauth provider is not configured''"
| "err_Error ErrOAuthState = ''oauth state is invalid or expired''"
| "err_Error ErrOAuthConflict = ''oauth account is already linked to another user''"
| "err_Error ErrOAuthProfile = ''oauth provider profile is incomplete''"
| "err_Error ErrWeakPassword = ''password must be at least 12 characters''"
| "err_Error ErrInvalidEncryptionKey = ''security encryption key must be at least 32 characters''"
| "err_Error (RateLimitError d) = ''rate limited: retry after '' @ duration_String d"
| "err_Error ErrNoRows = ''sql: no rows in result set''"
| "err_Error (ErrDb e) = db_error_text e"
| "err_Error (ErrText s) = s"
| "err_Error (Wrapped m e) = m @ '': '' @ err_Error e"

section \<open>The state a request is served in\<close>

text \<open>A session value: an integer, a text, or a text that holds a JSON document.\<close>

datatype sval = SInt int | SStr string | SDoc json

datatype sess_status = Unmodified | Modified | Destroyed

record session =
  ss_token :: string
  ss_values :: "string \<rightharpoonup> sval"
  ss_status :: sess_status

text \<open>The saved sessions by token.\<close>

type_synonym saved = "string \<rightharpoonup> (string \<rightharpoonup> sval)"

text \<open>
  The session manager, a library: given the log of calls it may fail, and it may change the session and the
  saved ones. The values of a session by key are its data model.
\<close>

record scs =
  scs_token :: "call list \<Rightarrow> err + string" \<comment> \<open>what its generator of tokens draws\<close>
  scs_Load :: "call list \<Rightarrow> saved \<Rightarrow> string \<Rightarrow> err + session"
  scs_RenewToken :: "call list \<Rightarrow> session \<Rightarrow> saved \<Rightarrow> (err + unit) \<times> session \<times> saved"
  scs_Destroy :: "call list \<Rightarrow> session \<Rightarrow> saved \<Rightarrow> (err + unit) \<times> session \<times> saved"
  scs_Commit :: "call list \<Rightarrow> session \<Rightarrow> saved \<Rightarrow> (err + string option) \<times> session \<times> saved"
    \<comment> \<open>the value of the cookie to set, if any\<close>

record web =
  wb_world :: world
  wb_store :: saved
  wb_session :: session
  wb_roles :: "(int, string list) cache option"

record site =
  si_ext :: ext
  si_service :: service
  si_json :: "string \<Rightarrow> json list \<times> bool" \<comment> \<open>the values of a text; whether it ends after them\<close>
  si_scs :: scs
  si_ping :: "call list \<Rightarrow> err option"

type_synonym handler = "request \<Rightarrow> web \<Rightarrow> response \<times> web"

definition respond :: "response \<Rightarrow> web \<Rightarrow> response \<times> web" where
  "respond r s = (r, s)"

text \<open>\<open>v, err := m; if err != nil { answer; return }; k(v)\<close>\<close>

definition on_error :: "(web, 'a) go \<Rightarrow> (err \<Rightarrow> response) \<Rightarrow> ('a \<Rightarrow> web \<Rightarrow> response \<times> web) \<Rightarrow> web \<Rightarrow> response \<times> web" where
  "on_error m h k s = (case m s of (Inl e, t) \<Rightarrow> (h e, t) | (Inr v, t) \<Rightarrow> k v t)"

definition in_world :: "'a io \<Rightarrow> (web, 'a) go" where
  "in_world m s = (case m (wb_world s) of (r, w) \<Rightarrow> (r, s\<lparr>wb_world := w\<rparr>))"

lemma in_world_Inv [go_inv]:
  "in_world m s = (r, t) \<longleftrightarrow> (\<exists>w. m (wb_world s) = (r, w) \<and> t = s\<lparr>wb_world := w\<rparr>)"
  by (auto simp: in_world_def split: prod.splits)

lemma on_error_Inv:
  "on_error m h k s = (r, t) \<longleftrightarrow>
     (\<exists>e. m s = (Inl e, t) \<and> r = h e) \<or> (\<exists>v u. m s = (Inr v, u) \<and> k v u = (r, t))"
  by (auto simp: on_error_def split: prod.splits sum.splits)

section \<open>The session manager\<close>

text \<open>Values by key, with a zero value for a missing key or one of another type.\<close>

definition GetInt64 :: "web \<Rightarrow> string \<Rightarrow> int" where
  "GetInt64 s k = (case ss_values (wb_session s) k of Some (SInt i) \<Rightarrow> i | _ \<Rightarrow> 0)"

definition GetString :: "web \<Rightarrow> string \<Rightarrow> string" where
  "GetString s k = (case ss_values (wb_session s) k of Some (SStr t) \<Rightarrow> t | _ \<Rightarrow> '''')"

definition GetDoc :: "web \<Rightarrow> string \<Rightarrow> json option" where
  "GetDoc s k = (case ss_values (wb_session s) k of Some (SDoc j) \<Rightarrow> Some j | _ \<Rightarrow> None)"

definition Put :: "string \<Rightarrow> sval \<Rightarrow> web \<Rightarrow> web" where
  "Put k v s = s\<lparr>wb_session := (wb_session s)\<lparr>ss_values := (ss_values (wb_session s))(k \<mapsto> v), ss_status := Modified\<rparr>\<rparr>"

definition Remove :: "string \<Rightarrow> web \<Rightarrow> web" where
  "Remove k s = (if ss_values (wb_session s) k = None then s
     else s\<lparr>wb_session := (wb_session s)\<lparr>ss_values := (ss_values (wb_session s))(k := None), ss_status := Modified\<rparr>\<rparr>)"

text \<open>A call of the session manager is logged like every other call to the outside.\<close>

definition session_io :: "string \<Rightarrow> (call list \<Rightarrow> session \<Rightarrow> saved \<Rightarrow> (err + 'a) \<times> session \<times> saved) \<Rightarrow> (web, 'a) go" where
  "session_io oper f s = (let l = CSession oper # wlog (wb_world s) in
     case f l (wb_session s) (wb_store s) of (r, ss, m) \<Rightarrow>
       (r, s\<lparr>wb_world := (wb_world s)\<lparr>wlog := l\<rparr>, wb_session := ss, wb_store := m\<rparr>))"

definition RenewToken :: "site \<Rightarrow> (web, unit) go" where
  "RenewToken st = session_io ''RenewToken'' (scs_RenewToken (si_scs st))"

definition Destroy :: "site \<Rightarrow> (web, unit) go" where
  "Destroy st = session_io ''Destroy'' (scs_Destroy (si_scs st))"

definition load_session :: "site \<Rightarrow> string \<Rightarrow> (web, unit) go" where
  "load_session st cookie = session_io ''Load'' (\<lambda>l ss m. case scs_Load (si_scs st) l m cookie of
     Inl e \<Rightarrow> (Inl e, ss, m) | Inr ss' \<Rightarrow> (Inr (), ss', m))"

definition commit_session :: "site \<Rightarrow> (web, string option) go" where
  "commit_session st = session_io ''Commit'' (scs_Commit (si_scs st))"

text \<open>
  What its documentation says of the four: a session is loaded by its token, and is new for a token that is
  not saved; \<open>RenewToken\<close> keeps the values under a newly drawn token and deletes the saved copy under the old
  one; \<open>Destroy\<close> deletes the saved session and empties the current one; a modified session is saved under
  its token, and one without a token gets a new one. An operation that fails may have reached the store.
\<close>

definition no_session :: session where
  "no_session = \<lparr>ss_token = '''', ss_values = Map.empty, ss_status = Unmodified\<rparr>"

definition session_of :: "saved \<Rightarrow> string \<Rightarrow> session" where
  "session_of m token = (if token = '''' then no_session else case m token of None \<Rightarrow> no_session
     | Some vs \<Rightarrow> \<lparr>ss_token = token, ss_values = vs, ss_status = Unmodified\<rparr>)"

definition deleted :: "string \<Rightarrow> saved \<Rightarrow> saved" where
  "deleted token m = (if token = '''' then m else m(token := None))"

definition renewed :: "(err + string) \<Rightarrow> session \<Rightarrow> saved \<Rightarrow> (err + unit) \<times> session \<times> saved \<Rightarrow> bool" where
  "renewed drawn ss m out \<longleftrightarrow> (case out of
     (Inl e, ss', m') \<Rightarrow> ss' = ss \<and> (m' = m \<or> m' = deleted (ss_token ss) m)
   | (Inr _, ss', m') \<Rightarrow> m' = deleted (ss_token ss) m \<and>
       (\<exists>token. drawn = Inr token \<and> ss' = ss\<lparr>ss_token := token, ss_status := Modified\<rparr>))"

definition destroyed :: "session \<Rightarrow> saved \<Rightarrow> (err + unit) \<times> session \<times> saved \<Rightarrow> bool" where
  "destroyed ss m out \<longleftrightarrow> (case out of
     (Inl e, ss', m') \<Rightarrow> ss' = ss \<and> (m' = m \<or> m' = deleted (ss_token ss) m)
   | (Inr _, ss', m') \<Rightarrow> m' = deleted (ss_token ss) m \<and> ss' = \<lparr>ss_token = '''', ss_values = Map.empty, ss_status = Destroyed\<rparr>)"

definition committed :: "(err + string) \<Rightarrow> session \<Rightarrow> saved \<Rightarrow> (err + string option) \<times> session \<times> saved \<Rightarrow> bool" where
  "committed drawn ss m out \<longleftrightarrow> (case out of (r, ss', m') \<Rightarrow> case ss_status ss of
     Unmodified \<Rightarrow> r = Inr None \<and> m' = m
   | Destroyed \<Rightarrow> r = Inr (Some '''') \<and> m' = m
   | Modified \<Rightarrow> (m' = m \<and> (\<exists>e. r = Inl e)) \<or>
       (\<exists>token. (if ss_token ss = '''' then drawn = Inr token else token = ss_token ss) \<and>
          m' = m(token \<mapsto> ss_values ss) \<and> (\<forall>c. r = Inr c \<longrightarrow> c = Some token)))"

definition sessions_documented :: "scs \<Rightarrow> bool" where
  "sessions_documented c \<longleftrightarrow>
     (\<forall>l m token ss. scs_Load c l m token = Inr ss \<longrightarrow> ss = session_of m token) \<and>
     (\<forall>l ss m. renewed (scs_token c l) ss m (scs_RenewToken c l ss m)) \<and>
     (\<forall>l ss m. destroyed ss m (scs_Destroy c l ss m)) \<and>
     (\<forall>l ss m. committed (scs_token c l) ss m (scs_Commit c l ss m))"

definition server_error :: response where
  "server_error = \<lparr>rs_status = 500, rs_headers = [], rs_body = TextBody ''Internal Server Error''\<rparr>"

definition add_cookie :: "site \<Rightarrow> string option \<Rightarrow> response \<Rightarrow> response" where
  "add_cookie st c r = (case c of None \<Rightarrow> r
     | Some token \<Rightarrow> r\<lparr>rs_headers := (''Set-Cookie'', session_cookie_name (cfg_session (sv_cfg (si_service st))) @ ''='' @ token) # rs_headers r\<rparr>)"

definition LoadAndSave :: "site \<Rightarrow> handler \<Rightarrow> handler" where
  "LoadAndSave st next rq = on_error (load_session st (rq_cookie rq)) (\<lambda>_. server_error) (\<lambda>_ s.
     case next rq s of (r, t) \<Rightarrow>
       on_error (commit_session st) (\<lambda>_. server_error) (\<lambda>c. respond (add_cookie st c r)) t)"

section \<open>Decoding and validating a body\<close>

text \<open>A type of request: the fields of the struct, its zero value, \<open>Normalize\<close> and \<open>Validate\<close>.\<close>

record 'r payload =
  pl_fields :: "'r field list"
  pl_zero :: 'r
  pl_Normalize :: "ext \<Rightarrow> 'r \<Rightarrow> 'r"
  pl_Validate :: "'r \<Rightarrow> field_errors option"

definition max_body :: nat where
  "max_body = 1048576"

definition invalid_json :: response where
  "invalid_json = WriteError 400 ''invalid_json'' ''invalid JSON body''"

text \<open>Exactly one value, of at most a megabyte, that fits the struct with no unknown field.\<close>

definition DecodeJSON :: "site \<Rightarrow> 'r payload \<Rightarrow> request \<Rightarrow> response + 'r" where
  "DecodeJSON st p rq =
     (case si_json st (take max_body (rq_body rq)) of
        (v # vs, ends) \<Rightarrow> (case decode_strict (pl_fields p) v (pl_zero p) of
            None \<Rightarrow> Inl invalid_json
          | Some r \<Rightarrow> if vs = [] \<and> ends \<and> length (rq_body rq) \<le> max_body then Inr r else Inl invalid_json)
      | _ \<Rightarrow> Inl invalid_json)"

definition DecodeAndValidate :: "site \<Rightarrow> 'r payload \<Rightarrow> request \<Rightarrow> response + 'r" where
  "DecodeAndValidate st p rq = (case DecodeJSON st p rq of
     Inl e \<Rightarrow> Inl e
   | Inr r \<Rightarrow> (let r = pl_Normalize p (si_ext st) r in
       case pl_Validate p r of Some es \<Rightarrow> Inl (WriteValidationError es) | None \<Rightarrow> Inr r))"

definition with_body :: "site \<Rightarrow> 'r payload \<Rightarrow> request \<Rightarrow> ('r \<Rightarrow> web \<Rightarrow> response \<times> web) \<Rightarrow> web \<Rightarrow> response \<times> web" where
  "with_body st p rq k s = (case DecodeAndValidate st p rq of Inl r \<Rightarrow> (r, s) | Inr v \<Rightarrow> k v s)"

lemma DecodeAndValidate_Inr:
  "DecodeAndValidate st p rq = Inr r \<longleftrightarrow>
     (\<exists>r0. DecodeJSON st p rq = Inr r0 \<and> r = pl_Normalize p (si_ext st) r0 \<and> pl_Validate p r = None)"
  by (auto simp: DecodeAndValidate_def Let_def split: sum.splits option.splits)

lemma DecodeJSON_Inr:
  "DecodeJSON st p rq = Inr r \<longleftrightarrow> length (rq_body rq) \<le> max_body \<and>
     (\<exists>v. si_json st (rq_body rq) = ([v], True) \<and> decode_strict (pl_fields p) v (pl_zero p) = Some r)"
  by (auto simp: DecodeJSON_def split: prod.splits list.splits option.splits if_splits)

end
