(* ===== verification/Requests.thy ===== *)
theory Requests
  imports Web
begin

text \<open>
  \<open>internal/httpapi/handlers/auth_requests.go\<close>: the bodies the handlers accept, what \<open>Normalize\<close>
  does to them and what \<open>Validate\<close> demands, and the theorems that a body is accepted exactly when
  every field meets its rule.
\<close>

section \<open>Rules of the fields\<close>

definition reUsernamePattern :: pattern where
  "reUsernamePattern = \<lparr>pat_text = CHR ''^'' # CHR 0x5C # ''S+$'',
     pat_match = \<lambda>s. s \<noteq> [] \<and> list_all (\<lambda>rc. fst rc \<notin> {9, 10, 12, 13, 32}) (runes s)\<rparr>"

definition reTOTPCode :: pattern where
  "reTOTPCode = \<lparr>pat_text = ''^[0-9]{6}$'', pat_match = \<lambda>s. length s = 6 \<and> list_all is_digit s\<rparr>"

definition minUsernameLength :: int where "minUsernameLength = 3"
definition maxUsernameLength :: int where "maxUsernameLength = 32"
definition minPasswordLength :: int where "minPasswordLength = 12"
definition maxPasskeyNameLength :: int where "maxPasskeyNameLength = 64"

definition validateUsername :: "field_errors \<Rightarrow> string \<Rightarrow> field_errors" where
  "validateUsername es v = (case NotBlank es ''username'' v of
     (True, es) \<Rightarrow> es
   | (False, es) \<Rightarrow> Matches (MaxRunes (MinRunes es ''username'' v minUsernameLength) ''username'' v maxUsernameLength)
       ''username'' v reUsernamePattern)"

definition validateEmail :: "field_errors \<Rightarrow> string \<Rightarrow> field_errors" where
  "validateEmail es v = (case NotBlank es ''email'' v of (True, es) \<Rightarrow> es | (False, es) \<Rightarrow> IsEmail es ''email'' v)"

definition validateRequiredPassword :: "field_errors \<Rightarrow> string \<Rightarrow> field_errors" where
  "validateRequiredPassword es v = snd (NotBlank es ''password'' v)"

definition validatePassword :: "field_errors \<Rightarrow> string \<Rightarrow> field_errors" where
  "validatePassword es v = (case NotBlank es ''password'' v of
     (True, es) \<Rightarrow> es | (False, es) \<Rightarrow> MinRunes es ''password'' (trim_space v) minPasswordLength)"

definition validateCredential :: "field_errors \<Rightarrow> json option \<Rightarrow> field_errors" where
  "validateCredential es c = (if c = None \<or> c = Some JNull then Add es ''credential'' ''required'' [] else es)"

definition validateTOTPCode_request :: "field_errors \<Rightarrow> string \<Rightarrow> string \<Rightarrow> field_errors" where
  "validateTOTPCode_request es field v = (case NotBlank es field v of
     (True, es) \<Rightarrow> es | (False, es) \<Rightarrow> Matches es field v reTOTPCode)"

definition validateSecondFactor_request :: "field_errors \<Rightarrow> string \<Rightarrow> field_errors" where
  "validateSecondFactor_request es code = (if code \<noteq> '''' then validateTOTPCode_request es ''totp_code'' code else es)"

section \<open>The bodies\<close>

record registerRequest =
  rr_username :: string
  rr_email :: string
  rr_password :: string

definition register_payload :: "registerRequest payload" where
  "register_payload = \<lparr>
     pl_fields = [(''username'', string_field (\<lambda>v r. r\<lparr>rr_username := v\<rparr>)),
        (''email'', string_field (\<lambda>v r. r\<lparr>rr_email := v\<rparr>)), (''password'', string_field (\<lambda>v r. r\<lparr>rr_password := v\<rparr>))],
     pl_zero = \<lparr>rr_username = '''', rr_email = '''', rr_password = ''''\<rparr>,
     pl_Normalize = \<lambda>x r. r\<lparr>rr_username := Accounts.normalize x (rr_username r), rr_email := Accounts.normalize x (rr_email r)\<rparr>,
     pl_Validate = \<lambda>r. ErrOrNil (validatePassword (validateEmail (validateUsername new_errors (rr_username r)) (rr_email r))
        (rr_password r))\<rparr>"

record loginRequest =
  lr_email :: string
  lr_password :: string
  lr_totp_code :: string

definition login_payload :: "loginRequest payload" where
  "login_payload = \<lparr>
     pl_fields = [(''email'', string_field (\<lambda>v r. r\<lparr>lr_email := v\<rparr>)),
        (''password'', string_field (\<lambda>v r. r\<lparr>lr_password := v\<rparr>)), (''totp_code'', string_field (\<lambda>v r. r\<lparr>lr_totp_code := v\<rparr>))],
     pl_zero = \<lparr>lr_email = '''', lr_password = '''', lr_totp_code = ''''\<rparr>,
     pl_Normalize = \<lambda>x r. r\<lparr>lr_email := Accounts.normalize x (lr_email r), lr_totp_code := trim_space (lr_totp_code r)\<rparr>,
     pl_Validate = \<lambda>r. ErrOrNil (validateSecondFactor_request (validateRequiredPassword (validateEmail new_errors (lr_email r))
        (lr_password r)) (lr_totp_code r))\<rparr>"

text \<open>A raw message: \<^const>\<open>None\<close> when the member is absent.\<close>

record passkeyRegistrationRequest =
  pr_credential :: "json option"
  pr_name :: string

definition passkey_registration_payload :: "passkeyRegistrationRequest payload" where
  "passkey_registration_payload = \<lparr>
     pl_fields = [(''credential'', raw_field (\<lambda>v r. r\<lparr>pr_credential := Some v\<rparr>)), (''name'', string_field (\<lambda>v r. r\<lparr>pr_name := v\<rparr>))],
     pl_zero = \<lparr>pr_credential = None, pr_name = ''''\<rparr>,
     pl_Normalize = \<lambda>x r. r\<lparr>pr_name := trim_space (pr_name r)\<rparr>,
     pl_Validate = \<lambda>r. (let es = validateCredential new_errors (pr_credential r); n = int (length (pr_name r)) in
        ErrOrNil (if n > maxPasskeyNameLength then Add es ''name'' ''maxlength'' [go_int maxPasskeyNameLength, go_int n] else es))\<rparr>"

record passkeyLoginRequest =
  pl_credential :: "json option"

definition passkey_login_payload :: "passkeyLoginRequest payload" where
  "passkey_login_payload = \<lparr>
     pl_fields = [(''credential'', raw_field (\<lambda>v r. r\<lparr>pl_credential := Some v\<rparr>))],
     pl_zero = \<lparr>pl_credential = None\<rparr>,
     pl_Normalize = \<lambda>x r. r,
     pl_Validate = \<lambda>r. ErrOrNil (validateCredential new_errors (pl_credential r))\<rparr>"

record emailRequest =
  er_email :: string

definition email_payload :: "emailRequest payload" where
  "email_payload = \<lparr>
     pl_fields = [(''email'', string_field (\<lambda>v r. r\<lparr>er_email := v\<rparr>))],
     pl_zero = \<lparr>er_email = ''''\<rparr>,
     pl_Normalize = \<lambda>x r. r\<lparr>er_email := Accounts.normalize x (er_email r)\<rparr>,
     pl_Validate = \<lambda>r. ErrOrNil (validateEmail new_errors (er_email r))\<rparr>"

record tokenPasswordRequest =
  tr_token :: string
  tr_password :: string

definition token_password_payload :: "tokenPasswordRequest payload" where
  "token_password_payload = \<lparr>
     pl_fields = [(''token'', string_field (\<lambda>v r. r\<lparr>tr_token := v\<rparr>)), (''password'', string_field (\<lambda>v r. r\<lparr>tr_password := v\<rparr>))],
     pl_zero = \<lparr>tr_token = '''', tr_password = ''''\<rparr>,
     pl_Normalize = \<lambda>x r. r\<lparr>tr_token := trim_space (tr_token r)\<rparr>,
     pl_Validate = \<lambda>r. (case NotBlank new_errors ''token'' (tr_token r) of
        (True, es) \<Rightarrow> ErrOrNil es | (False, es) \<Rightarrow> ErrOrNil (validatePassword es (tr_password r)))\<rparr>"

record enableTOTPRequest =
  et_code :: string

definition enable_totp_payload :: "enableTOTPRequest payload" where
  "enable_totp_payload = \<lparr>
     pl_fields = [(''code'', string_field (\<lambda>v r. r\<lparr>et_code := v\<rparr>))],
     pl_zero = \<lparr>et_code = ''''\<rparr>,
     pl_Normalize = \<lambda>x r. r\<lparr>et_code := trim_space (et_code r)\<rparr>,
     pl_Validate = \<lambda>r. ErrOrNil (validateTOTPCode_request new_errors ''code'' (et_code r))\<rparr>"

section \<open>What the rules accept\<close>

text \<open>The rules as predicates.\<close>

definition username_ok :: "string \<Rightarrow> bool" where
  "username_ok v \<longleftrightarrow> trim_space v \<noteq> '''' \<and> 3 \<le> rune_count v \<and> rune_count v \<le> 32 \<and> pat_match reUsernamePattern v"

definition email_ok :: "string \<Rightarrow> bool" where
  "email_ok v \<longleftrightarrow> trim_space v \<noteq> '''' \<and> bare_address v"

definition password_ok :: "string \<Rightarrow> bool" where
  "password_ok v \<longleftrightarrow> 12 \<le> rune_count (trim_space v)"

definition totp_code_ok :: "string \<Rightarrow> bool" where
  "totp_code_ok v \<longleftrightarrow> length v = 6 \<and> list_all is_digit v"

lemma NotBlank_split:
  "(case NotBlank es f v of (True, es) \<Rightarrow> A es | (False, es) \<Rightarrow> B es) =
     (if trim_space v = '''' then A (Add es f ''required'' []) else B es)"
  by (simp add: NotBlank_def)

lemma digits_ascii: "list_all is_digit s \<Longrightarrow> ascii s"
  by (auto simp: list_all_iff is_digit_def ascii_def)

lemma trim_digits: "list_all is_digit s \<Longrightarrow> trim_space s = s"
proof -
  assume s: "list_all is_digit s"
  then have "c \<in> set s \<Longrightarrow> \<not> is_space (byte c)" for c
    by (auto simp: list_all_iff is_digit_def is_space_def)
  then have "dropWhile (\<lambda>c. is_space (byte c)) s = s" "dropWhile (\<lambda>c. is_space (byte c)) (rev s) = rev s"
    by (auto simp: dropWhile_eq_self_iff hd_rev)
  with s show ?thesis by (simp add: trim_space_ascii digits_ascii strip_def)
qed

named_theorems accept "when a rule leaves the collection empty"

lemma validateUsername_nil [accept]: "validateUsername es v = [] \<longleftrightarrow> es = [] \<and> username_ok v"
  by (auto simp: validateUsername_def NotBlank_split checks_nil username_ok_def minUsernameLength_def maxUsernameLength_def)

lemma validateEmail_nil [accept]: "validateEmail es v = [] \<longleftrightarrow> es = [] \<and> email_ok v"
  by (auto simp: validateEmail_def NotBlank_split checks_nil email_ok_def)

lemma validateRequiredPassword_nil [accept]: "validateRequiredPassword es v = [] \<longleftrightarrow> es = [] \<and> trim_space v \<noteq> ''''"
  by (simp add: validateRequiredPassword_def checks_nil)

lemma rune_count_nil [simp]: "rune_count [] = 0"
  by (simp add: rune_count_def)

lemma validatePassword_nil [accept]: "validatePassword es v = [] \<longleftrightarrow> es = [] \<and> password_ok v"
  by (auto simp: validatePassword_def NotBlank_split checks_nil password_ok_def minPasswordLength_def)

lemma validateCredential_nil [accept]: "validateCredential es c = [] \<longleftrightarrow> es = [] \<and> c \<noteq> None \<and> c \<noteq> Some JNull"
  by (auto simp: validateCredential_def)

lemma validateTOTPCode_request_nil [accept]: "validateTOTPCode_request es f v = [] \<longleftrightarrow> es = [] \<and> totp_code_ok v"
  by (auto simp: validateTOTPCode_request_def NotBlank_split checks_nil totp_code_ok_def reTOTPCode_def trim_digits)

lemma validateSecondFactor_request_nil [accept]:
  "validateSecondFactor_request es v = [] \<longleftrightarrow> es = [] \<and> (v = '''' \<or> totp_code_ok v)"
  by (auto simp: validateSecondFactor_request_def accept)

lemmas accept_simps = accept ErrOrNil_None new_errors_def checks_nil

section \<open>Which fields are reported\<close>

lemma Add_fields [simp]: "fst ` set (Add es f c a) = insert f (fst ` set es)"
proof (cases "map_of es f")
  case None
  then show ?thesis by (simp add: Add_def)
next
  case (Some fe)
  then have "f \<in> fst ` set es" by (metis domI dom_map_of_conv_image_fst)
  with Some show ?thesis by (auto simp: Add_def dom_update insert_absorb)
qed

lemma validateUsername_fields:
  "fst ` set (validateUsername es v) = fst ` set es \<union> (if username_ok v then {} else {''username''})"
  by (auto simp: validateUsername_def NotBlank_split MinRunes_def MaxRunes_def Matches_def username_ok_def
      minUsernameLength_def maxUsernameLength_def)

lemma validateEmail_fields:
  "fst ` set (validateEmail es v) = fst ` set es \<union> (if email_ok v then {} else {''email''})"
  by (auto simp: validateEmail_def NotBlank_split IsEmail_def email_ok_def)

lemma validatePassword_fields:
  "fst ` set (validatePassword es v) = fst ` set es \<union> (if password_ok v then {} else {''password''})"
  by (auto simp: validatePassword_def NotBlank_split MinRunes_def password_ok_def minPasswordLength_def)

lemma accepted:
  "pl_Validate register_payload r = None \<longleftrightarrow> username_ok (rr_username r) \<and> email_ok (rr_email r) \<and> password_ok (rr_password r)"
  "pl_Validate login_payload l = None \<longleftrightarrow> email_ok (lr_email l) \<and> trim_space (lr_password l) \<noteq> '''' \<and>
     (lr_totp_code l = '''' \<or> totp_code_ok (lr_totp_code l))"
  "pl_Validate passkey_registration_payload p = None \<longleftrightarrow> pr_credential p \<noteq> None \<and> pr_credential p \<noteq> Some JNull \<and> length (pr_name p) \<le> 64"
  "pl_Validate passkey_login_payload q = None \<longleftrightarrow> pl_credential q \<noteq> None \<and> pl_credential q \<noteq> Some JNull"
  "pl_Validate email_payload m = None \<longleftrightarrow> email_ok (er_email m)"
  "pl_Validate token_password_payload t = None \<longleftrightarrow> trim_space (tr_token t) \<noteq> '''' \<and> password_ok (tr_password t)"
  "pl_Validate enable_totp_payload c = None \<longleftrightarrow> totp_code_ok (et_code c)"
  by (auto simp: register_payload_def login_payload_def passkey_registration_payload_def passkey_login_payload_def
      email_payload_def token_password_payload_def enable_totp_payload_def accept_simps maxPasskeyNameLength_def
      Let_def NotBlank_split)

section \<open>Properties\<close>

text \<open>C34: A body is accepted exactly when every one of its fields meets its rule: a username of 3 to 32
  runes without white space, an email address in bare form, a password of at least 12 runes without
  its surrounding blanks (any non-blank one to log in), a code of six digits where there is one, a
  credential other than null, a passkey name of at most 64 bytes, a token that is not blank.
\<close>

theorem request_rules:
  "(pl_Validate register_payload r = None \<longleftrightarrow> username_ok (rr_username r) \<and> email_ok (rr_email r) \<and> password_ok (rr_password r)) \<and>
   (pl_Validate login_payload l = None \<longleftrightarrow> email_ok (lr_email l) \<and> trim_space (lr_password l) \<noteq> '''' \<and>
     (lr_totp_code l = '''' \<or> totp_code_ok (lr_totp_code l))) \<and>
   (pl_Validate passkey_registration_payload p = None \<longleftrightarrow> pr_credential p \<noteq> None \<and> pr_credential p \<noteq> Some JNull \<and> length (pr_name p) \<le> 64) \<and>
   (pl_Validate passkey_login_payload q = None \<longleftrightarrow> pl_credential q \<noteq> None \<and> pl_credential q \<noteq> Some JNull) \<and>
   (pl_Validate email_payload m = None \<longleftrightarrow> email_ok (er_email m)) \<and>
   (pl_Validate token_password_payload t = None \<longleftrightarrow> trim_space (tr_token t) \<noteq> '''' \<and> password_ok (tr_password t)) \<and>
   (pl_Validate enable_totp_payload c = None \<longleftrightarrow> totp_code_ok (et_code c))"
  by (simp only: accepted simp_thms)

text \<open>A refused registration reports exactly the fields that break their rule, each of them once.
\<close>

theorem register_reports_fields:
  assumes "pl_Validate register_payload r = Some es"
  shows "fst ` set es = {f. f = ''username'' \<and> \<not> username_ok (rr_username r) \<or> f = ''email'' \<and> \<not> email_ok (rr_email r) \<or>
           f = ''password'' \<and> \<not> password_ok (rr_password r)} \<and> distinct (map fst es)"
proof -
  let ?es = "validatePassword (validateEmail (validateUsername new_errors (rr_username r)) (rr_email r)) (rr_password r)"
  have es: "es = ?es" using assms by (simp add: register_payload_def ErrOrNil_def split: if_splits)
  then have fields: "fst ` set es = {f. f = ''username'' \<and> \<not> username_ok (rr_username r) \<or> f = ''email'' \<and> \<not> email_ok (rr_email r) \<or>
       f = ''password'' \<and> \<not> password_ok (rr_password r)}"
    by (auto simp: validateUsername_fields validateEmail_fields validatePassword_fields new_errors_def)
  have "fields_ok ?es"
    by (simp add: validatePassword_def validateEmail_def validateUsername_def NotBlank_split MinRunes_def MaxRunes_def
        Matches_def IsEmail_def new_ok Add_ok)
  with es have "distinct (map fst es)" by (simp add: fields_ok_def)
  with fields show ?thesis ..
qed

text \<open>A registration that passed validation is never refused for a weak password later: the rune
  count that validation looks at is at most the byte count that hashing looks at.
\<close>

theorem validated_password_not_weak:
  assumes "pl_Validate register_payload r = None"
  shows "fst (HashPassword x (rr_password r) w) = x_argon_hash x (CArgonHash (rr_password r) # wlog w) (rr_password r)"
proof -
  have "12 \<le> rune_count (trim_space (rr_password r))"
    using assms by (simp add: accepted password_ok_def)
  also have "\<dots> \<le> length (trim_space (rr_password r))" by (rule rune_count_le_length)
  finally show ?thesis by (simp add: HashPassword_def extern_def)
qed

lemma trim_space_id: "ascii s \<Longrightarrow> \<forall>c \<in> set s. \<not> is_space (byte c) \<Longrightarrow> trim_space s = s"
proof -
  assume "ascii s" and s: "\<forall>c \<in> set s. \<not> is_space (byte c)"
  moreover from s have "dropWhile (\<lambda>c. is_space (byte c)) s = s" "dropWhile (\<lambda>c. is_space (byte c)) (rev s) = rev s"
    by (auto simp: dropWhile_eq_self_iff hd_rev)
  ultimately show ?thesis by (simp add: trim_space_ascii strip_def)
qed

lemmas rule_simps = username_ok_def email_ok_def password_ok_def totp_code_ok_def reUsernamePattern_def bare_address_def
  dot_atom_def atext_def valid_rune_def rune_count_ascii runes_ascii ascii_def trim_simps is_digit_def

definition demo_registration :: registerRequest where
  "demo_registration = \<lparr>rr_username = ''grace'', rr_email = ''grace@example'', rr_password = ''correct horse battery''\<rparr>"

lemma demo_registration_accepted: "pl_Validate register_payload demo_registration = None"
  by (simp add: accepted demo_registration_def rule_simps)

theorem validated_password_not_weak_witness:
  "fst (HashPassword demo_ext (rr_password demo_registration) demo_world) = Inr ''correct horse battery''"
  using validated_password_not_weak [OF demo_registration_accepted, of demo_ext demo_world]
  by (simp add: demo_registration_def)

theorem register_reports_fields_witness:
  "\<exists>es. pl_Validate register_payload (demo_registration\<lparr>rr_username := ''a b''\<rparr>) = Some es \<and> fst ` set es = {''username''}"
proof -
  have r: "\<not> username_ok ''a b''" by (simp add: rule_simps)
  have ok: "email_ok (rr_email demo_registration)" "password_ok (rr_password demo_registration)"
    using demo_registration_accepted by (simp_all add: accepted)
  from r have "pl_Validate register_payload (demo_registration\<lparr>rr_username := ''a b''\<rparr>) \<noteq> None" by (simp add: accepted)
  then obtain es where es: "pl_Validate register_payload (demo_registration\<lparr>rr_username := ''a b''\<rparr>) = Some es" by blast
  from register_reports_fields [OF es] r ok have "fst ` set es = {''username''}" by auto
  with es show ?thesis by blast
qed

end
