(* ===== verification/Middleware.thy ===== *)
theory Middleware
  imports Requests
begin

text \<open>
  \<open>internal/httpapi/middleware\<close>: the client's address behind trusted proxies, cross-origin
  headers, and the checks for a signed-in user and for roles. A middleware maps a handler to a
  handler.
\<close>

section \<open>The client's address\<close>

definition parseTrustedProxyPrefix :: "string \<Rightarrow> prefix option" where
  "parseTrustedProxyPrefix v =
     (let trimmed = trim_space v in
      if trimmed = '''' then None
      else (case ParsePrefix trimmed of
          Some p \<Rightarrow> Some (Masked p)
        | None \<Rightarrow> (case ParseAddr trimmed of
            None \<Rightarrow> None
          | Some a \<Rightarrow> Some (PrefixFrom (Unmap a) (if Is4 a then 32 else 128)))))"

definition newTrustedProxyMatcher :: "string list \<Rightarrow> prefix list" where
  "newTrustedProxyMatcher entries = List.map_filter parseTrustedProxyPrefix entries"

definition matcher_Contains :: "prefix list \<Rightarrow> addr \<Rightarrow> bool" where
  "matcher_Contains ps a \<longleftrightarrow> list_ex (\<lambda>p. prefix_Contains p (Unmap a)) ps"

definition parseRemoteIP :: "string \<Rightarrow> addr option" where
  "parseRemoteIP v =
     (let trimmed = trim_space v in
      if trimmed = '''' then None
      else map_option Unmap (ParseAddr (case SplitHostPort trimmed of Some (host, _) \<Rightarrow> host | None \<Rightarrow> trimmed)))"

text \<open>Every part must be an address; the last one that is not a trusted proxy is the client, the
  first one when all of them are.\<close>

definition clientAddrFromForwardedFor :: "string \<Rightarrow> prefix list \<Rightarrow> addr option" where
  "clientAddrFromForwardedFor header ps =
     (if trim_space header = '''' then None
      else (case those (map parseRemoteIP (split_on (CHR '','') header)) of
          None \<Rightarrow> None
        | Some addresses \<Rightarrow> (case find (\<lambda>a. \<not> matcher_Contains ps a) (rev addresses) of
            Some a \<Rightarrow> Some a
          | None \<Rightarrow> (case addresses of [] \<Rightarrow> None | a # _ \<Rightarrow> Some a))))"

definition real_remote :: "prefix list \<Rightarrow> request \<Rightarrow> string" where
  "real_remote ps rq =
     (case parseRemoteIP (rq_remote_addr rq) of
        None \<Rightarrow> rq_remote_addr rq
      | Some remote \<Rightarrow>
          if \<not> matcher_Contains ps remote then rq_remote_addr rq
          else (case clientAddrFromForwardedFor (Header_Get rq ''X-Forwarded-For'') ps of
              Some a \<Rightarrow> addr_String a
            | None \<Rightarrow> (case parseRemoteIP (Header_Get rq ''X-Real-Ip'') of
                Some a \<Rightarrow> addr_String a | None \<Rightarrow> rq_remote_addr rq)))"

definition RealIP :: "string list \<Rightarrow> handler \<Rightarrow> handler" where
  "RealIP trustedProxies next rq = next (rq\<lparr>rq_remote_addr := real_remote (newTrustedProxyMatcher trustedProxies) rq\<rparr>)"

section \<open>Cross-origin requests\<close>

definition defaultCORSHeaders :: string where
  "defaultCORSHeaders = ''Accept, Authorization, Content-Type''"

definition defaultCORSMethods :: string where
  "defaultCORSMethods = ''GET, POST, PUT, PATCH, DELETE, OPTIONS''"

definition allowed_origins :: "string list \<Rightarrow> string list" where
  "allowed_origins origins = filter (\<lambda>origin. origin \<noteq> '''' \<and> origin \<noteq> ''*'') (map trim_space origins)"

definition allow_any :: "string list \<Rightarrow> bool" where
  "allow_any origins \<longleftrightarrow> ''*'' \<in> set (map trim_space origins)"

definition cors_headers :: "request \<Rightarrow> string \<Rightarrow> (string \<times> string) list" where
  "cors_headers rq origin =
     (let requested = trim_space (Header_Get rq ''Access-Control-Request-Headers'') in
      [(''Vary'', ''Origin''), (''Vary'', ''Access-Control-Request-Method''), (''Vary'', ''Access-Control-Request-Headers''),
       (''Access-Control-Allow-Origin'', origin), (''Access-Control-Allow-Credentials'', ''true''),
       (''Access-Control-Allow-Methods'', defaultCORSMethods), (''Access-Control-Max-Age'', ''300''),
       (''Access-Control-Allow-Headers'', if requested = '''' then defaultCORSHeaders else requested)])"

definition CORS :: "string list \<Rightarrow> handler \<Rightarrow> handler" where
  "CORS origins next rq s =
     (let origin = trim_space (Header_Get rq ''Origin'') in
      if origin = '''' \<or> (\<not> allow_any origins \<and> origin \<notin> set (allowed_origins origins)) then next rq s
      else if rq_method rq = ''OPTIONS''
        then (\<lparr>rs_status = 204, rs_headers = cors_headers rq origin, rs_body = NoBody\<rparr>, s)
      else (case next rq s of (r, t) \<Rightarrow> (r\<lparr>rs_headers := cors_headers rq origin @ rs_headers r\<rparr>, t)))"

section \<open>Signed-in users and roles\<close>

definition writeAuthzError :: "int \<Rightarrow> string \<Rightarrow> string \<Rightarrow> response" where
  "writeAuthzError status code msg = WriteError status code msg"

definition unauthenticated :: response where
  "unauthenticated = writeAuthzError 401 ''unauthorized'' ''authentication required''"

definition unexpected :: response where
  "unexpected = writeAuthzError 500 ''internal_error'' ''an unexpected error occurred''"

fun run_validators :: "site \<Rightarrow> int \<Rightarrow> (int \<Rightarrow> int \<Rightarrow> bool io) list \<Rightarrow> (web \<Rightarrow> response \<times> web) \<Rightarrow> web \<Rightarrow> response \<times> web" where
  "run_validators st userID [] next s = next s"
| "run_validators st userID (v # vs) next s =
     on_error (in_world (v userID (GetInt64 s ''auth_version''))) (\<lambda>_. unexpected) (\<lambda>valid.
       if valid then run_validators st userID vs next
       else on_error (Destroy st) (\<lambda>_. writeAuthzError 500 ''session_error'' ''could not destroy invalid session'')
              (\<lambda>_. respond unauthenticated)) s"

definition RequireAuthenticated :: "site \<Rightarrow> (int \<Rightarrow> int \<Rightarrow> bool io) list \<Rightarrow> handler \<Rightarrow> handler" where
  "RequireAuthenticated st validators next rq s =
     (let userID = GetInt64 s ''user_id'' in
      if userID = 0 then (unauthenticated, s) else run_validators st userID validators (next rq) s)"

definition cache_get :: "int \<Rightarrow> time \<Rightarrow> (web, string list option) go" where
  "cache_get i now s = (case Get (wb_roles s) i now of (r, c) \<Rightarrow> (Inr r, s\<lparr>wb_roles := c\<rparr>))"

definition cache_set :: "int \<Rightarrow> string list \<Rightarrow> time \<Rightarrow> (web, unit) go" where
  "cache_set i rs now s = (Inr (), s\<lparr>wb_roles := Set (wb_roles s) i rs now\<rparr>)"

definition resolveRoleNames :: "(int \<Rightarrow> string list io) \<Rightarrow> int \<Rightarrow> (web, string list) go" where
  "resolveRoleNames resolveRoles userID =
     andthen (in_world time_Now) (\<lambda>now.
     andthen (cache_get userID now) (\<lambda>hit. case hit of
         Some rs \<Rightarrow> ret rs
       | None \<Rightarrow> andthen (in_world (resolveRoles userID)) (\<lambda>rs.
                 andthen (cache_set userID rs now) (\<lambda>_. ret rs))))"

definition RequireRoles :: "(int \<Rightarrow> string list io) \<Rightarrow> string list \<Rightarrow> handler \<Rightarrow> handler" where
  "RequireRoles resolveRoles required next rq s =
     (let userID = GetInt64 s ''user_id'' in
      if userID = 0 then (unauthenticated, s)
      else on_error (resolveRoleNames resolveRoles userID) (\<lambda>_. unexpected) (\<lambda>rs.
        if ''admin'' \<in> set rs \<or> (\<exists>role \<in> set required. role \<in> set rs) then next rq
        else respond (writeAuthzError 403 ''forbidden'' ''missing role'')) s)"

end
