(* ===== verification/Handlers.thy ===== *)
theory Handlers
  imports Middleware
begin

text \<open>
  \<open>internal/httpapi/handlers\<close>: the handlers of the authentication routes, of the admin route and of
  the health checks, with the translation of errors to responses.
\<close>

section \<open>Values as JSON\<close>

text \<open>A nil slice encodes to \<open>null\<close>, and an empty result of a query is a nil slice.\<close>

definition json_strings :: "string list \<Rightarrow> json" where
  "json_strings ss = (if ss = [] then JNull else JArr (map JStr ss))"

definition json_principal :: "principal \<Rightarrow> json" where
  "json_principal p = JObj [(''user_id'', JNum (p_user_id p) 0), (''username'', JStr (p_username p)), (''email'', JStr (p_email p)),
     (''roles'', json_strings (p_roles p)), (''totp_enabled'', JBool (p_totp_enabled p)), (''verified'', JBool (p_verified p))]"

definition json_totp :: "totp_setup \<Rightarrow> json" where
  "json_totp s = JObj [(''secret'', JStr (ts_secret s)), (''issuer'', JStr (ts_issuer s)), (''account'', JStr (ts_account s)),
     (''otpauth_url'', JStr (ts_url s))]"

definition json_passkey :: "ext \<Rightarrow> passkey \<Rightarrow> json" where
  "json_passkey x p = JObj [(''id'', JNum (pv_id p) 0), (''name'', JStr (pv_name p)), (''transports'', json_strings (pv_transports p)),
     (''created_at'', JStr (x_time_text x (pv_created_at p))), (''updated_at'', JStr (x_time_text x (pv_updated_at p)))]"

text \<open>The options of a ceremony are a document of the library, written into the answer as it is.\<close>

definition json_document :: "site \<Rightarrow> string \<Rightarrow> json" where
  "json_document st s = (case si_json st s of (v # _, _) \<Rightarrow> v | _ \<Rightarrow> JNull)"

section \<open>Errors\<close>

text \<open>The first sentinel that the error is or wraps decides the status and the code.\<close>

definition auth_error_table :: "(err \<times> int \<times> string) list" where
  "auth_error_table =
     [(ErrUnauthorized, 401, ''unauthorized''), (ErrInvalidCredentials, 401, ''invalid_credentials''),
      (ErrAccountLocked, 423, ''account_locked''), (ErrAccountDisabled, 403, ''account_disabled''),
      (ErrEmailUnverified, 403, ''email_unverified''), (ErrTOTPRequired, 401, ''totp_required''),
      (ErrInvalidTOTP, 401, ''invalid_totp''), (ErrTOTPAlreadyEnabled, 409, ''totp_already_enabled''),
      (ErrPasskeyCeremony, 400, ''passkey_ceremony_missing''), (ErrPasskeyNotFound, 404, ''passkey_not_found''),
      (ErrOAuthProvider, 400, ''oauth_provider_invalid''), (ErrOAuthState, 400, ''oauth_state_invalid''),
      (ErrOAuthConflict, 409, ''oauth_conflict''), (ErrOAuthProfile, 400, ''oauth_profile_invalid''),
      (ErrWeakPassword, 400, ''weak_password''), (ErrRequestFailed, 400, ''request_failed'')]"

definition handleAuthError :: "err \<Rightarrow> response" where
  "handleAuthError e = (case find (\<lambda>(t, _). errors_is e t) auth_error_table of
     Some (_, status, code) \<Rightarrow> WriteError status code (err_Error e)
   | None \<Rightarrow> WriteError 500 ''internal_error'' ''an unexpected error occurred'')"

text \<open>\<open>errors.AsType[*RateLimitError]\<close>\<close>

fun as_rate_limit :: "err \<Rightarrow> duration option" where
  "as_rate_limit (RateLimitError d) = Some d"
| "as_rate_limit (Wrapped m e) = as_rate_limit e"
| "as_rate_limit _ = None"

text \<open>\<open>math.Ceil\<close> of the seconds, at least one; the floating-point seconds of the source are exact
  to the nanosecond below 2^22 seconds.\<close>

definition retry_after :: "duration \<Rightarrow> int" where
  "retry_after d = max 1 (- ((- d) div second))"

definition standardLoginFailureMessage :: string where
  "standardLoginFailureMessage = ''Invalid email or password.''"

definition handlePasswordLoginError :: "err \<Rightarrow> response" where
  "handlePasswordLoginError e = (case as_rate_limit e of
     Some d \<Rightarrow> (let r = WriteError 429 ''too_many_requests'' ''too many login attempts; try again later'' in
        r\<lparr>rs_headers := (''Retry-After'', show_int (retry_after d)) # rs_headers r\<rparr>)
   | None \<Rightarrow>
       if errors_is e ErrInvalidCredentials \<or> errors_is e ErrAccountLocked \<or> errors_is e ErrAccountDisabled \<or> errors_is e ErrEmailUnverified
       then WriteError 401 ''invalid_credentials'' standardLoginFailureMessage
       else handleAuthError e)"

section \<open>Sessions\<close>

definition passkeyRegistrationSessionKey :: string where
  "passkeyRegistrationSessionKey = ''passkey_registration_session''"

definition passkeyLoginSessionKey :: string where
  "passkeyLoginSessionKey = ''passkey_login_session''"

definition oauthSessionKey :: string where
  "oauthSessionKey = ''oauth_flow_session''"

text \<open>Session writes that cannot fail, as steps.\<close>

definition session_step :: "(web \<Rightarrow> web) \<Rightarrow> (web, unit) go" where
  "session_step f s = (Inr (), f s)"

definition completeLogin :: "site \<Rightarrow> principal \<Rightarrow> (web, unit) go" where
  "completeLogin st p =
     attempt (RenewToken st) (\<lambda>_. fail (ErrText ''could not renew session'')) (\<lambda>_.
     andthen (session_step (Put ''user_id'' (SInt (p_user_id p)))) (\<lambda>_.
     session_step (Put ''auth_version'' (SInt (p_auth_version p)))))"

definition validatedOptionalUserID :: "site \<Rightarrow> (web, int) go" where
  "validatedOptionalUserID st s =
     (let userID = GetInt64 s ''user_id'' in
      if userID = 0 then (Inr 0, s)
      else andthen (in_world (ValidateSession (si_ext st) userID (GetInt64 s ''auth_version''))) (\<lambda>valid.
        if valid then ret userID else andthen (Destroy st) (\<lambda>_. fail ErrUnauthorized)) s)"

definition clientIP :: "request \<Rightarrow> string" where
  "clientIP rq = (case SplitHostPort (trim_space (rq_remote_addr rq)) of
     Some (host, _) \<Rightarrow> host | None \<Rightarrow> trim_space (rq_remote_addr rq))"

definition session_failed :: "err \<Rightarrow> response" where
  "session_failed e = WriteError 500 ''session_error'' (err_Error e)"

definition flag :: "int \<Rightarrow> string \<Rightarrow> web \<Rightarrow> response \<times> web" where
  "flag status name = respond (WriteJSON status (JObj [(name, JBool True)]))"

section \<open>Accounts\<close>

definition RegisterHandler :: "site \<Rightarrow> handler" where
  "RegisterHandler st rq = with_body st register_payload rq (\<lambda>b.
     on_error (in_world (Register (si_ext st) (si_service st)
         \<lparr>ri_username = rr_username b, ri_email = rr_email b, ri_password = rr_password b\<rparr>)) handleAuthError (\<lambda>p.
     respond (WriteJSON 201 (JObj [(''message'', JStr ''registration complete; verify email before login''),
        (''user'', json_principal p)]))))"

definition LoginHandler :: "site \<Rightarrow> handler" where
  "LoginHandler st rq = with_body st login_payload rq (\<lambda>b.
     on_error (in_world (LoginWithPassword (si_ext st) (si_service st)
         \<lparr>li_email = lr_email b, li_password = lr_password b, li_totp_code = lr_totp_code b, li_ip_address = clientIP rq,
          li_user_agent = Header_Get rq ''User-Agent''\<rparr>)) handlePasswordLoginError (\<lambda>p.
     on_error (completeLogin st p) session_failed (\<lambda>_.
     respond (WriteJSON 200 (JObj [(''user'', json_principal p)])))))"

definition LogoutHandler :: "site \<Rightarrow> handler" where
  "LogoutHandler st rq = on_error (Destroy st) (\<lambda>_. WriteError 500 ''logout_failed'' ''could not destroy session'')
     (\<lambda>_. flag 200 ''logged_out'')"

definition VerifyEmailHandler :: "site \<Rightarrow> handler" where
  "VerifyEmailHandler st rq =
     (let token = trim_space (first_of (rq_query rq) ''token'') in
      if token = '''' then respond (WriteError 400 ''missing_token'' ''verification token is required'')
      else on_error (in_world (VerifyEmail (si_ext st) token)) handleAuthError (\<lambda>_. flag 200 ''verified''))"

definition RequestPasswordResetHandler :: "site \<Rightarrow> handler" where
  "RequestPasswordResetHandler st rq = with_body st email_payload rq (\<lambda>b.
     on_error (in_world (RequestPasswordReset (si_ext st) (si_service st) (er_email b))) handleAuthError (\<lambda>_. flag 202 ''requested''))"

definition RequestEmailVerificationHandler :: "site \<Rightarrow> handler" where
  "RequestEmailVerificationHandler st rq = with_body st email_payload rq (\<lambda>b.
     on_error (in_world (RequestEmailVerification (si_ext st) (si_service st) (er_email b))) handleAuthError (\<lambda>_. flag 202 ''requested''))"

definition RequestAccountRecoveryHandler :: "site \<Rightarrow> handler" where
  "RequestAccountRecoveryHandler st rq = with_body st email_payload rq (\<lambda>b.
     on_error (in_world (RequestAccountRecovery (si_ext st) (si_service st) (er_email b))) handleAuthError (\<lambda>_. flag 202 ''requested''))"

definition ResetPasswordHandler :: "site \<Rightarrow> handler" where
  "ResetPasswordHandler st rq = with_body st token_password_payload rq (\<lambda>b.
     on_error (in_world (ResetPassword (si_ext st) (tr_token b) (tr_password b))) handleAuthError (\<lambda>_. flag 200 ''password_reset''))"

definition RecoverAccountHandler :: "site \<Rightarrow> handler" where
  "RecoverAccountHandler st rq = with_body st token_password_payload rq (\<lambda>b.
     on_error (in_world (RecoverAccount (si_ext st) (tr_token b) (tr_password b))) handleAuthError (\<lambda>_.
     respond (WriteJSON 200 (JObj [(''message'', JStr ''account recovered; two-factor authentication has been disabled''),
        (''recovered'', JBool True)]))))"

definition MeHandler :: "site \<Rightarrow> handler" where
  "MeHandler st rq s = on_error (in_world (CurrentUser (si_ext st) (GetInt64 s ''user_id''))) handleAuthError
     (\<lambda>p. respond (WriteJSON 200 (JObj [(''user'', json_principal p)]))) s"

definition SetupTOTPHandler :: "site \<Rightarrow> handler" where
  "SetupTOTPHandler st rq s = on_error (in_world (BeginTOTPSetup (si_ext st) (si_service st) (GetInt64 s ''user_id''))) handleAuthError
     (\<lambda>setup. respond (WriteJSON 200 (JObj [(''totp'', json_totp setup)]))) s"

definition EnableTOTPHandler :: "site \<Rightarrow> handler" where
  "EnableTOTPHandler st rq = with_body st enable_totp_payload rq (\<lambda>b s.
     on_error (in_world (ConfirmTOTPSetup (si_ext st) (si_service st) (GetInt64 s ''user_id'') (et_code b))) handleAuthError
       (\<lambda>_. flag 200 ''totp_enabled'') s)"

definition DisableTOTPHandler :: "site \<Rightarrow> handler" where
  "DisableTOTPHandler st rq s = on_error (in_world (DisableTOTP (si_ext st) (GetInt64 s ''user_id''))) handleAuthError
     (\<lambda>_. flag 200 ''totp_disabled'') s"

section \<open>Passkeys\<close>

definition BeginPasskeyRegistrationHandler :: "site \<Rightarrow> handler" where
  "BeginPasskeyRegistrationHandler st rq s =
     on_error (in_world (BeginPasskeyRegistration (si_ext st) (GetInt64 s ''user_id''))) handleAuthError (\<lambda>(options, sessionJSON) s.
       respond (WriteJSON 200 (JObj [(''options'', json_document st options)])) (Put passkeyRegistrationSessionKey (SStr sessionJSON) s)) s"

text \<open>An absent credential does not get this far: validation refuses it.\<close>

definition raw_credential :: "json option \<Rightarrow> json" where
  "raw_credential c = (case c of Some j \<Rightarrow> j | None \<Rightarrow> JNull)"

definition FinishPasskeyRegistrationHandler :: "site \<Rightarrow> handler" where
  "FinishPasskeyRegistrationHandler st rq = with_body st passkey_registration_payload rq (\<lambda>b s.
     on_error (in_world (FinishPasskeyRegistration (si_ext st) (GetInt64 s ''user_id'')
        (GetString s passkeyRegistrationSessionKey) (raw_credential (pr_credential b)) (pr_name b))) handleAuthError (\<lambda>_ s.
       flag 201 ''registered'' (Remove passkeyRegistrationSessionKey s)) s)"

definition ListPasskeysHandler :: "site \<Rightarrow> handler" where
  "ListPasskeysHandler st rq s = on_error (in_world (ListPasskeys (si_ext st) (GetInt64 s ''user_id''))) handleAuthError
     (\<lambda>ps. respond (WriteJSON 200 (JObj [(''passkeys'', JArr (map (json_passkey (si_ext st)) ps))]))) s"

definition DeletePasskeyHandler :: "site \<Rightarrow> handler" where
  "DeletePasskeyHandler st rq s =
     (case parse_int 64 (trim_space (first_of (rq_params rq) ''passkeyID'')) of
        Some passkeyID \<Rightarrow>
          if passkeyID \<le> 0 then respond (WriteError 400 ''invalid_passkey_id'' ''passkey id must be a positive integer'') s
          else on_error (in_world (DeletePasskey (si_ext st) (GetInt64 s ''user_id'') passkeyID)) handleAuthError
                 (\<lambda>_. respond \<lparr>rs_status = 204, rs_headers = [], rs_body = NoBody\<rparr>) s
      | None \<Rightarrow> respond (WriteError 400 ''invalid_passkey_id'' ''passkey id must be a positive integer'') s)"

definition BeginPasskeyLoginHandler :: "site \<Rightarrow> handler" where
  "BeginPasskeyLoginHandler st rq =
     on_error (in_world (BeginPasskeyLogin (si_ext st))) handleAuthError (\<lambda>(options, sessionJSON) s.
       respond (WriteJSON 200 (JObj [(''options'', json_document st options)])) (Put passkeyLoginSessionKey (SStr sessionJSON) s))"

definition FinishPasskeyLoginHandler :: "site \<Rightarrow> handler" where
  "FinishPasskeyLoginHandler st rq = with_body st passkey_login_payload rq (\<lambda>b s.
     on_error (in_world (FinishPasskeyLogin (si_ext st) (GetString s passkeyLoginSessionKey) (raw_credential (pl_credential b))))
       handleAuthError (\<lambda>p.
     on_error (completeLogin st p) session_failed (\<lambda>_ s.
       respond (WriteJSON 200 (JObj [(''user'', json_principal p)])) (Remove passkeyLoginSessionKey s))) s)"

section \<open>OAuth\<close>

definition provider_param :: "site \<Rightarrow> request \<Rightarrow> string" where
  "provider_param st rq = Accounts.normalize (si_ext st) (first_of (rq_params rq) ''provider'')"

definition StartOAuth :: "site \<Rightarrow> handler" where
  "StartOAuth st rq =
     on_error (validatedOptionalUserID st) handleAuthError (\<lambda>userID.
     on_error (in_world (OAuthAuthorizationURL (si_ext st) (si_service st) (provider_param st rq) userID)) handleAuthError
       (\<lambda>(authorizationURL, sessionJSON, mode) s.
     respond (WriteJSON 200 (JObj [(''authorization_url'', JStr authorizationURL), (''mode'', JStr mode),
        (''provider'', JStr (provider_param st rq))])) (Put oauthSessionKey (SDoc sessionJSON) s)))"

definition CompleteOAuth :: "site \<Rightarrow> handler" where
  "CompleteOAuth st rq s =
     (let sessionJSON = GetDoc s oauthSessionKey; s = Remove oauthSessionKey s in
      on_error (validatedOptionalUserID st) handleAuthError (\<lambda>userID.
      on_error (in_world (CompleteOAuthAuthentication (si_ext st) (si_service st) (provider_param st rq) sessionJSON
          (trim_space (first_of (rq_query rq) ''state'')) (trim_space (first_of (rq_query rq) ''code'')) userID)) handleAuthError
        (\<lambda>result.
      on_error (if or_mode result = ''login'' then completeLogin st (or_principal result) else ret ()) session_failed (\<lambda>_.
      respond (WriteJSON 200 (JObj [(''created'', JBool (or_created result)), (''linked'', JBool (or_linked result)),
         (''mode'', JStr (or_mode result)), (''provider'', JStr (or_provider result)),
         (''user'', json_principal (or_principal result))]))))) s)"

section \<open>Admin and health\<close>

definition AdminAccess :: "site \<Rightarrow> handler" where
  "AdminAccess st rq s = on_error (in_world (CurrentUser (si_ext st) (GetInt64 s ''user_id''))) handleAuthError
     (\<lambda>p. respond (WriteJSON 200 (JObj [(''roles'', json_strings (p_roles p)), (''user'', json_principal p)]))) s"

definition Live :: "site \<Rightarrow> handler" where
  "Live st rq s = respond (WriteJSON 200 (JObj [(''status'', JStr ''ok''),
     (''time'', JStr (x_time_text (si_ext st) (wnow (wb_world s))))])) s"

definition Ready :: "site \<Rightarrow> handler" where
  "Ready st rq = on_error (in_world (extern (CDb ''Ping'') (\<lambda>l. case si_ping st l of Some e \<Rightarrow> Inl e | None \<Rightarrow> Inr ())))
     (\<lambda>_. WriteJSON 503 (JObj [(''error'', JStr ''database unavailable''), (''status'', JStr ''degraded'')]))
     (\<lambda>_. respond (WriteJSON 200 (JObj [(''status'', JStr ''ready'')])))"

end
