(* ===== verification/Router.thy ===== *)
theory Router
  imports Handlers
begin

text \<open>
  \<open>internal/httpapi/router.go\<close>: the routes with their groups of middleware, and the chain every
  request passes. The middleware of the router library (logging, panic recovery, timeout, cache
  headers) is an argument; a route matches as the library documents it.
\<close>

datatype segment = Lit string | Param string

fun match_path :: "segment list \<Rightarrow> string list \<Rightarrow> (string \<times> string) list option" where
  "match_path [] [] = Some []"
| "match_path (Lit l # ps) (s # ss) = (if s = l then match_path ps ss else None)"
| "match_path (Param n # ps) (s # ss) =
     (if s = [] \<and> ss = [] then None else map_option ((#) (n, s)) (match_path ps ss))"
| "match_path _ _ = None"

record route =
  rt_method :: string
  rt_pattern :: "segment list"
  rt_handler :: handler

abbreviation route :: "string \<Rightarrow> segment list \<Rightarrow> handler \<Rightarrow> route" where
  "route m p h \<equiv> \<lparr>rt_method = m, rt_pattern = p, rt_handler = h\<rparr>"

text \<open>The groups.\<close>

definition sessioned :: "site \<Rightarrow> handler \<Rightarrow> handler" where
  "sessioned st h = LoadAndSave st h"

definition protected :: "site \<Rightarrow> handler \<Rightarrow> handler" where
  "protected st h = LoadAndSave st (RequireAuthenticated st [ValidateSession (si_ext st)] h)"

definition admin :: "site \<Rightarrow> handler \<Rightarrow> handler" where
  "admin st h = protected st (RequireRoles (UserRoleNames (si_ext st)) [''admin''] h)"

abbreviation auth_path :: "segment list \<Rightarrow> segment list" where
  "auth_path p \<equiv> [Lit ''api'', Lit ''v1'', Lit ''auth''] @ p"

definition public_routes :: "site \<Rightarrow> route list" where
  "public_routes st =
     [route ''GET'' [Lit ''health''] (Live st),
      route ''GET'' [Lit ''readiness''] (Ready st),
      route ''POST'' (auth_path [Lit ''register'']) (RegisterHandler st),
      route ''GET'' (auth_path [Lit ''verify-email'']) (VerifyEmailHandler st),
      route ''POST'' (auth_path [Lit ''verify-email'', Lit ''request'']) (RequestEmailVerificationHandler st),
      route ''POST'' (auth_path [Lit ''account-recovery'', Lit ''request'']) (RequestAccountRecoveryHandler st),
      route ''POST'' (auth_path [Lit ''account-recovery'', Lit ''confirm'']) (RecoverAccountHandler st),
      route ''POST'' (auth_path [Lit ''password-reset'', Lit ''request'']) (RequestPasswordResetHandler st),
      route ''POST'' (auth_path [Lit ''password-reset'', Lit ''confirm'']) (ResetPasswordHandler st)]"

definition sessioned_routes :: "site \<Rightarrow> route list" where
  "sessioned_routes st =
     [route ''POST'' (auth_path [Lit ''login'']) (sessioned st (LoginHandler st)),
      route ''GET'' (auth_path [Lit ''oauth'', Param ''provider'', Lit ''start'']) (sessioned st (StartOAuth st)),
      route ''GET'' (auth_path [Lit ''oauth'', Param ''provider'', Lit ''callback'']) (sessioned st (CompleteOAuth st)),
      route ''POST'' (auth_path [Lit ''passkeys'', Lit ''login'', Lit ''start'']) (sessioned st (BeginPasskeyLoginHandler st)),
      route ''POST'' (auth_path [Lit ''passkeys'', Lit ''login'', Lit ''finish'']) (sessioned st (FinishPasskeyLoginHandler st))]"

definition protected_routes :: "site \<Rightarrow> route list" where
  "protected_routes st =
     [route ''POST'' (auth_path [Lit ''logout'']) (protected st (LogoutHandler st)),
      route ''GET'' (auth_path [Lit ''me'']) (protected st (MeHandler st)),
      route ''POST'' (auth_path [Lit ''passkeys'', Lit ''register'', Lit ''start'']) (protected st (BeginPasskeyRegistrationHandler st)),
      route ''POST'' (auth_path [Lit ''passkeys'', Lit ''register'', Lit ''finish'']) (protected st (FinishPasskeyRegistrationHandler st)),
      route ''GET'' (auth_path [Lit ''passkeys'']) (protected st (ListPasskeysHandler st)),
      route ''DELETE'' (auth_path [Lit ''passkeys'', Param ''passkeyID'']) (protected st (DeletePasskeyHandler st)),
      route ''POST'' (auth_path [Lit ''totp'', Lit ''setup'']) (protected st (SetupTOTPHandler st)),
      route ''POST'' (auth_path [Lit ''totp'', Lit ''enable'']) (protected st (EnableTOTPHandler st)),
      route ''POST'' (auth_path [Lit ''totp'', Lit ''disable'']) (protected st (DisableTOTPHandler st)),
      route ''GET'' [Lit ''api'', Lit ''v1'', Lit ''admin'', Lit ''access''] (admin st (AdminAccess st))]"

definition routes :: "site \<Rightarrow> route list" where
  "routes st = public_routes st @ sessioned_routes st @ protected_routes st"

definition not_found :: response where
  "not_found = \<lparr>rs_status = 404, rs_headers = [], rs_body = TextBody ''404 page not found''\<rparr>"

definition method_not_allowed :: response where
  "method_not_allowed = \<lparr>rs_status = 405, rs_headers = [], rs_body = NoBody\<rparr>"

definition dispatch :: "site \<Rightarrow> handler" where
  "dispatch st rq s =
     (case find (\<lambda>r. rt_method r = rq_method rq \<and> match_path (rt_pattern r) (rq_path rq) \<noteq> None) (routes st) of
        Some r \<Rightarrow> rt_handler r (rq\<lparr>rq_params := the (match_path (rt_pattern r) (rq_path rq))\<rparr>) s
      | None \<Rightarrow> if list_ex (\<lambda>r. match_path (rt_pattern r) (rq_path rq) \<noteq> None) (routes st)
                then respond method_not_allowed s else respond not_found s)"

text \<open>The chain, outermost first.\<close>

definition NewRouter :: "(string \<Rightarrow> handler \<Rightarrow> handler) \<Rightarrow> site \<Rightarrow> handler" where
  "NewRouter chi st =
     (let cfg = sv_cfg (si_service st) in
      RealIP (http_trusted_proxies (cfg_http cfg))
     (CORS (sec_allowed_origins (cfg_security cfg))
     ((if app_env (cfg_app cfg) \<noteq> ''production'' then chi ''Logger'' else id)
     (chi ''Recoverer''
     ((if http_write_timeout (cfg_http cfg) > 0 then chi ''Timeout'' else id)
     (chi ''NoCache''
     (dispatch st)))))))"

end
