(* ===== verification/Mailer.thy ===== *)
theory Mailer
  imports Web
begin

text \<open>
  \<open>internal/mailer/mailer.go\<close>: the rendering of a queued email and its delivery over SMTP. The SMTP
  client is a parameter: whether a command fails may depend on everything called before. Closing
  the connection and the deadline taken from the context have no result and are left out.
\<close>

type_synonym smtp = "call list \<Rightarrow> string \<Rightarrow> string \<Rightarrow> err option" \<comment> \<open>log, command, argument\<close>

record mailer =
  ml_cfg :: mailer_config

definition New_mailer :: "mailer_config \<Rightarrow> mailer" where
  "New_mailer cfg = \<lparr>ml_cfg = cfg\<rparr>"

definition Enabled :: "mailer \<Rightarrow> bool" where
  "Enabled m \<longleftrightarrow> mailer_enabled (ml_cfg m)"

section \<open>Rendering\<close>

definition crlf :: string where
  "crlf = [CHR 0x0D, CHR 0x0A]"

definition newline :: string where
  "newline = [CHR 0x0A]"

definition buildMessage :: "string \<Rightarrow> string \<Rightarrow> string \<Rightarrow> string \<Rightarrow> string" where
  "buildMessage sender to subject content =
     ''From: '' @ sender @ crlf @ ''To: '' @ to @ crlf @ ''Subject: '' @ subject @ crlf @ ''MIME-Version: 1.0'' @ crlf @
     ''Content-Type: text/plain; charset=utf-8'' @ crlf @ crlf @ content"

definition payload_keys :: "(string \<times> json) list \<Rightarrow> string list" where
  "payload_keys kvs = sort (remdups (map fst kvs))"

text \<open>The stored payload is a document, so only one that is not an object can fail to decode.\<close>

definition renderBody :: "email_outbox \<Rightarrow> err + string" where
  "renderBody e = (case decode_map (em_payload e) of
     None \<Rightarrow> Inl (Wrapped ''decode email payload'' (ErrText ''json: cannot unmarshal''))
   | Some payload \<Rightarrow> Inr (''Template: '' @ em_template e @ newline @ newline @
       concat (map (\<lambda>key. key @ '': '' @ sprint (the (member_get payload key)) @ newline) (payload_keys payload))))"

section \<open>Delivery\<close>

definition smtp_call :: "smtp \<Rightarrow> string \<Rightarrow> string \<Rightarrow> unit io" where
  "smtp_call smtp cmd a = extern (CSmtp cmd a) (\<lambda>l. case smtp l cmd a of Some e \<Rightarrow> Inl e | None \<Rightarrow> Inr ())"

text \<open>A step whose error is wrapped with what was attempted.\<close>

definition smtp_step :: "smtp \<Rightarrow> string \<Rightarrow> string \<Rightarrow> string \<Rightarrow> unit io" where
  "smtp_step smtp what cmd a = attempt (smtp_call smtp cmd a) (\<lambda>e. fail (Wrapped what e)) ret"

definition starttls :: "smtp \<Rightarrow> mailer_config \<Rightarrow> unit io" where
  "starttls smtp cfg =
     (if mailer_require_tls cfg
      then attempt (smtp_call smtp ''EXT'' ''STARTTLS'') (\<lambda>_. fail (ErrText ''smtp server does not support STARTTLS''))
             (\<lambda>_. smtp_step smtp ''smtp STARTTLS'' ''STARTTLS'' (mailer_host cfg))
      else ret ())"

definition authenticate :: "smtp \<Rightarrow> string option \<Rightarrow> unit io" where
  "authenticate smtp auth = (case auth of None \<Rightarrow> ret () | Some user \<Rightarrow> smtp_step smtp ''smtp auth'' ''AUTH'' user)"

definition sendSMTP :: "smtp \<Rightarrow> mailer_config \<Rightarrow> string \<Rightarrow> string option \<Rightarrow> string \<Rightarrow> string \<Rightarrow> unit io" where
  "sendSMTP smtp cfg address auth recipient msg =
     andthen (smtp_step smtp ''dial smtp'' ''DIAL'' address) (\<lambda>_.
     andthen (smtp_step smtp ''create smtp client'' ''CLIENT'' (mailer_host cfg)) (\<lambda>_.
     andthen (starttls smtp cfg) (\<lambda>_.
     andthen (authenticate smtp auth) (\<lambda>_.
     andthen (smtp_step smtp ''smtp mail from'' ''MAIL'' (mailer_from cfg)) (\<lambda>_.
     andthen (smtp_step smtp ''smtp rcpt to'' ''RCPT'' recipient) (\<lambda>_.
     andthen (smtp_step smtp ''smtp data'' ''DATA'' '''') (\<lambda>_.
     andthen (smtp_step smtp ''smtp write'' ''WRITE'' msg) (\<lambda>_.
     andthen (smtp_step smtp ''smtp close data'' ''CLOSE'' '''') (\<lambda>_.
     smtp_step smtp ''smtp quit'' ''QUIT'' '''')))))))))"

definition Send :: "smtp \<Rightarrow> mailer \<Rightarrow> email_outbox \<Rightarrow> unit io" where
  "Send smtp m e =
     andthen (lift (renderBody e)) (\<lambda>content.
     let cfg = ml_cfg m in
     if \<not> mailer_enabled cfg then fail (ErrText ''mailer disabled'')
     else sendSMTP smtp cfg (mailer_host cfg @ '':'' @ show_int (mailer_port cfg))
            (if mailer_username cfg \<noteq> '''' then Some (mailer_username cfg) else None) (em_recipient e)
            (buildMessage (mailer_from cfg) (em_recipient e) (em_subject e) content))"

section \<open>Delivery keeps the store, and appends to the log\<close>

lemma smtp_step_effect:
  assumes "smtp_step smtp what cmd a w = (r, t)"
  shows "t = w\<lparr>wlog := CSmtp cmd a # wlog w\<rparr> \<and> (r = Inr () \<longleftrightarrow> smtp (CSmtp cmd a # wlog w) cmd a = None)"
  using assms by (auto simp: smtp_step_def smtp_call_def attempt_def extern_def ret_def fail_def split: option.splits)

context io_frame
begin

lemma obeys_smtp_step: "obeys (smtp_step smtp what cmd a)"
  unfolding smtp_step_def smtp_call_def by (intro obeys_intros)

lemma obeys_starttls: "obeys (starttls smtp cfg)"
  unfolding starttls_def smtp_call_def by (intro obeys_intros obeys_smtp_step)

lemma obeys_Send: "obeys (Send smtp m e)"
  unfolding Send_def sendSMTP_def authenticate_def
  by (intro obeys_intros obeys_smtp_step obeys_starttls)

end

end
