(* ===== verification/Jobs.thy ===== *)
theory Jobs
  imports Mailer
begin

text \<open>
  \<open>internal/river/jobs\<close> and \<open>internal/river/river.go\<close>: the periodic jobs, the registry of cache
  sweepers, and the client around the job library, whose own functions are parameters. What a job
  writes to the log is left out.
\<close>

section \<open>The email outbox\<close>

text \<open>The outcome of marking an email only goes to the log.\<close>

definition ignore :: "'a io \<Rightarrow> unit io" where
  "ignore m = attempt m (\<lambda>_. ret ()) (\<lambda>_. ret ())"

definition deliver :: "ext \<Rightarrow> smtp \<Rightarrow> mailer \<Rightarrow> email_outbox \<Rightarrow> unit io" where
  "deliver x smtp m e = attempt (Send smtp m e)
     (\<lambda>err. ignore (MarkEmailFailed x (Some (err_Error err)) 300 (em_id e)))
     (\<lambda>_. ignore (MarkEmailSent x (em_id e)))"

definition EmailOutboxWork :: "ext \<Rightarrow> smtp \<Rightarrow> mailer option \<Rightarrow> unit io" where
  "EmailOutboxWork x smtp mail = (case mail of
     None \<Rightarrow> ret ()
   | Some m \<Rightarrow> if \<not> Enabled m then ret ()
       else andthen (ListPendingEmails x 25) (\<lambda>emails. each (deliver x smtp m) emails))"

section \<open>Cleanup\<close>

definition emailOutboxCutoff :: "config \<Rightarrow> time \<Rightarrow> time" where
  "emailOutboxCutoff cfg now = now - river_email_outbox_retention (cfg_river cfg)"

definition CleanupStore :: "ext \<Rightarrow> config \<Rightarrow> unit io" where
  "CleanupStore x cfg =
     andthen (ignore (DeleteExpiredUserTokens x)) (\<lambda>_.
     andthen time_Now (\<lambda>now.
     andthen (ignore (DeleteSentEmailsBefore x (Some (emailOutboxCutoff cfg now)))) (\<lambda>_.
     andthen (ignore (DeleteFailedEmailsBefore x (emailOutboxCutoff cfg now))) (\<lambda>_.
     ignore (DeleteUsedUserTokens x)))))"

text \<open>The limiter removes buckets that were idle for a day.\<close>

definition DeleteStaleBuckets :: "(call list \<Rightarrow> err + int) \<Rightarrow> int io" where
  "DeleteStaleBuckets stale = extern (CLimiter ''DeleteStaleBuckets'' (login_bucket 0 (24 * hour))) stale"

text \<open>The registry: functions run in the order they were added.\<close>

type_synonym sweepers = "(time \<Rightarrow> web \<Rightarrow> web) list"

definition sweepers_Add :: "sweepers \<Rightarrow> (time \<Rightarrow> web \<Rightarrow> web) \<Rightarrow> sweepers" where
  "sweepers_Add fns fn = fns @ [fn]"

definition RunAll :: "sweepers \<Rightarrow> time \<Rightarrow> web \<Rightarrow> web" where
  "RunAll fns now s = fold (\<lambda>fn. fn now) fns s"

definition CleanupWork :: "ext \<Rightarrow> config \<Rightarrow> (call list \<Rightarrow> err + int) option \<Rightarrow> sweepers option \<Rightarrow> web \<Rightarrow> web" where
  "CleanupWork x cfg limiter fns s =
     (let s = snd (in_world (CleanupStore x cfg) s);
          s = (case limiter of None \<Rightarrow> s | Some stale \<Rightarrow> snd (in_world (ignore (DeleteStaleBuckets stale)) s))
      in (case fns of None \<Rightarrow> s | Some fns \<Rightarrow> RunAll fns (wnow (wb_world s)) s))"

section \<open>Inactivity\<close>

definition InactivityCheckWork :: "ext \<Rightarrow> config \<Rightarrow> unit io" where
  "InactivityCheckWork x cfg = andthen time_Now (\<lambda>now.
     andthen (DisableInactiveUsers x (Some (now - sec_inactivity_disable_after (cfg_security cfg)))) (\<lambda>_. ret ()))"

section \<open>The client\<close>

datatype job = EmailOutbox | Cleanup | InactivityCheck

fun Kind :: "job \<Rightarrow> string" where
  "Kind EmailOutbox = ''email_outbox''"
| "Kind Cleanup = ''cleanup''"
| "Kind InactivityCheck = ''inactivity_check''"

text \<open>Only the outbox job is unique, over the states in which a job is not finished.\<close>

datatype job_state = JobAvailable | JobPending | JobRunning | JobRetryable | JobScheduled

fun InsertOpts :: "job \<Rightarrow> job_state list" where
  "InsertOpts EmailOutbox = [JobAvailable, JobPending, JobRunning, JobRetryable, JobScheduled]"
| "InsertOpts _ = []"

record periodic_job =
  pj_interval :: duration
  pj_job :: job
  pj_run_on_start :: bool

record river_client =
  rc_sweepers :: sweepers
  rc_periodic :: "periodic_job list"
  rc_max_workers :: int
  rc_running :: bool

definition periodicJobs :: "river_config \<Rightarrow> periodic_job list" where
  "periodicJobs r =
     [\<lparr>pj_interval = river_email_outbox_every r, pj_job = EmailOutbox, pj_run_on_start = True\<rparr>,
      \<lparr>pj_interval = river_cleanup_every r, pj_job = Cleanup, pj_run_on_start = True\<rparr>,
      \<lparr>pj_interval = river_inactivity_check_every r, pj_job = InactivityCheck, pj_run_on_start = True\<rparr>]"

text \<open>
  \<open>New\<close>, given the outcomes of creating the library's migrator, of running it and of creating its
  client. A disabled client is nil, and every method of the nil client does nothing.
\<close>

definition River_New :: "err option \<Rightarrow> err option \<Rightarrow> (periodic_job list \<Rightarrow> int \<Rightarrow> err option) \<Rightarrow> config \<Rightarrow> err + river_client option" where
  "River_New migrator migrate newClient cfg =
     (if \<not> river_enabled (cfg_river cfg) then Inr None
      else (case migrator of Some e \<Rightarrow> Inl (Wrapped ''create river migrator'' e)
      | None \<Rightarrow> (case migrate of Some e \<Rightarrow> Inl (Wrapped ''river migrate up'' e)
      | None \<Rightarrow> (case newClient (periodicJobs (cfg_river cfg)) (river_max_workers (cfg_river cfg)) of
          Some e \<Rightarrow> Inl (Wrapped ''create river client'' e)
        | None \<Rightarrow> Inr (Some \<lparr>rc_sweepers = [], rc_periodic = periodicJobs (cfg_river cfg),
             rc_max_workers = river_max_workers (cfg_river cfg), rc_running = True\<rparr>)))))"

definition RegisterSweeper :: "river_client option \<Rightarrow> (time \<Rightarrow> web \<Rightarrow> web) \<Rightarrow> river_client option" where
  "RegisterSweeper c fn = map_option (\<lambda>c. c\<lparr>rc_sweepers := sweepers_Add (rc_sweepers c) fn\<rparr>) c"

definition River_Stop :: "river_client option \<Rightarrow> river_client option" where
  "River_Stop c = map_option (\<lambda>c. c\<lparr>rc_running := False\<rparr>) c"

definition Insert :: "(job \<Rightarrow> 'r) \<Rightarrow> river_client option \<Rightarrow> job \<Rightarrow> 'r option" where
  "Insert enqueue c j = (case c of None \<Rightarrow> None | Some _ \<Rightarrow> Some (enqueue j))"

definition InsertTx :: "('tx \<Rightarrow> job \<Rightarrow> 'r) \<Rightarrow> river_client option \<Rightarrow> 'tx \<Rightarrow> job \<Rightarrow> 'r option" where
  "InsertTx enqueue c tx j = (case c of None \<Rightarrow> None | Some _ \<Rightarrow> Some (enqueue tx j))"

definition sweep_roles :: "time \<Rightarrow> web \<Rightarrow> web" where
  "sweep_roles now s = s\<lparr>wb_roles := Sweep (wb_roles s) now\<rparr>"

section \<open>The jobs keep every frame of the statements\<close>

context io_frame
begin

lemma obeys_ignore: "obeys m \<Longrightarrow> obeys (ignore m)"
  unfolding ignore_def by (intro obeys_intros)

end

context sqlc_frame
begin

lemma obeys_jobs:
  "obeys (EmailOutboxWork x smtp mail)" "obeys (CleanupStore x cfg)" "obeys (InactivityCheckWork x cfg)"
  "obeys (DeleteStaleBuckets stale)"
  unfolding EmailOutboxWork_def deliver_def CleanupStore_def InactivityCheckWork_def DeleteStaleBuckets_def
  by (intro obeys_intros obeys_ignore obeys_Send statements)+

end

end
