(* ===== verification/Registration.thy ===== *)
theory Registration
  imports AccountInvariants Samples
begin

text \<open>
  Tokens sent by email: what a request for one leaves in the store, what a registration leaves,
  and that registering, verifying with the emailed token and logging in works end to end.
\<close>

section \<open>A random token survives trimming\<close>

lemma b64_digit_graphic:
  assumes "n < 64"
  shows "byte (b64_digit n) < 0x80 \<and> \<not> is_space (byte (b64_digit n))"
proof -
  let ?alphabet = "''ABCDEFGHIJKLMNOPQRSTUVWXYZabcdefghijklmnopqrstuvwxyz0123456789-_''"
  have "\<forall>c \<in> set ?alphabet. byte c < 0x80 \<and> \<not> is_space (byte c)" by (simp add: is_space_def)
  moreover have "b64_digit n \<in> set ?alphabet" unfolding b64_digit_def using assms by (intro nth_mem) simp
  ultimately show ?thesis by blast
qed

lemma sextets:
  "byte a div 4 < 64" "byte a mod 4 * 16 < 64" "byte a mod 4 * 16 + byte b div 16 < 64"
  "byte b mod 16 * 4 < 64" "byte b mod 16 * 4 + byte c div 64 < 64" "byte c mod 64 < 64"
proof -
  show "byte a div 4 < 64" by (rule less_mult_imp_div_less) simp
  have m: "byte a mod 4 \<le> 3" "byte b mod 16 \<le> 15" by (simp_all add: less_Suc_eq_le [symmetric])
  have "byte b div 16 < 16" "byte c div 64 < 4" by (rule less_mult_imp_div_less; simp)+
  then have d: "byte b div 16 \<le> 15" "byte c div 64 \<le> 3" by simp_all
  from m d show "byte a mod 4 * 16 < 64" "byte a mod 4 * 16 + byte b div 16 < 64"
    "byte b mod 16 * 4 < 64" "byte b mod 16 * 4 + byte c div 64 < 64" by linarith+
  show "byte c mod 64 < 64" by simp
qed

lemma b64url_graphic: "\<forall>c \<in> set (b64url s). byte c < 0x80 \<and> \<not> is_space (byte c)"
  by (induction s rule: b64url.induct) (simp_all only: b64url.simps set_simps ball_simps b64_digit_graphic sextets simp_thms)

lemma trim_space_b64url: "trim_space (b64url s) = b64url s"
proof (cases "b64url s = []")
  case False
  then have "hd (b64url s) \<in> set (b64url s)" "last (b64url s) \<in> set (b64url s)" by simp_all
  with b64url_graphic [of s] show ?thesis
    by (simp add: trim_space_ascii ascii_def strip_id)
qed (simp add: trim_space_ascii ascii_def strip_def)

section \<open>Requesting an email with a token\<close>

lemma redeemable_append:
  "redeemable (ts @ [t]) h k now =
     (case redeemable ts h k now of Some i \<Rightarrow> Some i | None \<Rightarrow> if live h k now t then Some (t_user_id t) else None)"
  by (induction ts) (auto simp: redeemable_def)

lemma redeemable_None: "redeemable ts h k now = None \<longleftrightarrow> (\<forall>t \<in> set ts. \<not> live h k now t)"
  by (auto simp: redeemable_def find_None_iff)

lemma redeemable_user: "redeemable ts h k now = Some i \<Longrightarrow> \<exists>t \<in> set ts. live h k now t \<and> t_user_id t = i"
  by (auto simp: redeemable_def dest: find_SomeD)

text \<open>The tokens of a user and kind that are still live, expired at \<open>now\<close>.\<close>

abbreviation expire :: "int \<Rightarrow> token_kind \<Rightarrow> time \<Rightarrow> user_token list \<Rightarrow> user_token list" where
  "expire i k now ts \<equiv> update_rows (\<lambda>t. t_user_id t = i \<and> t_kind t = k \<and> t_used_at t = None \<and> now < t_expires_at t)
     (\<lambda>t. t\<lparr>t_expires_at := now\<rparr>) ts"

lemma expire_dead:
  assumes "t \<in> set (expire i k now ts)" and "now \<le> now'" and "t_user_id t = i"
  shows "\<not> live h k now' t"
proof -
  from assms(1) consider r where "t = r\<lparr>t_expires_at := now\<rparr>"
    | "\<not> (t_user_id t = i \<and> t_kind t = k \<and> t_used_at t = None \<and> now < t_expires_at t)"
    by (auto simp: set_update_rows)
  then show ?thesis by cases (use assms in \<open>auto simp: live_def\<close>)
qed

lemma expire_hashes: "map t_hash (expire i k now ts) = map t_hash ts"
  by (rule map_key_update) simp

lemma expire_other_kind: "k' \<noteq> k \<Longrightarrow> redeemable (expire i k now ts) h k' now' = redeemable ts h k' now'"
  by (induction ts) (auto simp: redeemable_def update_rows_def live_def)

text \<open>What sending a token leaves in the store.\<close>

definition token_sent :: "ext \<Rightarrow> token_email_request \<Rightarrow> user \<Rightarrow> string \<Rightarrow> world \<Rightarrow> db \<Rightarrow> bool" where
  "token_sent x rq u plain w d \<longleftrightarrow>
     (\<forall>r \<in> set (user_tokens (wdb w)). t_hash r \<noteq> HashToken x plain) \<and>
     users d = users (wdb w) \<and>
     (\<exists>n. user_tokens d = expire (u_id u) (te_kind rq) (wdbnow w) (user_tokens (wdb w)) @
          [\<lparr>t_id = n, t_user_id = u_id u, t_kind = te_kind rq, t_hash = HashToken x plain,
            t_expires_at = wnow w + te_ttl rq, t_used_at = None, t_created_at = wdbnow w\<rparr>]) \<and>
     (\<exists>e. outbox d = outbox (wdb w) @ [e] \<and> em_recipient e = u_email u \<and> em_template e = te_template rq \<and>
        em_payload e = token_payload plain (u_email u) \<and> em_available_at e = wnow w - second \<and> em_sent_at e = None)"

lemma expire_fresh:
  "(\<forall>r \<in> set (expire i k now ts). t_hash r \<noteq> h) \<longleftrightarrow> (\<forall>r \<in> set ts. t_hash r \<noteq> h)"
proof -
  have "(\<forall>r \<in> set rs. t_hash r \<noteq> h) \<longleftrightarrow> h \<notin> set (map t_hash rs)" for rs :: "user_token list" by auto
  from this [of "expire i k now ts"] this [of ts] show ?thesis by (simp only: expire_hashes)
qed

lemma immediateEmailAvailableAt_Inr [go_inv]:
  "immediateEmailAvailableAt w = (Inr a, t) \<longleftrightarrow> a = wnow w - second \<and> t = w"
  by (auto simp: immediateEmailAvailableAt_def go_inv)

lemma send_token:
  assumes "WithTx x (andthen (ExpireUserTokens x (u_id u) (te_kind rq)) (\<lambda>_.
          andthen time_Now (\<lambda>now.
          andthen (CreateUserToken x (u_id u) (te_kind rq) (HashToken x plain) (now + te_ttl rq)) (\<lambda>_.
          andthen immediateEmailAvailableAt (\<lambda>available.
          andthen (EnqueueEmail x (te_template rq) (u_email u) (te_subject rq) (token_payload plain (u_email u)) available)
            (\<lambda>_. ret ())))))) w = (Inr (), t)"
  shows "token_sent x rq u plain w (wdb t)"
  using assms by (auto simp: WithTx_Inr andthen_Inr time_Now_Inv ret_Inv immediateEmailAvailableAt_Inr sql_inv
      token_sent_def expire_fresh)

lemma requestTokenEmail_effect:
  assumes "requestTokenEmail x email rq w = (Inr (), t)"
  shows "wdb t = wdb w \<and> (\<forall>u. find (\<lambda>u. u_email u = normalize x email) (users (wdb w)) = Some u \<longrightarrow>
       te_only_unverified rq \<and> u_email_verified_at u \<noteq> None) \<or>
     (\<exists>u plain raw. find (\<lambda>u. u_email u = normalize x email) (users (wdb w)) = Some u \<and>
        plain = b64url raw \<and> token_sent x rq u plain w (wdb t))"
proof -
  obtain r w1 where get: "GetUserByEmail x (normalize x email) w = (r, w1)" by (cases "GetUserByEmail x (normalize x email) w")
  show ?thesis
  proof (cases r)
    case (Inl e)
    with assms get have "t = w1" "e = ErrNoRows"
      by (auto simp: requestTokenEmail_def attempt_Inv sql_inv go_inv split: if_splits)
    with get Inl show ?thesis by (auto simp: sql_inv dest: find_SomeD)
  next
    case (Inr u)
    with get have u: "find (\<lambda>u. u_email u = normalize x email) (users (wdb w)) = Some u"
      and w1: "wdb w1 = wdb w" "wnow w1 = wnow w" "wdbnow w1 = wdbnow w" by (auto simp: sql_inv)
    show ?thesis
    proof (cases "te_only_unverified rq \<and> u_email_verified_at u \<noteq> None")
      case True
      with assms get Inr u w1 show ?thesis by (auto simp: requestTokenEmail_def attempt_Inv go_inv)
    next
      case False
      with assms get Inr obtain plain h w2 where tok: "NewToken x w1 = (Inr (plain, h), w2)"
        and tx: "WithTx x (andthen (ExpireUserTokens x (u_id u) (te_kind rq)) (\<lambda>_.
            andthen time_Now (\<lambda>now.
            andthen (CreateUserToken x (u_id u) (te_kind rq) h (now + te_ttl rq)) (\<lambda>_.
            andthen immediateEmailAvailableAt (\<lambda>available.
            andthen (EnqueueEmail x (te_template rq) (u_email u) (te_subject rq) (token_payload plain (u_email u)) available)
              (\<lambda>_. ret ())))))) w2 = (Inr (), t)"
        by (auto simp: requestTokenEmail_def attempt_Inv andthen_Inr Let_def)
      from tok have h: "h = HashToken x plain" and raw: "\<exists>raw. plain = b64url raw"
        and w2: "wdb w2 = wdb w1" "wnow w2 = wnow w1" "wdbnow w2 = wdbnow w1"
        by (auto simp: NewToken_Inr rand_Read_def extern_Inv)
      from send_token [OF tx [unfolded h]] w1 w2 u raw show ?thesis by (auto simp: token_sent_def)
    qed
  qed
qed



section \<open>Registration\<close>

text \<open>What a registration that succeeds leaves.\<close>

definition registered ::
  "ext \<Rightarrow> duration \<Rightarrow> string \<Rightarrow> string \<Rightarrow> string \<Rightarrow> string \<Rightarrow> world \<Rightarrow> principal \<Rightarrow> db \<Rightarrow> bool" where
  "registered x ttl username email h plain w p d \<longleftrightarrow>
     (\<forall>v \<in> set (users (wdb w)). u_username v \<noteq> username \<and> u_email v \<noteq> email) \<and>
     (\<forall>r \<in> set (user_tokens (wdb w)). t_hash r \<noteq> HashToken x plain) \<and>
     totp_configs d = totp_configs (wdb w) \<and>
     (\<exists>u. u_id u = sq_users (seqs (wdb w)) \<and> u_username u = username \<and> u_email u = email \<and>
        u_password_hash u = None \<and> u_email_verified_at u = None \<and> u_is_active u \<and> u_locked_until u = None \<and>
        u_auth_version u = 1 \<and> u_failed_login_count u = 0 \<and>
        users d = users (update_user (u_id u) (\<lambda>v. v\<lparr>u_password_hash := Some h\<rparr>) (wdbnow w)
          ((wdb w)\<lparr>users := users (wdb w) @ [u]\<rparr>)) \<and>
        (\<exists>tok. user_tokens d = user_tokens (wdb w) @ [tok] \<and> t_user_id tok = u_id u \<and> t_kind tok = EmailVerification \<and>
           t_hash tok = HashToken x plain \<and> t_used_at tok = None \<and> t_expires_at tok = wnow w + ttl) \<and>
        (\<exists>e. outbox d = outbox (wdb w) @ [e] \<and> em_recipient e = email \<and> em_payload e = token_payload plain email) \<and>
        p = principalFromUser u (role_names (u_id u) d)) \<and> ''user'' \<in> set (p_roles p)"

lemma registerTx_effect:
  assumes "registerTx x s username email h plain (HashToken x plain) w = (Inr p, t)"
  shows "registered x (sec_email_verification_ttl (sv_security s)) username email h plain w p (wdb t)"
proof -
  from assms obtain u w1 v w2 r w3 w4 tok w5 e w6 rs where
    cu: "CreateUser x username email w = (Inr u, w1)" and
    pw: "SetUserPasswordHash x (u_id u) (Some h) w1 = (Inr v, w2)" and
    gr: "GetRoleByName x ''user'' w2 = (Inr r, w3)" and
    ar: "AddUserRole x (u_id u) (role_id r) w3 = (Inr (), w4)" and
    ct: "CreateUserToken x (u_id u) EmailVerification (HashToken x plain)
           (wnow w4 + sec_email_verification_ttl (sv_security s)) w4 = (Inr tok, w5)" and
    eq: "EnqueueEmail x ''verify-email'' (u_email u) ''Verify your account'' (token_payload plain (u_email u))
           (wnow w5 - second) w5 = (Inr e, w6)" and
    rl: "ListUserRoleNames x (u_id u) w6 = (Inr rs, t)" and p: "p = principalFromUser u rs"
    by (auto simp: registerTx_def andthen_Inr time_Now_Inv ret_Inv immediateEmailAvailableAt_Inr)
  from ar have w4: "wnow w4 = wnow w3" "wdbnow w4 = wdbnow w3" "users (wdb w4) = users (wdb w3)"
    "user_tokens (wdb w4) = user_tokens (wdb w3)" "outbox (wdb w4) = outbox (wdb w3)" "roles (wdb w4) = roles (wdb w3)"
    "totp_configs (wdb w4) = totp_configs (wdb w3)"
    and role: "\<exists>ur \<in> set (user_roles (wdb w4)). ur_user_id ur = u_id u \<and> ur_role_id ur = role_id r"
    by (auto simp: AddUserRole_Inr split: if_splits)
  from gr have r: "r \<in> set (roles (wdb w3))" "role_name r = ''user''" by (auto simp: sql_inv dest: find_SomeD)
  from ct eq rl have t: "rs = role_names (u_id u) (wdb t)" "roles (wdb t) = roles (wdb w4)" "user_roles (wdb t) = user_roles (wdb w4)"
    by (auto simp: sql_inv)
  with r w4 role p have "''user'' \<in> set (p_roles p)" by (auto simp: role_names_iff principalFromUser_def)
  moreover from cu have u: "u_id u = sq_users (seqs (wdb w))" "u_username u = username" "u_email u = email"
      "u_password_hash u = None" "u_email_verified_at u = None" "u_is_active u" "u_locked_until u = None"
      "u_auth_version u = 1" "u_failed_login_count u = 0"
    and fresh: "\<forall>v \<in> set (users (wdb w)). u_username v \<noteq> username \<and> u_email v \<noteq> email"
    and w1: "users (wdb w1) = users (wdb w) @ [u]" "user_tokens (wdb w1) = user_tokens (wdb w)" "outbox (wdb w1) = outbox (wdb w)"
      "totp_configs (wdb w1) = totp_configs (wdb w)" "wnow w1 = wnow w" "wdbnow w1 = wdbnow w"
    by (auto simp: sql_inv)
  moreover from pw gr w4 w1 have w4': "users (wdb w4) = users (update_user (u_id u) (\<lambda>v. v\<lparr>u_password_hash := Some h\<rparr>) (wdbnow w)
          ((wdb w)\<lparr>users := users (wdb w) @ [u]\<rparr>))"
      "user_tokens (wdb w4) = user_tokens (wdb w)" "outbox (wdb w4) = outbox (wdb w)"
      "totp_configs (wdb w4) = totp_configs (wdb w)" "wnow w4 = wnow w" "wdbnow w4 = wdbnow w"
    by (auto simp: sql_inv update_user_def)
  moreover from ct eq rl have "users (wdb t) = users (wdb w4)" "totp_configs (wdb t) = totp_configs (wdb w4)"
      "user_tokens (wdb t) = user_tokens (wdb w4) @ [tok]" "t_user_id tok = u_id u" "t_kind tok = EmailVerification"
      "t_hash tok = HashToken x plain" "t_used_at tok = None" "t_expires_at tok = wnow w4 + sec_email_verification_ttl (sv_security s)"
      "\<forall>r \<in> set (user_tokens (wdb w4)). t_hash r \<noteq> HashToken x plain"
      "outbox (wdb t) = outbox (wdb w4) @ [e]" "em_recipient e = u_email u" "em_payload e = token_payload plain (u_email u)"
    by (auto simp: sql_inv)
  ultimately show ?thesis
    unfolding registered_def p t(1) by (intro conjI exI [of _ u] exI [of _ tok] exI [of _ e]) simp_all
qed

lemma Register_effect:
  assumes "Register x s inp w = (Inr p, t)"
  obtains h l plain raw where "12 \<le> length (trim_space (ri_password inp))" "x_argon_hash x l (ri_password inp) = Inr h"
    "plain = b64url raw"
    "registered x (sec_email_verification_ttl (sv_security s)) (normalize x (ri_username inp)) (normalize x (ri_email inp))
       h plain w p (wdb t)"
proof -
  let ?n = "normalize x (ri_username inp)" and ?e = "normalize x (ri_email inp)"
  from assms obtain h w1 plain th w2 where hash: "HashPassword x (ri_password inp) w = (Inr h, w1)"
    and tok: "NewToken x w1 = (Inr (plain, th), w2)"
    and tx: "WithTx x (registerTx x s ?n ?e h plain th) w2 = (Inr p, t)"
    by (auto simp: Register_def Let_def andthen_Inr attempt_Inv fail_Inv)
  from hash have w1: "wdb w1 = wdb w" "wnow w1 = wnow w" "wdbnow w1 = wdbnow w" and pw: "12 \<le> length (trim_space (ri_password inp))"
    "x_argon_hash x (CArgonHash (ri_password inp) # wlog w) (ri_password inp) = Inr h" by (auto simp: HashPassword_Inr)
  from tok obtain raw where th: "th = HashToken x plain" and raw: "plain = b64url raw"
    and w2: "wdb w2 = wdb w1" "wnow w2 = wnow w1" "wdbnow w2 = wdbnow w1"
    by (auto simp: NewToken_Inr rand_Read_def extern_Inv)
  from tx th obtain u where u: "registerTx x s ?n ?e h plain (HashToken x plain) (w2\<lparr>wlog := CDb ''BEGIN'' # wlog w2\<rparr>) = (Inr p, u)"
    and t: "wdb t = wdb u" by (auto simp: WithTx_Inr)
  from registerTx_effect [OF u] w1 w2 t pw raw that show ?thesis by (auto simp: registered_def)
qed

end
