(* ===== verification/Lockout.thy ===== *)
theory Lockout
  imports AccountInvariants Samples
begin

text \<open>
  The lock after repeated failures: successive wrong guesses as an inductive relation between
  worlds, in which time passes between the attempts but no more than the policy's window.
\<close>

text \<open>The errors of an attempt that is counted.\<close>

definition counted :: "err set" where
  "counted = {ErrInvalidCredentials, ErrTOTPRequired, ErrInvalidTOTP}"

text \<open>The libraries report their own errors, never one of these sentinels of the service.\<close>

definition libraries_foreign :: "ext \<Rightarrow> bool" where
  "libraries_foreign x \<longleftrightarrow> (\<forall>e \<in> counted. (\<forall>l k b. x_limiter x l k b \<noteq> Inl e) \<and> (\<forall>p h. x_argon_compare x p h \<noteq> Inl e))"

lemma limiter_Allow_Inl:
  "libraries_foreign x \<Longrightarrow> limiter_Allow x key b w = (Inl e, t) \<Longrightarrow> e \<notin> counted"
  by (force simp: limiter_Allow_def libraries_foreign_def extern_def)

lemma enforceRateLimit_Inl:
  "libraries_foreign x \<Longrightarrow> enforceRateLimit x s email ip w = (Inl e, t) \<Longrightarrow> e \<notin> counted"
  by (auto simp: enforceRateLimit_def go_inv dest: limiter_Allow_Inl split: if_splits) (auto simp: counted_def)

lemma completeUserAuthentication_Inl:
  "completeUserAuthentication x i up w = (Inl e, t) \<Longrightarrow> e \<notin> counted"
  by (auto simp: completeUserAuthentication_def principalWithFactors_def go_inv sql_inv counted_def
      UpdateUserLastLogin_def ListUserRoleNames_def query_Inl Let_def split: if_splits)

lemma handleFailedLogin_Inl: "handleFailedLogin x s u w = (Inl e, t) \<Longrightarrow> e \<notin> counted"
  by (auto simp: handleFailedLogin_def RecordFailedLogin_def LockUserUntil_def query_Inl go_inv
      counted_def Let_def select_one_def split: if_splits option.splits sum.splits)

definition account_of :: "string \<Rightarrow> db \<Rightarrow> user option" where
  "account_of email d = find (\<lambda>u. u_email u = email \<and> u_password_hash u \<noteq> None) (users d)"

lemma validateSecondFactor_Inl:
  "validateSecondFactor x s i code w = (Inl e, t) \<Longrightarrow> wdb t = wdb w \<and> wnow t = wnow w \<and> wdbnow t = wdbnow w"
  by (auto simp: validateSecondFactor_def go_inv sql_inv split: if_splits)

text \<open>What the login does once the account has been read.\<close>

definition checked_login :: "ext \<Rightarrow> service \<Rightarrow> login_input \<Rightarrow> user \<Rightarrow> principal io" where
  "checked_login x s inp u =
     andthen (lift (ComparePassword x (li_password inp) (null_string (u_password_hash u)))) (\<lambda>matched.
      if \<not> u_is_active u then fail ErrAccountDisabled
      else andthen time_Now (\<lambda>now.
      if locked_at u now then fail ErrAccountLocked
      else if u_email_verified_at u = None then fail ErrEmailUnverified
      else if \<not> matched then andthen (handleFailedLogin x s u) (\<lambda>_. fail ErrInvalidCredentials)
      else attempt (validateSecondFactor x s (u_id u) (li_totp_code inp))
             (\<lambda>e. andthen (handleFailedLogin x s u) (\<lambda>_. fail e))
             (\<lambda>_. completeUserAuthentication x (u_id u) True)))"

lemma LoginWithPassword_checked:
  "LoginWithPassword x s inp =
     andthen (enforceRateLimit x s (normalize x (li_email inp)) (li_ip_address inp)) (\<lambda>_.
     attempt (GetUserWithPasswordByEmail x (normalize x (li_email inp)))
       (\<lambda>e. if errors_is e ErrNoRows
            then (case compareWithInvalidCredentialsSentinel x (li_password inp) of
                    Some e' \<Rightarrow> fail e' | None \<Rightarrow> fail ErrInvalidCredentials)
            else fail e)
       (checked_login x s inp))"
  unfolding LoginWithPassword_def Let_def checked_login_def [abs_def] by (rule refl)

lemma account_read:
  assumes "GetUserWithPasswordByEmail x email w = (r, t)" and "account_of email (wdb w) = Some u"
  shows "r = Inr u \<and> t = after ''GetUserWithPasswordByEmail'' id w \<or> (\<exists>m. r = Inl (ErrDb m))"
proof (cases r)
  case (Inl e)
  with assms show ?thesis
    by (auto simp: GetUserWithPasswordByEmail_def query_Inl select_one_def account_of_def split: option.splits)
next
  case (Inr v)
  with assms show ?thesis by (auto simp: sql_inv account_of_def)
qed

lemma checked_login_counted:
  assumes "libraries_foreign x" and "checked_login x s inp u w = (Inl e, t)" and "e \<in> counted"
  shows "\<exists>w'. handleFailedLogin x s u w' = (Inr (), t) \<and> wdb w' = wdb w \<and> wnow w' = wnow w \<and> wdbnow w' = wdbnow w"
proof -
  have "ComparePassword x p h \<noteq> Inl e" for p h
    using assms(1,3) by (auto simp: ComparePassword_def libraries_foreign_def counted_def)
  with assms(2,3) consider "handleFailedLogin x s u w = (Inr (), t)"
    | w' e' where "validateSecondFactor x s (u_id u) (li_totp_code inp) w = (Inl e', w')" "handleFailedLogin x s u w' = (Inr (), t)"
    using handleFailedLogin_Inl completeUserAuthentication_Inl
    by (fastforce simp: checked_login_def go_inv counted_def split: if_splits)
  then show ?thesis
    by cases (use validateSecondFactor_Inl in blast)+
qed

text \<open>A counted attempt went through \<open>handleFailedLogin\<close>.\<close>

lemma LoginWithPassword_counted:
  assumes "libraries_foreign x" and "LoginWithPassword x s inp w = (Inl e, t)" and "e \<in> counted"
    and "account_of (normalize x (li_email inp)) (wdb w) = Some u"
  shows "\<exists>w'. handleFailedLogin x s u w' = (Inr (), t) \<and> wdb w' = wdb w \<and> wnow w' = wnow w \<and> wdbnow w' = wdbnow w"
proof -
  let ?email = "normalize x (li_email inp)"
  from assms(2) have "\<not> enforceRateLimit x s ?email (li_ip_address inp) w = (Inl e, t)"
    using enforceRateLimit_Inl [OF assms(1)] assms(3) by blast
  with assms(2) obtain w1
    where w1: "enforceRateLimit x s ?email (li_ip_address inp) w = (Inr (), w1)"
      and rest: "attempt (GetUserWithPasswordByEmail x ?email)
        (\<lambda>e. if errors_is e ErrNoRows
             then (case compareWithInvalidCredentialsSentinel x (li_password inp) of
                     Some e' \<Rightarrow> fail e' | None \<Rightarrow> fail ErrInvalidCredentials)
             else fail e)
        (checked_login x s inp) w1 = (Inl e, t)"
    by (auto simp: LoginWithPassword_checked andthen_Inl)
  note 1 = enforceRateLimit_Inr [OF w1]
  from 1 assms(4) have u: "account_of ?email (wdb w1) = Some u" by simp
  from rest account_read [OF _ u] assms(3)
  have "checked_login x s inp u (after ''GetUserWithPasswordByEmail'' id w1) = (Inl e, t)"
    by (fastforce simp: attempt_Inv fail_Inv counted_def)
  from checked_login_counted [OF assms(1) this assms(3)] 1 show ?thesis by simp
qed

section \<open>Successive wrong guesses\<close>

text \<open>Time passes: the store is unchanged, neither clock goes back, and less than a window goes by.\<close>

definition soon :: "service \<Rightarrow> world \<Rightarrow> world \<Rightarrow> bool" where
  "soon s w t \<longleftrightarrow> wdb t = wdb w \<and> wnow w \<le> wnow t \<and> wnow t < wnow w + sec_failed_login_window (sv_security s) \<and>
     wdbnow w \<le> wdbnow t \<and> wdbnow t \<le> wdbnow w + failure_window s * second"

inductive wrong_guesses :: "ext \<Rightarrow> service \<Rightarrow> string \<Rightarrow> nat \<Rightarrow> world \<Rightarrow> world \<Rightarrow> bool" for x s email where
  none: "wrong_guesses x s email 0 w w"
| guess: "wrong_guesses x s email n w t \<Longrightarrow> normalize x (li_email inp) = email \<Longrightarrow>
    LoginWithPassword x s inp t = (Inl e, t1) \<Longrightarrow> e \<in> counted \<Longrightarrow> soon s t1 t2 \<Longrightarrow>
    wrong_guesses x s email (Suc n) w t2"

inductive_cases wrong_guessesE: "wrong_guesses x s email (Suc n) w t"
inductive_simps wrong_guesses_0: "wrong_guesses x s email 0 w t"

lemma account_of_update:
  assumes "tame f" and "\<And>u. u_password_hash (f u) = u_password_hash u"
  shows "account_of email (update_user i f now d) =
     map_option (\<lambda>u. if u_id u = i then (f u)\<lparr>u_updated_at := now\<rparr> else u) (account_of email d)"
  unfolding account_of_def update_user_def using assms by (simp add: find_update_rows tame_def)

lemma account_user_at:
  assumes "db_ok d" and "account_of email d = Some u"
  shows "user_at (u_id u) d = Some u"
proof -
  from assms(2) have "u \<in> set (users d)" by (auto simp: account_of_def dest: find_SomeD)
  with assms(1) show ?thesis by (auto simp: db_ok_def users_ok_def user_at_def intro: find_key)
qed

lemma handleFailedLogin_account:
  assumes "db_ok (wdb w)" and "account_of email (wdb w) = Some u" and "handleFailedLogin x s u w = (Inr (), t)"
  shows "db_ok (wdb t)" and "\<exists>r. account_of email (wdb t) = Some r \<and>
     u_failed_login_count r = next_failed_count (wdbnow w) (failure_window s) u \<and>
     u_last_failed_login_at r = Some (wdbnow w) \<and>
     (sec_failed_login_threshold (sv_security s) \<le> next_failed_count (wdbnow w) (failure_window s) u \<longrightarrow>
        u_locked_until r = Some (wnow w + sec_failed_login_window (sv_security s))) \<and>
     wnow t = wnow w \<and> wdbnow t = wdbnow w"
proof -
  from framedD [OF ok.obeys_helpers(4) assms(3)] assms(1) show ok: "db_ok (wdb t)" by (simp add: keeps_ok_def)
  note at = account_user_at [OF assms(1,2)]
  from assms(2,3) at obtain r where r: "account_of email (wdb t) = Some r" "u_id r = u_id u"
    by (auto simp: handleFailedLogin_def Let_def go_inv sql_inv account_of_update split: if_splits)
  from handleFailedLogin_Inr [OF assms(3) at] account_user_at [OF ok r(1)] r
  show "\<exists>r. account_of email (wdb t) = Some r \<and>
     u_failed_login_count r = next_failed_count (wdbnow w) (failure_window s) u \<and>
     u_last_failed_login_at r = Some (wdbnow w) \<and>
     (sec_failed_login_threshold (sv_security s) \<le> next_failed_count (wdbnow w) (failure_window s) u \<longrightarrow>
        u_locked_until r = Some (wnow w + sec_failed_login_window (sv_security s))) \<and>
     wnow t = wnow w \<and> wdbnow t = wdbnow w" by auto
qed

text \<open>What holds after \<open>n\<close> guesses: the count has reached \<open>n\<close> and the last failure is recent.\<close>

definition guessed :: "service \<Rightarrow> string \<Rightarrow> nat \<Rightarrow> world \<Rightarrow> bool" where
  "guessed s email n t \<longleftrightarrow> db_ok (wdb t) \<and> (\<exists>u. account_of email (wdb t) = Some u \<and> int n \<le> u_failed_login_count u \<and>
     (0 < n \<longrightarrow> (\<exists>f. u_last_failed_login_at u = Some f \<and> wdbnow t \<le> f + failure_window s * second)) \<and>
     (0 < n \<and> sec_failed_login_threshold (sv_security s) \<le> int n \<longrightarrow> locked_at u (wnow t)))"

lemma next_failed_count_recent:
  "u_last_failed_login_at u = Some f \<Longrightarrow> now \<le> f + window * second \<Longrightarrow>
     next_failed_count now window u = u_failed_login_count u + 1"
  by (simp add: next_failed_count_def)

lemma next_failed_count_pos: "0 \<le> u_failed_login_count u \<Longrightarrow> 1 \<le> next_failed_count now window u"
  by (simp add: next_failed_count_def split: option.splits)

lemma guessed_step:
  assumes "libraries_foreign x" and "guessed s email n t" and "normalize x (li_email inp) = email"
    and "LoginWithPassword x s inp t = (Inl e, t1)" and "e \<in> counted" and "soon s t1 t2"
  shows "guessed s email (Suc n) t2"
proof -
  from assms(2) obtain u where ok: "db_ok (wdb t)" and u: "account_of email (wdb t) = Some u" "int n \<le> u_failed_login_count u"
    and f: "0 < n \<Longrightarrow> \<exists>f. u_last_failed_login_at u = Some f \<and> wdbnow t \<le> f + failure_window s * second"
    by (auto simp: guessed_def)
  from LoginWithPassword_counted [OF assms(1,4,5)] u(1) assms(3) obtain w' where
    h: "handleFailedLogin x s u w' = (Inr (), t1)" and w': "wdb w' = wdb t" "wnow w' = wnow t" "wdbnow w' = wdbnow t"
    by auto
  have count: "int (Suc n) \<le> next_failed_count (wdbnow t) (failure_window s) u"
  proof (cases "n = 0")
    case True
    with u(2) next_failed_count_pos show ?thesis by simp
  next
    case False
    with f u(2) show ?thesis by (auto simp: next_failed_count_recent)
  qed
  from handleFailedLogin_account [OF _ _ h] ok u w' obtain r where r: "account_of email (wdb t1) = Some r" "db_ok (wdb t1)"
    "u_failed_login_count r = next_failed_count (wdbnow t) (failure_window s) u" "u_last_failed_login_at r = Some (wdbnow t)"
    "sec_failed_login_threshold (sv_security s) \<le> next_failed_count (wdbnow t) (failure_window s) u \<Longrightarrow>
        u_locked_until r = Some (wnow t + sec_failed_login_window (sv_security s))"
    "wnow t1 = wnow t" "wdbnow t1 = wdbnow t" by auto
  with count assms(6) show ?thesis by (auto simp: guessed_def soon_def locked_at_def)
qed

lemma wrong_guesses_guessed:
  assumes "wrong_guesses x s email n w t" and "libraries_foreign x" and "guessed s email 0 w"
  shows "guessed s email n t"
  using assms by induction (auto intro: guessed_step)

lemma guessed_0: "db_ok (wdb w) \<Longrightarrow> account_of email (wdb w) = Some u \<Longrightarrow> guessed s email 0 w"
  by (auto simp: guessed_def account_of_def db_ok_def dest!: find_SomeD users_ok_bounds)

lemma locked_no_login:
  assumes "account_of (normalize x (li_email inp)) (wdb t) = Some u" and "locked_at u (wnow t)"
  shows "fst (LoginWithPassword x s inp t) \<noteq> Inr p"
proof
  assume "fst (LoginWithPassword x s inp t) = Inr p"
  then have "LoginWithPassword x s inp t = (Inr p, snd (LoginWithPassword x s inp t))" by (metis prod.collapse)
  then obtain v where "account_of (normalize x (li_email inp)) (wdb t) = Some v" "userAccountIsUsable v (wnow t)"
    by (auto simp: account_of_def elim!: LoginWithPassword_Inr)
  with assms show False by (simp add: usable_iff)
qed

text \<open>C10: After as many counted wrong guesses as the threshold, each within the window of the one
  before, the account is locked, and until the lock expires no input logs in, the right password
  and code included.\<close>

theorem wrong_guesses_lock:
  assumes "db_ok (wdb w)" and "libraries_foreign x" and "account_of email (wdb w) = Some u0"
    and "wrong_guesses x s email n w t"
    and "sec_failed_login_threshold (sv_security s) \<le> int n" and "0 < n"
    and "normalize x (li_email inp) = email"
  shows "(\<exists>u. account_of email (wdb t) = Some u \<and> locked_at u (wnow t)) \<and>
     fst (LoginWithPassword x s inp t) \<noteq> Inr p"
proof -
  from wrong_guesses_guessed [OF assms(4,2) guessed_0 [OF assms(1,3)]] assms(5,6)
  obtain u where u: "account_of email (wdb t) = Some u" "locked_at u (wnow t)" by (auto simp: guessed_def)
  with locked_no_login [of x inp t u s p] assms(7) show ?thesis by auto
qed

text \<open>One guess at a service whose threshold is one.\<close>

definition strict_service :: service where
  "strict_service = demo_service\<lparr>sv_cfg := demo_config\<lparr>cfg_security := (cfg_security demo_config)\<lparr>sec_failed_login_threshold := 1\<rparr>\<rparr>\<rparr>"

definition wrong_login :: login_input where
  "wrong_login = \<lparr>li_email = ''ada@example'', li_password = ''guess'', li_totp_code = '''', li_ip_address = '''', li_user_agent = ''''\<rparr>"

lemma wrong_login_run: "fst (LoginWithPassword demo_ext strict_service wrong_login demo_world) = Inl ErrInvalidCredentials"
  by (simp add: wrong_login_def strict_service_def login_simps trim_simps run_simps statement_simps demo_simps initial_db_def)

theorem wrong_guesses_lock_witness:
  "\<forall>p. fst (LoginWithPassword demo_ext strict_service (wrong_login\<lparr>li_password := ''correct horse battery'', li_totp_code := ''123456''\<rparr>)
     (snd (LoginWithPassword demo_ext strict_service wrong_login demo_world))) \<noteq> Inr p"
proof -
  let ?t = "snd (LoginWithPassword demo_ext strict_service wrong_login demo_world)"
  have run: "LoginWithPassword demo_ext strict_service wrong_login demo_world = (Inl ErrInvalidCredentials, ?t)"
    using wrong_login_run by (metis prod.collapse)
  have email: "normalize demo_ext (li_email wrong_login) = ''ada@example''"
    by (simp add: wrong_login_def normalize_def trim_simps to_lower_id)
  have g: "wrong_guesses demo_ext strict_service ''ada@example'' (Suc 0) demo_world ?t"
    by (rule guess [OF none email run])
      (auto simp: counted_def soon_def strict_service_def demo_service_def demo_config_def failure_window_def trunc_div_def)
  have "libraries_foreign demo_ext" by (simp add: libraries_foreign_def)
  moreover have "account_of ''ada@example'' (wdb demo_world) = Some demo_user"
    by (simp add: account_of_def demo_simps)
  ultimately show ?thesis
    using wrong_guesses_lock [OF _ _ _ g, of demo_user] email
    by (simp add: demo_world_def demo_db_ok strict_service_def demo_service_def)
qed

end
