(* ===== verification/AccountProps.thy ===== *)
theory AccountProps
  imports AccountInvariants Samples
begin

text \<open>
  The properties of the account operations: what a successful login proves, what a redeemed
  token does and that it does so once, when an account is locked, what a request for an email
  reveals.
\<close>

section \<open>Tokens are spent once\<close>

text \<open>The operations that redeem an emailed token.\<close>

definition token_flows :: "ext \<Rightarrow> string \<Rightarrow> string \<Rightarrow> unit io set" where
  "token_flows x token password = {VerifyEmail x token, RecoverAccount x token password, ResetPassword x token password}"

lemma token_flow_consumes:
  assumes "m \<in> token_flows x token pw" and "m w = (Inr (), t)"
  shows "\<exists>k i. redeemable (user_tokens (wdb w)) (HashToken x (trim_space token)) k (wdbnow w) = Some i \<and>
     user_tokens (wdb t) = snd (consume_rows (HashToken x (trim_space token)) k (wdbnow w) (user_tokens (wdb w)))"
proof -
  from assms(1) consider "m = VerifyEmail x token" | "m = RecoverAccount x token pw" | "m = ResetPassword x token pw"
    by (auto simp: token_flows_def)
  then show ?thesis
  proof cases
    case 1
    with assms(2) obtain r w1 where c: "consume_or_fail x EmailVerification token (w\<lparr>wlog := CDb ''BEGIN'' # wlog w\<rparr>) = (Inr r, w1)"
      and t: "user_tokens (wdb t) = user_tokens (wdb w1)"
      by (auto simp: VerifyEmail_def WithTx_Inr andthen_Inr sql_inv)
    from consume_or_fail_Inr [OF c] t show ?thesis by auto
  next
    case 2
    with assms(2) show ?thesis by (auto elim!: RecoverAccount_effect)
  next
    case 3
    with assms(2) show ?thesis by (auto elim!: ResetPassword_effect)
  qed
qed



section \<open>Reset and recovery revoke sessions\<close>

text \<open>C23: A successful password reset stores a hash of the new password, unlocks the account, and
  ends every session of its owner that was opened before it; every other user is untouched.\<close>

theorem ResetPassword_revokes:
  assumes "ResetPassword x token password w = (Inr (), t)"
  shows "\<exists>i u u' h l. redeemable (user_tokens (wdb w)) (HashToken x (trim_space token)) PasswordReset (wdbnow w) = Some i \<and>
     user_at i (wdb w) = Some u \<and> user_at i (wdb t) = Some u' \<and>
     u_password_hash u' = Some h \<and> x_argon_hash x l password = Inr h \<and>
     u_failed_login_count u' = 0 \<and> u_locked_until u' = None \<and> u_is_active u' = u_is_active u \<and>
     (\<forall>v \<le> u_auth_version u. \<forall>now. \<not> session_valid (wdb t) now i v) \<and>
     (\<forall>j. j \<noteq> i \<longrightarrow> user_at j (wdb t) = user_at j (wdb w)) \<and>
     totp_configs (wdb t) = totp_configs (wdb w)"
  using assms
proof (rule ResetPassword_effect)
  fix i u h l v
  assume r: "redeemable (user_tokens (wdb w)) (HashToken x (trim_space token)) PasswordReset (wdbnow w) = Some i"
    and u: "user_at i (wdb w) = Some u" and h: "x_argon_hash x l password = Inr h"
    and t: "wdb t = update_user i (\<lambda>u. u\<lparr>u_failed_login_count := 0, u_last_failed_login_at := None, u_locked_until := None,
               u_disabled_reason := clear_lock_reason (u_disabled_reason u)\<rparr>) (wdbnow w)
         (update_user i (\<lambda>u. u\<lparr>u_auth_version := u_auth_version u + 1\<rparr>) (wdbnow w)
         (update_user i (\<lambda>u. u\<lparr>u_password_hash := Some h\<rparr>) (wdbnow w)
           ((wdb w)\<lparr>user_tokens := snd (consume_rows (HashToken x (trim_space token)) PasswordReset (wdbnow w)
              (user_tokens (wdb w)))\<rparr>)))"
  then obtain u' where u': "user_at i (wdb t) = Some u'" "u_password_hash u' = Some h" "u_failed_login_count u' = 0"
    "u_locked_until u' = None" "u_is_active u' = u_is_active u" "u_auth_version u' = u_auth_version u + 1"
    by (simp add: user_at_update_same)
  from t have "user_at j (wdb t) = user_at j (wdb w)" if "j \<noteq> i" for j
    using that by (simp add: user_at_update_other)
  moreover from t have "totp_configs (wdb t) = totp_configs (wdb w)" by simp
  ultimately show ?thesis using r u h u' by (auto simp: session_valid_def)
qed

theorem ResetPassword_revokes_witness:
  "\<not> session_valid (wdb (snd (ResetPassword demo_ext ''r'' ''correct horse'' demo_world))) 0 1 1"
proof -
  let ?t = "snd (ResetPassword demo_ext ''r'' ''correct horse'' demo_world)"
  have "fst (ResetPassword demo_ext ''r'' ''correct horse'' demo_world) = Inr ()"
    by (simp add: ResetPassword_def HashPassword_def consume_or_fail_def HashToken_def trim_simps run_simps
        statement_simps demo_simps)
  then have run: "ResetPassword demo_ext ''r'' ''correct horse'' demo_world = (Inr (), ?t)"
    by (metis prod.collapse)
  have "redeemable (user_tokens (wdb demo_world)) (HashToken demo_ext (trim_space ''r'')) PasswordReset (wdbnow demo_world) = Some 1"
    "user_at 1 (wdb demo_world) = Some demo_user"
    by (simp_all add: redeemable_def user_at_def HashToken_def trim_simps demo_simps live_def)
  with ResetPassword_revokes [OF run] show ?thesis by (auto simp: demo_user_def)
qed

text \<open>C24: A successful account recovery reactivates and verifies the account, stores a hash of the
  new password, removes the second factor, and ends every session opened before it.\<close>

theorem RecoverAccount_restores:
  assumes "RecoverAccount x token password w = (Inr (), t)"
  shows "\<exists>i u u' h l. redeemable (user_tokens (wdb w)) (HashToken x (trim_space token)) AccountRecovery (wdbnow w) = Some i \<and>
     user_at i (wdb w) = Some u \<and> user_at i (wdb t) = Some u' \<and>
     u_password_hash u' = Some h \<and> x_argon_hash x l password = Inr h \<and>
     (\<forall>now. userAccountIsUsable u' now) \<and> \<not> totp_enabled i (wdb t) \<and>
     (\<forall>v \<le> u_auth_version u. \<forall>now. \<not> session_valid (wdb t) now i v) \<and>
     (\<forall>j. j \<noteq> i \<longrightarrow> user_at j (wdb t) = user_at j (wdb w) \<and> totp_at j (wdb t) = totp_at j (wdb w))"
  using assms
proof (rule RecoverAccount_effect)
  fix i u h l
  assume r: "redeemable (user_tokens (wdb w)) (HashToken x (trim_space token)) AccountRecovery (wdbnow w) = Some i"
    and u: "user_at i (wdb w) = Some u" and h: "x_argon_hash x l password = Inr h"
    and t: "wdb t = update_user i (\<lambda>u. u\<lparr>u_auth_version := u_auth_version u + 1\<rparr>) (wdbnow w)
         ((\<lambda>d. d\<lparr>totp_configs := filter (\<lambda>c. tc_user_id c \<noteq> i) (totp_configs d)\<rparr>)
         (update_user i (\<lambda>u. u\<lparr>u_is_active := True,
              u_email_verified_at := (case u_email_verified_at u of None \<Rightarrow> Some (wdbnow w) | Some t \<Rightarrow> Some t),
              u_failed_login_count := 0, u_last_failed_login_at := None, u_locked_until := None,
              u_disabled_reason := None, u_disabled_at := None\<rparr>) (wdbnow w)
         (update_user i (\<lambda>u. u\<lparr>u_password_hash := Some h\<rparr>) (wdbnow w)
           ((wdb w)\<lparr>user_tokens := snd (consume_rows (HashToken x (trim_space token)) AccountRecovery (wdbnow w)
              (user_tokens (wdb w)))\<rparr>))))"
  then obtain u' where u': "user_at i (wdb t) = Some u'" "u_password_hash u' = Some h" "u_locked_until u' = None"
    "u_is_active u'" "u_email_verified_at u' \<noteq> None" "u_auth_version u' = u_auth_version u + 1"
    by (simp add: user_at_update_same split: option.splits)
  have keep: "find (\<lambda>c. tc_user_id c = j) (filter (\<lambda>c. tc_user_id c \<noteq> i) cs) =
      (if j = i then None else find (\<lambda>c. tc_user_id c = j) cs)" for j and cs :: "totp_configuration list"
    by (induction cs) (auto simp: find_None_iff)
  have "user_at j (wdb t) = user_at j (wdb w) \<and> totp_at j (wdb t) = totp_at j (wdb w)" if "j \<noteq> i" for j
    using that t by (simp add: user_at_update_other totp_at_def keep)
  moreover from t have "\<not> totp_enabled i (wdb t)" by (simp add: totp_enabled_def totp_at_def keep)
  ultimately show ?thesis using r u h u' by (auto simp: session_valid_def usable_iff locked_at_def)
qed

theorem RecoverAccount_restores_witness:
  "\<not> session_valid (wdb (snd (RecoverAccount demo_ext ''a'' ''correct horse'' demo_world))) 0 1 1 \<and>
   \<not> totp_enabled 1 (wdb (snd (RecoverAccount demo_ext ''a'' ''correct horse'' demo_world)))"
proof -
  let ?t = "snd (RecoverAccount demo_ext ''a'' ''correct horse'' demo_world)"
  have "fst (RecoverAccount demo_ext ''a'' ''correct horse'' demo_world) = Inr ()"
    by (simp add: RecoverAccount_def HashPassword_def consume_or_fail_def HashToken_def trim_simps run_simps
        statement_simps demo_simps)
  then have run: "RecoverAccount demo_ext ''a'' ''correct horse'' demo_world = (Inr (), ?t)"
    by (metis prod.collapse)
  have "redeemable (user_tokens (wdb demo_world)) (HashToken demo_ext (trim_space ''a'')) AccountRecovery (wdbnow demo_world) = Some 1"
    "user_at 1 (wdb demo_world) = Some demo_user"
    by (simp_all add: redeemable_def user_at_def HashToken_def trim_simps demo_simps live_def)
  with RecoverAccount_restores [OF run] show ?thesis by (auto simp: demo_user_def)
qed

section \<open>Password login\<close>

lemma password_login:
  assumes "db_ok (wdb w)" and "LoginWithPassword x s inp w = (Inr p, t)"
  shows "\<exists>u h. admitted x s (normalize x (li_email inp)) (wlog w) \<and>
     u \<in> set (users (wdb w)) \<and> u_email u = normalize x (li_email inp) \<and>
     u_password_hash u = Some h \<and> x_argon_compare x (li_password inp) h = Inr True \<and>
     userAccountIsUsable u (wnow w) \<and>
     second_factor_ok x (sec_encryption_key (sv_security s)) (wdb w) (u_id u) (li_totp_code inp) (wnow w) \<and>
     p = principal_of u (wdb w) \<and> wdb t = record_login (u_id u) (wdbnow w) (wdb w) \<and>
     session_valid (wdb t) (wnow w) (p_user_id p) (p_auth_version p)"
  using assms(2)
proof (rule LoginWithPassword_Inr)
  fix u h w'
  assume u: "find (\<lambda>u. u_email u = normalize x (li_email inp) \<and> u_password_hash u \<noteq> None) (users (wdb w)) = Some u"
    "u_password_hash u = Some h" "x_argon_compare x (li_password inp) h = Inr True" "userAccountIsUsable u (wnow w)"
    "second_factor_ok x (sec_encryption_key (sv_security s)) (wdb w) (u_id u) (li_totp_code inp) (wnow w)"
    "admitted x s (normalize x (li_email inp)) (wlog w)"
    and comp: "completeUserAuthentication x (u_id u) True w' = (Inr p, t)"
    and w': "wdb w' = wdb w" "wnow w' = wnow w" "wdbnow w' = wdbnow w"
  from assms(1) have uo: "users_ok (users (wdb w)) (sq_users (seqs (wdb w)))" by (simp add: db_ok_def)
  from find_SomeD [OF u(1)] have mem: "u \<in> set (users (wdb w))" "u_email u = normalize x (li_email inp)" by auto
  from uo have at: "user_at (u_id u) (wdb w) = Some u"
    by (auto simp: user_at_def users_ok_def intro: find_key mem)
  from comp w' at have p: "p = principal_of u (wdb w)" "wdb t = record_login (u_id u) (wdbnow w) (wdb w)"
    by (auto elim!: completeUserAuthentication_Inr)
  moreover from users_ok_bounds [OF uo mem(1)] at u(4) p
  have "session_valid (wdb t) (wnow w) (p_user_id p) (p_auth_version p)"
    by (auto simp: session_valid_def record_login_def user_at_update_same usable_iff locked_at_def)
  ultimately show ?thesis using u mem by auto
qed

text \<open>C2: A password login that succeeds proves everything the policy asks for: the limiter
  admitted the attempt, an account with this email exists, is active, not locked and verified, the
  password matches its stored hash, and an enabled second factor accepted the code. The principal
  is that account's, the login is recorded, and the session it opens is valid.\<close>

theorem LoginWithPassword_sound:
  assumes "db_ok (wdb w)" and "LoginWithPassword x s inp w = (Inr p, t)"
  shows "\<exists>u h. admitted x s (normalize x (li_email inp)) (wlog w) \<and>
     u \<in> set (users (wdb w)) \<and> u_email u = normalize x (li_email inp) \<and>
     u_password_hash u = Some h \<and> x_argon_compare x (li_password inp) h = Inr True \<and>
     userAccountIsUsable u (wnow w) \<and>
     second_factor_ok x (sec_encryption_key (sv_security s)) (wdb w) (u_id u) (li_totp_code inp) (wnow w) \<and>
     p = principal_of u (wdb w) \<and> wdb t = record_login (u_id u) (wdbnow w) (wdb w) \<and>
     session_valid (wdb t) (wnow w) (p_user_id p) (p_auth_version p)"
  using assms by (rule password_login)

definition demo_login :: login_input where
  "demo_login = \<lparr>li_email = ''ada@example'', li_password = ''correct horse battery'', li_totp_code = ''123456'',
     li_ip_address = ''192.0.2.1'', li_user_agent = ''curl''\<rparr>"

lemma demo_login_run:
  "fst (LoginWithPassword demo_ext demo_service demo_login demo_world) =
     Inr \<lparr>p_user_id = 1, p_username = ''ada'', p_email = ''ada@example'', p_roles = [''user''],
          p_totp_enabled = True, p_verified = True, p_auth_version = 1\<rparr>"
  by (simp add: demo_login_def login_simps trim_simps run_simps statement_simps demo_simps initial_db_def)

theorem LoginWithPassword_sound_witness:
  "session_valid (wdb (snd (LoginWithPassword demo_ext demo_service demo_login demo_world))) (100 * second) 1 1"
proof -
  let ?r = "LoginWithPassword demo_ext demo_service demo_login demo_world"
  obtain p where p: "fst ?r = Inr p" "p_user_id p = 1" "p_auth_version p = 1" by (simp add: demo_login_run)
  then have run: "?r = (Inr p, snd ?r)" by (metis prod.collapse)
  have "db_ok (wdb demo_world)" "wnow demo_world = 100 * second" by (simp_all add: demo_world_def demo_db_ok)
  with LoginWithPassword_sound [OF _ run] p show ?thesis by auto
qed

end
