(* ===== verification/EndToEnd.thy ===== *)
theory EndToEnd
  imports Registration Lockout AccountProps
begin

text \<open>
  Progress: while the database runs every statement, an operation whose conditions hold
  succeeds. From it, a registration followed by the verification of the emailed token leads to
  an account that can log in.
\<close>

definition no_faults :: "ext \<Rightarrow> bool" where
  "no_faults x \<longleftrightarrow> (\<forall>l. x_dbfault x l = None)"

lemma no_faults_runs [simp]: "no_faults x \<Longrightarrow> runs x n w"
  by (simp add: no_faults_def runs_def)

lemma principalWithFactors_runs:
  assumes "no_faults x"
  shows "\<exists>p t. principalWithFactors x u rs w = (Inr p, t)"
proof (cases "totp_at (u_id u) (wdb w)")
  case None
  with assms have "GetTotpConfigurationByUserID x (u_id u) w = (Inl ErrNoRows, after ''GetTotpConfigurationByUserID'' id w)"
    by (auto simp: sql_inv totp_at_def find_None_iff)
  then show ?thesis by (simp add: principalWithFactors_def go_simps Let_def)
next
  case (Some c)
  with assms have "GetTotpConfigurationByUserID x (u_id u) w = (Inr c, after ''GetTotpConfigurationByUserID'' id w)"
    by (simp add: sql_inv totp_at_def)
  then show ?thesis by (simp add: principalWithFactors_def go_simps Let_def)
qed

lemma completeUserAuthentication_runs:
  assumes "no_faults x" and "user_at i (wdb w) = Some u" and "userAccountIsUsable u (wnow w)"
  shows "\<exists>p t. completeUserAuthentication x i True w = (Inr p, t)"
proof -
  let ?w1 = "after ''GetUserByID'' id w"
  from assms have get: "GetUserByID x i w = (Inr u, ?w1)" and ok: "validateUserAccount u ?w1 = (Inr (), ?w1)"
    by (simp_all add: sql_inv go_inv user_at_def)
  obtain w2 where up: "UpdateUserLastLogin x i ?w1 = (Inr (), w2)" and w2: "wdb w2 = record_login i (wdbnow w) (wdb w)"
    using assms(1) by (simp add: sql_inv record_login_def)
  from w2 assms(2) obtain v where "user_at i (wdb w2) = Some v" by (simp add: record_login_def user_at_update_same)
  with assms(1) have get2: "GetUserByID x i w2 = (Inr v, after ''GetUserByID'' id w2)" by (simp add: sql_inv user_at_def)
  let ?w3 = "after ''ListUserRoleNames'' id (after ''GetUserByID'' id w2)"
  from assms(1) have rl: "ListUserRoleNames x i (after ''GetUserByID'' id w2) = (Inr (role_names i (wdb w2)), ?w3)"
    by (simp add: sql_inv)
  from principalWithFactors_runs [OF assms(1), of v "role_names i (wdb w2)" ?w3] get ok up get2 rl
  show ?thesis by (simp add: completeUserAuthentication_def go_simps)
qed

lemma validateSecondFactor_runs:
  assumes "no_faults x" and "second_factor_ok x (sec_encryption_key (sv_security s)) (wdb w) i code (wnow w)"
  shows "\<exists>t. validateSecondFactor x s i code w = (Inr (), t)"
proof (cases "totp_at i (wdb w)")
  case None
  with assms have "GetTotpConfigurationByUserID x i w = (Inl ErrNoRows, after ''GetTotpConfigurationByUserID'' id w)"
    by (auto simp: sql_inv totp_at_def find_None_iff)
  then show ?thesis by (simp add: validateSecondFactor_def go_simps)
next
  case (Some c)
  with assms have "GetTotpConfigurationByUserID x i w = (Inr c, after ''GetTotpConfigurationByUserID'' id w)"
    by (simp add: sql_inv totp_at_def)
  with Some assms(2) show ?thesis
    by (auto simp: validateSecondFactor_def go_simps second_factor_ok_def validateTOTPCode_def)
qed

lemma login_completes:
  assumes "db_ok (wdb w)" and "no_faults x"
    and "fst (enforceRateLimit x s (normalize x (li_email inp)) (li_ip_address inp) w) = Inr ()"
    and "account_of (normalize x (li_email inp)) (wdb w) = Some u" and "u_password_hash u = Some h"
    and "x_argon_compare x (li_password inp) h = Inr True" and "userAccountIsUsable u (wnow w)"
    and "second_factor_ok x (sec_encryption_key (sv_security s)) (wdb w) (u_id u) (li_totp_code inp) (wnow w)"
  shows "\<exists>t. LoginWithPassword x s inp w = (Inr (principal_of u (wdb w)), t)"
proof -
  let ?email = "normalize x (li_email inp)"
  from assms(3) obtain w1 where lim: "enforceRateLimit x s ?email (li_ip_address inp) w = (Inr (), w1)"
    by (metis prod.collapse)
  note 1 = enforceRateLimit_Inr [OF lim]
  let ?w2 = "after ''GetUserWithPasswordByEmail'' id w1"
  from assms(2,4) 1 have get: "GetUserWithPasswordByEmail x ?email w1 = (Inr u, ?w2)"
    by (simp add: sql_inv account_of_def)
  from validateSecondFactor_runs [OF assms(2), of s ?w2] assms(8) 1 obtain w3 where
    sf: "validateSecondFactor x s (u_id u) (li_totp_code inp) ?w2 = (Inr (), w3)" by auto
  from completeUserAuthentication_runs [OF assms(2), of "u_id u" w3 u] validateSecondFactor_Inr [OF sf] 1 assms(7)
    account_user_at [OF assms(1,4)]
  obtain p t where comp: "completeUserAuthentication x (u_id u) True w3 = (Inr p, t)" by auto
  have "LoginWithPassword x s inp w = (Inr p, t)"
    using lim get sf comp assms(5,6,7) 1
    by (simp add: LoginWithPassword_def Let_def go_simps ComparePassword_def null_string_def usable_iff)
  moreover from comp account_user_at [OF assms(1,4)] validateSecondFactor_Inr [OF sf] 1 have "p = principal_of u (wdb w)"
    by (auto elim!: completeUserAuthentication_Inr)
  ultimately show ?thesis by blast
qed

text \<open>C13: Login is complete: when the statements run and the limiter admits the attempt, an active,
  unlocked and verified account whose password matches and whose second factor is satisfied does
  log in.\<close>

theorem LoginWithPassword_complete:
  assumes "db_ok (wdb w)" and "no_faults x"
    and "fst (enforceRateLimit x s (normalize x (li_email inp)) (li_ip_address inp) w) = Inr ()"
    and "account_of (normalize x (li_email inp)) (wdb w) = Some u" and "u_password_hash u = Some h"
    and "x_argon_compare x (li_password inp) h = Inr True" and "userAccountIsUsable u (wnow w)"
    and "second_factor_ok x (sec_encryption_key (sv_security s)) (wdb w) (u_id u) (li_totp_code inp) (wnow w)"
  shows "\<exists>t. LoginWithPassword x s inp w = (Inr (principal_of u (wdb w)), t)"
  by (rule login_completes [OF assms])

theorem LoginWithPassword_complete_witness:
  "\<exists>t. LoginWithPassword demo_ext demo_service demo_login demo_world = (Inr (principal_of demo_user demo_db), t)"
proof -
  have nf: "no_faults demo_ext" by (simp add: no_faults_def)
  have email: "normalize demo_ext (li_email demo_login) = ''ada@example''"
    by (simp add: demo_login_def normalize_def trim_simps to_lower_id)
  have lim: "fst (enforceRateLimit demo_ext demo_service ''ada@example'' (li_ip_address demo_login) demo_world) = Inr ()"
    by (simp add: enforceRateLimit_def limiter_Allow_def run_simps demo_login_def)
  have acc: "account_of ''ada@example'' (wdb demo_world) = Some demo_user"
    by (simp add: account_of_def demo_simps)
  have "second_factor_ok demo_ext (sec_encryption_key (sv_security demo_service)) (wdb demo_world) 1 (li_totp_code demo_login) (wnow demo_world)"
    by (simp add: second_factor_ok_def totp_at_def demo_simps decryptSecret_def newGCM_def demo_service_def demo_config_def
        gcm_nonce_size_def demo_login_def)
  with nf email lim acc show ?thesis
    using LoginWithPassword_complete [of demo_world demo_ext demo_service demo_login demo_user "''correct horse battery''"]
    by (simp add: demo_db_ok demo_world_def demo_login_def demo_user_def usable_iff locked_at_def)
qed

section \<open>From registration to login\<close>

lemma account_of_member:
  assumes "db_ok d" and "u \<in> set (users d)" and "u_password_hash u \<noteq> None"
  shows "account_of (u_email u) d = Some u"
proof (cases "account_of (u_email u) d")
  case None
  with assms show ?thesis by (auto simp: account_of_def find_None_iff)
next
  case (Some v)
  then have v: "v \<in> set (users d)" "u_email v = u_email u" by (auto simp: account_of_def dest: find_SomeD)
  with assms(1,2) have "v = u" by (auto simp: db_ok_def users_ok_def distinct_map dest: inj_onD)
  with Some show ?thesis by simp
qed

lemma new_id_unused:
  assumes "db_ok d"
  shows "\<forall>c \<in> set (totp_configs d). tc_user_id c \<noteq> sq_users (seqs d)"
proof -
  have "i < sq_users (seqs d)" if "i \<in> user_ids d" for i
    using that assms by (auto simp: user_ids_def db_ok_def dest: users_ok_bounds)
  with assms show ?thesis unfolding db_ok_def totp_ok_def by fastforce
qed

lemma VerifyEmail_runs:
  assumes "no_faults x"
    and "redeemable (user_tokens (wdb w)) (HashToken x (trim_space token)) EmailVerification (wdbnow w) = Some i"
  shows "\<exists>t. VerifyEmail x token w = (Inr (), t) \<and>
     users (wdb t) = users (update_user i (\<lambda>u. u\<lparr>u_email_verified_at := Some (wdbnow w)\<rparr>) (wdbnow w) (wdb w)) \<and>
     totp_configs (wdb t) = totp_configs (wdb w)"
proof -
  let ?h = "HashToken x (trim_space token)" and ?w1 = "w\<lparr>wlog := CDb ''BEGIN'' # wlog w\<rparr>"
  from assms(2) obtain r where r: "find (live ?h EmailVerification (wdbnow w)) (user_tokens (wdb w)) = Some r" "t_user_id r = i"
    by (auto simp: redeemable_def)
  let ?r = "r\<lparr>t_used_at := Some (wdbnow w)\<rparr>"
  let ?w2 = "after ''ConsumeUserToken'' (\<lambda>d. d\<lparr>user_tokens := update_rows (live ?h EmailVerification (wdbnow w))
     (\<lambda>t. t\<lparr>t_used_at := Some (wdbnow w)\<rparr>) (user_tokens d)\<rparr>) ?w1"
  from assms(1) r have "ConsumeUserToken x ?h EmailVerification ?w1 = (Inr ?r, ?w2)" by (simp add: sql_inv)
  then have "consume_or_fail x EmailVerification token ?w1 = (Inr ?r, ?w2)" by (simp add: consume_or_fail_def go_simps)
  with assms(1) r(2) show ?thesis
    by (auto simp: VerifyEmail_def WithTx_Inr andthen_Inr sql_inv update_user_def no_faults_def runs_def)
qed

lemma VerifyEmail_ok: "db_ok (wdb w) \<Longrightarrow> VerifyEmail x token w = (r, t) \<Longrightarrow> db_ok (wdb t)"
  using framedD [OF ok.obeys_accounts(6)] by (fastforce simp: keeps_ok_def)

lemma Register_ok: "db_ok (wdb w) \<Longrightarrow> Register x s inp w = (r, t) \<Longrightarrow> db_ok (wdb t)"
  using framedD [OF ok.obeys_accounts(1)] by (fastforce simp: keeps_ok_def)

text \<open>A usable account without a second factor logs in with the password its hash was made of.\<close>

lemma verified_logs_in:
  assumes "db_ok (wdb w)" and "no_faults x" and "argon_sound x" and "v \<in> set (users (wdb w))"
    and "normalize x (li_email inp) = u_email v" and "u_password_hash v = Some h" and "x_argon_hash x l (li_password inp) = Inr h"
    and "userAccountIsUsable v (wnow w)" and "totp_at (u_id v) (wdb w) = None"
    and "fst (enforceRateLimit x s (normalize x (li_email inp)) (li_ip_address inp) w) = Inr ()"
  shows "\<exists>q t. LoginWithPassword x s inp w = (Inr q, t) \<and> p_user_id q = u_id v"
proof -
  have "account_of (normalize x (li_email inp)) (wdb w) = Some v" using account_of_member [OF assms(1,4)] assms(5,6) by simp
  moreover have "x_argon_compare x (li_password inp) h = Inr True" using assms(3,7) by (auto simp: argon_sound_def)
  moreover have "second_factor_ok x k (wdb w) (u_id v) c now" for k c now using assms(9) by (simp add: second_factor_ok_def)
  ultimately show ?thesis using login_completes [OF assms(1,2,10)] assms(6,8) by fastforce
qed

text \<open>What a registration stored is enough to verify the email and to log in.\<close>

lemma registered_logs_in:
  assumes ok: "db_ok (wdb w)" "db_ok (wdb t)" and x: "no_faults x" "argon_sound x"
    and h: "x_argon_hash x l password = Inr h" and plain: "plain = b64url raw"
    and reg: "registered x ttl username email h plain w p (wdb t)" and t1: "wdb t1 = wdb t" "wdbnow t1 < wnow w + ttl"
  shows "\<exists>t2. VerifyEmail x plain t1 = (Inr (), t2) \<and>
     (\<forall>t3 inp. wdb t3 = wdb t2 \<and> normalize x (li_email inp) = email \<and> li_password inp = password \<and>
        fst (enforceRateLimit x s (normalize x (li_email inp)) (li_ip_address inp) t3) = Inr () \<longrightarrow>
        (\<exists>q t4. LoginWithPassword x s inp t3 = (Inr q, t4) \<and> p_user_id q = p_user_id p))"
proof -
  from reg obtain u tok where u: "u_id u = sq_users (seqs (wdb w))" "u_email u = email" "u_is_active u" "u_locked_until u = None"
    and us: "users (wdb t) = users (update_user (u_id u) (\<lambda>v. v\<lparr>u_password_hash := Some h\<rparr>) (wdbnow w)
          ((wdb w)\<lparr>users := users (wdb w) @ [u]\<rparr>))"
    and tok: "user_tokens (wdb t) = user_tokens (wdb w) @ [tok]" "t_user_id tok = u_id u" "t_kind tok = EmailVerification"
      "t_hash tok = HashToken x plain" "t_used_at tok = None" "t_expires_at tok = wnow w + ttl"
    and fresh: "\<forall>r \<in> set (user_tokens (wdb w)). t_hash r \<noteq> HashToken x plain"
    and totp: "totp_configs (wdb t) = totp_configs (wdb w)" and pid: "p_user_id p = u_id u"
    by (auto simp: registered_def principalFromUser_def)
  from fresh have "redeemable (user_tokens (wdb w)) (HashToken x plain) EmailVerification (wdbnow t1) = None"
    by (auto simp: redeemable_None live_def)
  with tok t1 have "redeemable (user_tokens (wdb t1)) (HashToken x (trim_space plain)) EmailVerification (wdbnow t1) = Some (u_id u)"
    by (simp add: redeemable_append live_def plain trim_space_b64url)
  from VerifyEmail_runs [OF x(1) this] t1 obtain t2 where v: "VerifyEmail x plain t1 = (Inr (), t2)"
    and us2: "users (wdb t2) = users (update_user (u_id u) (\<lambda>u. u\<lparr>u_email_verified_at := Some (wdbnow t1)\<rparr>) (wdbnow t1) (wdb t))"
    and totp2: "totp_configs (wdb t2) = totp_configs (wdb w)" by (auto simp: totp update_user_def)
  have ok2: "db_ok (wdb t2)" using VerifyEmail_ok [OF _ v] ok(2) t1 by simp
  let ?u2 = "u\<lparr>u_password_hash := Some h, u_email_verified_at := Some (wdbnow t1), u_updated_at := wdbnow t1\<rparr>"
  have "?u2 \<in> set (users (wdb t2))"
    unfolding us2 update_user_def us by (auto simp: update_rows_def)
  moreover from new_id_unused [OF ok(1)] u(1) have "totp_at (u_id u) (wdb t2) = None"
    by (simp add: totp_at_def totp2 find_None_iff)
  ultimately have "\<exists>q t4. LoginWithPassword x s inp t3 = (Inr q, t4) \<and> p_user_id q = p_user_id p"
    if "wdb t3 = wdb t2" "normalize x (li_email inp) = email" "li_password inp = password"
      "fst (enforceRateLimit x s (normalize x (li_email inp)) (li_ip_address inp) t3) = Inr ()" for t3 inp
    using verified_logs_in [where v = ?u2 and h = h and l = l] that ok2 x h u pid by (simp add: usable_iff locked_at_def)
  with v show ?thesis by blast
qed

text \<open>C12: Registration works end to end: after it, one email with a token is queued for the
  registered address; verifying that token before it expires succeeds, and from then on the
  registered email and password log in as the registered account.\<close>

theorem register_verify_login:
  assumes "db_ok (wdb w)" and "no_faults x" and "argon_sound x" and "Register x s ri w = (Inr p, t)"
  shows "\<exists>e plain. outbox (wdb t) = outbox (wdb w) @ [e] \<and> em_recipient e = normalize x (ri_email ri) \<and>
     em_payload e = token_payload plain (em_recipient e) \<and>
     (\<forall>t1. wdb t1 = wdb t \<and> wdbnow t1 < wnow w + sec_email_verification_ttl (sv_security s) \<longrightarrow>
       (\<exists>t2. VerifyEmail x plain t1 = (Inr (), t2) \<and>
         (\<forall>t3 inp. wdb t3 = wdb t2 \<and> normalize x (li_email inp) = normalize x (ri_email ri) \<and>
            li_password inp = ri_password ri \<and>
            fst (enforceRateLimit x s (normalize x (li_email inp)) (li_ip_address inp) t3) = Inr () \<longrightarrow>
            (\<exists>q t4. LoginWithPassword x s inp t3 = (Inr q, t4) \<and> p_user_id q = p_user_id p))))"
proof -
  let ?email = "normalize x (ri_email ri)"
  from assms(4) obtain h l plain raw where h: "x_argon_hash x l (ri_password ri) = Inr h" and plain: "plain = b64url raw"
    and reg: "registered x (sec_email_verification_ttl (sv_security s)) (normalize x (ri_username ri)) ?email h plain w p (wdb t)"
    by (rule Register_effect)
  then obtain e where e: "outbox (wdb t) = outbox (wdb w) @ [e]" "em_recipient e = ?email" "em_payload e = token_payload plain ?email"
    by (auto simp: registered_def)
  have "db_ok (wdb t)" by (rule Register_ok [OF assms(1,4)])
  note runs = registered_logs_in [OF assms(1) this assms(2,3) h plain reg]
  show ?thesis
    using e by (intro exI [of _ e] exI [of _ plain] conjI allI impI runs) auto
qed

text \<open>The sample environment with a fixed random source, and one registration in it.\<close>

definition fixed_ext :: ext where
  "fixed_ext = demo_ext\<lparr>x_rand := \<lambda>l n. Some ''xyz''\<rparr>"

definition demo_register :: register_input where
  "demo_register = \<lparr>ri_username = ''grace'', ri_email = ''grace@example'', ri_password = ''amazing grace 1906''\<rparr>"

lemma demo_register_run:
  "fst (Register fixed_ext demo_service demo_register demo_world) =
     Inr \<lparr>p_user_id = 2, p_username = ''grace'', p_email = ''grace@example'', p_roles = [''user''],
          p_totp_enabled = False, p_verified = False, p_auth_version = 1\<rparr>"
  by (simp add: Register_def registerTx_def fixed_ext_def demo_register_def HashPassword_def normalize_def NewToken_def
      to_lower_id trim_simps run_simps statement_simps demo_simps initial_db_def immediateEmailAvailableAt_def
      b64_digit_def principalFromUser_def)

theorem register_verify_login_witness:
  "\<exists>e plain t2. outbox (wdb (snd (Register fixed_ext demo_service demo_register demo_world))) = [e] \<and>
     em_payload e = token_payload plain ''grace@example'' \<and>
     VerifyEmail fixed_ext plain (snd (Register fixed_ext demo_service demo_register demo_world)) = (Inr (), t2)"
proof -
  let ?r = "Register fixed_ext demo_service demo_register demo_world"
  obtain p where run: "?r = (Inr p, snd ?r)" using demo_register_run by (metis prod.collapse)
  have "wdbnow (snd ?r) = 100 * second"
    by (simp add: Register_def registerTx_def fixed_ext_def demo_register_def HashPassword_def normalize_def NewToken_def
      to_lower_id trim_simps run_simps statement_simps demo_simps initial_db_def immediateEmailAvailableAt_def
      b64_digit_def principalFromUser_def)
  then have late: "wdbnow (snd ?r) < wnow demo_world + sec_email_verification_ttl (sv_security demo_service)"
    by (simp add: demo_world_def demo_service_def demo_config_def)
  have email: "normalize fixed_ext (ri_email demo_register) = ''grace@example''"
    by (simp add: demo_register_def fixed_ext_def normalize_def trim_simps to_lower_id)
  have "db_ok (wdb demo_world)" "no_faults fixed_ext" "argon_sound fixed_ext"
    by (simp_all add: demo_world_def demo_db_ok no_faults_def fixed_ext_def argon_sound_def)
  moreover have "outbox (wdb demo_world) = []" by (simp add: demo_world_def demo_db_def initial_db_def)
  ultimately show ?thesis using register_verify_login [OF _ _ _ run] late email by fastforce
qed

end
