(* ===== verification/OAuthProps.thy ===== *)
theory OAuthProps
  imports OAuth EndToEnd
begin

text \<open>
  The properties of the OAuth flow: what is checked before the provider is contacted, whose
  login a provider identity is, and the helper functions on tokens, names and stored secrets.
\<close>

section \<open>Frames\<close>

context sqlc_frame
begin

lemma obeys_oauth_helpers:
  "obeys (http_Do x rq)" "obeys (randomToken x n)" "obeys (sealStoredSecret x v k)"
  unfolding http_Do_def randomToken_def sealStoredSecret_def by (intro obeys_basics)+

lemma obeys_oauth_client:
  "obeys (ExchangeCode x c code v)" "obeys (FetchProfile x c tok)" "obeys (generateOAuthUsername x p pr)"
  unfolding ExchangeCode_def FetchProfile_def generateOAuthUsername_def by (intro obeys_basics obeys_oauth_helpers)+

lemma obeys_completeOAuthFlow: "obeys (completeOAuthFlow x s p f pr tk)"
  unfolding completeOAuthFlow_def resolveOAuthUser_def createOAuthUser_def checkOAuthLink_def
  by (intro obeys_basics statements obeys_oauth_helpers obeys_oauth_client account_helpers)

lemma obeys_oauth:
  "obeys (OAuthAuthorizationURL x s p i)" "obeys (CompleteOAuthAuthentication x s p j st code i)"
  unfolding OAuthAuthorizationURL_def CompleteOAuthAuthentication_def
  by (intro obeys_basics obeys_oauth_helpers obeys_oauth_client obeys_completeOAuthFlow)+

end

section \<open>The returned state\<close>

definition callback_valid :: "ext \<Rightarrow> service \<Rightarrow> string \<Rightarrow> oauth_flow_state \<Rightarrow> string \<Rightarrow> string \<Rightarrow> int \<Rightarrow> time \<Rightarrow> bool" where
  "callback_valid x s provider f state code currentUserID now \<longleftrightarrow>
     of_started_at f \<noteq> 0 \<and> of_started_at f \<le> now + minute \<and>
     now - of_started_at f \<le> oauth_state_ttl (cfg_oauth (sv_cfg s)) \<and>
     sv_oauth s (normalize x provider) \<noteq> None \<and> of_provider f = normalize x provider \<and>
     of_state f = state \<and> code \<noteq> '''' \<and> (of_link_user_id f = 0 \<or> of_link_user_id f = currentUserID)"

lemma flow_fresh_bound:
  "flow_fresh s f now \<Longrightarrow> oauth_state_ttl (cfg_oauth (sv_cfg s)) < 2 ^ 63 - 1 \<Longrightarrow>
     of_started_at f \<noteq> 0 \<and> of_started_at f \<le> now + minute \<and> now - of_started_at f \<le> oauth_state_ttl (cfg_oauth (sv_cfg s))"
  by (auto simp: flow_fresh_def time_sub_def)

text \<open>C15: Nothing is sent to the provider, and nothing else happens, unless the stored flow is the one
  the callback belongs to: not expired, for this provider, with this state, with a code, and, when
  it links an account, for the user who is signed in now.\<close>

theorem OAuth_state_checked:
  assumes "CompleteOAuthAuthentication x s provider doc state code i w = (r, t)" and "t \<noteq> w"
    and "oauth_state_ttl (cfg_oauth (sv_cfg s)) < 2 ^ 63 - 1"
  shows "\<exists>f. decodeOAuthFlow x doc = Inr f \<and> callback_valid x s provider f state code i (wnow w)"
proof (cases "decodeOAuthFlow x doc")
  case (Inl e)
  with assms(1,2) show ?thesis by (auto simp: CompleteOAuthAuthentication_def andthen_def lift_def)
next
  case (Inr f)
  with assms flow_fresh_bound [of s f "wnow w"] show ?thesis
    by (auto simp: CompleteOAuthAuthentication_def andthen_def lift_def time_Now_def fail_def oauthProvider_def
        callback_valid_def split: if_splits option.splits)
qed

section \<open>Whose login an identity is\<close>

definition identity :: "string \<Rightarrow> string \<Rightarrow> db \<Rightarrow> oauth_account option" where
  "identity provider subject d = find (\<lambda>a. oa_provider a = provider \<and> oa_provider_user_id a = subject) (oauth_accounts d)"

lemma oauth_reads_Inr [sql_inv]:
  "GetOAuthAccountByProviderIdentity x p pid w = (Inr a, t) \<longleftrightarrow> runs x ''GetOAuthAccountByProviderIdentity'' w \<and>
     identity p pid (wdb w) = Some a \<and> t = after ''GetOAuthAccountByProviderIdentity'' id w"
  "GetOAuthAccountByUserIDAndProvider x i p w = (Inr a, t) \<longleftrightarrow> runs x ''GetOAuthAccountByUserIDAndProvider'' w \<and>
     find (\<lambda>a. oa_user_id a = i \<and> oa_provider a = p) (oauth_accounts (wdb w)) = Some a \<and>
     t = after ''GetOAuthAccountByUserIDAndProvider'' id w"
  by (auto simp: GetOAuthAccountByProviderIdentity_def GetOAuthAccountByUserIDAndProvider_def query_read
      select_one_Inr identity_def)

lemma oauth_reads_Inl [sql_inv]:
  "GetOAuthAccountByProviderIdentity x p pid w = (Inl e, t) \<longleftrightarrow> t = after ''GetOAuthAccountByProviderIdentity'' id w \<and>
     ((\<exists>m. x_dbfault x (CDb ''GetOAuthAccountByProviderIdentity'' # wlog w) = Some m \<and> e = ErrDb (Unavailable m)) \<or>
      runs x ''GetOAuthAccountByProviderIdentity'' w \<and> e = ErrNoRows \<and> identity p pid (wdb w) = None)"
  "GetOAuthAccountByUserIDAndProvider x i p w = (Inl e, t) \<longleftrightarrow> t = after ''GetOAuthAccountByUserIDAndProvider'' id w \<and>
     ((\<exists>m. x_dbfault x (CDb ''GetOAuthAccountByUserIDAndProvider'' # wlog w) = Some m \<and> e = ErrDb (Unavailable m)) \<or>
      runs x ''GetOAuthAccountByUserIDAndProvider'' w \<and> e = ErrNoRows \<and>
      find (\<lambda>a. oa_user_id a = i \<and> oa_provider a = p) (oauth_accounts (wdb w)) = None)"
  by (auto simp: GetOAuthAccountByProviderIdentity_def GetOAuthAccountByUserIDAndProvider_def query_Inl
      runs_def after_def select_one_Inl identity_def find_None_iff)

lemma find_snoc: "find q (xs @ [b]) = (case find q xs of None \<Rightarrow> if q b then Some b else None | Some c \<Rightarrow> Some c)"
  by (induction xs) auto

lemma identityD: "identity p pid d = Some a \<Longrightarrow> a \<in> set (oauth_accounts d) \<and> oa_provider a = p \<and> oa_provider_user_id a = pid"
  by (auto simp: identity_def dest: find_SomeD)

text \<open>What the two branches of the upsert leave, for the identity it is keyed on and for the others.\<close>

lemma identity_update:
  assumes "\<And>a. oa_provider (f a) = oa_provider a \<and> oa_provider_user_id (f a) = oa_provider_user_id a"
    and "oauth_accounts e = update_rows (\<lambda>a. oa_provider a = p \<and> oa_provider_user_id a = pid) f (oauth_accounts d)"
  shows "identity p pid e = map_option f (identity p pid d)"
    and "(q, qid) \<noteq> (p, pid) \<Longrightarrow> identity q qid e = identity q qid d"
proof -
  have *: "identity q qid e = map_option (\<lambda>a. if oa_provider a = p \<and> oa_provider_user_id a = pid then f a else a) (identity q qid d)" for q qid
    unfolding identity_def assms(2) by (rule find_update_rows) (simp add: assms(1))
  show "identity p pid e = map_option f (identity p pid d)"
    unfolding * by (cases "identity p pid d") (auto dest: identityD)
  show "identity q qid e = identity q qid d" if "(q, qid) \<noteq> (p, pid)"
    unfolding * using that by (cases "identity q qid d") (auto dest: identityD)
qed

lemma identity_insert:
  assumes "oauth_accounts e = oauth_accounts d @ [a]" and "oa_provider a = p" and "oa_provider_user_id a = pid"
  shows "identity p pid d = None \<Longrightarrow> identity p pid e = Some a"
    and "(q, qid) \<noteq> (p, pid) \<Longrightarrow> identity q qid e = identity q qid d"
  using assms by (auto simp: identity_def find_snoc split: option.splits)

lemma UpsertOAuthAccount_Inr:
  assumes "UpsertOAuthAccount x i p pid access refresh expires w = (Inr a, t)"
  shows "i \<in> user_ids (wdb w)" and "users (wdb t) = users (wdb w)" and "wnow t = wnow w" and "wdbnow t = wdbnow w"
    and "\<exists>b. identity p pid (wdb t) = Some b \<and> oa_user_id b = i"
    and "(q, qid) \<noteq> (p, pid) \<Longrightarrow> identity q qid (wdb t) = identity q qid (wdb w)"
proof -
  let ?d = "wdb w"
  let ?f = "\<lambda>a. a\<lparr>oa_user_id := i, oa_access_token_ciphertext := access, oa_refresh_token_ciphertext := refresh,
                    oa_token_expires_at := expires, oa_updated_at := wdbnow w\<rparr>"
  let ?a = "\<lparr>oa_id = sq_oauth (seqs ?d), oa_user_id = i, oa_provider = p, oa_provider_user_id = pid,
                        oa_access_token_ciphertext = access, oa_refresh_token_ciphertext = refresh,
                        oa_token_expires_at = expires, oa_created_at = wdbnow w, oa_updated_at = wdbnow w\<rparr>"
  from assms show "i \<in> user_ids ?d" "users (wdb t) = users ?d" "wnow t = wnow w" "wdbnow t = wdbnow w"
    by (auto simp: UpsertOAuthAccount_def query_after Let_def split: if_splits option.splits)
  from assms have c: "(\<exists>c. identity p pid ?d = Some c) \<and>
        oauth_accounts (wdb t) = update_rows (\<lambda>a. oa_provider a = p \<and> oa_provider_user_id a = pid) ?f (oauth_accounts ?d) \<or>
      identity p pid ?d = None \<and> oauth_accounts (wdb t) = oauth_accounts ?d @ [?a]"
    by (auto simp: UpsertOAuthAccount_def query_after Let_def identity_def split: if_splits option.splits)
  show "\<exists>b. identity p pid (wdb t) = Some b \<and> oa_user_id b = i"
    using c identity_update(1) [of ?f "wdb t" p pid ?d] identity_insert(1) [of "wdb t" ?d ?a p pid] by auto
  show "identity q qid (wdb t) = identity q qid ?d" if "(q, qid) \<noteq> (p, pid)"
    using c that identity_update(2) [of ?f "wdb t" p pid ?d q qid] identity_insert(2) [of "wdb t" ?d ?a p pid q qid] by auto
qed

section \<open>Clocks\<close>

text \<open>Within one operation the two clocks stand still.\<close>

abbreviation same_clock :: "world \<Rightarrow> world \<Rightarrow> bool" where
  "same_clock w t \<equiv> wnow t = wnow w \<and> wdbnow t = wdbnow w"

interpretation clock: frame same_clock
  by unfold_locales auto

lemma clock_basics:
  "framed same_clock time_Now" "framed same_clock (extern c f)" "framed same_clock (query x n g)"
  "framed same_clock (http_Do x rq)" "framed same_clock (rand_Read x k)"
  unfolding http_Do_def rand_Read_def
  by (rule framedI, auto simp: go_inv query_def Let_def split: option.splits prod.splits)+

lemma provider_calls_quiet:
  "ExchangeCode x c code v w = (r, t) \<Longrightarrow> wdb t = wdb w \<and> same_clock w t"
  "FetchProfile x c tok w = (r', t) \<Longrightarrow> wdb t = wdb w \<and> same_clock w t"
proof -
  have "read_only.obeys (http_Do x rq)" for rq unfolding http_Do_def by (intro read_only.obeys_basics)
  then have "read_only.obeys (ExchangeCode x c code v)" "read_only.obeys (FetchProfile x c tok)"
    unfolding ExchangeCode_def FetchProfile_def by (intro read_only.obeys_basics; assumption)+
  moreover have "framed same_clock (ExchangeCode x c code v)" "framed same_clock (FetchProfile x c tok)"
    unfolding ExchangeCode_def FetchProfile_def by (intro clock.framed_intros clock_basics)+
  ultimately show "ExchangeCode x c code v w = (r, t) \<Longrightarrow> wdb t = wdb w \<and> same_clock w t"
    "FetchProfile x c tok w = (r', t) \<Longrightarrow> wdb t = wdb w \<and> same_clock w t"
    by (auto dest: framedD)
qed

lemma sealStoredSecret_quiet:
  "sealStoredSecret x v k w = (Inr sealed, t) \<Longrightarrow> wdb t = wdb w \<and> same_clock w t"
  by (auto simp: sealStoredSecret_def go_inv encryptSecret_Inr rand_Read_def split: if_splits prod.splits)

section \<open>Resolving the user\<close>

lemma randomToken_quiet: "randomToken x n w = (r, t) \<Longrightarrow> wdb t = wdb w \<and> same_clock w t"
  by (cases r) (auto simp: randomToken_def rand_Read_def go_inv split: if_splits)

lemma generateOAuthUsername_quiet:
  "generateOAuthUsername x provider p w = (Inr n, t) \<Longrightarrow> wdb t = wdb w \<and> same_clock w t"
  by (auto simp: generateOAuthUsername_def go_inv dest: randomToken_quiet)

lemma createOAuthUser_effect:
  assumes "createOAuthUser x provider p w = (Inr u, t)"
  shows "op_email_verified p" and "oauth_accounts (wdb t) = oauth_accounts (wdb w)" and "same_clock w t"
    and "\<exists>v \<in> set (users (wdb t)). u_id v = u_id u \<and> u_email v = trim_space (op_email p)"
proof -
  from assms obtain n w1 v w2 w3 r w4 w5 where
    n: "generateOAuthUsername x provider p w = (Inr n, w1)" and
    cu: "CreateUser x n (trim_space (op_email p)) w1 = (Inr v, w2)" and
    mk: "MarkUserEmailVerified x (u_id v) w2 = (Inr (), w3)" and
    gr: "GetRoleByName x defaultUserRole w3 = (Inr r, w4)" and
    ar: "AddUserRole x (u_id v) (role_id r) w4 = (Inr (), t)" and u: "u_id u = u_id v" and ver: "op_email_verified p"
    by (auto simp: createOAuthUser_def andthen_Inr time_Now_Inv ret_Inv fail_Inv split: if_splits)
  note q = generateOAuthUsername_quiet [OF n]
  from ar have t: "users (wdb t) = users (wdb w4)" "oauth_accounts (wdb t) = oauth_accounts (wdb w4)" "same_clock w4 t"
    by (auto simp: sql_inv split: if_splits)
  from gr have w4: "wdb w4 = wdb w3" "same_clock w3 w4" by (auto simp: sql_inv)
  from mk have w3: "users (wdb w3) = users (update_user (u_id v) (\<lambda>u. u\<lparr>u_email_verified_at := Some (wdbnow w2)\<rparr>) (wdbnow w2) (wdb w2))"
    "oauth_accounts (wdb w3) = oauth_accounts (wdb w2)" "same_clock w2 w3" by (auto simp: sql_inv)
  from cu have w2: "users (wdb w2) = users (wdb w1) @ [v]" "u_email v = trim_space (op_email p)"
    "oauth_accounts (wdb w2) = oauth_accounts (wdb w1)" "same_clock w1 w2" by (auto simp: sql_inv)
  show "op_email_verified p" by (rule ver)
  show "oauth_accounts (wdb t) = oauth_accounts (wdb w)" "same_clock w t" using t w4 w3 w2 q by auto
  show "\<exists>v \<in> set (users (wdb t)). u_id v = u_id u \<and> u_email v = trim_space (op_email p)"
    using t w4 w3 w2 u by (auto simp: update_user_def update_rows_def)
qed

text \<open>The four ways in which a user is found.\<close>

lemma resolveOAuthUser_cases:
  assumes "resolveOAuthUser x provider f p w = (Inr (i, linked, created), t)"
  defines "old \<equiv> identity provider (trim_space (op_subject p)) (wdb w)"
  obtains (known) a where "old = Some a" "oa_user_id a = i" "of_link_user_id f \<noteq> 0 \<Longrightarrow> i = of_link_user_id f"
      "wdb t = wdb w" "same_clock w t"
    | (link) "old = None" "of_link_user_id f \<noteq> 0" "i = of_link_user_id f" "wdb t = wdb w" "same_clock w t"
    | (matched) u where "old = None" "of_link_user_id f = 0" "u \<in> set (users (wdb w))" "u_email u = op_email p" "u_id u = i"
      "u_is_active u" "\<not> locked_at u (wnow w)" "wdb t = wdb w" "same_clock w t"
    | (new) u w1 where "old = None" "of_link_user_id f = 0" "wdb w1 = wdb w" "same_clock w w1"
      "createOAuthUser x provider p w1 = (Inr u, t)" "u_id u = i"
proof -
  let ?get = "GetOAuthAccountByProviderIdentity x provider (trim_space (op_subject p))"
  let ?w1 = "after ''GetOAuthAccountByProviderIdentity'' id w"
  from assms(1) consider (A) a where "?get w = (Inr a, ?w1)"
      "(if of_link_user_id f \<noteq> 0 \<and> oa_user_id a \<noteq> of_link_user_id f then fail ErrOAuthConflict
        else ret (oa_user_id a, False, False)) ?w1 = (Inr (i, linked, created), t)"
    | (B) "?get w = (Inl ErrNoRows, ?w1)" "of_link_user_id f \<noteq> 0" "ret (of_link_user_id f, False, False) ?w1 = (Inr (i, linked, created), t)"
    | (C) "?get w = (Inl ErrNoRows, ?w1)" "of_link_user_id f = 0"
      "attempt (GetUserByEmail x (op_email p))
              (\<lambda>e. if \<not> errors_is e ErrNoRows then fail e
                   else andthen (createOAuthUser x provider p) (\<lambda>u. ret (u_id u, False, True)))
              (\<lambda>u. if \<not> u_is_active u then fail ErrAccountDisabled
                   else andthen time_Now (\<lambda>now.
                     if locked_at u now then fail ErrAccountLocked else ret (u_id u, True, False))) ?w1
         = (Inr (i, linked, created), t)"
    unfolding resolveOAuthUser_def attempt_Inv [of ?get]
    by (cases "?get w") (auto simp: oauth_reads_Inr oauth_reads_Inl fail_Inv split: if_splits)
  then show thesis
  proof cases
    case (A a)
    with known [of a] show ?thesis by (auto simp: oauth_reads_Inr old_def go_inv split: if_splits)
  next
    case B
    with link show ?thesis by (auto simp: oauth_reads_Inl old_def go_inv)
  next
    case C
    from C(1) have none: "old = None" by (simp add: oauth_reads_Inl old_def)
    from C(3) consider u w2 where "GetUserByEmail x (op_email p) ?w1 = (Inr u, w2)" "u_is_active u" "\<not> locked_at u (wnow w2)" "u_id u = i" "t = w2"
      | w2 u where "GetUserByEmail x (op_email p) ?w1 = (Inl ErrNoRows, w2)" "createOAuthUser x provider p w2 = (Inr u, t)" "u_id u = i"
      by (auto simp: attempt_Inv go_inv GetUser_Inr reads_Inl(2) split: if_splits)
    then show ?thesis
    proof cases
      case (1 u w2)
      with matched [OF none C(2), of u] show ?thesis by (auto simp: sql_inv dest: find_SomeD)
    next
      case (2 w2 u)
      with new [OF none C(2), of w2 u] show ?thesis by (auto simp: sql_inv)
    qed
  qed
qed

lemma resolveOAuthUser_Inr:
  assumes "resolveOAuthUser x provider f p w = (Inr (i, linked, created), t)"
  defines "old \<equiv> identity provider (trim_space (op_subject p)) (wdb w)"
  shows "oauth_accounts (wdb t) = oauth_accounts (wdb w)" and "same_clock w t"
    and "old = Some a \<Longrightarrow> oa_user_id a = i" and "of_link_user_id f \<noteq> 0 \<Longrightarrow> i = of_link_user_id f"
    and "old = None \<Longrightarrow> of_link_user_id f = 0 \<Longrightarrow>
       \<exists>u \<in> set (users (wdb t)). u_id u = i \<and> u_email u \<in> {op_email p, trim_space (op_email p)}"
proof -
  note cases = resolveOAuthUser_cases [OF assms(1), folded old_def]
  show "oauth_accounts (wdb t) = oauth_accounts (wdb w)" by (rule cases) (auto dest: createOAuthUser_effect(2))
  show "same_clock w t" by (rule cases) (auto dest: createOAuthUser_effect(3))
  show "old = Some a \<Longrightarrow> oa_user_id a = i" by (rule cases) auto
  show "of_link_user_id f \<noteq> 0 \<Longrightarrow> i = of_link_user_id f" by (rule cases) auto
  show "old = None \<Longrightarrow> of_link_user_id f = 0 \<Longrightarrow>
       \<exists>u \<in> set (users (wdb t)). u_id u = i \<and> u_email u \<in> {op_email p, trim_space (op_email p)}"
    by (rule cases) (auto dest: createOAuthUser_effect(4))
qed

lemma checkOAuthLink_Inr:
  "checkOAuthLink x provider f p l w = (Inr l', t) \<Longrightarrow> wdb t = wdb w \<and> same_clock w t"
  by (auto simp: checkOAuthLink_def go_inv sql_inv split: if_splits)

lemma completeOAuthFlow_Inr:
  assumes "completeOAuthFlow x s provider f p tokens w = (Inr r, t)"
  defines "subject \<equiv> trim_space (op_subject p)" and "i \<equiv> p_user_id (or_principal r)"
  shows "\<exists>b. identity provider subject (wdb t) = Some b \<and> oa_user_id b = i"
    and "identity provider subject (wdb w) = Some a \<Longrightarrow> oa_user_id a = i"
    and "of_link_user_id f \<noteq> 0 \<Longrightarrow> i = of_link_user_id f"
    and "(q, qid) \<noteq> (provider, subject) \<Longrightarrow> identity q qid (wdb t) = identity q qid (wdb w)"
    and "\<exists>u. user_at i (wdb t) = Some u \<and> userAccountIsUsable u (wnow w) \<and> p_email (or_principal r) = u_email u"
proof -
  from assms(1) obtain j l0 c w1 l w2 sa w3 sr w4 oa w5 pr where
    res: "resolveOAuthUser x provider f p w = (Inr (j, l0, c), w1)" and
    chk: "checkOAuthLink x provider f p l0 w1 = (Inr l, w2)" and
    seal: "sealStoredSecret x (ot_access_token tokens) (sec_encryption_key (sv_security s)) w2 = (Inr sa, w3)" and
    seal2: "(if ot_refresh_token tokens \<noteq> '''' then sealStoredSecret x (ot_refresh_token tokens) (sec_encryption_key (sv_security s))
       else ret None) w3 = (Inr sr, w4)" and
    up: "UpsertOAuthAccount x j provider subject sa sr (nullTime (ot_expiry tokens)) w4 = (Inr oa, w5)" and
    comp: "completeUserAuthentication x j (of_link_user_id f = 0) w5 = (Inr pr, t)" and r: "or_principal r = pr"
    unfolding subject_def by (auto simp: completeOAuthFlow_def andthen_Inr ret_Inv)
  note R = resolveOAuthUser_Inr [OF res]
  from checkOAuthLink_Inr [OF chk] sealStoredSecret_quiet [OF seal] seal2
  have w4: "wdb w4 = wdb w1" "same_clock w1 w4"
    by (auto simp: ret_Inv dest: sealStoredSecret_quiet split: if_splits)
  note U = UpsertOAuthAccount_Inr [OF up]
  from comp obtain u where u: "user_at j (wdb w5) = Some u" "userAccountIsUsable u (wnow w5)" "pr = principal_of u (wdb w5)"
    and t: "wdb t = (if of_link_user_id f = 0 then record_login j (wdbnow w5) (wdb w5) else wdb w5)"
    by (rule completeUserAuthentication_Inr)
  have ij: "i = j" using u user_atD [OF u(1)] by (simp add: i_def r)
  have idt: "identity q qid (wdb t) = identity q qid (wdb w5)" for q qid
    by (simp add: t identity_def record_login_def)
  have idw: "identity q qid (wdb w4) = identity q qid (wdb w)" for q qid
    by (simp add: w4 R(1) identity_def)
  show "\<exists>b. identity provider subject (wdb t) = Some b \<and> oa_user_id b = i" using U(5) by (simp add: idt ij)
  show "oa_user_id a = i" if "identity provider subject (wdb w) = Some a" using R(3) that by (simp add: ij subject_def)
  show "of_link_user_id f \<noteq> 0 \<Longrightarrow> i = of_link_user_id f" using R(4) by (simp add: ij)
  show "(q, qid) \<noteq> (provider, subject) \<Longrightarrow> identity q qid (wdb t) = identity q qid (wdb w)" using U(6) by (simp add: idt idw)
  show "\<exists>u. user_at i (wdb t) = Some u \<and> userAccountIsUsable u (wnow w) \<and> p_email (or_principal r) = u_email u"
    using u t R(2) w4 U(3) by (auto simp: ij r record_login_def user_at_update_same usable_iff locked_at_def)
qed

lemma WithTx_inner:
  assumes "WithTx x m w = (Inr v, t)"
  obtains w1 u where "m w1 = (Inr v, u)" "wdb w1 = wdb w" "same_clock w w1" "wdb t = wdb u" "same_clock u t"
  using assms by (auto simp: WithTx_Inr)

lemma CompleteOAuth_Inr:
  assumes "CompleteOAuthAuthentication x s provider doc state code i w = (Inr r, t)"
  obtains f c tok wa p wb wc wd tokens where "decodeOAuthFlow x doc = Inr f" "flow_fresh s f (wnow w)"
    "sv_oauth s (normalize x provider) = Some c" "of_provider f = normalize x provider" "of_state f = state" "code \<noteq> ''''"
    "of_link_user_id f = 0 \<or> of_link_user_id f = i"
    "FetchProfile x c tok wa = (Inr p, wb)" "op_subject p \<noteq> ''''" "op_email p \<noteq> ''''" "op_email_verified p"
    "completeOAuthFlow x s (normalize x provider) f p tokens wc = (Inr r, wd)"
    "wdb wc = wdb w" "same_clock w wc" "wdb t = wdb wd" "same_clock wd t"
proof -
  from assms obtain f c tokens w1 p w2 where f: "decodeOAuthFlow x doc = Inr f" "flow_fresh s f (wnow w)"
    and c: "sv_oauth s (normalize x provider) = Some c" "of_provider f = normalize x provider" "of_state f = state" "code \<noteq> ''''"
      "of_link_user_id f = 0 \<or> of_link_user_id f = i"
    and ex: "ExchangeCode x c code (of_code_verifier f) w = (Inr tokens, w1)"
    and fp: "FetchProfile x c (ot_access_token tokens) w1 = (Inr p, w2)"
    and p: "op_subject p \<noteq> ''''" "op_email p \<noteq> ''''" "op_email_verified p"
    and tx: "WithTx x (completeOAuthFlow x s (normalize x provider) f p tokens) w2 = (Inr r, t)"
    by (auto simp: CompleteOAuthAuthentication_def oauthProvider_def go_inv split: if_splits option.splits)
  from tx obtain wc wd where tx': "completeOAuthFlow x s (normalize x provider) f p tokens wc = (Inr r, wd)"
    "wdb wc = wdb w2" "same_clock w2 wc" "wdb t = wdb wd" "same_clock wd t" by (rule WithTx_inner)
  with provider_calls_quiet(1) [OF ex] provider_calls_quiet(2) [OF fp] f c fp p that show ?thesis by metis
qed

text \<open>C16: A completed OAuth flow signs in the user to whom the provider's identity belongs: an identity
  already known keeps its owner (in link mode it must be the user who is signed in), it is bound to
  the user afterwards, no other identity changes hands, the email was asserted as verified, and the
  account is active, unlocked and verified.\<close>

theorem CompleteOAuth_identity:
  assumes "CompleteOAuthAuthentication x s provider doc state code i w = (Inr r, t)"
  defines "j \<equiv> p_user_id (or_principal r)" and "pr \<equiv> normalize x provider"
  shows "\<exists>f c tok wa p wb. decodeOAuthFlow x doc = Inr f \<and> of_state f = state \<and> sv_oauth s pr = Some c \<and>
     FetchProfile x c tok wa = (Inr p, wb) \<and> op_email_verified p \<and> op_subject p \<noteq> '''' \<and>
     (of_link_user_id f \<noteq> 0 \<longrightarrow> j = i) \<and>
     (\<forall>a. identity pr (trim_space (op_subject p)) (wdb w) = Some a \<longrightarrow> oa_user_id a = j) \<and>
     (\<exists>b. identity pr (trim_space (op_subject p)) (wdb t) = Some b \<and> oa_user_id b = j) \<and>
     (\<forall>q qid. (q, qid) \<noteq> (pr, trim_space (op_subject p)) \<longrightarrow> identity q qid (wdb t) = identity q qid (wdb w)) \<and>
     (\<exists>u. user_at j (wdb t) = Some u \<and> userAccountIsUsable u (wnow w) \<and> p_email (or_principal r) = u_email u)"
  using assms(1)
proof (rule CompleteOAuth_Inr)
  fix f c tok wa p wb wc wd tokens
  assume h: "decodeOAuthFlow x doc = Inr f" "sv_oauth s (normalize x provider) = Some c" "of_state f = state"
    "of_link_user_id f = 0 \<or> of_link_user_id f = i" "FetchProfile x c tok wa = (Inr p, wb)" "op_subject p \<noteq> ''''"
    "op_email_verified p" "wdb wc = wdb w" "same_clock w wc" "wdb t = wdb wd" "same_clock wd t"
  assume "completeOAuthFlow x s (normalize x provider) f p tokens wc = (Inr r, wd)"
  note C = completeOAuthFlow_Inr [OF this, folded j_def pr_def]
  show ?thesis
    using h C(1-5)
    by (intro exI [of _ f] exI [of _ c] exI [of _ tok] exI [of _ wa] exI [of _ p] exI [of _ wb])
      (simp add: pr_def, metis)
qed

section \<open>A sample provider\<close>

definition demo_provider :: provider_config where
  "demo_provider = \<lparr>prov_enabled = True, prov_client_id = ''id'', prov_client_secret = ''secret'', prov_auth_url = ''https://idp/a'',
     prov_token_url = ''https://idp/t'', prov_user_info_url = ''https://idp/u'', prov_redirect_url = ''https://app/cb'',
     prov_scopes = [], prov_subject_field = '''', prov_email_field = '''', prov_email_verified_field = '''',
     prov_username_field = '''', prov_name_field = ''''\<rparr>"

text \<open>The provider's user information names the sample user with a subject of its own.\<close>

definition oauth_ext :: "json \<Rightarrow> ext" where
  "oauth_ext info = fixed_ext\<lparr>x_http := \<lambda>l rq. Inr \<lparr>hs_status = 200, hs_text = '''',
     hs_json = Inr (if hq_method rq = ''POST'' then JObj [(''access_token'', JStr ''at''), (''expires_in'', JNum 60 0)] else info)\<rparr>\<rparr>"

definition oauth_service :: service where
  "oauth_service = demo_service\<lparr>sv_oauth := [''idp'' \<mapsto> \<lparr>oc_name = ''idp'', oc_config = applyOAuthProviderDefaults demo_provider\<rparr>]\<rparr>"

definition demo_info :: "string \<Rightarrow> json" where
  "demo_info subject = JObj [(''sub'', JStr subject), (''email'', JStr ''ada@example''), (''email_verified'', JBool True)]"

definition demo_flow :: "int \<Rightarrow> json" where
  "demo_flow link = JObj ([(''provider'', JStr ''idp''), (''state'', JStr ''st''), (''code_verifier'', JStr ''v''), (''started_at'', JStr ''t'')]
     @ (if link = 0 then [] else [(''link_user_id'', JNum link 0)]))"

definition demo_callback :: "json \<Rightarrow> world \<Rightarrow> (err + oauth_result) \<times> world" where
  "demo_callback info = CompleteOAuthAuthentication ((oauth_ext info)\<lparr>x_time_parse := \<lambda>_. Some (99 * second)\<rparr>)
     oauth_service '' idp'' (Some (demo_flow 0)) ''st'' ''code'' 0"

lemmas oauth_run_simps = CompleteOAuthAuthentication_def completeOAuthFlow_def resolveOAuthUser_def checkOAuthLink_def
  ExchangeCode_def FetchProfile_def http_Do_def sealStoredSecret_def encryptSecret_def newGCM_def decodeOAuthFlow_def
  flow_fields_def field_for_def token_fields_def token_expiry_def oauthProvider_def flow_fresh_def time_sub_def
  success_status_def payloadString_def payloadBool_def member_get_def applyOAuthProviderDefaults_def or_default_def
  demo_provider_def oauth_ext_def oauth_service_def demo_info_def demo_flow_def demo_callback_def
  GetOAuthAccountByProviderIdentity_def UpsertOAuthAccount_def GetOAuthAccountByUserIDAndProvider_def modeForUserID_def oauthModeLogin_def

lemma demo_callback_run:
  "fst (demo_callback (demo_info ''s1'') demo_world) = Inr \<lparr>or_principal =
     \<lparr>p_user_id = 1, p_username = ''ada'', p_email = ''ada@example'', p_roles = [''user''],
      p_totp_enabled = True, p_verified = True, p_auth_version = 1\<rparr>,
     or_provider = ''idp'', or_mode = ''login'', or_created = False, or_linked = True\<rparr>"
  by (simp add: oauth_run_simps fixed_ext_def normalize_def trim_simps run_simps statement_simps
      login_simps demo_simps initial_db_def)

lemma demo_callback_eq:
  "CompleteOAuthAuthentication ((oauth_ext info)\<lparr>x_time_parse := \<lambda>_. Some (99 * second)\<rparr>)
     oauth_service '' idp'' (Some (demo_flow 0)) ''st'' ''code'' 0 w = (fst (demo_callback info w), snd (demo_callback info w))"
  by (simp add: demo_callback_def)

theorem CompleteOAuth_identity_witness:
  "\<exists>subject b. identity ''idp'' subject (wdb (snd (demo_callback (demo_info ''s1'') demo_world))) = Some b \<and> oa_user_id b = 1"
proof -
  obtain r where r: "fst (demo_callback (demo_info ''s1'') demo_world) = Inr r" "p_user_id (or_principal r) = 1"
    using demo_callback_run by auto
  have n: "normalize ((oauth_ext (demo_info ''s1''))\<lparr>x_time_parse := \<lambda>_. Some (99 * second)\<rparr>) '' idp'' = ''idp''"
    by (simp add: normalize_def trim_simps to_lower_id)
  from CompleteOAuth_identity [OF demo_callback_eq [of "demo_info ''s1''" demo_world, unfolded r(1)]] r(2) n
  show ?thesis by metis
qed

theorem OAuth_state_checked_witness:
  "\<exists>f. decodeOAuthFlow ((oauth_ext (demo_info ''s1''))\<lparr>x_time_parse := \<lambda>_. Some (99 * second)\<rparr>) (Some (demo_flow 0)) = Inr f \<and>
     of_state f = ''st''"
proof -
  let ?x = "(oauth_ext (demo_info ''s1''))\<lparr>x_time_parse := \<lambda>_. Some (99 * second)\<rparr>"
  have "snd (demo_callback (demo_info ''s1'') demo_world) \<noteq> demo_world"
  proof -
    have "wlog (snd (demo_callback (demo_info ''s1'') demo_world)) \<noteq> []"
      by (simp add: oauth_run_simps fixed_ext_def normalize_def trim_simps run_simps statement_simps
        login_simps demo_simps initial_db_def)
    then show ?thesis by (auto simp: demo_world_def)
  qed
  from OAuth_state_checked [OF demo_callback_eq this] show ?thesis
    by (auto simp: oauth_service_def demo_service_def demo_config_def callback_valid_def)
qed

section \<open>A second account at the same provider\<close>

lemma sealStoredSecret_runs:
  assumes "32 \<le> length key" and "\<And>l n. x_rand x l n \<noteq> None"
  shows "\<exists>c t. sealStoredSecret x v key w = (Inr c, t) \<and> wdb t = wdb w"
proof (cases "trim_space v = ''''")
  case False
  obtain nonce where "x_rand x (CRand gcm_nonce_size # wlog w) gcm_nonce_size = Some nonce" using assms(2) by auto
  then have "rand_Read x gcm_nonce_size w = (Inr nonce, w\<lparr>wlog := CRand gcm_nonce_size # wlog w\<rparr>)"
    by (simp add: rand_Read_def extern_def)
  with False assms(1) show ?thesis by (simp add: sealStoredSecret_def encryptSecret_def newGCM_def go_simps)
qed (simp add: sealStoredSecret_def ret_def)

text \<open>A user who already has an account at a provider and signs in with another account of the same
  provider that asserts the same verified email is not told of the conflict: the sign-in ends in the
  database's uniqueness error, and nothing is stored.\<close>

theorem OAuth_second_account_db_error:
  assumes "no_faults x" and "32 \<le> length (sec_encryption_key (sv_security s))" and "\<And>l n. x_rand x l n \<noteq> None"
    and "of_link_user_id f = 0" and "identity provider (trim_space (op_subject p)) (wdb w) = None"
    and "find (\<lambda>u. u_email u = op_email p) (users (wdb w)) = Some u" and "userAccountIsUsable u (wnow w)"
    and "a \<in> set (oauth_accounts (wdb w))" and "oa_user_id a = u_id u" and "oa_provider a = provider"
  shows "fst (WithTx x (completeOAuthFlow x s provider f p tokens) w) =
      Inl (ErrDb (UniqueViolation ''oauth_accounts_user_id_provider_key''))"
proof -
  let ?w1 = "after ''GetUserByEmail'' id (after ''GetOAuthAccountByProviderIdentity'' id (w\<lparr>wlog := CDb ''BEGIN'' # wlog w\<rparr>))"
  have res: "resolveOAuthUser x provider f p (w\<lparr>wlog := CDb ''BEGIN'' # wlog w\<rparr>) = (Inr (u_id u, True, False), ?w1)"
  proof -
    let ?w0 = "w\<lparr>wlog := CDb ''BEGIN'' # wlog w\<rparr>"
    have "GetOAuthAccountByProviderIdentity x provider (trim_space (op_subject p)) ?w0 =
        (Inl ErrNoRows, after ''GetOAuthAccountByProviderIdentity'' id ?w0)"
      and "GetUserByEmail x (op_email p) (after ''GetOAuthAccountByProviderIdentity'' id ?w0) = (Inr u, ?w1)"
      using assms(1,5,6) by (simp_all add: sql_inv)
    with assms(4,7) show ?thesis by (simp add: resolveOAuthUser_def go_simps usable_iff)
  qed
  have chk: "checkOAuthLink x provider f p True ?w1 = (Inr True, ?w1)" using assms(4) by (simp add: checkOAuthLink_def ret_def)
  note seal = sealStoredSecret_runs [OF assms(2,3)]
  obtain sa w2 where s1: "sealStoredSecret x (ot_access_token tokens) (sec_encryption_key (sv_security s)) ?w1 = (Inr sa, w2)"
    and w2: "wdb w2 = wdb w" using seal [of "ot_access_token tokens" ?w1] by auto
  obtain sr w3 where s2: "(if ot_refresh_token tokens \<noteq> ''''
      then sealStoredSecret x (ot_refresh_token tokens) (sec_encryption_key (sv_security s)) else ret None) w2 = (Inr sr, w3)"
    and w3: "wdb w3 = wdb w" using seal [of "ot_refresh_token tokens" w2] w2
    by (cases "ot_refresh_token tokens = ''''") (auto simp: ret_def)
  have clash: "\<exists>b \<in> set (oauth_accounts (wdb w3)). \<not> (oa_provider b = provider \<and> oa_provider_user_id b = trim_space (op_subject p)) \<and>
      oa_user_id b = u_id u \<and> oa_provider b = provider"
    using assms(5,8,9,10) w3 by (auto simp: identity_def find_None_iff)
  then have "fst (UpsertOAuthAccount x (u_id u) provider (trim_space (op_subject p)) sa sr (nullTime (ot_expiry tokens)) w3)
      = Inl (ErrDb (UniqueViolation ''oauth_accounts_user_id_provider_key''))"
    using assms(1) by (auto simp: UpsertOAuthAccount_def query_def no_faults_def Let_def)
  then obtain w4 where "UpsertOAuthAccount x (u_id u) provider (trim_space (op_subject p)) sa sr (nullTime (ot_expiry tokens)) w3
      = (Inl (ErrDb (UniqueViolation ''oauth_accounts_user_id_provider_key'')), w4)" by (metis prod.collapse)
  with res chk s1 s2 have "completeOAuthFlow x s provider f p tokens (w\<lparr>wlog := CDb ''BEGIN'' # wlog w\<rparr>)
      = (Inl (ErrDb (UniqueViolation ''oauth_accounts_user_id_provider_key'')), w4)"
    by (simp add: completeOAuthFlow_def go_simps)
  moreover from assms(1) have "begin_tx x w = (Inr (), w\<lparr>wlog := CDb ''BEGIN'' # wlog w\<rparr>)"
    by (simp add: begin_tx_Inr no_faults_def)
  ultimately show ?thesis by (simp add: WithTx_def go_simps)
qed

text \<open>The sample user, already linked to the provider's subject s0.\<close>

definition linked_world :: world where
  "linked_world = demo_world\<lparr>wdb := demo_db\<lparr>oauth_accounts := [\<lparr>oa_id = 1, oa_user_id = 1, oa_provider = ''idp'',
     oa_provider_user_id = ''s0'', oa_access_token_ciphertext = None, oa_refresh_token_ciphertext = None,
     oa_token_expires_at = None, oa_created_at = 9, oa_updated_at = 9\<rparr>]\<rparr>\<rparr>"

theorem OAuth_second_account_db_error_witness:
  "fst (WithTx demo_ext (completeOAuthFlow demo_ext demo_service ''idp''
      \<lparr>of_provider = ''idp'', of_state = ''s'', of_code_verifier = ''v'', of_started_at = 5, of_link_user_id = 0\<rparr>
      \<lparr>op_subject = ''s1'', op_email = ''ada@example'', op_email_verified = True, op_username = '''', op_name = ''''\<rparr>
      \<lparr>ot_access_token = ''at'', ot_refresh_token = '''', ot_expiry = 0\<rparr>) linked_world) =
    Inl (ErrDb (UniqueViolation ''oauth_accounts_user_id_provider_key''))"
  by (rule OAuth_second_account_db_error [of _ _ _ _ _ _ demo_user "hd (oauth_accounts (wdb linked_world))"])
    (auto simp: no_faults_def demo_service_def demo_config_def linked_world_def identity_def trim_simps demo_world_def
      demo_db_def demo_user_def usable_iff locked_at_def)

section \<open>Stored flows, secrets and names\<close>

lemma field_for_exact: "find (\<lambda>f. fst f = k) fs = Some f \<Longrightarrow> field_for fs k = Some f"
  by (simp add: field_for_def)

text \<open>The flow kept in the session is read back as it was written.\<close>

theorem OAuthFlow_roundtrip:
  assumes "x_time_parse x (x_time_text x (of_started_at f)) = Some (of_started_at f)"
    and "- (2 ^ 63) \<le> of_link_user_id f" and "of_link_user_id f < 2 ^ 63"
  shows "decodeOAuthFlow x (Some (encodeOAuthFlow x f)) = Inr f"
  using assms by (simp add: decodeOAuthFlow_def encodeOAuthFlow_def flow_fields_def field_for_def)

theorem OAuthFlow_roundtrip_witness:
  "decodeOAuthFlow (demo_ext\<lparr>x_time_parse := \<lambda>s. Some 5\<rparr>) (Some (encodeOAuthFlow (demo_ext\<lparr>x_time_parse := \<lambda>s. Some 5\<rparr>)
     \<lparr>of_provider = ''idp'', of_state = ''s'', of_code_verifier = ''v'', of_started_at = 5, of_link_user_id = 7\<rparr>)) =
   Inr \<lparr>of_provider = ''idp'', of_state = ''s'', of_code_verifier = ''v'', of_started_at = 5, of_link_user_id = 7\<rparr>"
  by (rule OAuthFlow_roundtrip) simp_all

text \<open>C39: A stored provider token is its nonce followed by its ciphertext, from which the configured key
  recovers it; a blank token is not stored.\<close>

theorem sealStoredSecret_opens:
  assumes "rand_fills x" and "aead_opens x" and "sealStoredSecret x v key w = (Inr sealed, t)"
  shows "(case sealed of None \<Rightarrow> trim_space v = ''''
     | Some b \<Rightarrow> gcm_nonce_size \<le> length b \<and>
         decryptSecret x (drop gcm_nonce_size b) (take gcm_nonce_size b) key = Inr v)"
proof (cases sealed)
  case None
  with assms(3) show ?thesis by (auto simp: sealStoredSecret_def go_inv split: if_splits prod.splits)
next
  case (Some b)
  with assms(3) obtain ct nonce where e: "encryptSecret x v key w = (Inr (ct, nonce), t)" and b: "b = nonce @ ct"
    by (auto simp: sealStoredSecret_def go_inv split: if_splits prod.splits)
  from e have "length nonce = gcm_nonce_size" using rand_Read_length [OF assms(1)] by (auto simp: encryptSecret_Inr)
  with decrypt_encrypt [OF assms(1,2) e] b Some show ?thesis by simp
qed

theorem sealStoredSecret_opens_witness:
  "\<exists>b. fst (sealStoredSecret demo_ext ''secret'' (replicate 32 (CHR ''k'')) demo_world) = Inr (Some b) \<and>
     decryptSecret demo_ext (drop gcm_nonce_size b) (take gcm_nonce_size b) (replicate 32 (CHR ''k'')) = Inr ''secret''"
proof -
  let ?r = "sealStoredSecret demo_ext ''secret'' (replicate 32 (CHR ''k'')) demo_world"
  have "\<exists>b. fst ?r = Inr (Some b)"
    by (simp add: sealStoredSecret_def encryptSecret_def newGCM_def trim_simps run_simps)
  then obtain b where b: "fst ?r = Inr (Some b)" by blast
  then have run: "?r = (Inr (Some b), snd ?r)" by (metis prod.collapse)
  have "rand_fills demo_ext" "aead_opens demo_ext" by (simp_all add: rand_fills_def aead_opens_def)
  from sealStoredSecret_opens [OF this run] b show ?thesis by simp
qed

definition username_char :: "char \<Rightarrow> bool" where
  "username_char c \<longleftrightarrow> username_rune (byte c)"

lemma username_rune_ascii: "username_rune r \<Longrightarrow> r < 0x80"
  by (auto simp: username_rune_def)

definition keep_username :: "(nat \<times> string) list \<Rightarrow> string" where
  "keep_username rs = concat (map (\<lambda>(r, _). if username_rune r then [char_of r] else []) rs)"

lemma username_rune_mod: "username_rune r \<Longrightarrow> username_rune (r mod 256)"
  using username_rune_ascii [of r] by simp

lemma sanitized_chars: "\<forall>c \<in> set (keep_username rs). username_char c"
  by (induction rs) (auto simp: keep_username_def username_char_def username_rune_mod)
lemma sanitized_id:
  "\<forall>c \<in> set s. username_char c \<Longrightarrow>
     keep_username (map (\<lambda>c. (byte c, [c])) s) = s"
  by (induction s) (auto simp: username_char_def keep_username_def)

lemma normalize_username:
  assumes "\<forall>c \<in> set s. username_char c"
  shows "normalize x s = s"
proof -
  from assms have a: "ascii s" "\<forall>c \<in> set s. byte c < 0x41 \<or> 0x5A < byte c" "\<forall>c \<in> set s. \<not> is_space (byte c)"
    by (auto simp: ascii_def username_char_def username_rune_def is_space_def)
  have "trim_space s = s"
  proof (cases "s = []")
    case False
    then have "hd s \<in> set s" "last s \<in> set s" by simp_all
    with a show ?thesis by (simp add: trim_space_ascii strip_id)
  qed (simp add: trim_space_ascii ascii_def strip_def)
  with to_lower_id [OF a(1,2)] show ?thesis by (simp add: normalize_def)
qed

text \<open>A generated user name keeps only lower-case letters, digits, dots, dashes and underscores, does not
  begin or end with a separator, and sanitizing it again changes nothing.\<close>

theorem sanitizeUsername_canonical:
  "(\<forall>c \<in> set (sanitizeUsername x v). username_rune (byte c)) \<and>
   (sanitizeUsername x v \<noteq> '''' \<longrightarrow> hd (sanitizeUsername x v) \<notin> set ''-._'' \<and> last (sanitizeUsername x v) \<notin> set ''-._'') \<and>
   sanitizeUsername x (sanitizeUsername x v) = sanitizeUsername x v"
proof -
  let ?sep = "\<lambda>c. c \<in> set ''-._''"
  have san: "sanitizeUsername x u = strip ?sep (keep_username (runes (normalize x u)))" for u
    by (simp add: sanitizeUsername_def keep_username_def)
  define k where "k = keep_username (runes (normalize x v))"
  have s: "sanitizeUsername x v = strip ?sep k" by (simp add: san k_def)
  have chars: "\<forall>c \<in> set (strip ?sep k). username_char c"
    using strip_set [of ?sep k] sanitized_chars [of "runes (normalize x v)", folded k_def] by blast
  then have "ascii (strip ?sep k)" by (auto simp: ascii_def username_char_def dest: username_rune_ascii)
  with chars have "sanitizeUsername x (strip ?sep k) = strip ?sep (strip ?sep k)"
    unfolding san by (simp only: normalize_username [OF chars] runes_ascii sanitized_id [OF chars])
  with chars strip_ends [of ?sep k] show ?thesis by (auto simp: s username_char_def)
qed

text \<open>The lifetime that a provider reports is honoured up to 9223372036 seconds; one second more wraps
  around the 64-bit duration and the token is stored as expired in the past.\<close>

theorem token_expiry_bounds:
  "(0 < n \<and> n \<le> 9223372036 \<longrightarrow> token_expiry now n = now + n * second \<and> token_expiry now n > now) \<and>
   token_expiry now 9223372037 < now"
  by (auto simp: token_expiry_def wrap64_def)

text \<open>A JSON null in the subject or email member passes for a value: it is read as the text of Go's nil,
  so the completeness check on the profile does not catch it; and a numeric subject of seven or more
  digits is read in floating-point notation.\<close>

theorem payloadString_untyped:
  "payloadString [(''sub'', JNull)] ''sub'' = ''<nil>'' \<and>
   payloadString [(''sub'', JNum 12345678 0)] ''sub'' = ''1.2345678e+07'' \<and>
   payloadString [] ''sub'' = ''''"
proof -
  have d: "digits_of 12345678 = ''12345678''" "digits_of 7 = ''7''"
    by (simp_all add: digits_of.simps char_of_def bit_0)
  show ?thesis
    by (simp add: payloadString_def member_get_def sprint_float_def trim_simps show_int_def d Let_def)
qed

end
