(* ===== verification/PasskeyProps.thy ===== *)
theory PasskeyProps
  imports Passkeys
begin

text \<open>
  The properties of the passkey component: the user handle identifies the user, a stored
  credential is the one that was registered, a passkey login is of the user who owns the
  credential, and a user only ever deletes credentials of their own.
\<close>

context sqlc_frame
begin

lemma obeys_passkey_helpers:
  "obeys (loadPasskeyUser x i)" "obeys (persistPasskeyCredential x i c n)" "obeys (updatePasskeyCredential x c)"
  unfolding loadPasskeyUser_def persistPasskeyCredential_def updatePasskeyCredential_def
  by (intro obeys_basics statements)+

lemma obeys_loadPasskeyUserByHandle: "obeys (loadPasskeyUserByHandle x r h)"
  unfolding loadPasskeyUserByHandle_def by (intro obeys_basics obeys_passkey_helpers)

lemma obeys_passkeys:
  "obeys (BeginPasskeyRegistration x i)" "obeys (FinishPasskeyRegistration x i sj cj n)"
  "obeys (BeginPasskeyLogin x)" "obeys (FinishPasskeyLogin x sj cj)"
  "obeys (ListPasskeys x i)" "obeys (DeletePasskey x i k)"
  unfolding BeginPasskeyRegistration_def FinishPasskeyRegistration_def BeginPasskeyLogin_def FinishPasskeyLogin_def
    ListPasskeys_def DeletePasskey_def
  by (intro obeys_basics statements obeys_passkey_helpers obeys_loadPasskeyUserByHandle account_helpers)+

end

section \<open>The user handle\<close>

lemma be_value_append: "be_value acc (s @ t) = be_value (be_value acc s) t"
  by (induction s arbitrary: acc) auto

lemma length_be_bytes [simp]: "length (be_bytes k n) = k"
  by (induction k arbitrary: n) auto

lemma be_value_bytes: "be_value acc (be_bytes k n) = acc * 256 ^ k + n mod 256 ^ k"
proof (induction k arbitrary: n)
  case (Suc k)
  have "n mod 256 ^ Suc k = 256 * (n div 256 mod 256 ^ k) + n mod 256"
    by (simp add: mod_mult2_eq)
  with Suc show ?case by (simp add: be_value_append algebra_simps)
qed simp

lemma wrap64_mod: "- (2 ^ 63) \<le> i \<Longrightarrow> i < 2 ^ 63 \<Longrightarrow> wrap64 (i mod 2 ^ 64) = i"
proof -
  assume i: "- (2 ^ 63) \<le> i" "i < 2 ^ 63"
  have "wrap64 (i mod 2 ^ 64) = wrap64 i" by (simp add: wrap64_def mod_add_left_eq)
  with i show ?thesis by (simp add: wrap64_id)
qed

text \<open>The eight-byte handle given to the authenticator determines the user: it is read back as the
  user's id, so two users never share a handle.\<close>

theorem WebAuthnID_roundtrip:
  assumes "- (2 ^ 63) \<le> u_id (pu_user u)" and "u_id (pu_user u) < 2 ^ 63"
  shows "length (WebAuthnID u) = 8 \<and> handle_user_id (WebAuthnID u) = u_id (pu_user u)"
proof -
  let ?i = "u_id (pu_user u)"
  have "nat (?i mod 2 ^ 64) < 2 ^ 64" by (simp add: nat_less_iff)
  then have "be_value 0 (WebAuthnID u) = nat (?i mod 2 ^ 64)"
    by (simp add: WebAuthnID_def be_value_bytes del: be_bytes.simps)
  with wrap64_mod [OF assms] show ?thesis
    by (simp add: handle_user_id_def WebAuthnID_def del: be_bytes.simps)
qed

theorem WebAuthnID_roundtrip_witness:
  "handle_user_id (WebAuthnID \<lparr>pu_user = demo_user, pu_credentials = []\<rparr>) = 1"
  using WebAuthnID_roundtrip [of "\<lparr>pu_user = demo_user, pu_credentials = []\<rparr>"] by (simp add: demo_user_def)

section \<open>Stored credentials\<close>

text \<open>A registered credential is read back from its row as it was, both from its stored document and,
  for rows without one, from the columns (for an authenticator id of sixteen bytes or none).\<close>

theorem credentialFromRow_roundtrip:
  assumes "0 \<le> cr_sign_count c" and "cr_sign_count c < 2 ^ 32"
    and "x_cred_unmarshal x d = Some c" and "d \<noteq> ''''" and "d \<noteq> ''{}''"
  shows "credentialFromRow x (credential_columns c d i n) = c \<and>
     (length (cr_aaguid c) \<in> {0, 16} \<longrightarrow> credentialFromRow x (credential_columns c ''{}'' i n) = c)"
  using assms by (auto simp: credentialFromRow_def credential_columns_def uint32_of_def null_string_def Let_def)

definition demo_credential :: wa_credential where
  "demo_credential = \<lparr>cr_id = ''raw'', cr_public_key = ''key'', cr_attestation_type = ''none'', cr_transport = [''usb''],
     cr_aaguid = '''', cr_sign_count = 7, cr_clone_warning = False\<rparr>"

theorem credentialFromRow_roundtrip_witness:
  "credentialFromRow (demo_ext\<lparr>x_cred_unmarshal := \<lambda>s. Some demo_credential\<rparr>) (credential_columns demo_credential ''doc'' 1 None)
     = demo_credential"
  using credentialFromRow_roundtrip [of demo_credential "demo_ext\<lparr>x_cred_unmarshal := \<lambda>s. Some demo_credential\<rparr>" "''doc''" 1 None]
  by (simp add: demo_credential_def)

section \<open>Passkey login\<close>

lemma ListPasskeyCredentialsByUserID_Inr [sql_inv]:
  "ListPasskeyCredentialsByUserID x i w = (Inr rows, t) \<longleftrightarrow> runs x ''ListPasskeyCredentialsByUserID'' w \<and>
     rows = sort_key pk_id (filter (\<lambda>p. pk_user_id p = i) (passkeys (wdb w))) \<and>
     t = after ''ListPasskeyCredentialsByUserID'' id w"
  by (auto simp: ListPasskeyCredentialsByUserID_def query_read)

definition credentials_of :: "ext \<Rightarrow> int \<Rightarrow> db \<Rightarrow> wa_credential list" where
  "credentials_of x i d = map (credentialFromRow x) (sort_key pk_id (filter (\<lambda>p. pk_user_id p = i) (passkeys d)))"

lemma loadPasskeyUserByHandle_Inr:
  "loadPasskeyUserByHandle x rawID h w = (Inr u, t) \<Longrightarrow>
     length h = 8 \<and> user_at (handle_user_id h) (wdb w) = Some (pu_user u) \<and>
     pu_credentials u = credentials_of x (handle_user_id h) (wdb w) \<and>
     (\<exists>row \<in> set (passkeys (wdb w)). pk_user_id row = handle_user_id h \<and> cr_id (credentialFromRow x row) = rawID) \<and>
     wdb t = wdb w \<and> wnow t = wnow w \<and> wdbnow t = wdbnow w"
  by (auto simp: loadPasskeyUserByHandle_def loadPasskeyUser_def credentials_of_def user_at_def go_inv sql_inv
      split: if_splits)

lemma updatePasskeyCredential_Inr:
  "updatePasskeyCredential x c w = (Inr v, t) \<Longrightarrow> users (wdb t) = users (wdb w) \<and> wnow t = wnow w \<and> wdbnow t = wdbnow w"
  by (auto simp: updatePasskeyCredential_def UpdatePasskeyCredential_def go_inv query_after)

text \<open>C17: A passkey login is the login of the user whose handle the assertion carries: that user owns a
  stored credential with the asserted raw id, the library verified the assertion against that user's
  credentials, the account is usable, and the session opened is valid.\<close>

theorem FinishPasskeyLogin_sound:
  assumes "db_ok (wdb w)" and "FinishPasskeyLogin x sessionJSON credentialJSON w = (Inr p, t)"
  shows "\<exists>session rawID h u c. decodePasskeySession x sessionJSON = Inr session \<and>
     x_wa_assertion x session credentialJSON = Inr (rawID, h) \<and> length h = 8 \<and>
     user_at (handle_user_id h) (wdb w) = Some u \<and>
     (\<exists>row \<in> set (passkeys (wdb w)). pk_user_id row = u_id u \<and> cr_id (credentialFromRow x row) = rawID) \<and>
     x_wa_verify x \<lparr>pu_user = u, pu_credentials = credentials_of x (u_id u) (wdb w)\<rparr> session credentialJSON = Inr c \<and>
     userAccountIsUsable u (wnow w) \<and> p_user_id p = u_id u \<and>
     session_valid (wdb t) (wnow w) (p_user_id p) (p_auth_version p)"
proof -
  from assms(2) obtain session rawID h pu w1 c w2 where
    s: "decodePasskeySession x sessionJSON = Inr session" "x_wa_assertion x session credentialJSON = Inr (rawID, h)" and
    load: "loadPasskeyUserByHandle x rawID h w = (Inr pu, w1)" and
    v: "x_wa_verify x pu session credentialJSON = Inr c" and
    up: "updatePasskeyCredential x c w1 = (Inr (), w2)" and
    comp: "completeUserAuthentication x (u_id (pu_user pu)) True w2 = (Inr p, t)"
    by (auto simp: FinishPasskeyLogin_def andthen_Inr attempt_Inv lift_Inv fail_Inv)
  note L = loadPasskeyUserByHandle_Inr [OF load] and U = updatePasskeyCredential_Inr [OF up]
  from L have id: "u_id (pu_user pu) = handle_user_id h" by (auto dest: user_atD)
  from L U id have at: "user_at (u_id (pu_user pu)) (wdb w2) = Some (pu_user pu)" by (simp add: user_at_def)
  from comp at L U have p: "userAccountIsUsable (pu_user pu) (wnow w)" "p = principal_of (pu_user pu) (wdb w2)"
    and t: "wdb t = record_login (u_id (pu_user pu)) (wdbnow w) (wdb w2)"
    by (auto elim!: completeUserAuthentication_Inr)
  from assms(1) L have "pu_user pu \<in> set (users (wdb w))" "users_ok (users (wdb w)) (sq_users (seqs (wdb w)))"
    by (auto simp: db_ok_def dest: user_atD)
  from users_ok_bounds [OF this(2,1)] at p t
  have "session_valid (wdb t) (wnow w) (p_user_id p) (p_auth_version p)"
    by (simp add: session_valid_def record_login_def user_at_update_same usable_iff locked_at_def)
  moreover from L id have "pu = \<lparr>pu_user = pu_user pu, pu_credentials = credentials_of x (u_id (pu_user pu)) (wdb w)\<rparr>"
    by simp
  ultimately show ?thesis using s L v p id
    by (metis principal_of_simps(1))
qed

section \<open>Deleting a passkey\<close>

lemma DeletePasskeyCredential_Inr [sql_inv]:
  "DeletePasskeyCredential x k i w = (Inr n, t) \<longleftrightarrow> runs x ''DeletePasskeyCredential'' w \<and>
     n = int (length (filter (\<lambda>p. pk_id p = k \<and> pk_user_id p = i) (passkeys (wdb w)))) \<and>
     t = after ''DeletePasskeyCredential'' (\<lambda>d. d\<lparr>passkeys := filter (\<lambda>p. \<not> (pk_id p = k \<and> pk_user_id p = i)) (passkeys d)\<rparr>) w"
  by (auto simp: DeletePasskeyCredential_def query_after Let_def)

lemma DeletePasskeyCredential_Inl:
  "DeletePasskeyCredential x k i w = (Inl e, t) \<Longrightarrow> wdb t = wdb w"
  by (auto simp: DeletePasskeyCredential_def query_Inl Let_def)

text \<open>Deleting a passkey succeeds only when the signed-in user owns it, removes that passkey, and never
  touches any other, whatever the outcome.\<close>

theorem DeletePasskey_own:
  assumes "DeletePasskey x i k w = (r, t)"
  shows "(r = Inr () \<longrightarrow> (\<exists>p \<in> set (passkeys (wdb w)). pk_id p = k \<and> pk_user_id p = i) \<and>
        passkeys (wdb t) = filter (\<lambda>p. \<not> (pk_id p = k \<and> pk_user_id p = i)) (passkeys (wdb w))) \<and>
     (r \<noteq> Inr () \<longrightarrow> wdb t = wdb w)"
proof (cases r)
  case (Inr v)
  with assms show ?thesis
    by (auto simp: DeletePasskey_def go_inv sql_inv filter_empty_conv split: if_splits)
next
  case (Inl e)
  have none: "filter (\<lambda>p. \<not> (pk_id p = k \<and> pk_user_id p = i)) ps = ps"
    if "\<forall>p \<in> set ps. \<not> (pk_id p = k \<and> pk_user_id p = i)" for ps
    using that by (simp add: filter_id_conv)
  have same: "d\<lparr>passkeys := passkeys d\<rparr> = d" for d by simp
  from assms Inl show ?thesis
    by (auto simp: DeletePasskey_def go_inv sql_inv filter_empty_conv none same
        dest: DeletePasskeyCredential_Inl split: if_splits)
qed

section \<open>A sample passkey\<close>

definition passkey_world :: world where
  "passkey_world = demo_world\<lparr>wdb := demo_db\<lparr>passkeys := [\<lparr>pk_id = 0, pk_user_id = 1, pk_credential_id = ''raw'',
     pk_credential_public_key = ''key'', pk_attestation_type = ''none'', pk_aaguid = None, pk_sign_count = 7,
     pk_clone_warning = False, pk_transports = [''usb''], pk_name = Some ''Laptop'', pk_credential_data = ''{}'',
     pk_created_at = 2, pk_updated_at = 2\<rparr>]\<rparr>\<rparr>"

definition passkey_ext :: ext where
  "passkey_ext = demo_ext\<lparr>x_cred_marshal := \<lambda>c. Inr ''doc'', x_wa_session := \<lambda>s. Some s,
     x_wa_assertion := \<lambda>s c. Inr (''raw'', be_bytes 8 1), x_wa_verify := \<lambda>u s c. Inr demo_credential\<rparr>"

lemma passkey_world_ok: "db_ok (wdb passkey_world)"
  by (simp add: db_ok_def passkey_world_def demo_db_def initial_db_def users_ok_def tokens_ok_def totp_ok_def
      oauth_ok_def passkeys_ok_def roles_ok_def outbox_ok_def user_ids_def demo_user_def demo_token_def
      hex_encode_def hex_digit_def)

lemma passkey_login_run:
  "fst (FinishPasskeyLogin passkey_ext ''session'' (JStr ''assertion'') passkey_world) =
     Inr \<lparr>p_user_id = 1, p_username = ''ada'', p_email = ''ada@example'', p_roles = [''user''],
          p_totp_enabled = True, p_verified = True, p_auth_version = 1\<rparr>"
  by (simp add: FinishPasskeyLogin_def decodePasskeySession_def loadPasskeyUserByHandle_def loadPasskeyUser_def
      handle_user_id_def be_value_bytes wrap64_id credentialFromRow_def updatePasskeyCredential_def
      ListPasskeyCredentialsByUserID_def UpdatePasskeyCredential_def passkey_ext_def passkey_world_def
      demo_credential_def credential_columns_def trim_simps run_simps statement_simps login_simps demo_simps
      initial_db_def del: be_bytes.simps)

theorem FinishPasskeyLogin_sound_witness:
  "session_valid (wdb (snd (FinishPasskeyLogin passkey_ext ''session'' (JStr ''assertion'') passkey_world))) (100 * second) 1 1"
proof -
  let ?r = "FinishPasskeyLogin passkey_ext ''session'' (JStr ''assertion'') passkey_world"
  obtain p where p: "fst ?r = Inr p" "p_user_id p = 1" "p_auth_version p = 1" by (simp add: passkey_login_run)
  then have run: "?r = (Inr p, snd ?r)" by (metis prod.collapse)
  have "wnow passkey_world = 100 * second" by (simp add: passkey_world_def demo_world_def)
  with FinishPasskeyLogin_sound [OF passkey_world_ok run] p show ?thesis by auto
qed

theorem DeletePasskey_own_witness:
  "passkeys (wdb (snd (DeletePasskey passkey_ext 1 0 passkey_world))) = [] \<and>
   wdb (snd (DeletePasskey passkey_ext 1 5 passkey_world)) = wdb passkey_world"
proof -
  have ok: "fst (DeletePasskey passkey_ext 1 0 passkey_world) = Inr ()"
    by (simp add: DeletePasskey_def validateUserAccount_def locked_at_def DeletePasskeyCredential_def passkey_ext_def
        passkey_world_def run_simps statement_simps demo_simps)
  have no: "fst (DeletePasskey passkey_ext 1 5 passkey_world) \<noteq> Inr ()"
    by (simp add: DeletePasskey_def validateUserAccount_def locked_at_def DeletePasskeyCredential_def passkey_ext_def
        passkey_world_def run_simps statement_simps demo_simps)
  have "filter (\<lambda>p. \<not> (pk_id p = 0 \<and> pk_user_id p = 1)) (passkeys (wdb passkey_world)) = []"
    by (simp add: passkey_world_def)
  with DeletePasskey_own [of passkey_ext 1 0 passkey_world, OF prod.collapse [symmetric]] ok
    DeletePasskey_own [of passkey_ext 1 5 passkey_world, OF prod.collapse [symmetric]] no
  show ?thesis by simp
qed

end
