(* ===== verification/WebSamples.thy ===== *)
theory WebSamples
  imports Web
begin

text \<open>A concrete site and a signed-in session on the sample store, for the witnesses of the HTTP layer.\<close>

definition demo_json :: "string \<Rightarrow> json list \<times> bool" where
  "demo_json s = (if s = ''login'' then ([JObj [(''email'', JStr ''ada@example''), (''password'', JStr ''correct horse battery''),
       (''totp_code'', JStr ''123456'')]], True)
     else if s = ''wrong'' then ([JObj [(''email'', JStr ''ada@example''), (''password'', JStr ''guess'')]], True)
     else ([], False))"

definition demo_scs :: scs where
  "demo_scs = \<lparr>scs_token = \<lambda>l. Inr (''token-'' @ digits_of (length l)),
     scs_Load = \<lambda>l m token. Inr (session_of m token),
     scs_RenewToken = \<lambda>l ss m. (Inr (), ss\<lparr>ss_token := ''token-'' @ digits_of (length l), ss_status := Modified\<rparr>,
       deleted (ss_token ss) m),
     scs_Destroy = \<lambda>l ss m. (Inr (), \<lparr>ss_token = '''', ss_values = Map.empty, ss_status = Destroyed\<rparr>, deleted (ss_token ss) m),
     scs_Commit = \<lambda>l ss m. case ss_status ss of
         Unmodified \<Rightarrow> (Inr None, ss, m)
       | Destroyed \<Rightarrow> (Inr (Some ''''), ss, m)
       | Modified \<Rightarrow> (let token = if ss_token ss = '''' then ''token-'' @ digits_of (length l) else ss_token ss in
           (Inr (Some token), ss\<lparr>ss_token := token\<rparr>, m(token \<mapsto> ss_values ss)))\<rparr>"

definition demo_site :: site where
  "demo_site = \<lparr>si_ext = demo_ext, si_service = demo_service, si_json = demo_json,
     si_scs = demo_scs, si_ping = \<lambda>l. None\<rparr>"

lemma demo_site_simps [simp]:
  "si_ext demo_site = demo_ext" "si_service demo_site = demo_service" "si_json demo_site = demo_json"
  "si_scs demo_site = demo_scs" "si_ping demo_site l = None"
  by (simp_all add: demo_site_def)

text \<open>The sample session manager behaves as documented.\<close>

lemma demo_sessions: "sessions_documented demo_scs"
  by (simp add: sessions_documented_def demo_scs_def renewed_def destroyed_def committed_def Let_def split: sess_status.splits)

definition demo_values :: "int \<Rightarrow> string \<rightharpoonup> sval" where
  "demo_values version = [''user_id'' \<mapsto> SInt 1, ''auth_version'' \<mapsto> SInt version]"

definition demo_web :: "int \<Rightarrow> web" where
  "demo_web version = \<lparr>wb_world = demo_world, wb_store = [''tok'' \<mapsto> demo_values version],
     wb_session = \<lparr>ss_token = ''tok'', ss_values = demo_values version, ss_status = Unmodified\<rparr>, wb_roles = New (5 * second)\<rparr>"

definition demo_request :: request where
  "demo_request = \<lparr>rq_method = ''GET'', rq_path = [''api'', ''v1'', ''auth'', ''me''], rq_params = [], rq_query = [],
     rq_headers = [(''Origin'', ''https://app.example''), (''X-Forwarded-For'', ''1.2.3.4,5.6.7.8,10.0.0.2'')],
     rq_remote_addr = ''10.0.0.1:4000'', rq_cookie = ''tok'', rq_body = ''''\<rparr>"

lemmas netip_simps = ParseAddr_def parseIPv4_def octet_def is_digit_def ParsePrefix_def PrefixFrom_def Masked_def
  BitLen_def Is4_def SplitHostPort_def last_colon_def parse_int_def prefix_Contains_def

end
