(* ===== verification/MiddlewareProps.thy ===== *)
theory MiddlewareProps
  imports Middleware WebSamples
begin

text \<open>
  Properties of the middleware: which address a request is attributed to, which origins are
  answered, who passes the session check, and how old the roles of the role check can be.
\<close>

section \<open>The client's address\<close>

lemma those_map_Some: "(\<forall>x \<in> set xs. f x = Some (g x)) \<Longrightarrow> those (map f xs) = Some (map g xs)"
  by (induction xs) auto

lemma find_rev_last:
  "\<not> P a \<Longrightarrow> \<forall>b \<in> set bs. P b \<Longrightarrow> find (\<lambda>x. \<not> P x) (rev (as @ a # bs)) = Some a"
proof -
  have "\<forall>b \<in> set ys. P b \<Longrightarrow> find (\<lambda>x. \<not> P x) (ys @ zs) = find (\<lambda>x. \<not> P x) zs" for ys zs
    by (induction ys) auto
  then show "\<not> P a \<Longrightarrow> \<forall>b \<in> set bs. P b \<Longrightarrow> find (\<lambda>x. \<not> P x) (rev (as @ a # bs)) = Some a" by simp
qed

definition trusted_hop :: "prefix list \<Rightarrow> string \<Rightarrow> bool" where
  "trusted_hop ps part \<longleftrightarrow> (\<exists>a. parseRemoteIP part = Some a \<and> matcher_Contains ps a)"

lemma clientAddr_rightmost:
  assumes "trim_space (join '','' (front @ client # hops)) \<noteq> ''''"
    and "\<forall>p \<in> set (front @ client # hops). CHR '','' \<notin> set p"
    and "\<forall>p \<in> set front. parseRemoteIP p \<noteq> None"
    and "parseRemoteIP client = Some a" and "\<not> matcher_Contains ps a"
    and "\<forall>p \<in> set hops. trusted_hop ps p"
  shows "clientAddrFromForwardedFor (join '','' (front @ client # hops)) ps = Some a"
proof -
  let ?g = "\<lambda>p. the (parseRemoteIP p)"
  have "those (map parseRemoteIP (front @ client # hops)) = Some (map ?g (front @ client # hops))"
    by (rule those_map_Some) (use assms(3,4,6) in \<open>auto simp: trusted_hop_def\<close>)
  moreover have "find (\<lambda>b. \<not> matcher_Contains ps b) (rev (map ?g front @ a # map ?g hops)) = Some a"
    by (rule find_rev_last) (use assms(5,6) in \<open>auto simp: trusted_hop_def\<close>)
  moreover have "split_on (CHR '','') (join '','' (front @ client # hops)) = front @ client # hops"
    by (rule split_on_join) (use assms(2) in auto)
  ultimately show ?thesis using assms(1,4) by (simp add: clientAddrFromForwardedFor_def del: rev_append)
qed

text \<open>Behind trusted proxies the request is attributed to the address that the outermost trusted
  proxy saw: the last entry of \<open>X-Forwarded-For\<close> that is not itself a trusted proxy. Whatever
  addresses the client put in front of it, and whatever other headers it sent, change nothing.
\<close>

theorem RealIP_rightmost:
  assumes "parseRemoteIP (rq_remote_addr rq) = Some proxy"
    and "matcher_Contains (newTrustedProxyMatcher trusted) proxy"
    and "Header_Get rq ''X-Forwarded-For'' = join '','' (front @ client # hops)"
    and "trim_space (Header_Get rq ''X-Forwarded-For'') \<noteq> ''''"
    and "\<forall>p \<in> set (front @ client # hops). CHR '','' \<notin> set p"
    and "\<forall>p \<in> set front. parseRemoteIP p \<noteq> None"
    and "parseRemoteIP client = Some a" and "\<not> matcher_Contains (newTrustedProxyMatcher trusted) a"
    and "\<forall>p \<in> set hops. trusted_hop (newTrustedProxyMatcher trusted) p"
  shows "RealIP trusted next rq = next (rq\<lparr>rq_remote_addr := addr_String a\<rparr>)"
proof -
  from clientAddr_rightmost [OF _ assms(5,6,7,8,9)] assms(3,4)
  have "clientAddrFromForwardedFor (Header_Get rq ''X-Forwarded-For'') (newTrustedProxyMatcher trusted) = Some a"
    by simp
  with assms(1,2) show ?thesis by (simp add: RealIP_def real_remote_def fun_eq_iff)
qed

text \<open>A connection from outside every trusted network keeps its own address, whatever its headers
  say. A trusted IPv4 network with n leading bits is the interval of addresses that agree on them.
\<close>

theorem RealIP_outside_network:
  assumes "parseRemoteIP (rq_remote_addr rq) = Some (V4 w)"
    and "\<forall>p \<in> set (newTrustedProxyMatcher trusted). \<exists>v n. px_addr p = V4 v \<and> px_bits p = Some n \<and>
           unat w div 2 ^ (32 - n) \<noteq> unat v div 2 ^ (32 - n)"
  shows "RealIP trusted next rq = next rq"
proof -
  have "\<not> prefix_Contains p (V4 w)" if "p \<in> set (newTrustedProxyMatcher trusted)" for p
    using assms(2) that by (force simp: prefix_Contains_V4)
  then have "\<not> matcher_Contains (newTrustedProxyMatcher trusted) (V4 w)"
    by (simp add: matcher_Contains_def list_ex_iff)
  with assms(1) show ?thesis by (simp add: RealIP_def real_remote_def fun_eq_iff)
qed

text \<open>A trusted proxy written as an IPv4-mapped IPv6 address is accepted and then never matches:
  the prefix keeps the 128 bits of the text for the 32-bit address it stands for.
\<close>

theorem mapped_proxy_never_trusted:
  assumes "ParsePrefix (trim_space v) = None" and "ParseAddr (trim_space v) = Some (V6 w z)" and "mapped w"
  shows "\<exists>p. parseTrustedProxyPrefix v = Some p \<and> \<not> prefix_Contains p a"
proof -
  have "trim_space v \<noteq> ''''" using assms(2) by (auto simp: ParseAddr_def)
  with assms show ?thesis
    by (simp add: parseTrustedProxyPrefix_def Let_def Is4_def PrefixFrom_def prefix_Contains_def BitLen_def)
qed

section \<open>Cross-origin requests\<close>

text \<open>C36: The middleware allows an origin only if it is the request's own and listed (or any is
  allowed), and a preflight request from such an origin is answered without reaching the handler;
  for every other origin the handler's answer is passed on unchanged.
\<close>

theorem CORS_origins:
  assumes "\<forall>o'. (''Access-Control-Allow-Origin'', o') \<notin> set (rs_headers (fst (next rq s)))"
  shows "let origin = trim_space (Header_Get rq ''Origin'');
             listed = (origin \<noteq> '''' \<and> (''*'' \<in> trim_space ` set origins \<or> origin \<in> trim_space ` set origins)) in
         ((''Access-Control-Allow-Origin'', o') \<in> set (rs_headers (fst (CORS origins next rq s))) \<longleftrightarrow> listed \<and> o' = origin) \<and>
         snd (CORS origins next rq s) = (if listed \<and> rq_method rq = ''OPTIONS'' then s else snd (next rq s))"
proof -
  let ?origin = "trim_space (Header_Get rq ''Origin'')"
  let ?listed = "?origin \<noteq> '''' \<and> (''*'' \<in> trim_space ` set origins \<or> ?origin \<in> trim_space ` set origins)"
  obtain r t where n: "next rq s = (r, t)" by fastforce
  have listed: "?listed \<longleftrightarrow> \<not> (?origin = '''' \<or> (\<not> allow_any origins \<and> ?origin \<notin> set (allowed_origins origins)))"
    by (auto simp: allow_any_def allowed_origins_def)
  have headers: "(''Access-Control-Allow-Origin'', o') \<in> set (cors_headers rq ?origin) \<longleftrightarrow> o' = ?origin"
    by (auto simp: cors_headers_def Let_def)
  show ?thesis
  proof (cases ?listed)
    case True
    then have "CORS origins next rq s = (if rq_method rq = ''OPTIONS''
        then (\<lparr>rs_status = 204, rs_headers = cors_headers rq ?origin, rs_body = NoBody\<rparr>, s)
        else (r\<lparr>rs_headers := cors_headers rq ?origin @ rs_headers r\<rparr>, t))"
      unfolding listed CORS_def Let_def n by auto
    with True n assms headers show ?thesis by (simp add: Let_def)
  next
    case False
    then have "CORS origins next rq s = (r, t)"
      unfolding listed CORS_def Let_def n by auto
    with False n assms show ?thesis by (auto simp: Let_def)
  qed
qed

section \<open>Signed-in users\<close>

text \<open>The session manager changes nothing but sessions.\<close>

lemma session_io_keeps:
  "session_io oper f s = (r, t) \<Longrightarrow> wdb (wb_world t) = wdb (wb_world s) \<and> wb_roles t = wb_roles s \<and>
     wnow (wb_world t) = wnow (wb_world s) \<and> wlog (wb_world t) = CSession oper # wlog (wb_world s)"
  by (auto simp: session_io_def Let_def split: prod.splits)

lemma session_io_Inv [go_inv]:
  "session_io oper f s = (r, t) \<longleftrightarrow> (\<exists>ss m. f (CSession oper # wlog (wb_world s)) (wb_session s) (wb_store s) = (r, ss, m) \<and>
     t = s\<lparr>wb_world := (wb_world s)\<lparr>wlog := CSession oper # wlog (wb_world s)\<rparr>, wb_session := ss, wb_store := m\<rparr>)"
  by (auto simp: session_io_def Let_def split: prod.splits)

lemma documented_Load: "sessions_documented c \<Longrightarrow> scs_Load c l m token = Inr ss \<Longrightarrow> ss = session_of m token"
  by (simp add: sessions_documented_def)

lemma documented_io:
  assumes "sessions_documented c"
  shows "renewed (scs_token c l) ss m (scs_RenewToken c l ss m)" and "destroyed ss m (scs_Destroy c l ss m)"
    and "committed (scs_token c l) ss m (scs_Commit c l ss m)"
  using assms by (simp_all add: sessions_documented_def)

lemma Destroy_keeps:
  "Destroy st s = (r, t) \<Longrightarrow> wdb (wb_world t) = wdb (wb_world s) \<and> wb_roles t = wb_roles s"
  unfolding Destroy_def by (blast dest: session_io_keeps)

lemma deleted_self: "token \<noteq> '''' \<Longrightarrow> deleted token m token = None"
  by (simp add: deleted_def)

lemma Destroy_Inr:
  assumes "sessions_documented (si_scs st)" and "Destroy st s = (Inr u, t)"
  shows "wb_session t = \<lparr>ss_token = '''', ss_values = Map.empty, ss_status = Destroyed\<rparr> \<and>
     wb_store t = deleted (ss_token (wb_session s)) (wb_store s)"
  using documented_io(2) [OF assms(1), of "wb_session s" "wb_store s" "CSession ''Destroy'' # wlog (wb_world s)"] assms(2)
  by (auto simp: Destroy_def go_inv destroyed_def)

lemma authenticated_cases:
  assumes "RequireAuthenticated st [ValidateSession (si_ext st)] next rq s = (r, t)" and "sessions_documented (si_scs st)"
  shows "(\<exists>w. session_valid (wdb (wb_world s)) (wnow (wb_world s)) (GetInt64 s ''user_id'') (GetInt64 s ''auth_version'') \<and>
            wdb w = wdb (wb_world s) \<and> next rq (s\<lparr>wb_world := w\<rparr>) = (r, t)) \<or>
         (rs_status r = 401 \<and> (GetInt64 s ''user_id'' = 0 \<or> ss_values (wb_session t) = Map.empty \<and>
            wb_store t = deleted (ss_token (wb_session s)) (wb_store s)) \<and> wdb (wb_world t) = wdb (wb_world s)) \<or>
         (rs_status r = 500 \<and> wdb (wb_world t) = wdb (wb_world s))"
proof (cases "GetInt64 s ''user_id'' = 0")
  case True
  with assms show ?thesis
    by (auto simp: RequireAuthenticated_def unauthenticated_def writeAuthzError_def WriteError_def WriteErrorWithFields_def)
next
  case False
  let ?i = "GetInt64 s ''user_id''" and ?v = "GetInt64 s ''auth_version''"
  obtain res w where vs: "ValidateSession (si_ext st) ?i ?v (wb_world s) = (res, w)" by fastforce
  let ?s = "s\<lparr>wb_world := w\<rparr>"
  show ?thesis
  proof (cases res)
    case (Inl e)
    have "wdb w = wdb (wb_world s)"
      using vs by (auto simp: ValidateSession_def go_inv sql_inv Inl split: if_splits)
    with assms(1) False vs Inl show ?thesis
      by (auto simp: RequireAuthenticated_def on_error_def in_world_def unexpected_def writeAuthzError_def WriteError_def
          WriteErrorWithFields_def)
  next
    case (Inr b)
    from ValidateSession_Inr [OF vs [unfolded Inr]]
    have b: "b = session_valid (wdb (wb_world s)) (wnow (wb_world s)) ?i ?v" and db: "wdb w = wdb (wb_world s)" by simp_all
    show ?thesis
    proof (cases b)
      case True
      with assms(1) False vs Inr b db show ?thesis
        by (auto simp: RequireAuthenticated_def on_error_def in_world_def)
    next
      case nb: False
      with assms(1) False vs Inr have "on_error (Destroy st) (\<lambda>_. writeAuthzError 500 ''session_error'' ''could not destroy invalid session'')
          (\<lambda>_. respond unauthenticated) ?s = (r, t)"
        by (auto simp: RequireAuthenticated_def on_error_def in_world_def)
      with db show ?thesis
        by (auto simp: on_error_Inv respond_def unauthenticated_def writeAuthzError_def WriteError_def WriteErrorWithFields_def
            dest: Destroy_keeps Destroy_Inr [OF assms(2)])
    qed
  qed
qed

text \<open>C21: A protected handler runs only for a session that is valid at that instant: its user exists, is
  active, verified and not locked, and the session carries the user's current version. Otherwise
  the answer is 401, the session is destroyed and its saved copy forgotten, or it is 500; in all
  these cases the database is untouched.
\<close>

theorem RequireAuthenticated_gate:
  assumes "RequireAuthenticated st [ValidateSession (si_ext st)] next rq s = (r, t)" and "sessions_documented (si_scs st)"
  shows "(\<exists>w. session_valid (wdb (wb_world s)) (wnow (wb_world s)) (GetInt64 s ''user_id'') (GetInt64 s ''auth_version'') \<and>
            wdb w = wdb (wb_world s) \<and> next rq (s\<lparr>wb_world := w\<rparr>) = (r, t)) \<or>
         (rs_status r = 401 \<and> (GetInt64 s ''user_id'' = 0 \<or> ss_values (wb_session t) = Map.empty \<and>
            wb_store t = deleted (ss_token (wb_session s)) (wb_store s)) \<and> wdb (wb_world t) = wdb (wb_world s)) \<or>
         (rs_status r = 500 \<and> wdb (wb_world t) = wdb (wb_world s))"
  using assms by (rule authenticated_cases)

section \<open>Roles\<close>

text \<open>C26: The roles that decide a request were the user's roles at some instant at most the cache's time
  to live ago. \<open>truth\<close> is the history of every user's roles; if every answer of the cache was right
  within the time to live before the request, the same holds after it.
\<close>

theorem resolveRoleNames_recent:
  assumes "resolveRoleNames (UserRoleNames x) i s = (Inr rs, t)"
    and "cache_valid (wb_roles s)" and "0 \<le> cache_ttl (wb_roles s)"
    and "roles.recent truth (wb_roles s) (wnow (wb_world s))"
    and "\<forall>rs w. UserRoleNames x i (wb_world s) = (Inr rs, w) \<longrightarrow> truth (wnow (wb_world s)) i = rs"
  shows "(\<exists>u. u \<le> wnow (wb_world s) \<and> wnow (wb_world s) \<le> u + cache_ttl (wb_roles s) \<and> rs = truth u i) \<and>
     roles.recent truth (wb_roles t) (wnow (wb_world s))"
proof -
  let ?now = "wnow (wb_world s)"
  have "rs = fst (roles.read_through (wb_roles s) i ?now (truth ?now)) \<and>
      wb_roles t = snd (roles.read_through (wb_roles s) i ?now (truth ?now))"
    using assms(1,5)
    by (auto simp: resolveRoleNames_def cache_get_def cache_set_def go_inv roles.read_through_def
        split: prod.splits option.splits)
  with roles.read_through_recent [OF assms(4,2,3), of i] show ?thesis by simp
qed

section \<open>Witnesses\<close>

lemma demo_network: "newTrustedProxyMatcher [''10.0.0.0/8''] = [\<lparr>px_addr = V4 0x0A000000, px_bits = Some 8\<rparr>]"
  by (simp add: newTrustedProxyMatcher_def parseTrustedProxyPrefix_def map_filter_simps trim_simps netip_simps Let_def)

lemma demo_addresses:
  "parseRemoteIP ''10.0.0.1:4000'' = Some (V4 0x0A000001)" "parseRemoteIP ''10.0.0.2'' = Some (V4 0x0A000002)"
  "parseRemoteIP ''5.6.7.8'' = Some (V4 0x05060708)" "parseRemoteIP ''1.2.3.4'' = Some (V4 0x01020304)"
  by (simp_all add: parseRemoteIP_def trim_simps netip_simps Let_def)

lemma demo_contains:
  "matcher_Contains [\<lparr>px_addr = V4 0x0A000000, px_bits = Some 8\<rparr>] (V4 w) \<longleftrightarrow> drop_bit 24 (w XOR 0x0A000000) = 0"
  by (simp add: matcher_Contains_def prefix_Contains_def)

lemma demo_hop: "trusted_hop [\<lparr>px_addr = V4 0x0A000000, px_bits = Some 8\<rparr>] ''10.0.0.2''"
  by (simp add: trusted_hop_def demo_addresses demo_contains)

theorem RealIP_rightmost_witness:
  "RealIP [''10.0.0.0/8''] (\<lambda>rq s. (WriteJSON 200 (JStr (rq_remote_addr rq)), s)) demo_request =
     (\<lambda>s. (WriteJSON 200 (JStr ''5.6.7.8''), s))"
proof -
  have h: "Header_Get demo_request ''X-Forwarded-For'' = join '','' ([''1.2.3.4''] @ ''5.6.7.8'' # [''10.0.0.2''])"
    by (simp add: demo_request_def first_of_def)
  have ne: "trim_space (Header_Get demo_request ''X-Forwarded-For'') \<noteq> ''''"
    by (simp add: demo_request_def first_of_def trim_simps)
  have r: "parseRemoteIP (rq_remote_addr demo_request) = Some (V4 0x0A000001)"
    by (simp add: demo_request_def demo_addresses)
  have "addr_String (V4 0x05060708) = ''5.6.7.8''"
    by (simp add: string4_def digits_of.simps char_of_def bit_0)
  with RealIP_rightmost [OF r _ h ne, of "[''10.0.0.0/8'']" "V4 0x05060708" "\<lambda>rq s. (WriteJSON 200 (JStr (rq_remote_addr rq)), s)"]
  show ?thesis
    by (simp add: demo_network demo_contains demo_addresses demo_hop)
qed

theorem RealIP_outside_network_witness:
  "RealIP [''10.0.0.0/8''] (\<lambda>rq s. (WriteJSON 200 (JStr (rq_remote_addr rq)), s)) (demo_request\<lparr>rq_remote_addr := ''5.6.7.8''\<rparr>) =
     (\<lambda>s. (WriteJSON 200 (JStr ''5.6.7.8''), s))"
  by (subst RealIP_outside_network [where w = "0x05060708"]) (simp_all add: demo_addresses demo_network)

lemmas v6_eval = v6_groups.simps(2) [of "pred_numeral n" for n, folded numeral_eq_Suc]

lemma demo_mapped: "ParseAddr ''::ffff:10.0.0.1'' = Some (V6 0xFFFF0A000001 '''')"
proof -
  have "parseIPv4 ''10.0.0.1'' = Some 0x0A000001" by (simp add: parseIPv4_def octet_def is_digit_def)
  then have "v6_groups 8 [] (Some 0) ''ffff:10.0.0.1'' = Some ([0xFFFF, 0x0A00, 1], Some 0)"
    by (simp add: hex_val_def hex_value_def v6_eval)
  moreover have "replicate 5 (0::nat) = [0, 0, 0, 0, 0]" by (simp add: eval_nat_numeral)
  ultimately show ?thesis
    by (simp add: ParseAddr_def Let_def parseIPv6_def has_prefix_def expand_groups_def groups_word_def)
qed

theorem mapped_proxy_never_trusted_witness:
  "\<exists>p. parseTrustedProxyPrefix ''::ffff:10.0.0.1'' = Some p \<and> \<not> prefix_Contains p (V4 0x0A000001)"
proof (rule mapped_proxy_never_trusted)
  show "ParsePrefix (trim_space ''::ffff:10.0.0.1'') = None" by (simp add: ParsePrefix_def trim_simps)
  show "ParseAddr (trim_space ''::ffff:10.0.0.1'') = Some (V6 0xFFFF0A000001 '''')"
    by (simp add: trim_simps demo_mapped)
  show "mapped 0xFFFF0A000001" by (simp add: mapped_def)
qed

theorem CORS_origins_witness:
  "(''Access-Control-Allow-Origin'', ''https://app.example'') \<in>
     set (rs_headers (fst (CORS [''https://app.example''] (\<lambda>rq s. (WriteJSON 200 JNull, s)) demo_request (demo_web 1))))"
  using CORS_origins [of "\<lambda>rq s. (WriteJSON 200 JNull, s)" demo_request "demo_web 1" "[''https://app.example'']" "''https://app.example''"]
  by (simp add: WriteJSON_def demo_request_def first_of_def trim_simps Let_def)

theorem RequireAuthenticated_gate_witness:
  "rs_status (fst (RequireAuthenticated demo_site [ValidateSession demo_ext] (\<lambda>rq s. (WriteJSON 200 JNull, s)) demo_request (demo_web 7))) = 401"
proof -
  let ?run = "RequireAuthenticated demo_site [ValidateSession demo_ext] (\<lambda>rq s. (WriteJSON 200 JNull, s)) demo_request (demo_web 7)"
  have n: "\<not> session_valid demo_db (wnow demo_world) 1 7"
    by (simp add: session_valid_def user_at_def demo_db_def demo_user_def)
  have "rs_status (fst ?run) \<noteq> 500"
    by (simp add: RequireAuthenticated_def GetInt64_def demo_web_def demo_values_def on_error_def in_world_def ValidateSession_def
        statement_simps run_simps demo_simps userAccountIsUsable_def locked_at_def Destroy_def session_io_def demo_scs_def Let_def respond_def
        unauthenticated_def writeAuthzError_def WriteError_def WriteErrorWithFields_def)
  moreover have "?run = (fst ?run, snd ?run)" by simp
  ultimately show ?thesis
    using demo_sessions RequireAuthenticated_gate [of demo_site "\<lambda>rq s. (WriteJSON 200 JNull, s)" demo_request "demo_web 7" "fst ?run" "snd ?run"] n
    by (auto simp: GetInt64_def demo_web_def demo_values_def demo_world_def)
qed

theorem resolveRoleNames_recent_witness:
  "\<exists>rs t. resolveRoleNames (UserRoleNames demo_ext) 1 (demo_web 1) = (Inr rs, t) \<and> rs = [''user'']"
proof -
  let ?truth = "\<lambda>(_::time) (_::int). [''user'']"
  let ?run = "resolveRoleNames (UserRoleNames demo_ext) 1 (demo_web 1)"
  have names: "fst (UserRoleNames demo_ext 1 demo_world) = Inr [''user'']"
    by (simp add: UserRoleNames_def validateUserAccount_def locked_at_def statement_simps run_simps demo_simps initial_db_def)
  have run: "fst ?run = Inr [''user'']"
    using names by (auto simp: resolveRoleNames_def andthen_def in_world_def time_Now_def cache_get_def cache_set_def ret_def
        demo_web_def New_def Get_def split: prod.splits sum.splits)
  have ttl: "cache_valid (wb_roles (demo_web 1))" "0 \<le> cache_ttl (wb_roles (demo_web 1))"
    by (simp_all add: demo_web_def New_valid)
  have recent: "roles.recent ?truth (wb_roles (demo_web 1)) (wnow (wb_world (demo_web 1)))"
    by (simp add: roles.recent_def demo_web_def New_def Get_def)
  have truth: "\<forall>rs w. UserRoleNames demo_ext 1 (wb_world (demo_web 1)) = (Inr rs, w) \<longrightarrow>
      ?truth (wnow (wb_world (demo_web 1))) 1 = rs"
    using names by (auto simp: demo_web_def)
  from run have "?run = (Inr [''user''], snd ?run)" by (metis prod.collapse)
  with resolveRoleNames_recent [OF this ttl recent truth] show ?thesis by metis
qed

end
