(* ===== verification/WebInvariants.thy ===== *)
theory WebInvariants
  imports Router Jobs OAuthProps PasskeyProps MiddlewareProps
begin

text \<open>
  The contract between the HTTP layer and the service: a relation that every operation of the service
  keeps is kept by every handler, every route and the whole router, whatever the request. It is
  interpreted on the schema's constraints, on what every account keeps and on the log of calls; the
  handlers are also an instance for relations on the state of the session.
\<close>

section \<open>The contract\<close>

locale service_frame = io_frame +
  assumes accounts: "obeys (Register x s ri)" "obeys (LoginWithPassword x s li)" "obeys (BeginTOTPSetup x s i)"
      "obeys (ConfirmTOTPSetup x s i code)" "obeys (DisableTOTP x i)" "obeys (VerifyEmail x token)"
      "obeys (RecoverAccount x token pw)" "obeys (ResetPassword x token pw)" "obeys (RequestPasswordReset x s email)"
      "obeys (RequestAccountRecovery x s email)" "obeys (RequestEmailVerification x s email)"
      "obeys (CurrentUser x i)" "obeys (ValidateSession x i v)" "obeys (UserRoleNames x i)"
    and oauth: "obeys (OAuthAuthorizationURL x s p i)" "obeys (CompleteOAuthAuthentication x s p j state code i)"
    and passkeys: "obeys (BeginPasskeyRegistration x i)" "obeys (FinishPasskeyRegistration x i sj cj n)"
      "obeys (BeginPasskeyLogin x)" "obeys (FinishPasskeyLogin x sj cj)" "obeys (ListPasskeys x i)" "obeys (DeletePasskey x i k)"
    and jobs: "obeys (EmailOutboxWork x smtp mail)" "obeys (CleanupStore x cfg)" "obeys (InactivityCheckWork x cfg)"
      "obeys (DeleteStaleBuckets stale)"

text \<open>What every statement keeps, the service keeps.\<close>

sublocale sqlc_frame \<subseteq> service_frame
  by unfold_locales (rule obeys_accounts obeys_requests obeys_oauth obeys_passkeys obeys_jobs)+

interpretation ok: service_frame "\<lambda>w t. keeps_ok (wdb w) (wdb t)"
  by unfold_locales

interpretation versions: service_frame "\<lambda>w t. account_le (wdb w) (wdb t)"
  by unfold_locales

interpretation history: service_frame history
  by unfold_locales

section \<open>Computations on the request state\<close>

sublocale io_frame \<subseteq> over_web: frame "\<lambda>s t. R (wb_world s) (wb_world t)"
  by unfold_locales (auto intro: refl trans)

context io_frame
begin

abbreviation web_obeys :: "(web, 'a) go \<Rightarrow> bool" where
  "web_obeys m \<equiv> framed (\<lambda>s t. R (wb_world s) (wb_world t)) m"

lemma web_in_world: "obeys m \<Longrightarrow> web_obeys (in_world m)"
  by (rule framedI) (auto simp: go_inv dest: framedD)

lemma web_steps:
  "web_obeys (session_step (Put k v))" "web_obeys (cache_get i now)" "web_obeys (cache_set i rs now)"
  by (auto intro!: framedI simp: session_step_def Put_def cache_get_def cache_set_def refl split: prod.splits)

lemma web_io: "web_obeys (session_io oper f)"
  by (rule framedI) (auto simp: session_io_Inv R_call)

lemma web_session:
  "web_obeys (RenewToken st)" "web_obeys (Destroy st)" "web_obeys (load_session st cookie)" "web_obeys (commit_session st)"
  unfolding RenewToken_def Destroy_def load_session_def commit_session_def by (rule web_io)+

lemma web_login: "web_obeys (completeLogin st p)"
  unfolding completeLogin_def by (intro over_web.framed_intros web_steps web_session)

lemma on_error_keeps:
  assumes "web_obeys m" and "\<And>v t. R (wb_world t) (wb_world (snd (k v t)))"
  shows "R (wb_world s) (wb_world (snd (on_error m h k s)))"
proof -
  obtain r t where run: "m s = (r, t)" by fastforce
  then have "R (wb_world s) (wb_world t)" by (rule framedD [OF assms(1)])
  with run assms(2) show ?thesis by (auto simp: on_error_def split: sum.splits intro: trans)
qed

lemma LoadAndSave_keeps:
  assumes "\<And>rq s. R (wb_world s) (wb_world (snd (h rq s)))"
  shows "R (wb_world s) (wb_world (snd (LoadAndSave st h rq s)))"
  unfolding LoadAndSave_def
proof (rule on_error_keeps [OF web_session(3)])
  fix v t
  obtain r u where run: "h rq t = (r, u)" by fastforce
  with assms [of t rq] have "R (wb_world t) (wb_world u)" by simp
  moreover have "R (wb_world u) (wb_world (snd (on_error (commit_session st) (\<lambda>_. server_error) (\<lambda>c. respond (add_cookie st c r)) u)))"
    by (rule on_error_keeps [OF web_session(4)]) (simp add: respond_def refl)
  ultimately show "R (wb_world t) (wb_world (snd (case h rq t of (r, ta) \<Rightarrow>
      on_error (commit_session st) (\<lambda>_. server_error) (\<lambda>c. respond (add_cookie st c r)) ta)))"
    using run by (auto intro: trans)
qed

end

section \<open>What a handler leaves\<close>

text \<open>The router library's middleware runs the next handler on some request at most once, or answers itself.\<close>

definition passes :: "(handler \<Rightarrow> handler) \<Rightarrow> bool" where
  "passes f \<longleftrightarrow> (\<forall>h rq s. snd (f h rq s) = s \<or> (\<exists>rq'. snd (f h rq s) = snd (h rq' s)))"

text \<open>A relation between the states before and after a request.\<close>

locale web_relation = frame W for W :: "web \<Rightarrow> web \<Rightarrow> bool"
begin

definition leads :: "web \<Rightarrow> response \<times> web \<Rightarrow> bool" where
  "leads s r \<longleftrightarrow> W s (snd r)"

definition serves :: "handler \<Rightarrow> bool" where
  "serves h \<longleftrightarrow> (\<forall>rq s. leads s (h rq s))"

lemma leads_same: "snd r = s \<Longrightarrow> leads s r"
  by (simp add: leads_def refl)

lemma leads_respond: "W s t \<Longrightarrow> leads s (respond r t)"
  by (simp add: leads_def respond_def)

lemma leads_on_error:
  assumes "framed W m" and "\<And>v t. leads t (k v t)"
  shows "leads s (on_error m h k s)"
proof -
  obtain r t where run: "m s = (r, t)" by fastforce
  then have "W s t" by (rule framedD [OF assms(1)])
  with run assms(2) show ?thesis by (auto simp: on_error_def leads_def split: sum.splits intro: trans)
qed

lemma leads_with_body: "(\<And>b. leads s (k b s)) \<Longrightarrow> leads s (with_body st p rq k s)"
  by (auto simp: with_body_def leads_def refl split: sum.splits)

lemma leads_flag: "W s t \<Longrightarrow> leads s (flag status name t)"
  unfolding flag_def by (rule leads_respond)

lemma leads_from: "W s t \<Longrightarrow> leads t r \<Longrightarrow> leads s r"
  unfolding leads_def by (rule trans)

lemma leads_if: "(b \<Longrightarrow> leads s r) \<Longrightarrow> (\<not> b \<Longrightarrow> leads s r') \<Longrightarrow> leads s (if b then r else r')"
  by simp

lemma leads_if_applied: "(b \<Longrightarrow> leads s (f s)) \<Longrightarrow> (\<not> b \<Longrightarrow> leads s (g s)) \<Longrightarrow> leads s ((if b then f else g) s)"
  by simp

lemma leads_split: "(\<And>a b. v = (a, b) \<Longrightarrow> leads s (f a b s)) \<Longrightarrow> leads s ((case v of (a, b) \<Rightarrow> f a b) s)"
  by (cases v) simp

lemmas leads_intros = leads_on_error leads_with_body leads_flag leads_respond leads_if leads_if_applied leads_split
  framed_ret framed_if refl

lemma serves_middleware:
  "serves h \<Longrightarrow> serves (RealIP ps h)" "serves h \<Longrightarrow> serves (CORS origins h)"
proof -
  assume h: "serves h"
  then show "serves (RealIP ps h)" by (simp add: serves_def RealIP_def)
  have m: "leads s (case p of (r, t) \<Rightarrow> (f r, t)) = leads s p" for s p f
    by (cases p) (simp add: leads_def)
  from h show "serves (CORS origins h)"
    by (simp add: serves_def CORS_def Let_def m leads_same)
qed

lemma serves_passes: "passes f \<Longrightarrow> serves h \<Longrightarrow> serves (f h)"
  unfolding passes_def serves_def leads_def by (metis refl)

lemma serves_router:
  assumes "\<forall>n. passes (chi n)" and "\<forall>r \<in> set (routes st). serves (rt_handler r)"
  shows "serves (NewRouter chi st)"
proof -
  have dispatch: "serves (dispatch st)"
    unfolding serves_def dispatch_def
    using assms(2) by (auto simp: serves_def leads_same respond_def split: option.splits dest!: find_SomeD)
  have opt: "serves ((if b then chi n else id) h)" if "serves h" for b n h
    using that assms(1) by (simp add: serves_passes)
  have req: "serves (chi n h)" if "serves h" for n h using that assms(1) by (simp add: serves_passes)
  show ?thesis
    unfolding NewRouter_def Let_def by (intro serves_middleware opt req dispatch)
qed

end

section \<open>Every handler keeps what the service keeps\<close>

text \<open>
  The service keeps \<open>R\<close>; the handlers keep a relation \<open>W\<close> that holds over every such change of the world,
  over the cache of roles, over session values other than the user, over a completed login and over
  the end of a session.
\<close>

locale web_frame = web_relation W + svc: service_frame R
  for W :: "web \<Rightarrow> web \<Rightarrow> bool" and R :: "world \<Rightarrow> world \<Rightarrow> bool" +
  fixes st :: site
  assumes W_world: "R (wb_world s) w \<Longrightarrow> W s (s\<lparr>wb_world := w\<rparr>)"
    and W_roles: "W s (s\<lparr>wb_roles := c\<rparr>)"
    and W_put: "k \<noteq> ''user_id'' \<Longrightarrow> W s (Put k v s)"
    and W_remove: "k \<noteq> ''user_id'' \<Longrightarrow> W s (Remove k s)"
    and W_login: "framed W (completeLogin st p)"
    and W_destroy: "framed W (Destroy st)"
begin

lemma web_in_world: "svc.obeys m \<Longrightarrow> framed W (in_world m)"
  by (rule framedI) (auto simp: in_world_Inv dest!: framedD intro: W_world)

lemma W_keys:
  "W s (Put passkeyRegistrationSessionKey v s)" "W s (Put passkeyLoginSessionKey v s)" "W s (Put oauthSessionKey v s)"
  "W s (Remove passkeyRegistrationSessionKey s)" "W s (Remove passkeyLoginSessionKey s)" "W s (Remove oauthSessionKey s)"
  by (simp_all add: W_put W_remove passkeyRegistrationSessionKey_def passkeyLoginSessionKey_def oauthSessionKey_def)

lemma web_services:
  "framed W (in_world (Register x s ri))" "framed W (in_world (LoginWithPassword x s li))"
  "framed W (in_world (BeginTOTPSetup x s i))" "framed W (in_world (ConfirmTOTPSetup x s i code))"
  "framed W (in_world (DisableTOTP x i))" "framed W (in_world (VerifyEmail x token))"
  "framed W (in_world (RecoverAccount x token pw))" "framed W (in_world (ResetPassword x token pw))"
  "framed W (in_world (RequestPasswordReset x s email))" "framed W (in_world (RequestAccountRecovery x s email))"
  "framed W (in_world (RequestEmailVerification x s email))" "framed W (in_world (CurrentUser x i))"
  "framed W (in_world (ValidateSession x i v))" "framed W (in_world (UserRoleNames x i))"
  "framed W (in_world (OAuthAuthorizationURL x s p i))" "framed W (in_world (CompleteOAuthAuthentication x s p j state code i))"
  "framed W (in_world (BeginPasskeyRegistration x i))" "framed W (in_world (FinishPasskeyRegistration x i sj cj n))"
  "framed W (in_world (BeginPasskeyLogin x))" "framed W (in_world (FinishPasskeyLogin x sj cj))"
  "framed W (in_world (ListPasskeys x i))" "framed W (in_world (DeletePasskey x i k))"
  by (intro web_in_world svc.accounts svc.oauth svc.passkeys)+

lemma web_extern: "framed W (in_world (extern c f))"
  by (intro web_in_world svc.obeys_extern)

lemmas handler_intros = leads_intros web_services web_extern W_login W_destroy W_keys

lemma web_validatedOptionalUserID: "framed W (validatedOptionalUserID st)"
proof (rule framedI)
  fix s r t
  assume run: "validatedOptionalUserID st s = (r, t)"
  have "framed W (andthen (in_world (ValidateSession x i v)) (\<lambda>valid. if valid then ret i else andthen (Destroy st) (\<lambda>_. fail e)))" for x i v e
    by (intro framed_intros web_services W_destroy)
  from framedD [OF this] run show "W s t"
    by (auto simp: validatedOptionalUserID_def Let_def refl split: if_splits)
qed

lemma account_handlers:
  "serves (RegisterHandler st)" "serves (LoginHandler st)" "serves (LogoutHandler st)" "serves (VerifyEmailHandler st)"
  "serves (RequestPasswordResetHandler st)" "serves (RequestEmailVerificationHandler st)"
  "serves (RequestAccountRecoveryHandler st)" "serves (ResetPasswordHandler st)" "serves (RecoverAccountHandler st)"
  unfolding serves_def RegisterHandler_def LoginHandler_def LogoutHandler_def VerifyEmailHandler_def RequestPasswordResetHandler_def
    RequestEmailVerificationHandler_def RequestAccountRecoveryHandler_def ResetPasswordHandler_def RecoverAccountHandler_def
    Let_def
  by (intro allI handler_intros)+

lemma signed_in_handlers:
  "serves (MeHandler st)" "serves (SetupTOTPHandler st)" "serves (EnableTOTPHandler st)" "serves (DisableTOTPHandler st)"
  "serves (ListPasskeysHandler st)" "serves (AdminAccess st)" "serves (Live st)" "serves (Ready st)"
  unfolding serves_def MeHandler_def SetupTOTPHandler_def EnableTOTPHandler_def DisableTOTPHandler_def ListPasskeysHandler_def
    AdminAccess_def Live_def Ready_def
  by (intro allI handler_intros)+

lemma ceremony_handlers:
  "serves (BeginPasskeyRegistrationHandler st)" "serves (FinishPasskeyRegistrationHandler st)"
  "serves (BeginPasskeyLoginHandler st)" "serves (FinishPasskeyLoginHandler st)" "serves (StartOAuth st)"
  unfolding serves_def BeginPasskeyRegistrationHandler_def FinishPasskeyRegistrationHandler_def BeginPasskeyLoginHandler_def
    FinishPasskeyLoginHandler_def StartOAuth_def
  by (intro allI handler_intros web_validatedOptionalUserID)+

lemma delete_handler: "serves (DeletePasskeyHandler st)"
proof -
  have "leads s (case v of Some i \<Rightarrow> if i \<le> 0 then respond r s else on_error (in_world (DeletePasskey x j i)) h (\<lambda>_. respond r') s
     | None \<Rightarrow> respond r s)" for s and v :: "int option" and x j h r r'
    by (cases v) (auto intro!: handler_intros)
  then show ?thesis unfolding serves_def DeletePasskeyHandler_def by blast
qed

lemma callback_handler: "serves (CompleteOAuth st)"
  unfolding serves_def
proof (intro allI)
  fix rq s
  let ?t = "Remove oauthSessionKey s"
  have "leads ?t (CompleteOAuth st rq s)"
    unfolding CompleteOAuth_def Let_def by (intro handler_intros web_validatedOptionalUserID)
  then show "leads s (CompleteOAuth st rq s)" by (rule leads_from [OF W_keys(6)])
qed

lemma web_roles: "framed W (cache_get i now)" "framed W (cache_set i rs now)"
  by (auto intro!: framedI W_roles simp: cache_get_def cache_set_def split: prod.splits)

lemma web_resolve: "framed W (resolveRoleNames (UserRoleNames x) i)"
  unfolding resolveRoleNames_def
  by (intro framed_intros web_roles web_services web_in_world svc.obeys_time_Now)

lemma serves_checks:
  assumes "serves h"
  shows "serves (RequireAuthenticated st [ValidateSession x] h)" and "serves (RequireRoles (UserRoleNames x) required h)"
proof -
  from assms have h: "leads s (h rq s)" for rq s by (simp add: serves_def)
  show "serves (RequireAuthenticated st [ValidateSession x] h)"
    unfolding serves_def RequireAuthenticated_def Let_def run_validators.simps
    by (intro allI handler_intros h) (simp add: leads_same)
  show "serves (RequireRoles (UserRoleNames x) required h)"
    unfolding serves_def RequireRoles_def Let_def
    by (intro allI leads_intros web_resolve h) (simp add: leads_same)
qed

end

section \<open>Routes and router\<close>

text \<open>
  Around the handlers a session is loaded and saved. A relation \<open>F\<close> that extends \<open>W\<close> and holds over a whole
  request with its session holds over every route and over the router.
\<close>

locale router_frame = web_frame W R st + whole: web_relation F
  for W :: "web \<Rightarrow> web \<Rightarrow> bool" and R :: "world \<Rightarrow> world \<Rightarrow> bool" and st :: site and F :: "web \<Rightarrow> web \<Rightarrow> bool" +
  assumes F_handler: "W s t \<Longrightarrow> F s t"
    and F_session: "serves h \<Longrightarrow> whole.serves (LoadAndSave st h)"
begin

lemma serves_whole: "serves h \<Longrightarrow> whole.serves h"
  unfolding serves_def leads_def whole.serves_def whole.leads_def by (blast intro: F_handler)

lemma serves_routes: "r \<in> set (routes st) \<Longrightarrow> whole.serves (rt_handler r)"
  unfolding routes_def public_routes_def sessioned_routes_def protected_routes_def sessioned_def protected_def admin_def
  using account_handlers [THEN serves_whole] signed_in_handlers [THEN serves_whole]
    account_handlers signed_in_handlers ceremony_handlers delete_handler callback_handler
  by (auto intro!: F_session serves_checks)

lemma serves_site: "\<forall>n. passes (chi n) \<Longrightarrow> whole.serves (NewRouter chi st)"
  by (rule whole.serves_router) (auto intro: serves_routes)

end

text \<open>What the service keeps, every route keeps.\<close>

lemma same_world [simp]: "wb_world (Put k v s) = wb_world s" "wb_world (Remove k s) = wb_world s"
  by (simp_all add: Put_def Remove_def)

sublocale service_frame \<subseteq> lifted: web_relation "\<lambda>s t. R (wb_world s) (wb_world t)"
  by unfold_locales

sublocale service_frame \<subseteq> lifted: router_frame
    "\<lambda>s t. R (wb_world s) (wb_world t)" R st "\<lambda>s t. R (wb_world s) (wb_world t)" for st
  by unfold_locales (auto simp: refl lifted.serves_def lifted.leads_def intro: web_session web_login LoadAndSave_keeps)

end
