(* ===== verification/AuthSystem.thy ===== *)
theory AuthSystem
  imports WebInvariants
begin

text \<open>
  The whole system as a step relation: requests served by the router, the periodic jobs, the
  passing of time on both hosts, and saved sessions that the session manager drops. The invariants
  hold for every interleaving.
\<close>

record system =
  sy_site :: site
  sy_chi :: "string \<Rightarrow> handler \<Rightarrow> handler"
  sy_smtp :: smtp
  sy_mail :: "mailer option"
  sy_limiter :: "(call list \<Rightarrow> err + int) option"

definition sy_cfg :: "system \<Rightarrow> config" where
  "sy_cfg y = sv_cfg (si_service (sy_site y))"

definition run_job :: "system \<Rightarrow> job \<Rightarrow> web \<Rightarrow> web" where
  "run_job y j s = (let x = si_ext (sy_site y) in case j of
     EmailOutbox \<Rightarrow> snd (in_world (EmailOutboxWork x (sy_smtp y) (sy_mail y)) s)
   | Cleanup \<Rightarrow> CleanupWork x (sy_cfg y) (sy_limiter y) (Some [sweep_roles]) s
   | InactivityCheck \<Rightarrow> snd (in_world (InactivityCheckWork x (sy_cfg y)) s))"

inductive step :: "system \<Rightarrow> web \<Rightarrow> web \<Rightarrow> bool" for y where
  request: "step y s (snd (NewRouter (sy_chi y) (sy_site y) rq s))"
| job: "step y s (run_job y j s)"
| clock: "wnow (wb_world s) \<le> n \<Longrightarrow> wdbnow (wb_world s) \<le> m \<Longrightarrow>
    step y s (s\<lparr>wb_world := (wb_world s)\<lparr>wnow := n, wdbnow := m\<rparr>\<rparr>)"
| drop: "step y s (s\<lparr>wb_store := (wb_store s)(token := None)\<rparr>)"

inductive reaches :: "system \<Rightarrow> web \<Rightarrow> web \<Rightarrow> bool" for y where
  start: "reaches y s s"
| more: "reaches y s t \<Longrightarrow> step y t u \<Longrightarrow> reaches y s u"

inductive_cases step_cases: "step y s t"

section \<open>Every step keeps what the service keeps\<close>

text \<open>A relation that also holds over the passing of time and over a session that is dropped holds over every step.\<close>

locale system_frame = router_frame W R st F
  for W :: "web \<Rightarrow> web \<Rightarrow> bool" and R :: "world \<Rightarrow> world \<Rightarrow> bool" and st :: site and F :: "web \<Rightarrow> web \<Rightarrow> bool" +
  assumes F_clock: "wnow (wb_world s) \<le> n \<Longrightarrow> wdbnow (wb_world s) \<le> m \<Longrightarrow>
      F s (s\<lparr>wb_world := (wb_world s)\<lparr>wnow := n, wdbnow := m\<rparr>\<rparr>)"
    and F_drop: "F s (s\<lparr>wb_store := (wb_store s)(token := None)\<rparr>)"
begin

lemma keeps_job: "W s (run_job y j s)"
proof -
  have io: "W s (snd (in_world m s))" if "svc.obeys m" for m :: "unit io" and s
    using framedD [OF web_in_world [OF that], of s] by (metis prod.collapse)
  have sweep: "W s (RunAll [sweep_roles] now t)" if "W s t" for now t
    by (rule trans [OF that]) (simp add: RunAll_def sweep_roles_def W_roles)
  show ?thesis
  proof (cases j)
    case Cleanup
    let ?s = "snd (in_world (CleanupStore (si_ext (sy_site y)) (sy_cfg y)) s)"
    have one: "W s ?s" by (rule io) (rule svc.jobs)
    have "W s (snd (in_world (ignore (DeleteStaleBuckets stale)) ?s))" for stale
      by (rule trans [OF one], rule io) (intro svc.obeys_ignore svc.jobs)
    with one show ?thesis
      using Cleanup by (auto simp: run_job_def CleanupWork_def Let_def split: option.splits intro!: sweep)
  qed (simp_all add: run_job_def io svc.jobs)
qed

lemma step_keeps:
  assumes "\<forall>n. passes (sy_chi y n)" and "sy_site y = st" and "step y s t"
  shows "F s t"
  using assms(3)
proof (cases rule: step.cases)
  case (request rq)
  with serves_site [OF assms(1)] assms(2) show ?thesis by (simp add: whole.serves_def whole.leads_def)
qed (auto intro: F_handler keeps_job F_clock F_drop)

lemma reaches_keeps:
  assumes "\<forall>n. passes (sy_chi y n)" and "sy_site y = st" and "reaches y s t"
  shows "F s t"
  using assms(3) by induction (auto intro: whole.refl whole.trans dest: step_keeps [OF assms(1,2)])

end

text \<open>What the service keeps of the database, the system keeps.\<close>

locale db_system = db_frame Q + service_frame "\<lambda>w t. Q (wdb w) (wdb t)" for Q :: "db \<Rightarrow> db \<Rightarrow> bool"

sublocale db_system \<subseteq> lifted: system_frame "\<lambda>s t. Q (wdb (wb_world s)) (wdb (wb_world t))" "\<lambda>w t. Q (wdb w) (wdb t)" st
    "\<lambda>s t. Q (wdb (wb_world s)) (wdb (wb_world t))" for st
  by unfold_locales (simp_all add: Q_refl)

context db_system
begin

lemma reaches_keeps:
  "\<forall>n. passes (sy_chi y n) \<Longrightarrow> reaches y s t \<Longrightarrow> Q (wdb (wb_world s)) (wdb (wb_world t))"
  by (rule lifted.reaches_keeps [OF _ HOL.refl])

end

interpretation ok: db_system keeps_ok
  by unfold_locales

interpretation versions: db_system account_le
  by unfold_locales

section \<open>Invariants of the running system\<close>


text \<open>C4: Once a user's session version has moved past a session's, that session is never valid again, at
  any instant of any later state of the system.
\<close>

theorem revoked_stays_revoked:
  assumes "\<forall>n. passes (sy_chi y n)" and "reaches y s t"
    and "user_at i (wdb (wb_world s)) = Some u" and "v < u_auth_version u"
  shows "\<not> session_valid (wdb (wb_world t)) now i v"
proof -
  from versions.reaches_keeps [OF assms(1,2)] assms(3) obtain u' where
    "user_at i (wdb (wb_world t)) = Some u'" "u_auth_version u \<le> u_auth_version u'"
    unfolding account_le_def same_account_def by blast
  with assms(4) show ?thesis by (simp add: session_valid_def)
qed


lemma ResetPassword_version:
  assumes "ResetPassword x token password w = (Inr (), w')"
  shows "\<exists>i u u'. redeemable (user_tokens (wdb w)) (HashToken x (trim_space token)) PasswordReset (wdbnow w) = Some i \<and>
     user_at i (wdb w) = Some u \<and> user_at i (wdb w') = Some u' \<and> u_auth_version u' = u_auth_version u + 1"
  by (rule ResetPassword_effect [OF assms]) (auto simp: user_at_update_same)

text \<open>C35: A password reset ends every session of its owner for good: no session opened before it is valid
  in any state that the system reaches afterwards.
\<close>

theorem reset_ends_sessions:
  assumes "\<forall>n. passes (sy_chi y n)" and "ResetPassword (si_ext (sy_site y)) token password (wb_world s) = (Inr (), w)"
    and "reaches y (s\<lparr>wb_world := w\<rparr>) t"
  shows "\<exists>i u. redeemable (user_tokens (wdb (wb_world s))) (HashToken (si_ext (sy_site y)) (trim_space token)) PasswordReset
       (wdbnow (wb_world s)) = Some i \<and> user_at i (wdb (wb_world s)) = Some u \<and>
     (\<forall>v now. v \<le> u_auth_version u \<longrightarrow> \<not> session_valid (wdb (wb_world t)) now i v)"
proof -
  from ResetPassword_version [OF assms(2)] obtain i u u' where
    r: "redeemable (user_tokens (wdb (wb_world s))) (HashToken (si_ext (sy_site y)) (trim_space token)) PasswordReset
       (wdbnow (wb_world s)) = Some i" "user_at i (wdb (wb_world s)) = Some u"
    and u': "user_at i (wdb w) = Some u'" "u_auth_version u' = u_auth_version u + 1" by blast
  from versions.reaches_keeps [OF assms(1,3)] u' obtain u'' where
    "user_at i (wdb (wb_world t)) = Some u''" "u_auth_version u < u_auth_version u''"
    unfolding account_le_def same_account_def by fastforce
  with r show ?thesis by (auto simp: session_valid_def)
qed

section \<open>Witnesses\<close>

definition demo_system :: system where
  "demo_system = \<lparr>sy_site = demo_site, sy_chi = (\<lambda>_. id), sy_smtp = (\<lambda>l c a. None),
     sy_mail = Some (New_mailer (cfg_mailer demo_config)), sy_limiter = None\<rparr>"

lemma demo_passes: "\<forall>n. passes (sy_chi demo_system n)"
  by (auto simp: demo_system_def passes_def)

lemma demo_reaches:
  "reaches demo_system s (run_job demo_system EmailOutbox (s\<lparr>wb_store := (wb_store s)(''tok'' := None)\<rparr>))"
  by (blast intro: reaches.intros step.intros)


theorem revoked_stays_revoked_witness:
  "\<not> session_valid (wdb (wb_world (run_job demo_system EmailOutbox ((demo_web 1)\<lparr>wb_store := (wb_store (demo_web 1))(''tok'' := None)\<rparr>)))) 9 1 0"
  by (rule revoked_stays_revoked [OF demo_passes demo_reaches, where u = demo_user])
    (simp_all add: demo_web_def user_at_def demo_world_def demo_db_def, simp_all add: demo_user_def)


theorem reset_ends_sessions_witness:
  "let s = (demo_web 1)\<lparr>wb_world := snd (ResetPassword demo_ext ''r'' ''correct horse'' demo_world)\<rparr> in
   \<not> session_valid (wdb (wb_world (run_job demo_system EmailOutbox (s\<lparr>wb_store := (wb_store s)(''tok'' := None)\<rparr>)))) 0 1 1"
proof -
  let ?w = "snd (ResetPassword demo_ext ''r'' ''correct horse'' demo_world)"
  have "fst (ResetPassword demo_ext ''r'' ''correct horse'' demo_world) = Inr ()"
    by (simp add: ResetPassword_def HashPassword_def consume_or_fail_def HashToken_def trim_simps run_simps
        statement_simps demo_simps)
  then have run: "ResetPassword (si_ext (sy_site demo_system)) ''r'' ''correct horse'' (wb_world (demo_web 1)) = (Inr (), ?w)"
    by (simp add: demo_system_def demo_web_def) (metis prod.collapse)
  have "redeemable (user_tokens (wdb demo_world)) (HashToken demo_ext (trim_space ''r'')) PasswordReset (wdbnow demo_world) = Some 1"
    "user_at 1 (wdb demo_world) = Some demo_user"
    by (simp_all add: redeemable_def user_at_def HashToken_def trim_simps demo_simps live_def)
  with reset_ends_sessions [OF demo_passes run demo_reaches] show ?thesis
    by (auto simp: Let_def demo_system_def demo_web_def demo_user_def)
qed

end
