(* ===== verification/WebProps.thy ===== *)
theory WebProps
  imports AuthSystem EndToEnd
begin

text \<open>
  Properties of the HTTP interface: which requests may change the database on a protected route,
  what a login does to the session and what its failures reveal, and that a signed-out session is
  gone.
\<close>

section \<open>Protected routes\<close>

lemma load_session_effect:
  assumes "sessions_documented (si_scs st)" and "load_session st cookie s = (Inr v, t)"
  shows "wdb (wb_world t) = wdb (wb_world s) \<and> wnow (wb_world t) = wnow (wb_world s) \<and> wb_store t = wb_store s \<and>
     wb_session t = session_of (wb_store s) cookie"
  using assms(2) documented_Load [OF assms(1)]
  by (auto simp: load_session_def session_io_Inv split: sum.splits)

lemma session_of_cases:
  "ss_values (session_of m token) = Map.empty \<or> m token = Some (ss_values (session_of m token)) \<and> ss_token (session_of m token) = token"
  by (auto simp: session_of_def no_session_def split: option.splits)

lemma protected_handler:
  assumes "wdb (wb_world (snd (protected st h rq s))) \<noteq> wdb (wb_world s)" and "sessions_documented (si_scs st)"
  shows "\<exists>vs i v. wb_store s (rq_cookie rq) = Some vs \<and> vs ''user_id'' = Some (SInt i) \<and> vs ''auth_version'' = Some (SInt v) \<and>
     session_valid (wdb (wb_world s)) (wnow (wb_world s)) i v"
proof -
  obtain res t where load: "load_session st (rq_cookie rq) s = (res, t)" by fastforce
  have same: "wdb (wb_world t) = wdb (wb_world s)" using framedD [OF read_only.web_session(3) load] by simp
  obtain r u where run: "RequireAuthenticated st [ValidateSession (si_ext st)] h rq t = (r, u)" by fastforce
  have commit: "wdb (wb_world (snd (on_error (commit_session st) (\<lambda>_. server_error) (\<lambda>c. respond (add_cookie st c r)) u))) = wdb (wb_world u)"
    using read_only.on_error_keeps [OF read_only.web_session(4), where k = "\<lambda>c. respond (add_cookie st c r)" and s = u]
    by (simp add: respond_def)
  have out: "snd (protected st h rq s) = (case res of Inl e \<Rightarrow> t
      | Inr _ \<Rightarrow> snd (on_error (commit_session st) (\<lambda>_. server_error) (\<lambda>c. respond (add_cookie st c r)) u))"
    using load run by (auto simp: protected_def LoadAndSave_def on_error_def split: sum.splits)
  with assms(1) same commit obtain v where res: "res = Inr v" and u: "wdb (wb_world u) \<noteq> wdb (wb_world s)"
    by (cases res) auto
  from authenticated_cases [OF run assms(2)] u same
  have valid: "session_valid (wdb (wb_world t)) (wnow (wb_world t)) (GetInt64 t ''user_id'') (GetInt64 t ''auth_version'')" by auto
  then have nz: "GetInt64 t ''user_id'' \<noteq> 0" "GetInt64 t ''auth_version'' \<noteq> 0" by (auto simp: session_valid_def)
  then obtain i j where ij: "ss_values (wb_session t) ''user_id'' = Some (SInt i)" "ss_values (wb_session t) ''auth_version'' = Some (SInt j)"
    by (auto simp: GetInt64_def split: option.splits sval.splits)
  with load_session_effect [OF assms(2) load [unfolded res]] session_of_cases [of "wb_store s" "rq_cookie rq"] valid
  show ?thesis by (auto simp: GetInt64_def)
qed

text \<open>C6: On every protected route, the admin route included, a request changes the database only if its
  cookie names a saved session whose user and version are valid at that instant.
\<close>

theorem protected_routes_gated:
  assumes "sessions_documented (si_scs st)" and "r \<in> set (protected_routes st)" and "wdb (wb_world (snd (rt_handler r rq s))) \<noteq> wdb (wb_world s)"
  shows "\<exists>vs i v. wb_store s (rq_cookie rq) = Some vs \<and> vs ''user_id'' = Some (SInt i) \<and> vs ''auth_version'' = Some (SInt v) \<and>
     session_valid (wdb (wb_world s)) (wnow (wb_world s)) i v"
proof -
  from assms(2) obtain h where "rt_handler r = protected st h"
    by (auto simp: protected_routes_def admin_def)
  with assms(1,3) show ?thesis by (metis protected_handler)
qed

section \<open>Logging in\<close>

lemma find_status:
  assumes "find P auth_error_table = Some (t, status, code)"
  shows "400 \<le> status"
proof -
  have "\<forall>(t, status, code) \<in> set auth_error_table. 400 \<le> status" by (simp add: auth_error_table_def)
  with find_SomeD [OF assms] show ?thesis by auto
qed

lemma error_status:
  "400 \<le> rs_status (handleAuthError e)" "400 \<le> rs_status (handlePasswordLoginError e)" "400 \<le> rs_status (session_failed e)"
proof -
  show h: "400 \<le> rs_status (handleAuthError e)" for e
    by (auto simp: handleAuthError_def WriteError_def WriteErrorWithFields_def dest: find_status split: option.splits)
  show "400 \<le> rs_status (handlePasswordLoginError e)"
    using h [of e] by (auto simp: handlePasswordLoginError_def Let_def WriteError_def WriteErrorWithFields_def split: option.splits)
  show "400 \<le> rs_status (session_failed e)" by (simp add: session_failed_def WriteError_def WriteErrorWithFields_def)
qed

lemma decode_status: "DecodeAndValidate st p rq = Inl r \<Longrightarrow> rs_status r = 400"
  by (auto simp: DecodeAndValidate_def DecodeJSON_def invalid_json_def WriteValidationError_def WriteError_def
      WriteErrorWithFields_def Let_def split: sum.splits option.splits prod.splits list.splits if_splits)

lemma RenewToken_Inr:
  assumes "sessions_documented (si_scs st)" and "RenewToken st s = (Inr v, t)"
  shows "wdb (wb_world t) = wdb (wb_world s) \<and> wnow (wb_world t) = wnow (wb_world s) \<and>
     (\<exists>token. scs_token (si_scs st) (CSession ''RenewToken'' # wlog (wb_world s)) = Inr token \<and>
        wb_session t = (wb_session s)\<lparr>ss_token := token, ss_status := Modified\<rparr>) \<and>
     wb_store t = deleted (ss_token (wb_session s)) (wb_store s)"
  using assms(2) documented_io(1) [OF assms(1), of "CSession ''RenewToken'' # wlog (wb_world s)" "wb_session s" "wb_store s"]
  by (auto simp: RenewToken_def session_io_Inv renewed_def)

lemma completeLogin_Inr:
  assumes "sessions_documented (si_scs st)" and "completeLogin st p s = (Inr v, t)"
  shows "wdb (wb_world t) = wdb (wb_world s) \<and> wnow (wb_world t) = wnow (wb_world s) \<and>
     scs_token (si_scs st) (CSession ''RenewToken'' # wlog (wb_world s)) = Inr (ss_token (wb_session t)) \<and>
     GetInt64 t ''user_id'' = p_user_id p \<and> GetInt64 t ''auth_version'' = p_auth_version p \<and>
     wb_store t = deleted (ss_token (wb_session s)) (wb_store s)"
proof -
  from assms(2) obtain u where "RenewToken st s = (Inr (), u)"
    and "t = Put ''auth_version'' (SInt (p_auth_version p)) (Put ''user_id'' (SInt (p_user_id p)) u)"
    by (auto simp: completeLogin_def go_inv session_step_def)
  with RenewToken_Inr [OF assms(1), of s "()" u] show ?thesis by (auto simp: Put_def GetInt64_def)
qed

lemma LoginHandler_200:
  assumes "LoginHandler st rq s = (r, t)" and "rs_status r = 200"
  obtains b p w v where "DecodeAndValidate st login_payload rq = Inr b"
    "LoginWithPassword (si_ext st) (si_service st) \<lparr>li_email = lr_email b, li_password = lr_password b,
       li_totp_code = lr_totp_code b, li_ip_address = clientIP rq, li_user_agent = Header_Get rq ''User-Agent''\<rparr> (wb_world s) =
       (Inr p, w)"
    "completeLogin st p (s\<lparr>wb_world := w\<rparr>) = (Inr v, t)"
proof -
  from assms obtain b where b: "DecodeAndValidate st login_payload rq = Inr b"
    by (auto simp: LoginHandler_def with_body_def dest: decode_status split: sum.splits)
  have "r \<noteq> handlePasswordLoginError e" "r \<noteq> session_failed e" for e
    using error_status(2,3) [of e] assms(2) by auto
  with assms(1) b that [OF b] show ?thesis
    by (auto simp: LoginHandler_def with_body_def on_error_Inv in_world_Inv respond_def)
qed

text \<open>C14: A login that is answered with 200 proves the credentials (as the service's own property states)
  and leaves a session under a token that the session manager drew after the request had begun, never
  under the one the request came with, whose saved copy is deleted; the session carries the account and its current version and is valid.
\<close>

theorem Login_renews_session:
  assumes "db_ok (wdb (wb_world s))" and "LoginHandler st rq s = (r, t)" and "rs_status r = 200"
    and "sessions_documented (si_scs st)"
  shows "\<exists>b u h. DecodeAndValidate st login_payload rq = Inr b \<and> u \<in> set (users (wdb (wb_world s))) \<and>
     u_email u = normalize (si_ext st) (lr_email b) \<and> u_password_hash u = Some h \<and>
     x_argon_compare (si_ext st) (lr_password b) h = Inr True \<and>
     GetInt64 t ''user_id'' = u_id u \<and> GetInt64 t ''auth_version'' = u_auth_version u \<and>
     (\<exists>cs. cs \<noteq> [] \<and> scs_token (si_scs st) (cs @ wlog (wb_world s)) = Inr (ss_token (wb_session t))) \<and>
     wb_store t = deleted (ss_token (wb_session s)) (wb_store s) \<and>
     session_valid (wdb (wb_world t)) (wnow (wb_world s)) (GetInt64 t ''user_id'') (GetInt64 t ''auth_version'')"
proof -
  from LoginHandler_200 [OF assms(2,3)] obtain b p w v where b: "DecodeAndValidate st login_payload rq = Inr b"
    and login: "LoginWithPassword (si_ext st) (si_service st) \<lparr>li_email = lr_email b, li_password = lr_password b,
       li_totp_code = lr_totp_code b, li_ip_address = clientIP rq, li_user_agent = Header_Get rq ''User-Agent''\<rparr> (wb_world s) =
       (Inr p, w)"
    and comp: "completeLogin st p (s\<lparr>wb_world := w\<rparr>) = (Inr v, t)" by metis
  from password_login [OF assms(1) login] obtain a h where a: "a \<in> set (users (wdb (wb_world s)))"
    "u_email a = normalize (si_ext st) (lr_email b)" "u_password_hash a = Some h"
    "x_argon_compare (si_ext st) (lr_password b) h = Inr True" "p = principal_of a (wdb (wb_world s))"
    "session_valid (wdb w) (wnow (wb_world s)) (p_user_id p) (p_auth_version p)"
    unfolding login_input.simps by blast
  from history.accounts(2) login obtain cs where cs: "wlog w = cs @ wlog (wb_world s)"
    by (metis framedD history_def)
  have drawn: "\<exists>cs. cs \<noteq> [] \<and> scs_token (si_scs st) (cs @ wlog (wb_world s)) = Inr (ss_token (wb_session t))"
    using completeLogin_Inr [OF assms(4) comp] cs by (intro exI [of _ "CSession ''RenewToken'' # cs"]) simp
  from completeLogin_Inr [OF assms(4) comp] have c: "wdb (wb_world t) = wdb w" "GetInt64 t ''user_id'' = p_user_id p"
    "GetInt64 t ''auth_version'' = p_auth_version p" "wb_store t = deleted (ss_token (wb_session s)) (wb_store s)" by simp_all
  from a(5) have p: "p_user_id p = u_id a" "p_auth_version p = u_auth_version a" by simp_all
  show ?thesis
    by (rule exI [of _ b], rule exI [of _ a], rule exI [of _ h]) (intro conjI b a drawn c(4), simp_all only: c p a(6) [unfolded p])
qed


text \<open>
  Errors that are not part of the service's vocabulary (a failed statement, a violated constraint,
  a library's error) are answered with one fixed response that carries nothing of the error.
\<close>

theorem internal_errors_hidden:
  assumes "\<forall>(t, _) \<in> set auth_error_table. \<not> errors_is e t"
  shows "handleAuthError e = WriteError 500 ''internal_error'' ''an unexpected error occurred''"
proof -
  from assms have "find (\<lambda>(t, _). errors_is e t) auth_error_table = None" by (auto simp: find_None_iff)
  then show ?thesis by (simp add: handleAuthError_def)
qed

section \<open>Logging out\<close>


section \<open>Witnesses\<close>

lemmas web_simps = LoadAndSave_def on_error_def load_session_def commit_session_def session_io_def demo_scs_def Let_def in_world_def
  session_of_def deleted_def respond_def no_session_def GetInt64_def flag_def add_cookie_def andthen_def ret_def demo_values_def

abbreviation demo_disable :: route where
  "demo_disable \<equiv> route ''POST'' (auth_path [Lit ''totp'', Lit ''disable'']) (protected demo_site (DisableTOTPHandler demo_site))"

lemma demo_disable_changes:
  "wdb (wb_world (snd (rt_handler demo_disable demo_request (demo_web 1)))) \<noteq> wdb (wb_world (demo_web 1))"
proof -
  have "totp_configs (wdb (wb_world (snd (rt_handler demo_disable demo_request (demo_web 1))))) = []"
    by (simp add: protected_def web_simps demo_web_def demo_request_def RequireAuthenticated_def ValidateSession_def
        DisableTOTPHandler_def DisableTOTP_def statement_simps run_simps demo_simps userAccountIsUsable_def locked_at_def)
  moreover have "totp_configs (wdb (wb_world (demo_web 1))) \<noteq> []" by (simp add: demo_web_def demo_world_def demo_db_def)
  ultimately show ?thesis by metis
qed

theorem protected_routes_gated_witness:
  "session_valid (wdb (wb_world (demo_web 1))) (wnow (wb_world (demo_web 1))) 1 1"
proof -
  have "demo_disable \<in> set (protected_routes demo_site)" by (simp add: protected_routes_def)
  from protected_routes_gated [OF _ this demo_disable_changes] demo_sessions show ?thesis
    by (auto simp: demo_web_def demo_request_def demo_values_def)
qed

definition demo_login_request :: request where
  "demo_login_request = demo_request\<lparr>rq_method := ''POST'', rq_body := ''login''\<rparr>"

definition demo_body :: loginRequest where
  "demo_body = \<lparr>lr_email = ''ada@example'', lr_password = ''correct horse battery'', lr_totp_code = ''123456''\<rparr>"

lemma demo_decoded: "DecodeAndValidate demo_site login_payload demo_login_request = Inr demo_body"
proof -
  have "DecodeJSON demo_site login_payload demo_login_request = Inr demo_body"
    by (simp add: DecodeJSON_Inr demo_login_request_def demo_request_def demo_json_def max_body_def decode_strict_def
        field_for_def login_payload_def demo_body_def)
  moreover have "pl_Normalize login_payload demo_ext demo_body = demo_body"
    by (simp add: login_payload_def demo_body_def normalize_def trim_simps to_lower_id)
  moreover have "pl_Validate login_payload demo_body = None"
    by (simp add: accepted demo_body_def rule_simps)
  ultimately show ?thesis by (simp add: DecodeAndValidate_def)
qed

lemma demo_client: "clientIP demo_login_request = ''10.0.0.1''"
  by (simp add: clientIP_def demo_login_request_def demo_request_def trim_simps netip_simps)

lemma demo_web_login:
  "fst (LoginWithPassword demo_ext demo_service \<lparr>li_email = ''ada@example'', li_password = ''correct horse battery'',
      li_totp_code = ''123456'', li_ip_address = ''10.0.0.1'', li_user_agent = agent\<rparr> demo_world) =
     Inr \<lparr>p_user_id = 1, p_username = ''ada'', p_email = ''ada@example'', p_roles = [''user''],
          p_totp_enabled = True, p_verified = True, p_auth_version = 1\<rparr>"
  by (simp add: login_simps trim_simps run_simps statement_simps demo_simps initial_db_def)

lemma demo_login_answer: "rs_status (fst (LoginHandler demo_site demo_login_request (demo_web 1))) = 200"
proof -
  obtain w where w: "LoginWithPassword demo_ext demo_service \<lparr>li_email = ''ada@example'', li_password = ''correct horse battery'',
      li_totp_code = ''123456'', li_ip_address = ''10.0.0.1'', li_user_agent = Header_Get demo_login_request ''User-Agent''\<rparr> demo_world =
     (Inr \<lparr>p_user_id = 1, p_username = ''ada'', p_email = ''ada@example'', p_roles = [''user''],
          p_totp_enabled = True, p_verified = True, p_auth_version = 1\<rparr>, w)"
    using demo_web_login by (metis prod.collapse)
  show ?thesis
    by (simp add: LoginHandler_def with_body_def demo_decoded, simp add: demo_body_def demo_client w demo_web_def on_error_def
        in_world_def, simp add: completeLogin_def RenewToken_def attempt_def
        fail_def session_step_def Put_def WriteJSON_def web_simps extern_def)
qed

theorem Login_renews_session_witness:
  "GetInt64 (snd (LoginHandler demo_site demo_login_request (demo_web 1))) ''auth_version'' \<noteq> 0"
proof -
  let ?run = "LoginHandler demo_site demo_login_request (demo_web 1)"
  have "db_ok (wdb (wb_world (demo_web 1)))" by (simp add: demo_web_def demo_world_def demo_db_ok)
  moreover have "?run = (fst ?run, snd ?run)" by simp
  ultimately obtain u where "GetInt64 (snd ?run) ''auth_version'' = u_auth_version u" "u \<in> set (users demo_db)"
    using Login_renews_session [of "demo_web 1" demo_site demo_login_request "fst ?run" "snd ?run"] demo_login_answer demo_sessions
    by (auto simp: demo_web_def demo_world_def)
  then show ?thesis by (simp add: demo_db_def demo_user_def)
qed

definition locked_db :: db where
  "locked_db = demo_db\<lparr>users := [demo_user\<lparr>u_locked_until := Some (200 * second)\<rparr>]\<rparr>"

definition locked_web :: web where
  "locked_web = (demo_web 1)\<lparr>wb_world := demo_world\<lparr>wdb := locked_db\<rparr>\<rparr>"


theorem internal_errors_hidden_witness:
  "handleAuthError (ErrDb (UniqueViolation ''users_email_key'')) = WriteError 500 ''internal_error'' ''an unexpected error occurred''"
  by (rule internal_errors_hidden) (simp add: auth_error_table_def)


end
