(* ===== verification/App.thy ===== *)
theory App
  imports WebInvariants
begin

text \<open>
  \<open>internal/app/app.go\<close>, \<open>internal/database/migrate.go\<close> and \<open>cmd/app/main.go\<close>: how the process is
  put together from a configuration, how it stops, and what it closes. The outcomes of the
  libraries are arguments; what is opened, started, stopped and closed is a list of events.
\<close>

section \<open>Pieces of the configuration\<close>

datatype level = LevelDebug | LevelInfo | LevelWarn | LevelError

definition newLogger :: "(nat \<Rightarrow> nat) \<Rightarrow> string \<Rightarrow> level" where
  "newLogger ul l = (let v = to_lower ul l in
     if v = ''debug'' then LevelDebug else if v = ''warn'' then LevelWarn else if v = ''error'' then LevelError else LevelInfo)"

text \<open>The levels of \<open>log/slog\<close> are ordered by their numbers; a logger drops what is below its own.\<close>

fun severity :: "level \<Rightarrow> int" where
  "severity LevelDebug = -4"
| "severity LevelInfo = 0"
| "severity LevelWarn = 4"
| "severity LevelError = 8"

instantiation level :: linorder
begin

definition less_eq_level :: "level \<Rightarrow> level \<Rightarrow> bool" where
  "less_eq_level l m \<longleftrightarrow> severity l \<le> severity m"

definition less_level :: "level \<Rightarrow> level \<Rightarrow> bool" where
  "less_level l m \<longleftrightarrow> severity l < severity m"

instance
proof
  show "l = m" if "l \<le> m" "m \<le> l" for l m :: level
    using that by (cases l; cases m) (simp_all add: less_eq_level_def)
qed (auto simp: less_eq_level_def less_level_def)

end

definition emits :: "level \<Rightarrow> level \<Rightarrow> bool" where
  "emits logger l \<longleftrightarrow> logger \<le> l"

text \<open>Errors are logged at every configured level, misspelt ones included.\<close>

lemma errors_logged: "emits (newLogger ul l) LevelError"
  by (simp add: emits_def newLogger_def Let_def less_eq_level_def)

datatype same_site = SameSiteStrict | SameSiteNone | SameSiteLax

record session_manager =
  sm_cookie_name :: string
  sm_http_only :: bool
  sm_persist :: bool
  sm_secure :: bool
  sm_lifetime :: duration
  sm_idle_timeout :: duration
  sm_same_site :: same_site

definition newSessionManager :: "(nat \<Rightarrow> nat) \<Rightarrow> config \<Rightarrow> session_manager" where
  "newSessionManager ul cfg =
     (let c = cfg_session cfg; v = to_lower ul (session_same_site c) in
      \<lparr>sm_cookie_name = session_cookie_name c, sm_http_only = session_http_only c, sm_persist = session_persist c,
       sm_secure = session_secure c, sm_lifetime = session_lifetime c, sm_idle_timeout = session_idle_timeout c,
       sm_same_site = (if v = ''strict'' then SameSiteStrict else if v = ''none'' then SameSiteNone else SameSiteLax)\<rparr>)"

text \<open>The conversion \<open>int32(n)\<close> keeps the low 32 bits.\<close>

definition int32_of :: "int \<Rightarrow> int" where
  "int32_of n = (n + 2 ^ 31) mod 2 ^ 32 - 2 ^ 31"

record pgx_config =
  px_max_conns :: int
  px_lifetime :: duration
  px_idle_time :: duration

definition pgx_pool_config :: "int \<Rightarrow> database_config \<Rightarrow> pgx_config" where
  "pgx_pool_config default_conns d =
     \<lparr>px_max_conns = (if database_max_open_conns d > 0 then int32_of (database_max_open_conns d) else default_conns),
      px_lifetime = database_conn_max_lifetime d, px_idle_time = database_conn_max_idle_time d\<rparr>"

section \<open>Starting\<close>

datatype resource = Database | PgxPool | SessionCleanup | River

datatype event = Opened resource | Closed resource

record boot =
  bt_sql_open :: "string \<Rightarrow> err option"
  bt_ping :: "pool \<Rightarrow> duration \<Rightarrow> err option"
  bt_pgx_parse :: "string \<Rightarrow> err + int" \<comment> \<open>the default number of connections\<close>
  bt_pgx_open :: "pgx_config \<Rightarrow> err option"
  bt_migration_locker :: "err option"
  bt_migration_provider :: "err option"
  bt_migrate :: "err option"
  bt_limiter_init :: "err option"
  bt_webauthn :: "err option"
  bt_river_migrator :: "err option"
  bt_river_migrate :: "err option"
  bt_river_client :: "periodic_job list \<Rightarrow> int \<Rightarrow> err option"

definition newMigrationProvider :: "boot \<Rightarrow> err option" where
  "newMigrationProvider b = (case bt_migration_locker b of
     Some e \<Rightarrow> Some (Wrapped ''create migration locker'' e) | None \<Rightarrow> bt_migration_provider b)"

definition RunMigrations :: "boot \<Rightarrow> err option" where
  "RunMigrations b = (case newMigrationProvider b of
     Some e \<Rightarrow> Some (Wrapped ''create migration provider'' e)
   | None \<Rightarrow> (case bt_migrate b of Some e \<Rightarrow> Some (Wrapped ''goose up'' e) | None \<Rightarrow> None))"

record app =
  ap_config :: config
  ap_service :: service
  ap_river :: "river_client option"
  ap_roles :: "(int, string list) cache option"
  ap_sessions :: session_manager

text \<open>The database handle that \<open>Open\<close> made but closed itself is not among the events.\<close>

definition New_app :: "ext \<Rightarrow> boot \<Rightarrow> config \<Rightarrow> (err + app) \<times> event list" where
  "New_app x b cfg =
     (case fst (Open (bt_sql_open b) (bt_ping b) (cfg_database cfg)) of
        Inl e \<Rightarrow> (Inl e, [])
      | Inr _ \<Rightarrow> (case bt_pgx_parse b (database_url (cfg_database cfg)) of
        Inl e \<Rightarrow> (Inl (Wrapped ''parse pgx pool config'' e), [Opened Database, Closed Database])
      | Inr conns \<Rightarrow> (case bt_pgx_open b (pgx_pool_config conns (cfg_database cfg)) of
        Some e \<Rightarrow> (Inl (Wrapped ''open pgx pool'' e), [Opened Database, Closed Database])
      | None \<Rightarrow> (case RunMigrations b of
        Some e \<Rightarrow> (Inl e, [Opened Database, Opened PgxPool, Closed PgxPool, Closed Database])
      | None \<Rightarrow> (let sessions = newSessionManager (x_lower x) cfg in
          case NewService (bt_limiter_init b) (bt_webauthn b) (\<lambda>c. newOAuthProviderClients x (cfg_oauth c)) cfg of
        Inl e \<Rightarrow> (Inl e, [Opened Database, Opened PgxPool, Opened SessionCleanup, Closed PgxPool, Closed Database])
      | Inr service \<Rightarrow> (case River_New (bt_river_migrator b) (bt_river_migrate b) (bt_river_client b) cfg of
        Inl e \<Rightarrow> (Inl e, [Opened Database, Opened PgxPool, Opened SessionCleanup, Closed PgxPool, Closed Database])
      | Inr river \<Rightarrow>
          (Inr \<lparr>ap_config = cfg, ap_service = service, ap_river = RegisterSweeper river sweep_roles,
                ap_roles = New (sec_authorization_cache_ttl (cfg_security cfg)), ap_sessions = sessions\<rparr>,
           [Opened Database, Opened PgxPool, Opened SessionCleanup] @ (if river = None then [] else [Opened River]))))))))"

section \<open>Stopping\<close>

text \<open>The server ends by itself with an outcome, or the context ends and it is shut down.\<close>

datatype ending = Signalled "err option" | Ended "err option"

definition close_all :: "app \<Rightarrow> event list" where
  "close_all a = (if ap_river a = None then [] else [Closed River]) @ [Closed SessionCleanup, Closed PgxPool, Closed Database]"

definition Run :: "app \<Rightarrow> ending \<Rightarrow> err option \<Rightarrow> err option \<times> event list" where
  "Run a how db_close = (case how of
     Signalled (Some e) \<Rightarrow> (Some (Wrapped ''shutdown server'' e), [])
   | Signalled None \<Rightarrow> (db_close, close_all a)
   | Ended (Some e) \<Rightarrow> (Some e, close_all a)
   | Ended None \<Rightarrow> (db_close, close_all a))"

text \<open>\<open>main\<close>: the exit status.\<close>

definition main_run :: "ext \<Rightarrow> boot \<Rightarrow> config \<Rightarrow> ending \<Rightarrow> err option \<Rightarrow> err option \<times> event list" where
  "main_run x b decoded how db_close = (case Load (x_lower x) decoded of
     Inl m \<Rightarrow> (Some (ErrText m), [])
   | Inr cfg \<Rightarrow> (case New_app x b cfg of
       (Inl e, evs) \<Rightarrow> (Some e, evs)
     | (Inr a, evs) \<Rightarrow> (case Run a how db_close of (r, evs') \<Rightarrow> (r, evs @ evs'))))"

definition exit_status :: "err option \<Rightarrow> int" where
  "exit_status r = (if r = None then 0 else 1)"

end
