(* ===== verification/AppProps.thy ===== *)
theory AppProps
  imports App Samples
begin

text \<open>
  What the life of the process guarantees: everything opened is closed, in an order in which nothing
  is closed under a part that still uses it, and a configuration that was loaded lets the process
  start whenever the libraries do.
\<close>

section \<open>Resources held\<close>

fun effect :: "event \<Rightarrow> resource set \<Rightarrow> resource set" where
  "effect (Opened r) S = Set.insert r S"
| "effect (Closed r) S = S - {r}"

definition held :: "event list \<Rightarrow> resource set" where
  "held evs = fold effect evs {}"

fun needs :: "resource \<Rightarrow> resource set" where
  "needs River = {Database, PgxPool}"
| "needs SessionCleanup = {PgxPool}"
| "needs _ = {}"

text \<open>Nothing opens before what it needs, and nothing closes under a user of it.\<close>

fun orderly :: "resource set \<Rightarrow> event list \<Rightarrow> bool" where
  "orderly S [] = True"
| "orderly S (Opened r # es) = (r \<notin> S \<and> needs r \<subseteq> S \<and> orderly (Set.insert r S) es)"
| "orderly S (Closed r # es) = (r \<in> S \<and> (\<forall>q \<in> S. r \<notin> needs q) \<and> orderly (S - {r}) es)"

definition started :: "app \<Rightarrow> event list" where
  "started a = [Opened Database, Opened PgxPool, Opened SessionCleanup] @ (if ap_river a = None then [] else [Opened River])"

lemma New_app_Inr: "New_app x b cfg = (Inr a, evs) \<Longrightarrow> evs = started a"
  by (auto simp: New_app_def started_def Let_def RegisterSweeper_def split: sum.splits option.splits)

lemma New_app_Inl: "New_app x b cfg = (Inl e, evs) \<Longrightarrow> held evs \<subseteq> {SessionCleanup}"
  by (auto simp: New_app_def held_def Let_def split: sum.splits option.splits)

lemma close_all_closes: "held (started a @ close_all a) = {} \<and> orderly {} (started a @ close_all a)"
  by (auto simp: held_def started_def close_all_def)

lemma started_held: "{Database, PgxPool, SessionCleanup} \<subseteq> held (started a)"
  by (simp add: held_def started_def)

text \<open>How a run can end.\<close>

lemma main_run_cases:
  assumes "main_run x b d how c = (r, evs)"
  obtains (config) m where "Load (x_lower x) d = Inl m" "r = Some (ErrText m)" "evs = []"
  | (start) cfg e where "Load (x_lower x) d = Inr cfg" "New_app x b cfg = (Inl e, evs)" "r = Some e"
  | (run) cfg a evs' where "Load (x_lower x) d = Inr cfg" "New_app x b cfg = (Inr a, started a)"
      "Run a how c = (r, evs')" "evs = started a @ evs'"
proof (cases "Load (x_lower x) d")
  case (Inl m)
  with assms show ?thesis by (intro config) (auto simp: main_run_def)
next
  case (Inr cfg)
  obtain res evs0 where n: "New_app x b cfg = (res, evs0)" by fastforce
  show ?thesis
  proof (cases res)
    case (Inl e)
    with assms Inr n show ?thesis by (intro start) (auto simp: main_run_def)
  next
    case a: (Inr a)
    obtain r' evs' where q: "Run a how c = (r', evs')" by fastforce
    from n a have "evs0 = started a" by (simp add: New_app_Inr)
    with assms Inr n a q show ?thesis by (intro run) (auto simp: main_run_def)
  qed
qed


text \<open>A shutdown that fails leaves the job client, the pool and the database handle open.\<close>

lemma shutdown_failure_leaks:
  assumes "main_run x b d (Signalled (Some e)) c = (r, evs)" and "Load (x_lower x) d = Inr cfg"
    and "New_app x b cfg = (Inr a, evs0)"
  shows "{Database, PgxPool, SessionCleanup} \<subseteq> held evs \<and> exit_status r = 1"
  using assms(1)
proof (cases rule: main_run_cases)
  case (run cfg' a' evs')
  then show ?thesis using started_held [of a'] by (auto simp: Run_def exit_status_def)
qed (use assms(2,3) in simp_all)

section \<open>A loaded configuration starts\<close>

lemma Load_sound:
  assumes "Load ul d = Inr c"
  shows "sound_config c"
proof -
  note l = Load_Inr [OF assms]
  have p: "\<forall>(n, p) \<in> set (oauth_providers (cfg_oauth (load_defaults d))). \<not> provider_incomplete p"
    using l(2) by (simp add: check_providers_None)
  have s: "32 \<le> length (sec_encryption_key (cfg_security (load_defaults d)))" using l(4) by (simp add: check_security_None)
  have k: "to_lower ul (trim_space (app_env (cfg_app (load_defaults d)))) = ''production'' \<Longrightarrow>
      sec_encryption_key (cfg_security (load_defaults d)) \<noteq> defaultEncryptionKey"
    using l(4) by (auto simp: check_security_None)
  note n = l(4) [unfolded check_security_None] l(5) [unfolded check_rest_None] l(6) [unfolded check_rest_None]
    l(7) [unfolded check_rest_None]
  note m = load_defaults_security [of d]
  have o1: "0 < oauth_state_ttl (default_oauth oc) \<and> 0 < oauth_state_bytes (default_oauth oc) \<and>
      0 < oauth_pkce_verifier_bytes (default_oauth oc)" for oc
    by simp
  show ?thesis unfolding sound_config_def
    using l(1,3) p s k n m o1 load_defaults_simps [of d]
    by (auto simp: provider_incomplete_def)
qed

text \<open>The outcomes of the libraries when nothing fails.\<close>

definition boots :: "boot \<Rightarrow> int \<Rightarrow> bool" where
  "boots b n \<longleftrightarrow> (\<forall>u. bt_sql_open b u = None \<and> bt_pgx_parse b u = Inr n) \<and> (\<forall>p d. bt_ping b p d = None) \<and>
     (\<forall>p. bt_pgx_open b p = None) \<and> bt_migration_locker b = None \<and> bt_migration_provider b = None \<and>
     bt_migrate b = None \<and> bt_limiter_init b = None \<and> bt_webauthn b = None \<and> bt_river_migrator b = None \<and>
     bt_river_migrate b = None \<and>
     (\<forall>js n. (\<forall>j \<in> set js. 0 < pj_interval j) \<and> 1 \<le> n \<and> n \<le> riverQueueMaxWorkers \<longrightarrow> bt_river_client b js n = None)"

lemma int32_of_exact: "- (2 ^ 31) \<le> n \<Longrightarrow> n < 2 ^ 31 \<Longrightarrow> int32_of n = n"
  by (simp add: int32_of_def)

lemma New_app_boots:
  assumes "boots b n" and "sound_config c"
  shows "\<exists>a. New_app x b c = (Inr a, started a) \<and> ap_config a = c \<and> ap_roles a \<noteq> None \<and>
     (ap_river a \<noteq> None \<longleftrightarrow> river_enabled (cfg_river c))"
proof -
  have "fst (Open (bt_sql_open b) (bt_ping b) (cfg_database c)) \<in> range Inr" "RunMigrations b = None"
    using assms(1) by (auto simp: boots_def Open_def Let_def RunMigrations_def newMigrationProvider_def)
  then obtain p where o1: "fst (Open (bt_sql_open b) (bt_ping b) (cfg_database c)) = Inr p" "RunMigrations b = None" by blast
  have s: "NewService (bt_limiter_init b) (bt_webauthn b) cl c = Inr \<lparr>sv_cfg = c,
      sv_limit = login_bucket (sec_failed_login_threshold (cfg_security c)) (sec_failed_login_window (cfg_security c)),
      sv_oauth = cl c\<rparr>" for cl
    using assms by (simp add: NewService_def boots_def sound_config_def)
  have "\<exists>rc. River_New (bt_river_migrator b) (bt_river_migrate b) (bt_river_client b) c = Inr rc \<and>
      (rc \<noteq> None \<longleftrightarrow> river_enabled (cfg_river c))"
    using assms by (auto simp: River_New_def boots_def sound_config_def periodicJobs_def)
  then obtain rc where r: "River_New (bt_river_migrator b) (bt_river_migrate b) (bt_river_client b) c = Inr rc"
    "rc \<noteq> None \<longleftrightarrow> river_enabled (cfg_river c)" by blast
  have "0 < sec_authorization_cache_ttl (cfg_security c)" using assms(2) by (simp add: sound_config_def)
  then show ?thesis using assms(1) o1 s r by (auto simp: New_app_def boots_def started_def Let_def Cache.New_def RegisterSweeper_def)
qed

text \<open>C29: A configuration that was loaded satisfies every documented bound, and the process starts from
  it whenever the libraries do: no later check refuses it, the role cache exists, the encryption key
  is long enough to seal and open secrets, and the limit on connections reaches the pool unchanged.
\<close>

theorem Load_starts:
  assumes "Load (x_lower x) d = Inr c" and "boots b n"
  shows "sound_config c \<and>
     (\<exists>a. New_app x b c = (Inr a, started a) \<and> ap_config a = c \<and> ap_roles a \<noteq> None \<and>
        (ap_river a \<noteq> None \<longleftrightarrow> river_enabled (cfg_river c))) \<and>
     newGCM (sec_encryption_key (cfg_security c)) \<noteq> Inl ErrInvalidEncryptionKey \<and>
     px_max_conns (pgx_pool_config n (cfg_database c)) =
       (if 0 < database_max_open_conns (cfg_database c) then database_max_open_conns (cfg_database c) else n)"
proof -
  have s: "sound_config c" by (rule Load_sound [OF assms(1)])
  then have "newGCM (sec_encryption_key (cfg_security c)) \<noteq> Inl ErrInvalidEncryptionKey"
    "px_max_conns (pgx_pool_config n (cfg_database c)) =
       (if 0 < database_max_open_conns (cfg_database c) then database_max_open_conns (cfg_database c) else n)"
    by (auto simp: newGCM_def pgx_pool_config_def sound_config_def int32_of_exact)
  with s New_app_boots [OF assms(2) s, of x] show ?thesis by blast
qed

section \<open>Witnesses\<close>

definition demo_boot :: boot where
  "demo_boot = \<lparr>bt_sql_open = (\<lambda>_. None), bt_ping = (\<lambda>_ _. None), bt_pgx_parse = (\<lambda>_. Inr 4), bt_pgx_open = (\<lambda>_. None),
     bt_migration_locker = None, bt_migration_provider = None, bt_migrate = None, bt_limiter_init = None,
     bt_webauthn = None, bt_river_migrator = None, bt_river_migrate = None, bt_river_client = (\<lambda>_ _. None)\<rparr>"


lemma demo_boots: "boots demo_boot 4"
  by (simp add: boots_def demo_boot_def)

lemma demo_load: "Load (x_lower demo_ext) demo_config = Inr demo_config"
  by (simp add: Load_def Let_def load_defaults_def default_oauth_def default_security_def or_default_def demo_config_def
      to_lower_id trim_simps check_security_def check_database_def check_mailer_def check_river_def riverQueueMaxWorkers_def
      defaultEncryptionKey_def)

theorem Load_starts_witness:
  "sound_config demo_config \<and> (\<exists>a. New_app demo_ext demo_boot demo_config = (Inr a, started a)) \<and>
   px_max_conns (pgx_pool_config 4 (cfg_database demo_config)) = 10"
  using Load_starts [OF demo_load demo_boots] by (auto simp: demo_config_def)

lemma demo_main: "fst (main_run demo_ext demo_boot demo_config (Signalled None) None) = None"
proof -
  have "sound_config demo_config" by (rule Load_sound [OF demo_load])
  from New_app_boots [OF demo_boots this, of demo_ext] obtain a where "New_app demo_ext demo_boot demo_config = (Inr a, started a)"
    by blast
  with demo_load show ?thesis by (simp add: main_run_def Run_def)
qed


end
