(* ===== verification/ConfigProps.thy ===== *)
theory ConfigProps
  imports Config
begin

text \<open>
  The documented names of the environment variables: the path of a configuration key, its parts
  joined by underscores, in upper case. Every such name resolves to its key, although parts contain
  underscores themselves and the names of OAuth providers are free.
\<close>

section \<open>Names\<close>

definition upper :: "char \<Rightarrow> char" where
  "upper c = (if 97 \<le> byte c \<and> byte c \<le> 122 then char_of (byte c - 32) else c)"

definition env_name :: "string list \<Rightarrow> string" where
  "env_name path = ''BASE_'' @ map upper (join ''_'' path)"

definition plain :: "string \<Rightarrow> bool" where
  "plain s \<longleftrightarrow> (\<forall>c \<in> set s. byte c < 128 \<and> (byte c < 65 \<or> 90 < byte c))"

lemma lower_upper:
  assumes "plain s"
  shows "to_lower ul (map upper s) = s"
proof -
  have u: "byte (upper c) = (if 97 \<le> byte c \<and> byte c \<le> 122 then byte c - 32 else byte c)" for c
  proof -
    have "byte c - 32 < 256" using nat_of_char_less_256 [of c] by (rule le_less_trans [OF diff_le_self])
    then show ?thesis by (auto simp: upper_def)
  qed
  have "(\<lambda>c. char_of (lower_code (byte (upper c)))) c = c" if "c \<in> set s" for c
    using assms that by (auto simp: plain_def u lower_code_def)
  moreover have "ascii (map upper s)" using assms by (auto simp: plain_def ascii_def u)
  ultimately show ?thesis by (simp add: to_lower_def map_idI)
qed

lemma plain_append [simp]: "plain (a @ b) \<longleftrightarrow> plain a \<and> plain b"
  by (auto simp: plain_def)

lemma split_inj: "split_on d s = split_on d t \<longleftrightarrow> s = t"
  by (metis join_split_on)

lemma split_on_app: "split_on d (a @ d # b) = split_on d a @ split_on d b"
  by (induction a) (auto split: list.splits)

section \<open>Matching the fields of one struct\<close>

declare matchEnvTokens.simps [simp del] match_keys.simps [simp del]

definition tags_ok :: "(string \<times> gtype) list \<Rightarrow> bool" where
  "tags_ok fs \<longleftrightarrow> distinct (map fst fs) \<and> (\<forall>tag \<in> fst ` set fs. tag \<noteq> '''' \<and> tag \<noteq> ''-'')"

text \<open>A field whose tag is only a prefix of the tokens is passed over, unless it is nested.\<close>

lemma match_fields_leaf:
  assumes "(tag, t) \<in> set fs" and "tags_ok fs"
    and "\<forall>(h, ht) \<in> set fs. nested (indirectType ht) \<longrightarrow> hasTokenPrefix (split_on CHR ''_'' tag) (split_on CHR ''_'' h) \<longrightarrow> h = tag"
  shows "match_fields fs (split_on CHR ''_'' tag) path = Some (path @ [tag], indirectType t)"
  using assms
proof (induction fs)
  case (Cons f fs)
  obtain h ht where f: "f = (h, ht)" by fastforce
  show ?case
  proof (cases "h = tag")
    case True
    with Cons.prems f have "ht = t" by (auto simp: tags_ok_def image_iff)
    with True f Cons.prems(2) show ?thesis by (simp add: tags_ok_def hasTokenPrefix_def)
  next
    case False
    have rest: "match_fields fs (split_on CHR ''_'' tag) path = Some (path @ [tag], indirectType t)"
      using Cons.prems False f by (intro Cons.IH) (auto simp: tags_ok_def)
    have "drop (length (split_on CHR ''_'' h)) (split_on CHR ''_'' tag) \<noteq> []"
      if "hasTokenPrefix (split_on CHR ''_'' tag) (split_on CHR ''_'' h)"
      using that False by (auto simp: hasTokenPrefix_def split_inj)
    then show ?thesis using rest False f Cons.prems(3) by (auto simp: Let_def)
  qed
qed simp

lemma match_fields_None:
  assumes "\<forall>(h, ht) \<in> set fs. \<not> nested (indirectType ht) \<and> split_on CHR ''_'' h \<noteq> tokens"
  shows "match_fields fs tokens path = None"
  using assms by (induction fs) (auto simp: Let_def hasTokenPrefix_def)

text \<open>A section is found by its first token.\<close>

lemma match_fields_section:
  assumes "(sec, GStruct fs) \<in> set ss" and "tags_ok ss" and "\<forall>tag \<in> fst ` set ss. CHR ''_'' \<notin> set tag"
    and "rest \<noteq> []" and "matchEnvTokens (GStruct fs) rest (path @ [sec]) = Some r"
  shows "match_fields ss (sec # rest) path = Some r"
  using assms(1-3)
proof (induction ss)
  case (Cons f ss)
  obtain h ht where f: "f = (h, ht)" by fastforce
  have s: "split_on CHR ''_'' h = [h]" using Cons.prems(3) f by (simp add: split_on_single)
  show ?case
  proof (cases "h = sec")
    case True
    with Cons.prems f have "ht = GStruct fs" by (auto simp: tags_ok_def image_iff)
    with True f s assms(4,5) Cons.prems(2) show ?thesis by (simp add: tags_ok_def hasTokenPrefix_def nested_def)
  next
    case False
    with f s have "match_fields (f # ss) (sec # rest) path = match_fields ss (sec # rest) path"
      by (simp add: hasTokenPrefix_def Let_def)
    also have "\<dots> = Some r" using Cons.prems False f by (intro Cons.IH) (auto simp: tags_ok_def)
    finally show ?thesis .
  qed
qed simp

section \<open>Matching the name of a provider\<close>

text \<open>No field of a provider reads like the end of another one.\<close>

lemma provider_fields_ok:
  "tags_ok providerFields" "\<forall>(h, ht) \<in> set providerFields. \<not> nested (indirectType ht)"
  by (auto simp: tags_ok_def providerFields_def nested_def)

lemma provider_suffix:
  assumes "h \<in> fst ` set providerFields" and "tag \<in> fst ` set providerFields"
    and "split_on CHR ''_'' h = ns @ split_on CHR ''_'' tag"
  shows "ns = []"
  using assms by (auto simp: providerFields_def append_eq_Cons_conv Cons_eq_append_conv)

lemma match_keys_provider:
  assumes "(tag, t) \<in> set providerFields" and "n \<noteq> 0" and "n \<le> length ns"
  shows "match_keys (GStruct providerFields) n (ns @ split_on CHR ''_'' tag) path = Some (path @ [join ''_'' ns, tag], indirectType t)"
  using assms(2,3)
proof (induction "length ns - n" arbitrary: n)
  case 0
  then have "n = length ns" by simp
  moreover have "match_fields providerFields (split_on CHR ''_'' tag) (path @ [join ''_'' ns]) =
      Some ((path @ [join ''_'' ns]) @ [tag], indirectType t)"
    using provider_fields_ok by (intro match_fields_leaf [OF assms(1)]) auto
  ultimately show ?case by (subst match_keys.simps) (simp add: matchEnvTokens.simps nested_def)
next
  case (Suc k)
  then have "n < length ns" by simp
  then have "drop n ns \<noteq> []" by simp
  moreover have "tag \<in> fst ` set providerFields" using assms(1) by force
  ultimately have "split_on CHR ''_'' h \<noteq> drop n ns @ split_on CHR ''_'' tag" if "(h, ht) \<in> set providerFields" for h ht
    using provider_suffix [of h tag "drop n ns"] that by force
  then have "match_fields providerFields (drop n ns @ split_on CHR ''_'' tag) (path @ [join ''_'' (take n ns)]) = None"
    using provider_fields_ok(2) by (intro match_fields_None) blast
  moreover have "match_keys (GStruct providerFields) (Suc n) (ns @ split_on CHR ''_'' tag) path = Some (path @ [join ''_'' ns, tag], indirectType t)"
    using Suc \<open>n < length ns\<close> by (intro Suc(1)) simp_all
  ultimately show ?case using \<open>n < length ns\<close>
    by (subst match_keys.simps) (simp add: matchEnvTokens.simps nested_def)
qed

section \<open>Every documented name resolves\<close>

text \<open>A key of the configuration: a section and a field of it, or a field of a named provider.\<close>

definition config_key :: "string list \<Rightarrow> gtype \<Rightarrow> bool" where
  "config_key path t \<longleftrightarrow>
     (\<exists>sec fs tag. path = [sec, tag] \<and> (sec, GStruct fs) \<in> set configFields \<and> (tag, t) \<in> set fs) \<or>
     (\<exists>name tag. path = [''oauth'', ''providers'', name, tag] \<and> name \<noteq> '''' \<and> plain name \<and> (tag, t) \<in> set providerFields)"

definition field_ok :: "string \<times> gtype \<Rightarrow> bool" where
  "field_ok f = (case f of (tag, t) \<Rightarrow> plain tag \<and> indirectType t = t \<and> (nested t \<longrightarrow> tag = ''providers'') \<and>
     (hd (split_on CHR ''_'' tag) = ''providers'' \<longrightarrow> tag = ''providers''))"

definition section_ok :: "string \<times> gtype \<Rightarrow> bool" where
  "section_ok f = (case f of (sec, GStruct fs) \<Rightarrow> plain sec \<and> CHR ''_'' \<notin> set sec \<and> tags_ok fs \<and> list_all field_ok fs
   | _ \<Rightarrow> False)"

lemma sections_ok: "list_all section_ok configFields"
  by (simp add: configFields_def section_ok_def tags_ok_def field_ok_def plain_def nested_def)

lemma configFields_ok: "tags_ok configFields" "\<forall>tag \<in> fst ` set configFields. CHR ''_'' \<notin> set tag"
  by (simp_all add: configFields_def tags_ok_def)


lemma resolved_section:
  assumes "(sec, GStruct fs) \<in> set configFields" and "(tag, t) \<in> set fs"
  shows "match_fields configFields (sec # split_on CHR ''_'' tag) [] = Some ([sec, tag], t)"
proof -
  have "section_ok (sec, GStruct fs)" using sections_ok assms(1) by (simp add: list_all_iff)
  then have fs: "tags_ok fs" "\<forall>f \<in> set fs. field_ok f" by (simp_all add: section_ok_def list_all_iff)
  then have t: "indirectType t = t" using assms(2) by (force simp: field_ok_def)
  have "match_fields fs (split_on CHR ''_'' tag) [sec] = Some ([sec] @ [tag], indirectType t)"
  proof (rule match_fields_leaf [OF assms(2) fs(1)], clarify)
    fix h ht
    assume h: "(h, ht) \<in> set fs" "nested (indirectType ht)" "hasTokenPrefix (split_on CHR ''_'' tag) (split_on CHR ''_'' h)"
    with fs(2) have "h = ''providers''" by (force simp: field_ok_def)
    with h(3) have "hd (split_on CHR ''_'' tag) = ''providers''"
      by (cases "split_on CHR ''_'' tag") (auto simp: hasTokenPrefix_def)
    with fs(2) assms(2) \<open>h = ''providers''\<close> show "h = tag" by (force simp: field_ok_def)
  qed
  then show ?thesis using t
    by (intro match_fields_section [OF assms(1) configFields_ok]) (simp_all add: matchEnvTokens.simps)
qed

lemma providers_field: "(''oauth'', GStruct [(''state_ttl'', GDuration), (''state_bytes'', GInt),
    (''pkce_verifier_bytes'', GInt), (''providers'', GMap (GStruct providerFields))]) \<in> set configFields"
  by (simp add: configFields_def)

lemma provider_field_plain: "(tag, t) \<in> set providerFields \<Longrightarrow> plain tag \<and> indirectType t = t"
  by (auto simp: providerFields_def plain_def)

lemma resolved_provider:
  assumes "(tag, t) \<in> set providerFields"
  shows "match_fields configFields (''oauth'' # ''providers'' # split_on CHR ''_'' name @ split_on CHR ''_'' tag) [] =
    Some ([''oauth'', ''providers'', name, tag], t)"
proof -
  have "1 \<le> length (split_on CHR ''_'' name)" by (cases "split_on CHR ''_'' name") simp_all
  then have "match_keys (GStruct providerFields) 1 (split_on CHR ''_'' name @ split_on CHR ''_'' tag) [''oauth'', ''providers''] =
      Some ([''oauth'', ''providers'', name, tag], t)"
    using match_keys_provider [OF assms, of 1 "split_on CHR ''_'' name" "[''oauth'', ''providers'']"] provider_field_plain [OF assms]
    by (simp add: join_split_on)
  then show ?thesis
    by (intro match_fields_section [OF providers_field configFields_ok])
      (simp_all add: matchEnvTokens.simps hasTokenPrefix_def nested_def Let_def)
qed

lemma trim_env_prefix: "trim_prefix (''BASE_'' @ s) ''BASE_'' = s"
  by (simp add: trim_prefix_def has_prefix_def)

lemma envVarToConfigKey_tokens:
  assumes "plain (join ''_'' path)" and "join ''_'' path \<noteq> ''''"
    and "match_fields configFields (split_on CHR ''_'' (join ''_'' path)) [] = Some (path, t)"
  shows "envVarToConfigKey ul (env_name path) = Some (join ''.'' path, t)"
  unfolding envVarToConfigKey_def env_name_def trim_env_prefix lower_upper [OF assms(1)] Let_def
  using assms by (simp add: configType_def matchEnvTokens.simps)

lemma env_name_key:
  assumes "config_key path t"
  shows "envVarToConfigKey ul (env_name path) = Some (join ''.'' path, t)"
  using assms unfolding config_key_def
proof (elim disjE exE conjE)
  fix sec fs tag
  assume p: "path = [sec, tag]" and m: "(sec, GStruct fs) \<in> set configFields" "(tag, t) \<in> set fs"
  have "section_ok (sec, GStruct fs)" using sections_ok m(1) by (simp add: list_all_iff)
  then have "plain sec" "CHR ''_'' \<notin> set sec" "plain tag" using m(2) by (auto simp: section_ok_def field_ok_def list_all_iff)
  then show ?thesis unfolding p
    by (intro envVarToConfigKey_tokens) (simp_all add: resolved_section [OF m] split_on_append plain_def ball_Un)
next
  fix name tag
  assume p: "path = [''oauth'', ''providers'', name, tag]" and "name \<noteq> ''''" "plain name" and m: "(tag, t) \<in> set providerFields"
  have "split_on CHR ''_'' (name @ CHR ''_'' # tag) = split_on CHR ''_'' name @ split_on CHR ''_'' tag"
    by (rule split_on_app)
  then show ?thesis unfolding p using resolved_provider [OF m, of name] provider_field_plain [OF m] \<open>plain name\<close>
    by (intro envVarToConfigKey_tokens) (simp_all add: plain_def ball_Un)
qed

lemma env_entries_simps:
  "env_entries ul pd [] = []"
  "env_entries ul pd ((raw, v) # es) = (if \<not> has_prefix raw ''BASE_'' then env_entries ul pd es
     else (case envVarToConfigKey ul raw of None \<Rightarrow> env_entries ul pd es
       | Some (key, t) \<Rightarrow> (key, parseEnvValue pd t v) # env_entries ul pd es))"
  by (auto simp: env_entries_def map_filter_simps split: option.splits)

text \<open>C30: The name that is documented for a key of the configuration resolves to that key and its type,
  for every section and field and for the fields of a provider with any name, underscores included;
  so a variable of that name in the environment sets that key, to its value at the type of the key, and
  one without the prefix sets none.
\<close>

theorem env_name_resolves:
  assumes "config_key path t" and "\<not> has_prefix other ''BASE_''"
  shows "envVarToConfigKey ul (env_name path) = Some (join ''.'' path, t) \<and>
     env_entries ul pd ((env_name path, v) # (other, v') # environ) =
       (join ''.'' path, parseEnvValue pd t v) # env_entries ul pd environ"
proof -
  have "has_prefix (env_name path) ''BASE_''" by (simp add: env_name_def has_prefix_def)
  with env_name_key [OF assms(1), of ul] assms(2) show ?thesis by (simp add: env_entries_simps)
qed

theorem env_name_resolves_witness:
  "env_entries id (\<lambda>s. None) [(''BASE_OAUTH_PROVIDERS_MY_IDP_ENABLED'', ''true''), (''PATH'', ''/bin'')] =
     [(''oauth.providers.my_idp.enabled'', EBool True)]"
proof -
  have k: "config_key [''oauth'', ''providers'', ''my_idp'', ''enabled''] GBool"
    by (simp add: config_key_def plain_def providerFields_def)
  have n: "env_name [''oauth'', ''providers'', ''my_idp'', ''enabled''] = ''BASE_OAUTH_PROVIDERS_MY_IDP_ENABLED''"
    by (simp add: env_name_def upper_def char_of_def bit_0)
  have "\<not> has_prefix ''PATH'' ''BASE_''" by (simp add: has_prefix_def)
  from env_name_resolves [OF k this, of id "\<lambda>s. None" "''true''" "''/bin''" "[]"] show ?thesis
    by (simp add: n env_entries_simps parseEnvValue_def or_text_def ParseBool_def)
qed

end
