(* ===== verification/MailProps.thy ===== *)
theory MailProps
  imports Jobs WebSamples EndToEnd
begin

text \<open>
  What delivery and the periodic jobs guarantee: nothing confidential is said before the connection
  is encrypted, a round of the outbox settles every email it lists, and the cleanup is invisible to
  whoever holds a token or waits for an email.
\<close>

section \<open>Encryption first\<close>

definition log_grows :: "world \<Rightarrow> world \<Rightarrow> bool" where
  "log_grows w t \<longleftrightarrow> (\<exists>cs. t = w\<lparr>wlog := cs @ wlog w\<rparr>)"

lemma log_growsI: "t = w\<lparr>wlog := cs @ wlog w\<rparr> \<Longrightarrow> log_grows w t"
  unfolding log_grows_def by (rule exI)

interpretation logs: frame log_grows
proof
  show "log_grows s s" for s by (rule log_growsI [where cs = "[]"]) simp
  show "log_grows s u" if st: "log_grows s t" "log_grows t u" for s t u
  proof -
    from st obtain cs ds where "t = s\<lparr>wlog := cs @ wlog s\<rparr>" "u = t\<lparr>wlog := ds @ wlog t\<rparr>"
      unfolding log_grows_def by blast
    then show ?thesis by (intro log_growsI [where cs = "ds @ cs"]) simp
  qed
qed

lemma logs_extern: "framed log_grows (extern c f)"
  by (rule framedI, rule log_growsI [where cs = "[c]"]) (simp add: extern_Inv)

lemma logs_smtp_step: "framed log_grows (smtp_step smtp what cmd a)"
  unfolding smtp_step_def smtp_call_def by (intro logs.framed_intros logs_extern)

lemma logs_starttls: "framed log_grows (starttls smtp cfg)"
  unfolding starttls_def smtp_call_def by (intro logs.framed_intros logs_extern logs_smtp_step)

lemma logs_Send: "framed log_grows (Send smtp m e)"
  unfolding Send_def sendSMTP_def authenticate_def Let_def by (intro logs.framed_intros logs_smtp_step logs_starttls)

lemma logs_session:
  "framed log_grows (andthen (authenticate smtp auth) (\<lambda>_.
     andthen (smtp_step smtp ''smtp mail from'' ''MAIL'' f) (\<lambda>_.
     andthen (smtp_step smtp ''smtp rcpt to'' ''RCPT'' recipient) (\<lambda>_.
     andthen (smtp_step smtp ''smtp data'' ''DATA'' '''') (\<lambda>_.
     andthen (smtp_step smtp ''smtp write'' ''WRITE'' msg) (\<lambda>_.
     andthen (smtp_step smtp ''smtp close data'' ''CLOSE'' '''') (\<lambda>_.
     smtp_step smtp ''smtp quit'' ''QUIT'' '''')))))))"
  unfolding authenticate_def by (intro logs.framed_intros logs_smtp_step)

definition confidential :: "string set" where
  "confidential = {''AUTH'', ''MAIL'', ''RCPT'', ''DATA'', ''WRITE''}"

lemma starttls_log:
  assumes "mailer_require_tls cfg" and "starttls smtp cfg w = (r, t)"
  defines "E \<equiv> CSmtp ''EXT'' ''STARTTLS''" and "S \<equiv> CSmtp ''STARTTLS'' (mailer_host cfg)"
  shows "(wlog t = E # wlog w \<and> r \<noteq> Inr ()) \<or>
     (wlog t = S # E # wlog w \<and> (r = Inr () \<longrightarrow> smtp (S # E # wlog w) ''STARTTLS'' (mailer_host cfg) = None))"
  using assms
  by (auto simp: starttls_def smtp_step_def smtp_call_def attempt_def extern_def ret_def fail_def split: option.splits)

lemma andthen_ends:
  "andthen m (\<lambda>_. k) w = (r, t) \<Longrightarrow> m w = (r', u) \<Longrightarrow> t = u \<or> (r' = Inr () \<and> k u = (r, t))"
  by (auto simp: andthen_def split: sum.splits)

lemma sendSMTP_log:
  assumes "mailer_require_tls cfg" and "sendSMTP smtp cfg address auth recipient msg w = (r, t)"
  defines "S \<equiv> CSmtp ''STARTTLS'' (mailer_host cfg)"
    and "before \<equiv> [CSmtp ''EXT'' ''STARTTLS'', CSmtp ''CLIENT'' (mailer_host cfg), CSmtp ''DIAL'' address]"
  shows "(\<exists>cs. wlog t = cs @ wlog w \<and> set cs \<subseteq> Set.insert S (set before)) \<or>
     (\<exists>cs. wlog t = cs @ S # before @ wlog w \<and> smtp (S # before @ wlog w) ''STARTTLS'' (mailer_host cfg) = None)"
proof -
  let ?session = "andthen (authenticate smtp auth) (\<lambda>_.
     andthen (smtp_step smtp ''smtp mail from'' ''MAIL'' (mailer_from cfg)) (\<lambda>_.
     andthen (smtp_step smtp ''smtp rcpt to'' ''RCPT'' recipient) (\<lambda>_.
     andthen (smtp_step smtp ''smtp data'' ''DATA'' '''') (\<lambda>_.
     andthen (smtp_step smtp ''smtp write'' ''WRITE'' msg) (\<lambda>_.
     andthen (smtp_step smtp ''smtp close data'' ''CLOSE'' '''') (\<lambda>_.
     smtp_step smtp ''smtp quit'' ''QUIT'' ''''))))))"
  obtain r1 u1 where 1: "smtp_step smtp ''dial smtp'' ''DIAL'' address w = (r1, u1)" by fastforce
  obtain r2 u2 where 2: "smtp_step smtp ''create smtp client'' ''CLIENT'' (mailer_host cfg) u1 = (r2, u2)" by fastforce
  obtain r3 u3 where 3: "starttls smtp cfg u2 = (r3, u3)" by fastforce
  obtain r4 u4 where 4: "?session u3 = (r4, u4)" by fastforce
  have l1: "wlog u1 = CSmtp ''DIAL'' address # wlog w" using smtp_step_effect [OF 1] by simp
  have l2: "wlog u2 = CSmtp ''CLIENT'' (mailer_host cfg) # wlog u1" using smtp_step_effect [OF 2] by simp
  obtain c4 where l4: "wlog u4 = c4 @ wlog u3" using framedD [OF logs_session 4] by (auto simp: log_grows_def)
  have "t = u1 \<or> t = u2 \<or> t = u3 \<or> (r3 = Inr () \<and> t = u4)"
    using andthen_ends [OF assms(2) [unfolded sendSMTP_def] 1]
  proof (elim disjE conjE)
    assume "andthen (smtp_step smtp ''create smtp client'' ''CLIENT'' (mailer_host cfg))
      (\<lambda>_. andthen (starttls smtp cfg) (\<lambda>_. ?session)) u1 = (r, t)"
    from andthen_ends [OF this 2] show ?thesis
    proof (elim disjE conjE)
      assume "andthen (starttls smtp cfg) (\<lambda>_. ?session) u2 = (r, t)"
      from andthen_ends [OF this 3] 4 show ?thesis by auto
    qed simp
  qed simp
  then show ?thesis
    using starttls_log [OF assms(1) 3] l1 l2 l4 unfolding S_def before_def by auto
qed

lemma append_split:
  "xs @ ys = l @ c # e \<Longrightarrow> c \<notin> set ys \<Longrightarrow> \<exists>p. e = p @ ys"
  by (auto simp: append_eq_append_conv2 append_eq_Cons_conv Cons_eq_append_conv)

text \<open>C19: When encryption is required, the credentials, the addresses and the message are only sent on a
  connection that this delivery has upgraded: whatever the server answers, every such command comes
  after a STARTTLS command that succeeded.
\<close>

theorem Send_encrypted_first:
  assumes "mailer_require_tls (ml_cfg m)" and "Send smtp m e w = (r, t)"
    and "wlog t = later @ CSmtp cmd a # earlier @ wlog w" and "cmd \<in> confidential"
  shows "\<exists>p q. earlier = p @ CSmtp ''STARTTLS'' (mailer_host (ml_cfg m)) # q \<and>
     smtp (CSmtp ''STARTTLS'' (mailer_host (ml_cfg m)) # q @ wlog w) ''STARTTLS'' (mailer_host (ml_cfg m)) = None"
proof (cases "wlog t = wlog w")
  case True
  with assms(3) have "length (later @ CSmtp cmd a # earlier @ wlog w) = length (wlog w)" by metis
  then show ?thesis by simp
next
  case False
  let ?h = "mailer_host (ml_cfg m)"
  obtain address auth recipient msg where "sendSMTP smtp (ml_cfg m) address auth recipient msg w = (r, t)"
    using assms(2) False by (cases "renderBody e") (auto simp: Send_def Let_def lift_def fail_def andthen_def split: if_splits)
  from sendSMTP_log [OF assms(1) this] show ?thesis
  proof (elim disjE exE conjE)
    fix cs
    assume "wlog t = cs @ wlog w"
      and cs: "set cs \<subseteq> Set.insert (CSmtp ''STARTTLS'' ?h) (set [CSmtp ''EXT'' ''STARTTLS'', CSmtp ''CLIENT'' ?h, CSmtp ''DIAL'' address])"
    then have "cs = later @ CSmtp cmd a # earlier" using assms(3) by simp
    with cs assms(4) show ?thesis by (auto simp: confidential_def)
  next
    fix cs
    let ?q = "[CSmtp ''EXT'' ''STARTTLS'', CSmtp ''CLIENT'' ?h, CSmtp ''DIAL'' address]"
    assume l: "wlog t = cs @ CSmtp ''STARTTLS'' ?h # ?q @ wlog w"
      and ok: "smtp (CSmtp ''STARTTLS'' ?h # ?q @ wlog w) ''STARTTLS'' ?h = None"
    have "cs @ (CSmtp ''STARTTLS'' ?h # ?q) = later @ CSmtp cmd a # earlier" using l assms(3) by simp
    moreover have "CSmtp cmd a \<notin> set (CSmtp ''STARTTLS'' ?h # ?q)" using assms(4) by (auto simp: confidential_def)
    ultimately have "\<exists>p. earlier = p @ CSmtp ''STARTTLS'' ?h # ?q" by (rule append_split)
    then obtain p where p: "earlier = p @ CSmtp ''STARTTLS'' ?h # ?q" by blast
    show ?thesis by (rule exI [of _ p], rule exI [of _ ?q]) (use ok p in simp)
  qed
qed


definition tls_mailer :: mailer where
  "tls_mailer = New_mailer ((cfg_mailer demo_config)\<lparr>mailer_require_tls := True\<rparr>)"

definition demo_email :: email_outbox where
  "demo_email = \<lparr>em_id = 1, em_template = ''verify'', em_recipient = ''a@b'', em_subject = ''Hello'', em_payload = JObj [],
     em_available_at = 0, em_sent_at = None, em_attempts = 0, em_last_error = None, em_created_at = 0, em_updated_at = 0\<rparr>"

definition tls_session :: "call list" where
  "tls_session = [CSmtp ''STARTTLS'' ''mail'', CSmtp ''EXT'' ''STARTTLS'', CSmtp ''CLIENT'' ''mail'', CSmtp ''DIAL'' ''mail:25'']"

lemma show_25: "show_int 25 = ''25''"
  by (simp add: show_int_def digits_of.simps char_of_def bit_0)

text \<open>A server that accepts everything but the recipient.\<close>

lemma tls_send:
  "Send (\<lambda>l cmd a. if cmd = ''RCPT'' then Some (ErrText ''550'') else None) tls_mailer demo_email w =
     (Inl (Wrapped ''smtp rcpt to'' (ErrText ''550'')),
      w\<lparr>wlog := [] @ CSmtp ''RCPT'' ''a@b'' # (CSmtp ''MAIL'' ''noreply@example'' # tls_session) @ wlog w\<rparr>)"
  by (simp add: Send_def renderBody_def payload_keys_def demo_email_def tls_mailer_def New_mailer_def
      demo_config_def sendSMTP_def smtp_step_def smtp_call_def starttls_def authenticate_def tls_session_def show_25 run_simps)

theorem Send_encrypted_first_witness:
  "\<exists>p q. CSmtp ''MAIL'' ''noreply@example'' # tls_session = p @ CSmtp ''STARTTLS'' ''mail'' # q"
  using Send_encrypted_first [OF _ tls_send [of demo_world], of "[]" "''RCPT''" "''a@b''"
      "CSmtp ''MAIL'' ''noreply@example'' # tls_session"]
  by (auto simp: tls_mailer_def New_mailer_def demo_config_def confidential_def)

section \<open>A round of the outbox\<close>

definition batch :: "time \<Rightarrow> db \<Rightarrow> email_outbox list" where
  "batch now d = take 25 (sort_key em_available_at (filter (pending now) (outbox d)))"

text \<open>What becomes of an email: nothing went wrong, or the text of the error.\<close>

definition settle :: "time \<Rightarrow> string option \<Rightarrow> email_outbox \<Rightarrow> email_outbox" where
  "settle now outcome e = (case outcome of
     None \<Rightarrow> e\<lparr>em_sent_at := Some now, em_updated_at := now\<rparr>
   | Some text \<Rightarrow> e\<lparr>em_attempts := em_attempts e + 1, em_last_error := Some text,
        em_available_at := now + 300 * second, em_updated_at := now\<rparr>)"

definition outcome_of :: "err + unit \<Rightarrow> string option" where
  "outcome_of r = (case r of Inr _ \<Rightarrow> None | Inl e \<Rightarrow> Some (err_Error e))"

lemma em_id_settle [simp]: "em_id (settle now outcome e) = em_id e"
  by (simp add: settle_def split: option.splits)

lemma settle_fun:
  "settle now None = (\<lambda>e. e\<lparr>em_sent_at := Some now, em_updated_at := now\<rparr>)"
  "settle now (Some text) = (\<lambda>e. e\<lparr>em_attempts := em_attempts e + 1, em_last_error := Some text,
      em_available_at := now + 300 * second, em_updated_at := now\<rparr>)"
  by (simp_all add: settle_def fun_eq_iff)

lemma deliver_settles:
  assumes "no_faults x" and "\<forall>r \<in> set (outbox (wdb w)). em_id r = em_id e \<longrightarrow> em_attempts r + 1 < 2 ^ 31"
  shows "\<exists>res u t. Send smtp m e w = (res, u) \<and> deliver x smtp m e w = (Inr (), t) \<and>
     wdb t = (wdb w)\<lparr>outbox := update_rows (\<lambda>r. em_id r = em_id e) (settle (wdbnow w) (outcome_of res)) (outbox (wdb w))\<rparr> \<and>
     wdbnow t = wdbnow w"
proof -
  obtain res u where s: "Send smtp m e w = (res, u)" by fastforce
  then obtain cs where u: "u = w\<lparr>wlog := cs @ wlog w\<rparr>" using framedD [OF logs_Send s] by (auto simp: log_grows_def)
  have a: "\<not> (\<exists>r \<in> set (outbox (wdb w)). em_id r = em_id e \<and> 2 ^ 31 \<le> em_attempts r + 1)" using assms(2) by force
  have f: "x_dbfault x l = None" for l using assms(1) by (simp add: no_faults_def)
  have "\<exists>n. deliver x smtp m e w = (Inr (), w\<lparr>wlog := CDb n # cs @ wlog w,
      wdb := (wdb w)\<lparr>outbox := update_rows (\<lambda>r. em_id r = em_id e) (settle (wdbnow w) (outcome_of res)) (outbox (wdb w))\<rparr>\<rparr>)"
  proof (cases res)
    case (Inl err)
    then have "MarkEmailFailed x (Some (err_Error err)) 300 (em_id e) u = (Inr (), w\<lparr>wlog := CDb ''MarkEmailFailed'' # cs @ wlog w,
      wdb := (wdb w)\<lparr>outbox := update_rows (\<lambda>r. em_id r = em_id e) (settle (wdbnow w) (outcome_of res)) (outbox (wdb w))\<rparr>\<rparr>)"
      using a by (simp add: MarkEmailFailed_def query_def f u outcome_of_def settle_fun)
    with s Inl show ?thesis by (intro exI) (simp add: deliver_def ignore_def go_simps)
  next
    case (Inr v)
    then have "MarkEmailSent x (em_id e) u = (Inr (), w\<lparr>wlog := CDb ''MarkEmailSent'' # cs @ wlog w,
      wdb := (wdb w)\<lparr>outbox := update_rows (\<lambda>r. em_id r = em_id e) (settle (wdbnow w) (outcome_of res)) (outbox (wdb w))\<rparr>\<rparr>)"
      by (simp add: MarkEmailSent_def query_def f u outcome_of_def settle_fun)
    with s Inr show ?thesis by (intro exI) (simp add: deliver_def ignore_def go_simps)
  qed
  with s show ?thesis by auto
qed

text \<open>The loop over the emails.\<close>

lemma deliver_all:
  assumes "no_faults x" and "distinct (map em_id es)"
    and "\<forall>r \<in> set (outbox (wdb w)). em_id r \<in> em_id ` set es \<longrightarrow> em_attempts r + 1 < 2 ^ 31"
  shows "\<exists>outcome t. each (deliver x smtp m) es w = (Inr (), t) \<and> wdbnow t = wdbnow w \<and>
     wdb t = (wdb w)\<lparr>outbox := map (\<lambda>r. if em_id r \<in> em_id ` set es then settle (wdbnow w) (outcome (em_id r)) r else r)
       (outbox (wdb w))\<rparr> \<and>
     (\<forall>e \<in> set es. \<exists>u. outcome (em_id e) = outcome_of (fst (Send smtp m e u)))"
  using assms(2,3)
proof (induction es arbitrary: w)
  case Nil
  then show ?case by (auto simp: ret_def)
next
  case (Cons e es)
  from deliver_settles [OF assms(1), of w e smtp m] Cons.prems(2) obtain res u v where
    s: "Send smtp m e w = (res, u)" and d: "deliver x smtp m e w = (Inr (), v)"
    and v: "wdb v = (wdb w)\<lparr>outbox := update_rows (\<lambda>r. em_id r = em_id e) (settle (wdbnow w) (outcome_of res)) (outbox (wdb w))\<rparr>"
      "wdbnow v = wdbnow w" by auto
  have "\<forall>r \<in> set (outbox (wdb v)). em_id r \<in> em_id ` set es \<longrightarrow> em_attempts r + 1 < 2 ^ 31"
    using Cons.prems by (auto simp: v update_rows_def)
  with Cons.IH [of v] Cons.prems(1) obtain outcome t where
    t: "each (deliver x smtp m) es v = (Inr (), t)" "wdbnow t = wdbnow v"
      "wdb t = (wdb v)\<lparr>outbox := map (\<lambda>r. if em_id r \<in> em_id ` set es then settle (wdbnow v) (outcome (em_id r)) r else r)
         (outbox (wdb v))\<rparr>"
    and o1: "\<forall>e \<in> set es. \<exists>u. outcome (em_id e) = outcome_of (fst (Send smtp m e u))" by auto
  let ?o = "outcome(em_id e := outcome_of res)"
  have n: "em_id e \<notin> em_id ` set es" using Cons.prems(1) by auto
  have "each (deliver x smtp m) (e # es) w = (Inr (), t)" using d t(1) by (simp add: go_simps)
  moreover have "wdb t = (wdb w)\<lparr>outbox := map (\<lambda>r. if em_id r \<in> em_id ` set (e # es) then settle (wdbnow w) (?o (em_id r)) r else r)
       (outbox (wdb w))\<rparr>"
    using n by (auto simp: t(3) v update_rows_def)
  moreover have "\<forall>f \<in> set (e # es). \<exists>u. ?o (em_id f) = outcome_of (fst (Send smtp m f u))"
    using n o1 s by (auto simp: fun_upd_def image_iff intro: exI [of _ w])
  moreover have "wdbnow t = wdbnow w" using t(2) v(2) by simp
  ultimately show ?case by - (rule exI [of _ ?o], rule exI [of _ t], intro conjI)
qed


lemma batch_rows: "e \<in> set (batch now d) \<Longrightarrow> e \<in> set (outbox d) \<and> pending now e"
  unfolding batch_def by (auto dest: in_set_takeD)

lemma batch_distinct: "db_ok d \<Longrightarrow> distinct (map em_id (batch now d))"
proof -
  assume "db_ok d"
  then have "distinct (map em_id (outbox d))" by (simp add: db_ok_def outbox_ok_def)
  then have "distinct (map em_id (sort_key em_available_at (filter (pending now) (outbox d))))"
    by (simp add: distinct_map distinct_filter inj_on_def)
  then show ?thesis unfolding batch_def by (simp add: take_map [symmetric] distinct_take del: set_map)
qed

lemma batch_ids:
  assumes "db_ok d" and "r \<in> set (outbox d)"
  shows "em_id r \<in> em_id ` set (batch now d) \<longleftrightarrow> r \<in> set (batch now d)"
proof -
  have "inj_on em_id (set (outbox d))" using assms(1) by (simp add: db_ok_def outbox_ok_def distinct_map)
  with assms(2) batch_rows show ?thesis by (auto dest: inj_onD)
qed

text \<open>One round, also of use when only the attempts of the due emails are bounded.\<close>

lemma outbox_run:
  assumes "db_ok (wdb w)" and "no_faults x" and "Enabled m"
    and "\<forall>e \<in> set (outbox (wdb w)). pending (wdbnow w) e \<longrightarrow> em_attempts e + 1 < 2 ^ 31"
  shows "\<exists>outcome t. EmailOutboxWork x smtp (Some m) w = (Inr (), t) \<and> wdbnow t = wdbnow w \<and>
     wdb t = (wdb w)\<lparr>outbox := map (\<lambda>e. if e \<in> set (batch (wdbnow w) (wdb w)) then settle (wdbnow w) (outcome (em_id e)) e else e)
       (outbox (wdb w))\<rparr> \<and>
     (\<forall>e \<in> set (batch (wdbnow w) (wdb w)). \<exists>u. outcome (em_id e) = outcome_of (fst (Send smtp m e u)))"
proof -
  let ?b = "batch (wdbnow w) (wdb w)" and ?u = "w\<lparr>wlog := CDb ''ListPendingEmails'' # wlog w\<rparr>"
  have l: "ListPendingEmails x 25 w = (Inr ?b, ?u)"
    using assms(2) by (simp add: ListPendingEmails_def query_def no_faults_def batch_def)
  have run: "EmailOutboxWork x smtp (Some m) w = each (deliver x smtp m) ?b ?u"
    using assms(3) l by (simp add: EmailOutboxWork_def go_simps)
  have at: "\<forall>r \<in> set (outbox (wdb ?u)). em_id r \<in> em_id ` set ?b \<longrightarrow> em_attempts r + 1 < 2 ^ 31"
    using assms(4) batch_ids [OF assms(1)] by (auto dest: batch_rows)
  from deliver_all [OF assms(2) batch_distinct [OF assms(1)] at, of smtp m] obtain outcome t where
    t: "each (deliver x smtp m) ?b ?u = (Inr (), t)" "wdbnow t = wdbnow ?u"
      "wdb t = (wdb ?u)\<lparr>outbox := map (\<lambda>r. if em_id r \<in> em_id ` set ?b then settle (wdbnow ?u) (outcome (em_id r)) r else r) (outbox (wdb ?u))\<rparr>"
      "\<forall>e \<in> set ?b. \<exists>u. outcome (em_id e) = outcome_of (fst (Send smtp m e u))" by auto
  have u: "wdbnow ?u = wdbnow w" "wdb ?u = wdb w" by simp_all
  have "map (\<lambda>r. if em_id r \<in> em_id ` set ?b then settle (wdbnow w) (outcome (em_id r)) r else r) (outbox (wdb w)) =
      map (\<lambda>e. if e \<in> set ?b then settle (wdbnow w) (outcome (em_id e)) e else e) (outbox (wdb w))"
    by (rule map_cong) (use batch_ids [OF assms(1)] in auto)
  with run t [unfolded u] show ?thesis by auto
qed

text \<open>C27: A round of the outbox settles exactly the emails it lists, the at most 25 that are due longest:
  each of them is marked sent if its delivery succeeded, and otherwise keeps the error, counts the
  attempt and is due again five minutes later. No failure of one email keeps the next from being
  tried, and nothing else in the database changes.
\<close>

theorem outbox_round:
  assumes "db_ok (wdb w)" and "no_faults x" and "Enabled m" and "\<forall>e \<in> set (outbox (wdb w)). em_attempts e + 1 < 2 ^ 31"
  shows "\<exists>outcome t. EmailOutboxWork x smtp (Some m) w = (Inr (), t) \<and>
     wdb t = (wdb w)\<lparr>outbox := map (\<lambda>e. if e \<in> set (batch (wdbnow w) (wdb w)) then settle (wdbnow w) (outcome (em_id e)) e else e)
       (outbox (wdb w))\<rparr> \<and>
     (\<forall>e \<in> set (batch (wdbnow w) (wdb w)). \<exists>u. outcome (em_id e) = outcome_of (fst (Send smtp m e u)))"
  using outbox_run [OF assms(1-3), of smtp] assms(4) by blast

section \<open>Cleanup is invisible\<close>

lemma ignore_eval: "ignore m w = (Inr (), snd (m w))"
  by (cases "m w") (auto simp: ignore_def attempt_def ret_def split: sum.splits)

text \<open>What the cleanup may drop at the given instants.\<close>

definition dropped_token :: "time \<Rightarrow> user_token \<Rightarrow> bool" where
  "dropped_token now k \<longleftrightarrow> t_used_at k \<noteq> None \<or> t_expires_at k < now"

definition dropped_email :: "time \<Rightarrow> email_outbox \<Rightarrow> bool" where
  "dropped_email cutoff e \<longleftrightarrow> (case em_sent_at e of
     Some s \<Rightarrow> s < cutoff
   | None \<Rightarrow> em_last_error e \<noteq> None \<and> em_available_at e < cutoff)"

definition trims :: "config \<Rightarrow> world \<Rightarrow> world \<Rightarrow> bool" where
  "trims cfg w t \<longleftrightarrow> wnow t = wnow w \<and> wdbnow t = wdbnow w \<and>
     (\<exists>P Q. wdb t = (wdb w)\<lparr>user_tokens := filter P (user_tokens (wdb w)), outbox := filter Q (outbox (wdb w))\<rparr> \<and>
        (\<forall>k. P k \<or> dropped_token (wdbnow w) k) \<and> (\<forall>e. Q e \<or> dropped_email (emailOutboxCutoff cfg (wnow w)) e))"

lemma trimsI:
  assumes "wnow t = wnow w" and "wdbnow t = wdbnow w"
    and "wdb t = (wdb w)\<lparr>user_tokens := filter P (user_tokens (wdb w)), outbox := filter Q (outbox (wdb w))\<rparr>"
    and "\<And>k. \<not> P k \<Longrightarrow> dropped_token (wdbnow w) k" and "\<And>e. \<not> Q e \<Longrightarrow> dropped_email (emailOutboxCutoff cfg (wnow w)) e"
  shows "trims cfg w t"
  unfolding trims_def using assms by blast

interpretation trims: frame "trims cfg" for cfg
proof
  show "trims cfg s s" for s by (rule trimsI [where P = "\<lambda>_. True" and Q = "\<lambda>_. True"]) simp_all
  show "trims cfg s u" if st: "trims cfg s t" "trims cfg t u" for s t u
  proof -
    from st(1) obtain P Q where 1: "wnow t = wnow s" "wdbnow t = wdbnow s"
      "wdb t = (wdb s)\<lparr>user_tokens := filter P (user_tokens (wdb s)), outbox := filter Q (outbox (wdb s))\<rparr>"
      "\<forall>k. P k \<or> dropped_token (wdbnow s) k" "\<forall>e. Q e \<or> dropped_email (emailOutboxCutoff cfg (wnow s)) e"
      unfolding trims_def by blast
    from st(2) obtain P' Q' where 2: "wnow u = wnow t" "wdbnow u = wdbnow t"
      "wdb u = (wdb t)\<lparr>user_tokens := filter P' (user_tokens (wdb t)), outbox := filter Q' (outbox (wdb t))\<rparr>"
      "\<forall>k. P' k \<or> dropped_token (wdbnow t) k" "\<forall>e. Q' e \<or> dropped_email (emailOutboxCutoff cfg (wnow t)) e"
      unfolding trims_def by blast
    show ?thesis
      by (rule trimsI [where P = "\<lambda>k. P k \<and> P' k" and Q = "\<lambda>e. Q e \<and> Q' e"])
        (use 1 2 in \<open>auto simp: conj_commute\<close>)
  qed
qed

lemma query_trims:
  assumes "f (wdbnow w) (wdb w) = (v, (wdb w)\<lparr>user_tokens := filter P (user_tokens (wdb w)), outbox := filter Q (outbox (wdb w))\<rparr>)"
    and "\<And>k. \<not> P k \<Longrightarrow> dropped_token (wdbnow w) k" and "\<And>e. \<not> Q e \<Longrightarrow> dropped_email (emailOutboxCutoff cfg (wnow w)) e"
  shows "trims cfg w (snd (query x n f w))"
proof (cases "x_dbfault x (CDb n # wlog w)")
  case None
  with assms show ?thesis by (intro trimsI [where P = P and Q = Q]) (simp_all add: query_def Let_def)
next
  case Some
  then show ?thesis by (intro trimsI [where P = "\<lambda>_. True" and Q = "\<lambda>_. True"]) (simp_all add: query_def Let_def)
qed

lemma deletes_trim:
  "trims cfg w (snd (DeleteExpiredUserTokens x w))" "trims cfg w (snd (DeleteUsedUserTokens x w))"
  unfolding DeleteExpiredUserTokens_def DeleteUsedUserTokens_def delete_tokens_def
  by (rule query_trims [where P = "\<lambda>t. \<not> (t_expires_at t < wdbnow w \<and> t_used_at t = None)" and Q = "\<lambda>_. True"],
        auto simp: dropped_token_def)
    (rule query_trims [where P = "\<lambda>t. \<not> t_used_at t \<noteq> None" and Q = "\<lambda>_. True"],
        auto simp: dropped_token_def)

lemma deletes_emails_trim:
  "trims cfg w (snd (DeleteSentEmailsBefore x (Some (emailOutboxCutoff cfg (wnow w))) w))"
  "trims cfg w (snd (DeleteFailedEmailsBefore x (emailOutboxCutoff cfg (wnow w)) w))"
  unfolding DeleteSentEmailsBefore_def DeleteFailedEmailsBefore_def Let_def
  by (rule query_trims [where P = "\<lambda>_. True" and
        Q = "\<lambda>e. \<not> (case (em_sent_at e, Some (emailOutboxCutoff cfg (wnow w))) of (Some s, Some b) \<Rightarrow> s < b | _ \<Rightarrow> False)"],
        auto simp: dropped_email_def split: option.splits)
    (rule query_trims [where P = "\<lambda>_. True" and
        Q = "\<lambda>e. \<not> (em_sent_at e = None \<and> em_last_error e \<noteq> None \<and> em_available_at e < emailOutboxCutoff cfg (wnow w))"],
        auto simp: dropped_email_def)

lemma CleanupStore_trims: "trims cfg w (snd (CleanupStore x cfg w)) \<and> fst (CleanupStore x cfg w) = Inr ()"
proof -
  define u1 where "u1 = snd (DeleteExpiredUserTokens x w)"
  define u2 where "u2 = snd (DeleteSentEmailsBefore x (Some (emailOutboxCutoff cfg (wnow u1))) u1)"
  define u3 where "u3 = snd (DeleteFailedEmailsBefore x (emailOutboxCutoff cfg (wnow u1)) u2)"
  have c: "CleanupStore x cfg w = (Inr (), snd (DeleteUsedUserTokens x u3))"
    by (simp add: CleanupStore_def andthen_def ignore_eval time_Now_def u1_def u2_def u3_def)
  have "trims cfg w u1" "trims cfg u1 u2" unfolding u1_def u2_def by (rule deletes_trim deletes_emails_trim)+
  moreover from this(2) have "wnow u2 = wnow u1" by (simp add: trims_def)
  then have "trims cfg u2 u3" using deletes_emails_trim(2) [of cfg u2 x] by (simp add: u3_def)
  moreover have "trims cfg u3 (snd (DeleteUsedUserTokens x u3))" by (rule deletes_trim)
  ultimately show ?thesis unfolding c by (auto intro: trims.trans)
qed

lemma find_filter: "(\<And>r. P r \<Longrightarrow> Q r) \<Longrightarrow> find P (filter Q rs) = find P rs"
  by (induction rs) auto

text \<open>C32: The cleanup never fails and is invisible: whatever statement of it fails, every token redeems
  exactly as before from now on, an email that was neither sent nor tried stays queued, and what is
  removed from the outbox was sent, or failed and was last due, before the retention period.
\<close>

theorem cleanup_invisible:
  assumes "CleanupStore x cfg w = (r, t)"
  shows "r = Inr () \<and> users (wdb t) = users (wdb w) \<and>
     (\<forall>h k now. wdbnow w \<le> now \<longrightarrow> redeemable (user_tokens (wdb t)) h k now = redeemable (user_tokens (wdb w)) h k now) \<and>
     (\<forall>e \<in> set (outbox (wdb w)) - set (outbox (wdb t)). dropped_email (wnow w - river_email_outbox_retention (cfg_river cfg)) e) \<and>
     set (outbox (wdb t)) \<subseteq> set (outbox (wdb w))"
proof -
  from CleanupStore_trims [of cfg w x] assms obtain P Q where r: "r = Inr ()"
    and t: "wdb t = (wdb w)\<lparr>user_tokens := filter P (user_tokens (wdb w)), outbox := filter Q (outbox (wdb w))\<rparr>"
    and P: "\<forall>k. P k \<or> dropped_token (wdbnow w) k" and Q: "\<forall>e. Q e \<or> dropped_email (emailOutboxCutoff cfg (wnow w)) e"
    unfolding trims_def by auto
  have "find (live h k now) (filter P (user_tokens (wdb w))) = find (live h k now) (user_tokens (wdb w))"
    if "wdbnow w \<le> now" for h k now
    using P that by (intro find_filter) (fastforce simp: live_def dropped_token_def)
  then show ?thesis using r t Q by (auto simp: redeemable_def emailOutboxCutoff_def)
qed


section \<open>Witnesses of the jobs\<close>

theorem cleanup_invisible_witness:
  "redeemable (user_tokens (wdb (snd (CleanupStore demo_ext demo_config demo_world)))) (hex_encode ''r'') PasswordReset (100 * second) = Some 1"
proof -
  have "redeemable (user_tokens (wdb demo_world)) (hex_encode ''r'') PasswordReset (100 * second) = Some 1"
    by (simp add: redeemable_def live_def demo_simps)
  with cleanup_invisible [of demo_ext demo_config demo_world, OF prod.collapse [symmetric]] show ?thesis
    by (simp add: demo_world_def)
qed

definition mail_db :: db where
  "mail_db = demo_db\<lparr>outbox := [demo_email], seqs := (seqs demo_db)\<lparr>sq_outbox := 2\<rparr>\<rparr>"

definition plain_mailer :: mailer where
  "plain_mailer = New_mailer (cfg_mailer demo_config)"

lemma mail_db_ok: "db_ok mail_db"
  using demo_db_ok by (simp add: db_ok_def mail_db_def user_ids_def outbox_ok_def demo_email_def demo_db_def)

lemma plain_send: "fst (Send (\<lambda>l cmd a. None) plain_mailer demo_email u) = Inr ()"
  by (simp add: Send_def renderBody_def payload_keys_def demo_email_def plain_mailer_def New_mailer_def
      demo_config_def sendSMTP_def smtp_step_def smtp_call_def starttls_def authenticate_def run_simps)

theorem outbox_round_witness:
  "\<exists>t. EmailOutboxWork demo_ext (\<lambda>l cmd a. None) (Some plain_mailer) (demo_world\<lparr>wdb := mail_db\<rparr>) = (Inr (), t) \<and>
     map em_sent_at (outbox (wdb t)) = [Some (100 * second)]"
proof -
  let ?w = "demo_world\<lparr>wdb := mail_db\<rparr>"
  have rows: "outbox mail_db = [demo_email]" by (simp add: mail_db_def)
  have b: "batch 100000000000 mail_db = [demo_email]" by (simp add: batch_def rows pending_def demo_email_def)
  have now: "wdbnow ?w = 100000000000" by (simp add: demo_world_def)
  have "\<exists>outcome t. EmailOutboxWork demo_ext (\<lambda>l cmd a. None) (Some plain_mailer) ?w = (Inr (), t) \<and>
     wdb t = (wdb ?w)\<lparr>outbox := map (\<lambda>e. if e \<in> set (batch (wdbnow ?w) (wdb ?w)) then settle (wdbnow ?w) (outcome (em_id e)) e else e)
       (outbox (wdb ?w))\<rparr> \<and>
     (\<forall>e \<in> set (batch (wdbnow ?w) (wdb ?w)). \<exists>u. outcome (em_id e) = outcome_of (fst (Send (\<lambda>l cmd a. None) plain_mailer e u)))"
    by (rule outbox_round) (simp_all add: mail_db_ok no_faults_def Enabled_def plain_mailer_def New_mailer_def demo_config_def rows,
        simp add: demo_email_def)
  then show ?thesis by (auto simp: now rows b plain_send outcome_of_def settle_def)
qed

end
