(* ===== verification/CacheThreads.thy ===== *)
theory CacheThreads
  imports Cache
begin

text \<open>
  The cache under concurrent use. A lookup holds the read lock to find its entry and, if that has
  expired, takes the write lock later to delete what is there then; other calls may run in between.
  Each critical section is a step; \<open>waiting\<close> are the deletions still to come. The specification is
  the map of the values stored, without entries, locks or deletions.
\<close>

record ('k, 'v) shared =
  sh_cache :: "('k, 'v) cache"
  sh_waiting :: "('k \<times> time) list"

text \<open>The two critical sections of \<open>Get\<close>: the entry found, and the deletion after a second look.\<close>

definition get_read :: "('k, 'v) cache \<Rightarrow> 'k \<Rightarrow> time \<Rightarrow> 'v option \<times> bool" where
  "get_read c key now = (case ca_items c key of
     None \<Rightarrow> (None, False)
   | Some e \<Rightarrow> if expired e now then (None, True) else (Some (en_value e), False))"

definition get_cleanup :: "('k, 'v) cache \<Rightarrow> 'k \<Rightarrow> time \<Rightarrow> ('k, 'v) cache" where
  "get_cleanup c key now = (case ca_items c key of
     None \<Rightarrow> c
   | Some e \<Rightarrow> if expired e now then c\<lparr>ca_items := (ca_items c)(key := None)\<rparr> else c)"

text \<open>Without interference the two make up the lookup.\<close>

lemma Get_sections:
  "Get (Some c) k now = (fst (get_read c k now), Some (if snd (get_read c k now) then get_cleanup c k now else c))"
  by (auto simp: Get_def get_read_def get_cleanup_def split: option.splits)

datatype ('k, 'v) action =
    Looked 'k time "'v option"
  | Cleaned 'k time
  | Stored 'k 'v time
  | Swept time

inductive shared_step :: "('k, 'v) shared \<Rightarrow> ('k, 'v) action \<Rightarrow> ('k, 'v) shared \<Rightarrow> bool" where
  looked: "get_read (sh_cache s) k now = (r, late) \<Longrightarrow>
     shared_step s (Looked k now r) (s\<lparr>sh_waiting := (if late then sh_waiting s @ [(k, now)] else sh_waiting s)\<rparr>)"
| cleaned: "sh_waiting s = before @ (k, now) # rest \<Longrightarrow>
     shared_step s (Cleaned k now) (s\<lparr>sh_cache := get_cleanup (sh_cache s) k now, sh_waiting := before @ rest\<rparr>)"
| stored: "Set (Some (sh_cache s)) k v now = Some c \<Longrightarrow> shared_step s (Stored k v now) (s\<lparr>sh_cache := c\<rparr>)"
| swept: "Sweep (Some (sh_cache s)) now = Some c \<Longrightarrow> shared_step s (Swept now) (s\<lparr>sh_cache := c\<rparr>)"

inductive shared_run :: "('k, 'v) shared \<Rightarrow> ('k, 'v) action list \<Rightarrow> ('k, 'v) shared \<Rightarrow> bool" where
  none: "shared_run s [] s"
| more: "shared_step s a t \<Longrightarrow> shared_run t as u \<Longrightarrow> shared_run s (a # as) u"

inductive_cases looked_step: "shared_step s (Looked k now r) t"

fun at_time :: "('k, 'v) action \<Rightarrow> time" where
  "at_time (Looked k now r) = now"
| "at_time (Cleaned k now) = now"
| "at_time (Stored k v now) = now"
| "at_time (Swept now) = now"

section \<open>The specification\<close>

text \<open>The values stored, each with the instant until which it counts.\<close>

type_synonym ('k, 'v) ledger = "'k \<rightharpoonup> 'v \<times> time"

fun spec_step :: "duration \<Rightarrow> ('k, 'v) action \<Rightarrow> ('k, 'v) ledger \<Rightarrow> ('k, 'v) ledger" where
  "spec_step ttl (Stored k v now) m = m(k \<mapsto> (v, now + ttl))"
| "spec_step ttl _ m = m"

definition spec_answer :: "('k, 'v) ledger \<Rightarrow> 'k \<Rightarrow> time \<Rightarrow> 'v option" where
  "spec_answer m k now = (case m k of None \<Rightarrow> None | Some (v, till) \<Rightarrow> if now \<le> till then Some v else None)"

text \<open>The cache implements the ledger from an instant on: its entries are in the ledger, and what
  it lacks has expired there.\<close>

definition implements :: "('k, 'v) cache \<Rightarrow> ('k, 'v) ledger \<Rightarrow> time \<Rightarrow> bool" where
  "implements c m now \<longleftrightarrow>
     (\<forall>k e. ca_items c k = Some e \<longrightarrow> m k = Some (en_value e, en_expires_at e)) \<and>
     (\<forall>k v till. m k = Some (v, till) \<longrightarrow> ca_items c k = None \<longrightarrow> till < now)"

lemma implements_later: "implements c m now \<Longrightarrow> now \<le> later \<Longrightarrow> implements c m later"
  unfolding implements_def by (meson less_le_trans)

lemma implements_answer:
  assumes "implements c m now" and "now \<le> u"
  shows "fst (get_read c k u) = spec_answer m k u"
proof (cases "ca_items c k")
  case None
  with assms show ?thesis by (fastforce simp: implements_def get_read_def spec_answer_def split: option.splits)
next
  case (Some e)
  with assms(1) have "m k = Some (en_value e, en_expires_at e)" by (simp add: implements_def)
  with Some show ?thesis by (simp add: get_read_def spec_answer_def expired_def not_less)
qed

text \<open>Dropping expired entries is invisible, whatever keys are dropped.\<close>

lemma implements_drop:
  assumes "implements c m now" and "\<And>k. ca_items d k = ca_items c k \<or>
      (ca_items d k = None \<and> (\<forall>e. ca_items c k = Some e \<longrightarrow> en_expires_at e < now))"
  shows "implements d m now"
proof -
  have "till < now" if m: "m k = Some (v, till)" and d: "ca_items d k = None" for k v till
  proof (cases "ca_items c k")
    case None
    with assms(1) m show ?thesis by (simp add: implements_def)
  next
    case (Some e)
    with assms(1) m have "en_expires_at e = till" by (auto simp: implements_def)
    with Some d assms(2) [of k] show ?thesis by auto
  qed
  moreover have "m k = Some (en_value e, en_expires_at e)" if "ca_items d k = Some e" for k e
    using assms(2) [of k] that assms(1) by (auto simp: implements_def)
  ultimately show ?thesis unfolding implements_def by blast
qed

lemma implements_cleanup: "implements c m now \<Longrightarrow> u \<le> now \<Longrightarrow> implements (get_cleanup c k u) m now"
  by (rule implements_drop) (auto simp: get_cleanup_def expired_def split: option.splits)

lemma implements_sweep: "implements c m now \<Longrightarrow> u \<le> now \<Longrightarrow> Sweep (Some c) u = Some d \<Longrightarrow> implements d m now"
  by (rule implements_drop) (auto simp: Sweep_def expired_def split: option.splits if_splits)

lemma implements_store:
  "implements c m now \<Longrightarrow> Set (Some c) k v u = Some d \<Longrightarrow> implements d (m(k \<mapsto> (v, u + ca_ttl c))) now"
  by (auto simp: implements_def Set_def)

lemma step_ttl: "shared_step s a t \<Longrightarrow> ca_ttl (sh_cache t) = ca_ttl (sh_cache s)"
  by (induction rule: shared_step.induct)
    (auto simp: Set_def Sweep_def get_cleanup_def split: option.splits)

text \<open>Every step is a step of the specification.\<close>

lemma step_implements:
  assumes "shared_step s a t" and "implements (sh_cache s) m now" and "at_time a \<le> now"
  shows "implements (sh_cache t) (spec_step (ca_ttl (sh_cache s)) a m) now"
  using assms
  by (induction rule: shared_step.induct)
    (auto intro: implements_cleanup implements_sweep implements_store)

lemma run_implements:
  assumes "shared_run s as t" and "implements (sh_cache s) m now" and "\<forall>a \<in> set as. at_time a \<le> now"
  shows "implements (sh_cache t) (fold (spec_step (ca_ttl (sh_cache s))) as m) now \<and> ca_ttl (sh_cache t) = ca_ttl (sh_cache s)"
  using assms
proof (induction arbitrary: m rule: shared_run.induct)
  case (more s a t as u)
  from step_implements [OF more.hyps(1) more.prems(1)] more.prems(2)
  have "implements (sh_cache t) (spec_step (ca_ttl (sh_cache s)) a m) now" by simp
  from more.IH [OF this] more.prems(2) show ?case by (simp add: step_ttl [OF more.hyps(1)])
qed simp

text \<open>C18: Used by any number of threads, the cache is the map of the values stored last, each until its
  time to live has passed: whatever lookups, late deletions, stores and sweeps are interleaved, a
  lookup that is not earlier than they are answers what that map answers. In particular a deletion
  that was decided before a new value was stored does not take the new value away.
\<close>

theorem cache_refines_ledger:
  assumes "shared_run \<lparr>sh_cache = c, sh_waiting = []\<rparr> as s" and "New ttl = Some c"
    and "\<forall>a \<in> set as. at_time a \<le> now" and "shared_step s (Looked k now r) t"
  shows "r = spec_answer (fold (spec_step ttl) as Map.empty) k now"
proof -
  from assms(2) have c: "ca_ttl c = ttl" "implements c Map.empty now"
    by (auto simp: New_def implements_def split: if_splits)
  from run_implements [OF assms(1), of Map.empty now] assms(3) c
  have "implements (sh_cache s) (fold (spec_step ttl) as Map.empty) now" by simp
  moreover from assms(4) have "r = fst (get_read (sh_cache s) k now)" by (elim looked_step) simp
  ultimately show ?thesis by (simp add: implements_answer [OF _ order_refl])
qed


text \<open>A late deletion, decided at 7, runs after a new value was stored at 8.\<close>

definition late_actions :: "(int, int) action list" where
  "late_actions = [Stored 1 10 0, Looked 1 7 None, Stored 1 20 8, Cleaned 1 7]"

definition late_cache :: "(int, int) cache" where
  "late_cache = \<lparr>ca_ttl = 5, ca_items = [1 \<mapsto> \<lparr>en_value = 20, en_expires_at = 13\<rparr>]\<rparr>"

lemma late_run: "shared_run \<lparr>sh_cache = \<lparr>ca_ttl = 5, ca_items = Map.empty\<rparr>, sh_waiting = []\<rparr> late_actions
    \<lparr>sh_cache = late_cache, sh_waiting = []\<rparr>"
proof -
  let ?c1 = "\<lparr>ca_ttl = 5, ca_items = [1 \<mapsto> \<lparr>en_value = 10, en_expires_at = 5\<rparr>]\<rparr> :: (int, int) cache"
  have 1: "shared_step \<lparr>sh_cache = \<lparr>ca_ttl = 5, ca_items = Map.empty\<rparr>, sh_waiting = []\<rparr> (Stored 1 10 0) \<lparr>sh_cache = ?c1, sh_waiting = []\<rparr>"
    using stored [of "\<lparr>sh_cache = \<lparr>ca_ttl = 5, ca_items = Map.empty\<rparr>, sh_waiting = []\<rparr>" 1 10 0 ?c1] by (simp add: Set_def)
  have 2: "shared_step \<lparr>sh_cache = ?c1, sh_waiting = []\<rparr> (Looked 1 7 None) \<lparr>sh_cache = ?c1, sh_waiting = [(1, 7)]\<rparr>"
    using looked [of "\<lparr>sh_cache = ?c1, sh_waiting = []\<rparr>" 1 7 None True] by (simp add: get_read_def expired_def)
  have 3: "shared_step \<lparr>sh_cache = ?c1, sh_waiting = [(1, 7)]\<rparr> (Stored 1 20 8) \<lparr>sh_cache = late_cache, sh_waiting = [(1, 7)]\<rparr>"
    using stored [of "\<lparr>sh_cache = ?c1, sh_waiting = [(1, 7)]\<rparr>" 1 20 8 late_cache] by (simp add: Set_def late_cache_def)
  have 4: "shared_step \<lparr>sh_cache = late_cache, sh_waiting = [(1, 7)]\<rparr> (Cleaned 1 7) \<lparr>sh_cache = late_cache, sh_waiting = []\<rparr>"
    using cleaned [of "\<lparr>sh_cache = late_cache, sh_waiting = [(1, 7)]\<rparr>" "[]" 1 7 "[]"]
    by (simp add: get_cleanup_def late_cache_def expired_def)
  show ?thesis unfolding late_actions_def by (rule more [OF 1 more [OF 2 more [OF 3 more [OF 4 none]]]])
qed

theorem cache_refines_ledger_witness:
  "fst (Get (Some late_cache) 1 9) = Some 20 \<and>
   Some 20 = spec_answer (fold (spec_step 5) late_actions Map.empty) 1 9"
proof -
  have "shared_step \<lparr>sh_cache = late_cache, sh_waiting = []\<rparr> (Looked 1 9 (Some 20)) \<lparr>sh_cache = late_cache, sh_waiting = []\<rparr>"
    using looked [of "\<lparr>sh_cache = late_cache, sh_waiting = []\<rparr>" 1 9 "Some 20" False]
    by (simp add: get_read_def late_cache_def expired_def)
  from cache_refines_ledger [OF late_run _ _ this, of 5] show ?thesis
    by (simp add: New_def late_actions_def) (simp add: Get_def late_cache_def expired_def)
qed

end
