(* ===== verification/Transactions.thy ===== *)
theory Transactions
  imports EndToEnd OAuthProps
begin

text \<open>
  The flows that run in one transaction are all or nothing: when one of them reports an error, every
  table is as it was before. Only the identity counters, which the database does not roll back, may
  have moved.
\<close>

section \<open>Computations that undo what they did when they fail\<close>

context frame
begin

definition reverts :: "('s, 'a) go \<Rightarrow> bool" where
  "reverts m \<longleftrightarrow> (\<forall>s e t. m s = (Inl e, t) \<longrightarrow> R s t)"

lemma revertsD: "reverts m \<Longrightarrow> m s = (Inl e, t) \<Longrightarrow> R s t"
  by (simp add: reverts_def)

lemma reverts_framed: "framed R m \<Longrightarrow> reverts m"
  by (auto simp: reverts_def dest: framedD)

text \<open>Before the part that undoes itself, nothing may have been changed.\<close>

lemma reverts_attempt:
  assumes "framed R m" and "\<And>e. reverts (h e)" and "\<And>v. reverts (k v)"
  shows "reverts (attempt m h k)"
  unfolding reverts_def
proof (intro allI impI)
  fix s e t
  assume "attempt m h k s = (Inl e, t)"
  then show "R s t"
    unfolding attempt_Inv using framedD [OF assms(1)] revertsD [OF assms(2)] revertsD [OF assms(3)] by (blast intro: trans)
qed

lemma reverts_andthen: "framed R m \<Longrightarrow> (\<And>v. reverts (k v)) \<Longrightarrow> reverts (andthen m k)"
  unfolding andthen_is_attempt by (rule reverts_attempt) (auto intro: reverts_framed framed_fail)

lemma reverts_cases:
  "(b \<Longrightarrow> reverts m) \<Longrightarrow> (\<not> b \<Longrightarrow> reverts n) \<Longrightarrow> reverts (if b then m else n)"
  "(\<And>a b. p = (a, b) \<Longrightarrow> reverts (f a b)) \<Longrightarrow> reverts (case p of (a, b) \<Rightarrow> f a b)"
  "(\<And>a. a = v \<Longrightarrow> reverts (g a)) \<Longrightarrow> reverts (let a = v in g a)"
  by (auto split: prod.splits)

lemma reverts_done: "reverts (ret v)" "reverts (fail e)"
  by (intro reverts_framed framed_ret framed_fail)+

lemmas reverts_intros = reverts_cases reverts_done reverts_attempt reverts_andthen

end

definition same_tables :: "world \<Rightarrow> world \<Rightarrow> bool" where
  "same_tables w t \<longleftrightarrow> (wdb t)\<lparr>seqs := seqs (wdb w)\<rparr> = wdb w"

interpretation tables: frame same_tables
proof
  show "same_tables s s" for s by (simp add: same_tables_def)
  show "same_tables s u" if "same_tables s t" "same_tables t u" for s t u
    using that unfolding same_tables_def by (cases "wdb s", cases "wdb t", cases "wdb u") simp
qed

lemma tables_WithTx: "tables.reverts (WithTx x fn)"
  by (auto simp: tables.reverts_def same_tables_def WithTx_Inl_tables)

lemma tables_basics:
  "framed same_tables time_Now" "framed same_tables (extern c f)" "framed same_tables (query x n (\<lambda>now d. (g now d, d)))"
  by (auto simp: framed_def same_tables_def time_Now_def extern_def query_def Let_def split: option.splits)

lemma tables_reads:
  "framed same_tables (HashPassword x p)" "framed same_tables (NewToken x)" "framed same_tables (GetUserByEmail x email)"
  "framed same_tables (GetTotpConfigurationByUserID x i)" "framed same_tables (validateTOTPCode x secret code)"
  unfolding HashPassword_def NewToken_def GetUserByEmail_def GetTotpConfigurationByUserID_def validateTOTPCode_def rand_Read_def
  by (intro tables.framed_intros tables_basics)+

lemma tables_provider: "framed same_tables (ExchangeCode x c code v)" "framed same_tables (FetchProfile x c tok)"
  unfolding ExchangeCode_def FetchProfile_def http_Do_def
  by (intro tables.framed_intros tables_basics)+

lemma tables_if: "framed same_tables m \<Longrightarrow> framed same_tables n \<Longrightarrow> framed same_tables (if b then m else n)"
  by simp

lemma flows_revert:
  "tables.reverts (Register x s inp)" "tables.reverts (VerifyEmail x token)" "tables.reverts (ResetPassword x token password)"
  "tables.reverts (RecoverAccount x token password)" "tables.reverts (requestTokenEmail x email rq)"
  "tables.reverts (ConfirmTOTPSetup x s i code)" "tables.reverts (DisableTOTP x i)"
  unfolding Register_def VerifyEmail_def ResetPassword_def RecoverAccount_def requestTokenEmail_def ConfirmTOTPSetup_def DisableTOTP_def
  by (intro tables.reverts_intros tables_WithTx tables_reads tables.framed_lift)+

lemma oauth_reverts: "tables.reverts (CompleteOAuthAuthentication x s provider doc state code i)"
  unfolding CompleteOAuthAuthentication_def
  by (intro tables.reverts_intros tables_WithTx tables_provider tables_basics tables.framed_lift)


text \<open>The commit of a password reset is refused after all its statements ran.\<close>

definition no_commit :: ext where
  "no_commit = demo_ext\<lparr>x_dbfault := (\<lambda>l. if hd l = CDb ''COMMIT'' then Some ''connection lost'' else None)\<rparr>"

lemma no_commit_run: "fst (ResetPassword no_commit ''r'' ''correct horse'' demo_world) = Inl (ErrDb (Unavailable ''connection lost''))"
  by (simp add: no_commit_def ResetPassword_def HashPassword_def consume_or_fail_def HashToken_def trim_simps run_simps
      statement_simps demo_simps)


end
