(* ===== verification/CoverageFilter.thy ===== *)
theory CoverageFilter
  imports GoStrings
begin

text \<open>
  \<open>cmd/coveragefilter/main.go\<close>: the filter for coverage profiles. Opening the files, the writes and
  the final flush may fail; these outcomes are arguments.
\<close>

section \<open>The exclude flag\<close>

definition excludes_String :: "string list \<Rightarrow> string" where
  "excludes_String e = join '','' e"

definition excludes_Set :: "string list \<Rightarrow> string \<Rightarrow> string + string list" where
  "excludes_Set e v = (if trim_space v = '''' then Inl ''exclude value cannot be empty'' else Inr (e @ [v]))"

section \<open>Paths\<close>

text \<open>
  \<open>filepath.Clean\<close> on slash-separated paths: the components are pushed on a stack; empty ones and dots are
  left out, and a double dot takes the one before it away, or is dropped at the root.
\<close>

definition clean_step :: "bool \<Rightarrow> string list \<Rightarrow> string \<Rightarrow> string list" where
  "clean_step rooted stack c =
     (if c = '''' \<or> c = ''.'' then stack
      else if c = ''..'' then (if stack \<noteq> [] \<and> last stack \<noteq> ''..'' then butlast stack
        else if rooted then stack else stack @ [''..''])
      else stack @ [c])"

definition Clean :: "string \<Rightarrow> string" where
  "Clean path =
     (let rooted = (path \<noteq> '''' \<and> hd path = CHR ''/'');
          out = (if rooted then ''/'' else '''') @ join ''/'' (foldl (clean_step rooted) [] (split_on (CHR ''/'') path))
      in if out = '''' then ''.'' else out)"

definition openCoverageInput :: "(string \<Rightarrow> string + string) \<Rightarrow> string \<Rightarrow> string + string" where
  "openCoverageInput Open path = Open (Clean (trim_space path))"

definition createCoverageOutput :: "(string \<Rightarrow> string option) \<Rightarrow> string \<Rightarrow> string option" where
  "createCoverageOutput Create path = Create (Clean (trim_space path))"

section \<open>Filtering\<close>

definition shouldExclude :: "string \<Rightarrow> string list \<Rightarrow> bool" where
  "shouldExclude line patterns \<longleftrightarrow> list_ex (\<lambda>p. contains_str line p) patterns"

definition drop_cr :: "string \<Rightarrow> string" where
  "drop_cr s = (if s \<noteq> [] \<and> last s = CHR 0x0D then butlast s else s)"

definition max_token :: nat where
  "max_token = 65536"

text \<open>\<open>bufio.Scanner\<close> over lines: the text after the last line feed is a line unless it is empty; a
  line that does not fit the buffer stops it.\<close>

fun scan :: "string list \<Rightarrow> string list \<times> bool" where
  "scan [] = ([], True)"
| "scan (s # ss) =
     (if length s \<ge> max_token then ([], False)
      else if ss = [] \<and> s = [] then ([], True)
      else (case scan ss of (ls, ok) \<Rightarrow> (drop_cr s # ls, ok)))"

definition scan_lines :: "string \<Rightarrow> string list \<times> bool" where
  "scan_lines input = scan (split_on (CHR 0x0A) input)"

text \<open>The loop: the number of the line, and what has been written.\<close>

fun filter_lines :: "(nat \<Rightarrow> string option) \<Rightarrow> string list \<Rightarrow> nat \<Rightarrow> string list \<Rightarrow> string \<Rightarrow> string option \<times> string" where
  "filter_lines fault patterns n [] out = (None, out)"
| "filter_lines fault patterns n (line # lines) out =
     (if n = 1 then (case fault n of Some e \<Rightarrow> (Some (''write profile header: '' @ e), out)
        | None \<Rightarrow> filter_lines fault patterns (n + 1) lines (out @ line @ [CHR 0x0A]))
      else if shouldExclude line patterns then filter_lines fault patterns (n + 1) lines out
      else (case fault n of Some e \<Rightarrow> (Some (''write profile line: '' @ e), out)
        | None \<Rightarrow> filter_lines fault patterns (n + 1) lines (out @ line @ [CHR 0x0A])))"

text \<open>
  \<open>run\<close>: what opening a file reads, the outcome of creating one, the faults of the writes and
  of the flush; the error and what the output file received.
\<close>

definition filter_run ::
  "(string \<Rightarrow> string + string) \<Rightarrow> (string \<Rightarrow> string option) \<Rightarrow> (nat \<Rightarrow> string option) \<Rightarrow> string option \<Rightarrow>
     string \<Rightarrow> string \<Rightarrow> string list \<Rightarrow> string option \<times> string" where
  "filter_run Open Create fault flush inputPath outputPath patterns =
     (if trim_space inputPath = '''' then (Some ''-in is required'', '''')
      else if trim_space outputPath = '''' then (Some ''-out is required'', '''')
      else (case openCoverageInput Open inputPath of
          Inl e \<Rightarrow> (Some (''open input profile: '' @ e), '''')
        | Inr input \<Rightarrow> (case createCoverageOutput Create outputPath of
            Some e \<Rightarrow> (Some (''create output profile: '' @ e), '''')
          | None \<Rightarrow> (let (ls, ok) = scan_lines input; (err, out) = filter_lines fault patterns 1 ls '''' in
              case err of Some e \<Rightarrow> (Some e, out)
              | None \<Rightarrow> if \<not> ok then (Some ''read input profile: bufio.Scanner: token too long'', out)
                  else (case flush of Some e \<Rightarrow> (Some (''flush output profile: '' @ e), out) | None \<Rightarrow> (None, out))))))"

text \<open>
  \<open>main\<close>, from the flags as package \<open>flag\<close> splits them: a value that its flag refuses ends the program with
  status 2. The status, what is printed on standard error, and the output.
\<close>

fun parse_flags :: "(string \<times> string) list \<Rightarrow> string \<times> string \<times> string list \<Rightarrow> (string \<times> string \<times> string list) option" where
  "parse_flags [] r = Some r"
| "parse_flags ((name, v) # flags) (i, p, es) =
     (if name = ''in'' then parse_flags flags (v, p, es)
      else if name = ''out'' then parse_flags flags (i, v, es)
      else if name = ''exclude'' then (case excludes_Set es v of Inl e \<Rightarrow> None | Inr es \<Rightarrow> parse_flags flags (i, p, es))
      else None)"

definition filter_main ::
  "(string \<Rightarrow> string + string) \<Rightarrow> (string \<Rightarrow> string option) \<Rightarrow> (nat \<Rightarrow> string option) \<Rightarrow> string option \<Rightarrow>
     (string \<times> string) list \<Rightarrow> int \<times> string option \<times> string" where
  "filter_main Open Create fault flush flags = (case parse_flags flags ('''', '''', []) of
     None \<Rightarrow> (2, None, '''')
   | Some (i, p, patterns) \<Rightarrow> (case filter_run Open Create fault flush i p patterns of
       (Some e, out) \<Rightarrow> (1, Some e, out)
     | (None, out) \<Rightarrow> (0, None, out)))"

section \<open>What is kept\<close>

definition unlines :: "string list \<Rightarrow> string" where
  "unlines ls = concat (map (\<lambda>l. l @ [CHR 0x0A]) ls)"

definition kept :: "string list \<Rightarrow> string list \<Rightarrow> string list" where
  "kept patterns ls = (case ls of [] \<Rightarrow> [] | h # t \<Rightarrow> h # filter (\<lambda>l. \<not> shouldExclude l patterns) t)"

lemma filter_lines_rest:
  "n \<noteq> 1 \<Longrightarrow> n \<noteq> 0 \<Longrightarrow> \<forall>n. fault n = None \<Longrightarrow>
     filter_lines fault patterns n ls out = (None, out @ unlines (filter (\<lambda>l. \<not> shouldExclude l patterns) ls))"
  by (induction ls arbitrary: n out) (auto simp: unlines_def)

lemma filter_lines_kept:
  "\<forall>n. fault n = None \<Longrightarrow> filter_lines fault patterns 1 ls '''' = (None, unlines (kept patterns ls))"
  by (cases ls) (auto simp: kept_def unlines_def filter_lines_rest)

lemma split_unlines:
  "\<forall>l \<in> set ls. CHR 0x0A \<notin> set l \<Longrightarrow> split_on (CHR 0x0A) (unlines ls) = ls @ [[]]"
  by (induction ls) (auto simp: unlines_def split_on_append)

lemma scan_plain:
  "\<forall>l \<in> set ls. length l < max_token \<and> CHR 0x0D \<notin> set l \<Longrightarrow> scan (ls @ [[]]) = (ls, True)"
proof (induction ls)
  case (Cons a ls)
  then have "drop_cr a = a" by (auto simp: drop_cr_def dest: last_in_set)
  with Cons show ?case by (simp add: max_token_def)
qed (simp add: max_token_def)

lemma kept_subset: "set (kept patterns ls) \<subseteq> set ls"
  by (auto simp: kept_def split: list.splits)

lemma kept_idem: "kept patterns (kept patterns ls) = kept patterns ls"
  by (auto simp: kept_def split: list.splits)

lemma scan_lines_parts:
  assumes "scan_lines input = (ls, True)" and "CHR 0x0D \<notin> set input"
  shows "\<forall>l \<in> set ls. length l < max_token \<and> CHR 0x0D \<notin> set l \<and> CHR 0x0A \<notin> set l"
proof -
  have parts: "\<forall>l \<in> set ls. length l < max_token \<and> CHR 0x0D \<notin> set l \<and> CHR 0x0A \<notin> set l"
    if "scan ss = (ls, ok)" "\<forall>s \<in> set ss. CHR 0x0D \<notin> set s \<and> CHR 0x0A \<notin> set s" for ss ok
    using that by (induction ss arbitrary: ls ok) (auto simp: drop_cr_def split: if_splits prod.splits dest: in_set_butlastD)
  have clean: "\<forall>s \<in> set (split_on (CHR 0x0A) input). CHR 0x0D \<notin> set s \<and> CHR 0x0A \<notin> set s"
  proof
    fix s assume s: "s \<in> set (split_on (CHR 0x0A) input)"
    have "set (join [d] (split_on d t)) = set t" for d t by (simp add: join_split_on)
    moreover have "p \<in> set ps \<Longrightarrow> set p \<subseteq> set (join [d] ps)" for p ps and d :: char
      by (induction "[d]" ps rule: join.induct) auto
    ultimately have "set s \<subseteq> set input" using s by metis
    with assms(2) split_on_parts [OF s] show "CHR 0x0D \<notin> set s \<and> CHR 0x0A \<notin> set s" by (meson subsetD)
  qed
  from assms(1) have "scan (split_on (CHR 0x0A) input) = (ls, True)" by (simp only: scan_lines_def)
  then show ?thesis using clean by (rule parts)
qed

text \<open>Cleaning a path twice changes nothing: the components of a cleaned path are those that were kept.\<close>

definition clean_stack :: "bool \<Rightarrow> string list \<Rightarrow> bool" where
  "clean_stack rooted st \<longleftrightarrow> (\<forall>c \<in> set st. c \<noteq> [] \<and> c \<noteq> ''.'' \<and> CHR ''/'' \<notin> set c) \<and>
     (\<exists>n rest. st = replicate n ''..'' @ rest \<and> ''..'' \<notin> set rest \<and> (rooted \<longrightarrow> n = 0))"

lemma clean_step_stack:
  assumes "clean_stack rooted st" and "CHR ''/'' \<notin> set c"
  shows "clean_stack rooted (clean_step rooted st c)"
proof -
  from assms(1) obtain n rest where st: "st = replicate n ''..'' @ rest" "''..'' \<notin> set rest" "rooted \<longrightarrow> n = 0"
    and ok: "\<forall>c \<in> set st. c \<noteq> [] \<and> c \<noteq> ''.'' \<and> CHR ''/'' \<notin> set c" unfolding clean_stack_def by blast
  consider (pop) "c = ''..''" "st \<noteq> []" "last st \<noteq> ''..''" | (up) "c = ''..''" "st = [] \<or> last st = ''..''" | (other) "c \<noteq> ''..''"
    by blast
  then show ?thesis
  proof cases
    case pop
    then have "rest \<noteq> []" using st(1) by (cases rest) (auto simp: last_replicate)
    then have "butlast st = replicate n ''..'' @ butlast rest" using st(1) by (simp add: butlast_append)
    moreover have "''..'' \<notin> set (butlast rest)" using st(2) by (auto dest: in_set_butlastD)
    moreover have "\<forall>c \<in> set (butlast st). c \<noteq> [] \<and> c \<noteq> ''.'' \<and> CHR ''/'' \<notin> set c" using ok by (auto dest: in_set_butlastD)
    ultimately have "clean_stack rooted (butlast st)" using st(3) unfolding clean_stack_def by blast
    with pop show ?thesis by (simp add: clean_step_def)
  next
    case up
    then have "rest = []" using st by (cases rest rule: rev_cases) auto
    with st have "st @ [''..''] = replicate (Suc n) ''..'' @ []" by (simp add: replicate_append_same)
    then have "\<not> rooted \<Longrightarrow> clean_stack rooted (st @ [''..''])"
      using ok unfolding clean_stack_def by (intro conjI exI [of _ "Suc n"] exI [of _ "[]"]) auto
    with up assms(1) show ?thesis by (cases "st = []"; cases rooted) (simp_all add: clean_step_def)
  next
    case other
    have "\<exists>n rest. st @ [c] = replicate n ''..'' @ rest \<and> ''..'' \<notin> set rest \<and> (rooted \<longrightarrow> n = 0)"
      using st other by (intro exI [of _ n] exI [of _ "rest @ [c]"]) auto
    with other ok assms show ?thesis by (auto simp: clean_step_def clean_stack_def)
  qed
qed

lemma clean_fold_stack:
  "clean_stack rooted st \<Longrightarrow> \<forall>c \<in> set cs. CHR ''/'' \<notin> set c \<Longrightarrow> clean_stack rooted (foldl (clean_step rooted) st cs)"
  by (induction cs arbitrary: st) (auto intro: clean_step_stack)

lemma clean_fold_kept: "clean_stack rooted (st @ cs) \<Longrightarrow> foldl (clean_step rooted) st cs = st @ cs"
proof (induction cs arbitrary: st)
  case (Cons c cs)
  then obtain n rest where st: "st @ c # cs = replicate n ''..'' @ rest" "''..'' \<notin> set rest" "rooted \<longrightarrow> n = 0"
    and c: "c \<noteq> []" "c \<noteq> ''.''" by (auto simp: clean_stack_def)
  have "c = ''..'' \<Longrightarrow> \<not> rooted \<and> (st = [] \<or> last st = ''..'')"
  proof -
    assume dots: "c = ''..''"
    have len: "length st < n"
    proof (rule ccontr)
      assume "\<not> length st < n"
      then have "(st @ c # cs) ! length st \<in> set rest"
        unfolding st(1) using arg_cong [OF st(1), of length] by (auto simp: nth_append)
      with st(2) dots show False by simp
    qed
    then have "i < length st \<Longrightarrow> st ! i = ''..''" for i
      using arg_cong [OF st(1), of "\<lambda>xs. xs ! i"] by (simp add: nth_append split: if_splits)
    then have "st = [] \<or> last st = ''..''" by (metis last_conv_nth diff_less length_greater_0_conv zero_less_one)
    with len st(3) show ?thesis by auto
  qed
  then have "clean_step rooted st c = st @ [c]" using c by (auto simp: clean_step_def)
  with Cons.IH [of "st @ [c]"] Cons.prems show ?case by simp
qed simp

lemma clean_split:
  assumes "clean_stack rooted st" and "st \<noteq> []"
  shows "foldl (clean_step rooted) [] (split_on (CHR ''/'') (join ''/'' st)) = st"
proof -
  have "split_on (CHR ''/'') (join ''/'' st) = st"
    using assms by (intro split_on_join) (auto simp: clean_stack_def)
  with clean_fold_kept [of rooted "[]" st] assms(1) show ?thesis by simp
qed

theorem Clean_idem: "Clean (Clean path) = Clean path"
proof -
  define rooted where "rooted \<longleftrightarrow> path \<noteq> '''' \<and> hd path = CHR ''/''"
  define st where "st = foldl (clean_step rooted) [] (split_on (CHR ''/'') path)"
  have "clean_stack rooted []" by (auto simp: clean_stack_def)
  then have s: "clean_stack rooted st"
    unfolding st_def by (rule clean_fold_stack) (auto dest: split_on_parts)
  have eval: "Clean path = (let out = (if rooted then ''/'' else '''') @ join ''/'' st in if out = '''' then ''.'' else out)"
    by (simp only: Clean_def st_def rooted_def Let_def)
  show ?thesis
  proof (cases rooted)
    case True
    have "foldl (clean_step True) [] (split_on (CHR ''/'') (CHR ''/'' # join ''/'' st)) = st"
      using clean_split [of True st] s True by (cases "st = []") (auto simp: clean_step_def)
    with True show ?thesis unfolding eval by (simp add: Clean_def Let_def)
  next
    case False
    show ?thesis
    proof (cases st)
      case Nil
      with False show ?thesis unfolding eval by (simp add: Clean_def clean_step_def Let_def)
    next
      case (Cons c cs)
      with s False have "c \<noteq> []" "hd c \<noteq> CHR ''/''" by (auto simp: clean_stack_def dest: hd_in_set)
      then have "join ''/'' st \<noteq> []" "hd (join ''/'' st) \<noteq> CHR ''/''" using Cons by (cases cs; simp)+
      with False clean_split [of False st] s Cons show ?thesis unfolding eval by (simp add: Clean_def Let_def)
    qed
  qed
qed

lemma parse_excludes: "\<forall>q \<in> set qs. trim_space q \<noteq> '''' \<Longrightarrow> parse_flags (map (Pair ''exclude'') qs) (i, p, es) = Some (i, p, es @ qs)"
  by (induction qs arbitrary: es) (auto simp: excludes_Set_def)



end
