(* ===== verification/Dbtype.thy ===== *)
theory Dbtype
  imports GoValues Models
begin

text \<open>
  The values that are read from and written to columns. \<open>internal/store/dbtype/jsonb.go\<close>: the byte slice
  that a \<open>jsonb\<close> column is scanned into; \<^const>\<open>None\<close> is the nil slice. The check \<open>json.Valid\<close> is a parameter.
  \<open>models.go\<close> of \<open>internal/store/sqlc\<close>: the kinds of tokens, which are texts in the column.
\<close>

type_synonym raw_message = "string option"

datatype driver_value = DNil | DBytes string | DString string | DOther string

text \<open>Appending nothing to a nil slice leaves it nil.\<close>

definition overwrite :: "raw_message \<Rightarrow> string \<Rightarrow> raw_message" where
  "overwrite m v = (if v = [] \<and> m = None then None else Some v)"

fun Scan :: "raw_message \<Rightarrow> driver_value \<Rightarrow> string + raw_message" where
  "Scan m DNil = Inr None"
| "Scan m (DBytes v) = Inr (overwrite m v)"
| "Scan m (DString v) = Inr (overwrite m v)"
| "Scan m (DOther t) = Inl (''scan jsonb into RawMessage: unsupported type '' @ t)"

definition Value :: "raw_message \<Rightarrow> driver_value" where
  "Value m = (case m of None \<Rightarrow> DNil | Some v \<Rightarrow> DString v)"

definition MarshalJSON :: "raw_message \<Rightarrow> string" where
  "MarshalJSON m = (case m of None \<Rightarrow> ''null'' | Some v \<Rightarrow> v)"

definition UnmarshalJSON :: "(string \<Rightarrow> bool) \<Rightarrow> raw_message \<Rightarrow> string option \<Rightarrow> string + raw_message" where
  "UnmarshalJSON valid m data = (case data of
     None \<Rightarrow> Inr None
   | Some v \<Rightarrow> if \<not> valid v then Inl ''invalid json for RawMessage'' else Inr (overwrite m v))"

text \<open>
  What a message is stored as is read back as the message, whatever the receiver held before; an
  empty message that is not nil comes back only into a receiver that was not nil.
\<close>

theorem RawMessage_roundtrip:
  "Scan old (Value m) = Inr (if m = Some [] \<and> old = None then None else m)"
  by (auto simp: Value_def overwrite_def split: option.splits)

section \<open>Kinds of tokens\<close>

fun TokenKind_Scan :: "driver_value \<Rightarrow> string + string" where
  "TokenKind_Scan (DBytes s) = Inr s"
| "TokenKind_Scan (DString s) = Inr s"
| "TokenKind_Scan DNil = Inl ''unsupported scan type for TokenKind: <nil>''"
| "TokenKind_Scan (DOther t) = Inl (''unsupported scan type for TokenKind: '' @ t)"

record null_token_kind =
  nt_TokenKind :: string
  nt_Valid :: bool

text \<open>The error, if any, and what the receiver holds afterwards.\<close>

definition NullTokenKind_Scan :: "null_token_kind \<Rightarrow> driver_value \<Rightarrow> string option \<times> null_token_kind" where
  "NullTokenKind_Scan ns v =
     (if v = DNil then (None, ns\<lparr>nt_TokenKind := '''', nt_Valid := False\<rparr>)
      else (let ns = ns\<lparr>nt_Valid := True\<rparr> in
        case TokenKind_Scan v of Inl e \<Rightarrow> (Some e, ns) | Inr k \<Rightarrow> (None, ns\<lparr>nt_TokenKind := k\<rparr>)))"

definition NullTokenKind_Value :: "null_token_kind \<Rightarrow> driver_value" where
  "NullTokenKind_Value ns = (if \<not> nt_Valid ns then DNil else DString (nt_TokenKind ns))"

text \<open>
  The three kinds are told apart by their texts, and a nullable kind is read back as it was stored,
  whatever the receiver held before; a value that is not valid comes back without its text.
\<close>

theorem token_kind_columns:
  "TokenKind_Scan (DString (token_kind_text k)) = Inr (token_kind_text k) \<and>
   (token_kind_text k = token_kind_text k' \<longleftrightarrow> k = k') \<and>
   NullTokenKind_Scan old (NullTokenKind_Value ns) =
     (None, if nt_Valid ns then ns else \<lparr>nt_TokenKind = '''', nt_Valid = False\<rparr>)"
  by (cases k; cases k'; cases ns; cases old) (auto simp: NullTokenKind_Scan_def NullTokenKind_Value_def)

end
