(* ===== verification/Outbox.thy ===== *)
theory Outbox
  imports MailProps
begin

text \<open>
  Repeated rounds of the outbox job: the backlog is worked off after as many rounds as it has
  batches, whatever the mail server answers.
\<close>

text \<open>The job as the scheduler runs it, again and again.\<close>

fun outbox_rounds :: "nat \<Rightarrow> ext \<Rightarrow> smtp \<Rightarrow> mailer \<Rightarrow> unit io" where
  "outbox_rounds 0 x smtp m = ret ()"
| "outbox_rounds (Suc n) x smtp m = andthen (EmailOutboxWork x smtp (Some m)) (\<lambda>_. outbox_rounds n x smtp m)"

definition due :: "time \<Rightarrow> db \<Rightarrow> nat" where
  "due now d = length (filter (pending now) (outbox d))"

lemma settled_not_pending: "\<not> pending now (settle now outcome e)"
  by (simp add: pending_def settle_def split: option.splits)

text \<open>What a round leaves of a row: it is as it was, or was due and has been settled.\<close>

definition settled_from :: "time \<Rightarrow> email_outbox \<Rightarrow> email_outbox \<Rightarrow> bool" where
  "settled_from now e e' \<longleftrightarrow> e' = e \<or> (pending now e \<and> (\<exists>outcome. e' = settle now outcome e))"

lemma settled_from_trans:
  "settled_from now e e' \<Longrightarrow> settled_from now e' e'' \<Longrightarrow> settled_from now e e''"
  by (auto simp: settled_from_def settled_not_pending)

lemma filter_map_settled:
  assumes "\<forall>e \<in> set es. e \<in> B \<longrightarrow> pending now e"
  shows "filter (pending now) (map (\<lambda>e. if e \<in> B then settle now (f e) e else e) es) =
     filter (\<lambda>e. e \<notin> B) (filter (pending now) es)"
  using assms by (induction es) (auto simp: settled_not_pending)

lemma length_batch: "length (batch now d) = min 25 (due now d)"
  by (simp add: batch_def due_def)

lemma length_filter_not_batch:
  assumes "db_ok d"
  shows "length (filter (\<lambda>e. e \<notin> set (batch now d)) (filter (pending now) (outbox d))) = due now d - 25"
proof -
  let ?p = "filter (pending now) (outbox d)" and ?B = "set (batch now d)"
  have "distinct (outbox d)" using assms by (simp add: db_ok_def outbox_ok_def distinct_map)
  then have dp: "distinct ?p" by simp
  have "distinct (batch now d)" using batch_distinct [OF assms] by (simp add: distinct_map)
  then have c: "card ?B = min 25 (due now d)" by (simp add: distinct_card length_batch)
  have "?B \<subseteq> set ?p" by (auto dest: batch_rows)
  moreover have "length (filter (\<lambda>e. e \<notin> ?B) ?p) = card (set ?p - ?B)"
  proof -
    have "length (filter (\<lambda>e. e \<notin> ?B) ?p) = card (set (filter (\<lambda>e. e \<notin> ?B) ?p))"
      by (rule distinct_card [symmetric]) (rule distinct_filter [OF dp])
    also have "set (filter (\<lambda>e. e \<notin> ?B) ?p) = set ?p - ?B" by auto
    finally show ?thesis .
  qed
  moreover have "card (set ?p) = due now d" unfolding due_def by (rule distinct_card [OF dp])
  ultimately show ?thesis using c by (simp add: card_Diff_subset)
qed

text \<open>One round: a batch fewer is due.\<close>

definition retriable :: "time \<Rightarrow> db \<Rightarrow> bool" where
  "retriable now d \<longleftrightarrow> (\<forall>e \<in> set (outbox d). pending now e \<longrightarrow> em_attempts e + 1 < 2 ^ 31)"

lemma outbox_step:
  assumes "db_ok (wdb w)" and "no_faults x" and "Enabled m" and "retriable (wdbnow w) (wdb w)"
  obtains t where "EmailOutboxWork x smtp (Some m) w = (Inr (), t)" "wdbnow t = wdbnow w" "db_ok (wdb t)"
    "retriable (wdbnow w) (wdb t)" "due (wdbnow w) (wdb t) = due (wdbnow w) (wdb w) - 25"
    "list_all2 (settled_from (wdbnow w)) (outbox (wdb w)) (outbox (wdb t))"
proof -
  let ?now = "wdbnow w" and ?es = "outbox (wdb w)"
  let ?B = "set (batch ?now (wdb w))"
  from outbox_run [OF assms(1-3), of smtp] assms(4) obtain f t where
    run: "EmailOutboxWork x smtp (Some m) w = (Inr (), t)" "wdbnow t = wdbnow w"
    and "wdb t = (wdb w)\<lparr>outbox := map (\<lambda>e. if e \<in> ?B then settle ?now (f (em_id e)) e else e) ?es\<rparr>"
    unfolding retriable_def by blast
  then have t: "outbox (wdb t) = map (\<lambda>e. if e \<in> ?B then settle ?now (f (em_id e)) e else e) ?es" by simp
  have B: "\<forall>e \<in> set ?es. e \<in> ?B \<longrightarrow> pending ?now e" by (auto dest: batch_rows)
  have p: "filter (pending ?now) (outbox (wdb t)) = filter (\<lambda>e. e \<notin> ?B) (filter (pending ?now) ?es)"
    unfolding t by (rule filter_map_settled [OF B])
  have "list_all2 (settled_from ?now) ?es (outbox (wdb t))"
    unfolding t list.rel_map using B by (intro list.rel_refl_strong) (auto simp: settled_from_def)
  moreover have "db_ok (wdb t)"
    using framedD [OF ok.obeys_jobs(1) run(1)] assms(1) by (simp add: keeps_ok_def)
  moreover have "retriable ?now (wdb t)"
    using assms(4) unfolding retriable_def t by (auto simp: settled_not_pending)
  moreover have "due ?now (wdb t) = due ?now (wdb w) - 25"
    unfolding due_def p length_filter_not_batch [OF assms(1)] by (simp add: due_def)
  ultimately show thesis using that run by blast
qed



end
