(* ===== verification/Redemption.thy ===== *)
theory Redemption
  imports AccountProps EndToEnd
begin

text \<open>
  Concurrent transactions on the table of emailed tokens. The flows of \<open>service.go\<close> run on separate
  connections at PostgreSQL's default isolation: a statement sees the rows that were committed before
  it, \<open>NOW()\<close> is the start of the transaction, an UPDATE locks the rows it changes until the
  transaction ends, and waits for a row that another transaction has locked. Each flow is a script of
  statements; an event lets one transaction do its next step, and is disabled while it has to wait.
  Tokens are random and never drawn twice.
\<close>

section \<open>Transactions\<close>

datatype txn =
    Idle
  | RedeemBegun string token_kind time \<comment> \<open>hash, kind, \<open>NOW()\<close>\<close>
  | RedeemHolds int string token_kind time \<comment> \<open>the row that \<open>ConsumeUserToken\<close> returned\<close>
  | IssueBegun int token_kind string time time \<comment> \<open>user, kind, hash, expiry, \<open>NOW()\<close>\<close>
  | IssueExpired "int list" int token_kind string time time \<comment> \<open>the rows that \<open>ExpireUserTokens\<close> changed\<close>
  | IssueInserted "int list" user_token time
  | Over

record room =
  rm_rows :: "user_token list" \<comment> \<open>as committed\<close>
  rm_next :: int \<comment> \<open>the sequence of the ids\<close>
  rm_txns :: "nat \<Rightarrow> txn"
  rm_lock :: "int \<rightharpoonup> nat" \<comment> \<open>the transaction that holds a row\<close>
  rm_issued :: "string list"
  rm_spent :: "string list" \<comment> \<open>hashes redeemed by committed transactions\<close>

datatype event =
    BeginRedeem nat string token_kind time
  | Consume nat
  | BeginIssue nat int token_kind string time time
  | Expire nat "int list" \<comment> \<open>the rows in the snapshot of the statement\<close>
  | Create nat
  | Commit nat
  | Rollback nat
  | CleanTokens time

definition free_for :: "room \<Rightarrow> nat \<Rightarrow> int list \<Rightarrow> bool" where
  "free_for r i ids \<longleftrightarrow> (\<forall>n \<in> set ids. rm_lock r n = None \<or> rm_lock r n = Some i)"

definition lock_rows :: "nat \<Rightarrow> int list \<Rightarrow> (int \<rightharpoonup> nat) \<Rightarrow> int \<rightharpoonup> nat" where
  "lock_rows i ids l = (\<lambda>n. if n \<in> set ids then Some i else l n)"

definition release :: "nat \<Rightarrow> (int \<rightharpoonup> nat) \<Rightarrow> int \<rightharpoonup> nat" where
  "release i l = (\<lambda>n. if l n = Some i then None else l n)"

definition enter :: "nat \<Rightarrow> txn \<Rightarrow> room \<Rightarrow> room" where
  "enter i p r = r\<lparr>rm_txns := (rm_txns r)(i := p)\<rparr>"

definition over :: "nat \<Rightarrow> room \<Rightarrow> room" where
  "over i r = enter i Over (r\<lparr>rm_lock := release i (rm_lock r)\<rparr>)"

definition expirable :: "int \<Rightarrow> token_kind \<Rightarrow> time \<Rightarrow> user_token \<Rightarrow> bool" where
  "expirable u k now t \<longleftrightarrow> t_user_id t = u \<and> t_kind t = k \<and> t_used_at t = None \<and> now < t_expires_at t"

text \<open>The statements of a redeeming flow: \<open>ConsumeUserToken\<close>, and the end of the flow when it finds no row.\<close>

fun redeem_step :: "nat \<Rightarrow> txn \<Rightarrow> room \<Rightarrow> room option" where
  "redeem_step i (RedeemBegun h k now) r = (case find (live h k now) (rm_rows r) of
     None \<Rightarrow> Some (over i r)
   | Some t \<Rightarrow> if free_for r i [t_id t]
       then Some (enter i (RedeemHolds (t_id t) h k now) (r\<lparr>rm_lock := lock_rows i [t_id t] (rm_lock r)\<rparr>))
       else None)"
| "redeem_step i _ r = None"

text \<open>The statements of a token request: \<open>ExpireUserTokens\<close>, then \<open>CreateUserToken\<close>.\<close>

fun expire_step :: "nat \<Rightarrow> int list \<Rightarrow> txn \<Rightarrow> room \<Rightarrow> room option" where
  "expire_step i seen (IssueBegun u k h e now) r =
     (let ids = map t_id (filter (\<lambda>t. t_id t \<in> set seen \<and> expirable u k now t) (rm_rows r)) in
      if free_for r i ids
      then Some (enter i (IssueExpired ids u k h e now) (r\<lparr>rm_lock := lock_rows i ids (rm_lock r)\<rparr>)) else None)"
| "expire_step i seen _ r = None"

fun create_step :: "nat \<Rightarrow> txn \<Rightarrow> room \<Rightarrow> room option" where
  "create_step i (IssueExpired ids u k h e now) r =
     (if h \<in> set (rm_issued r) then Some (over i (r\<lparr>rm_next := rm_next r + 1\<rparr>))
      else Some (enter i (IssueInserted ids \<lparr>t_id = rm_next r, t_user_id = u, t_kind = k, t_hash = h, t_expires_at = e,
             t_used_at = None, t_created_at = now\<rparr> now)
           (r\<lparr>rm_next := rm_next r + 1, rm_issued := h # rm_issued r\<rparr>)))"
| "create_step i _ r = None"

text \<open>The commit makes the changes visible and releases the rows.\<close>

fun commit_step :: "nat \<Rightarrow> txn \<Rightarrow> room \<Rightarrow> room option" where
  "commit_step i (RedeemHolds n h k now) r = Some (over i
     (r\<lparr>rm_rows := update_rows (\<lambda>t. t_id t = n) (\<lambda>t. t\<lparr>t_used_at := Some now\<rparr>) (rm_rows r), rm_spent := h # rm_spent r\<rparr>))"
| "commit_step i (IssueInserted ids row now) r = Some (over i
     (r\<lparr>rm_rows := update_rows (\<lambda>t. t_id t \<in> set ids) (\<lambda>t. t\<lparr>t_expires_at := now\<rparr>) (rm_rows r) @ [row]\<rparr>))"
| "commit_step i _ r = None"

definition begin_step :: "nat \<Rightarrow> txn \<Rightarrow> room \<Rightarrow> room option" where
  "begin_step i p r = (if rm_txns r i = Idle then Some (enter i p r) else None)"

text \<open>The two deletions of the cleanup, each a transaction of its own; a locked row waits for a later run.\<close>

definition clean_rows :: "time \<Rightarrow> room \<Rightarrow> user_token list" where
  "clean_rows now r = filter (\<lambda>t. rm_lock r (t_id t) \<noteq> None \<or> (t_used_at t = None \<and> now \<le> t_expires_at t)) (rm_rows r)"

fun room_step :: "event \<Rightarrow> room \<Rightarrow> room option" where
  "room_step (BeginRedeem i h k now) r = begin_step i (RedeemBegun h k now) r"
| "room_step (Consume i) r = redeem_step i (rm_txns r i) r"
| "room_step (BeginIssue i u k h e now) r = begin_step i (IssueBegun u k h e now) r"
| "room_step (Expire i seen) r = expire_step i seen (rm_txns r i) r"
| "room_step (Create i) r = create_step i (rm_txns r i) r"
| "room_step (Commit i) r = commit_step i (rm_txns r i) r"
| "room_step (Rollback i) r = Some (over i r)"
| "room_step (CleanTokens now) r = Some (r\<lparr>rm_rows := clean_rows now r\<rparr>)"

fun room_run :: "event list \<Rightarrow> room \<Rightarrow> room option" where
  "room_run [] r = Some r"
| "room_run (e # es) r = Option.bind (room_step e r) (room_run es)"

definition open_room :: "user_token list \<Rightarrow> int \<Rightarrow> room" where
  "open_room ts n = \<lparr>rm_rows = ts, rm_next = n, rm_txns = (\<lambda>_. Idle), rm_lock = Map.empty,
     rm_issued = map t_hash ts, rm_spent = []\<rparr>"

text \<open>The rows that a transaction has locked.\<close>

fun held :: "txn \<Rightarrow> int set" where
  "held (RedeemHolds n h k now) = {n}"
| "held (IssueExpired ids u k h e now) = set ids"
| "held (IssueInserted ids row now) = set ids"
| "held _ = {}"

text \<open>The row that it has inserted and not committed.\<close>

fun inserted :: "txn \<Rightarrow> user_token option" where
  "inserted (IssueInserted ids row now) = Some row"
| "inserted _ = None"

text \<open>What one event does, as the cases of the proofs below.\<close>

lemma room_step_cases [consumes 1, case_names enters consumes leaves expires creates redeems issues cleans]:
  assumes "room_step e r = Some r'"
  obtains (enters) i p where "held p = {}" "\<And>n h k now. p \<noteq> RedeemHolds n h k now"
      "inserted p = None" "r' = enter i p r"
    | (consumes) i h k now t where "rm_txns r i = RedeemBegun h k now" "find (live h k now) (rm_rows r) = Some t"
      "free_for r i [t_id t]" "r' = enter i (RedeemHolds (t_id t) h k now) (r\<lparr>rm_lock := lock_rows i [t_id t] (rm_lock r)\<rparr>)"
    | (leaves) i n where "rm_next r \<le> n" "r' = over i (r\<lparr>rm_next := n\<rparr>)"
    | (expires) i u k h e now ids where "free_for r i ids"
      "r' = enter i (IssueExpired ids u k h e now) (r\<lparr>rm_lock := lock_rows i ids (rm_lock r)\<rparr>)"
    | (creates) i ids u k h e now where "rm_txns r i = IssueExpired ids u k h e now" "h \<notin> set (rm_issued r)"
      "r' = enter i (IssueInserted ids \<lparr>t_id = rm_next r, t_user_id = u, t_kind = k, t_hash = h, t_expires_at = e,
             t_used_at = None, t_created_at = now\<rparr> now) (r\<lparr>rm_next := rm_next r + 1, rm_issued := h # rm_issued r\<rparr>)"
    | (redeems) i n h k now where "rm_txns r i = RedeemHolds n h k now"
      "r' = over i (r\<lparr>rm_rows := update_rows (\<lambda>t. t_id t = n) (\<lambda>t. t\<lparr>t_used_at := Some now\<rparr>) (rm_rows r), rm_spent := h # rm_spent r\<rparr>)"
    | (issues) i ids row now where "rm_txns r i = IssueInserted ids row now"
      "r' = over i (r\<lparr>rm_rows := update_rows (\<lambda>t. t_id t \<in> set ids) (\<lambda>t. t\<lparr>t_expires_at := now\<rparr>) (rm_rows r) @ [row]\<rparr>)"
    | (cleans) now where "r' = r\<lparr>rm_rows := clean_rows now r\<rparr>"
proof (cases e)
  case (BeginRedeem i h k now)
  with assms enters [of "RedeemBegun h k now" i] show ?thesis by (simp add: begin_step_def split: if_splits)
next
  case (BeginIssue i u k h e now)
  with assms enters [of "IssueBegun u k h e now" i] show ?thesis by (simp add: begin_step_def split: if_splits)
next
  case (Consume i)
  with assms consumes leaves [of "rm_next r" i] show ?thesis
    by (cases "rm_txns r i") (auto split: option.splits if_splits)
next
  case (Expire i seen)
  with assms expires show ?thesis by (cases "rm_txns r i") (auto simp: Let_def split: if_splits)
next
  case (Create i)
  with assms creates leaves [of "rm_next r + 1" i] show ?thesis
    by (cases "rm_txns r i") (auto split: if_splits)
next
  case (Commit i)
  with assms redeems issues show ?thesis by (cases "rm_txns r i") auto
next
  case (Rollback i)
  with assms leaves [of "rm_next r" i] show ?thesis by simp
next
  case (CleanTokens now)
  with assms cleans [of now] show ?thesis by simp
qed

section \<open>What every interleaving keeps\<close>

definition locks_ok :: "room \<Rightarrow> bool" where
  "locks_ok r \<longleftrightarrow> (\<forall>i. \<forall>n \<in> held (rm_txns r i). rm_lock r n = Some i)"

definition rows_ok :: "room \<Rightarrow> bool" where
  "rows_ok r \<longleftrightarrow> distinct (map t_id (rm_rows r)) \<and> distinct (map t_hash (rm_rows r)) \<and>
     (\<forall>t \<in> set (rm_rows r). t_id t < rm_next r \<and> t_hash t \<in> set (rm_issued r))"

text \<open>The rows inserted by a transaction that has not committed are not in the way of any other.\<close>

definition pending_ok :: "room \<Rightarrow> bool" where
  "pending_ok r \<longleftrightarrow> (\<forall>i row. inserted (rm_txns r i) = Some row \<longrightarrow>
     t_id row < rm_next r \<and> t_hash row \<in> set (rm_issued r) \<and> t_hash row \<notin> set (rm_spent r) \<and>
     (\<forall>t \<in> set (rm_rows r). t_id t \<noteq> t_id row \<and> t_hash t \<noteq> t_hash row) \<and>
     (\<forall>j row'. inserted (rm_txns r j) = Some row' \<and> j \<noteq> i \<longrightarrow> t_id row' \<noteq> t_id row \<and> t_hash row' \<noteq> t_hash row))"

lemma pendingD:
  assumes "pending_ok r" and "inserted (rm_txns r i) = Some row"
  shows "t_id row < rm_next r" "t_hash row \<in> set (rm_issued r)" "t_hash row \<notin> set (rm_spent r)"
    "t \<in> set (rm_rows r) \<Longrightarrow> t_id t \<noteq> t_id row \<and> t_hash t \<noteq> t_hash row"
    "inserted (rm_txns r j) = Some row' \<Longrightarrow> j \<noteq> i \<Longrightarrow> t_id row' \<noteq> t_id row \<and> t_hash row' \<noteq> t_hash row"
  using assms unfolding pending_ok_def by blast+

text \<open>An event that only moves transactions without inserted rows keeps this.\<close>

lemma pending_mono:
  assumes "pending_ok r" and "\<And>i row. inserted (rm_txns r' i) = Some row \<Longrightarrow> inserted (rm_txns r i) = Some row"
    and "rm_next r \<le> rm_next r'" and "rm_issued r' = rm_issued r"
    and "\<And>i row. inserted (rm_txns r' i) = Some row \<Longrightarrow> t_hash row \<notin> set (rm_spent r')"
    and "\<And>i row t. inserted (rm_txns r' i) = Some row \<Longrightarrow> t \<in> set (rm_rows r') \<Longrightarrow> t_id t \<noteq> t_id row \<and> t_hash t \<noteq> t_hash row"
  shows "pending_ok r'"
  unfolding pending_ok_def using pendingD [OF assms(1)] assms(2-6) by (metis order_less_le_trans)

text \<open>A row that a transaction is about to redeem can still be redeemed.\<close>

definition holds_ok :: "room \<Rightarrow> bool" where
  "holds_ok r \<longleftrightarrow> (\<forall>i n h k now. rm_txns r i = RedeemHolds n h k now \<longrightarrow> (\<exists>t \<in> set (rm_rows r). t_id t = n \<and> live h k now t))"

lemma holdsD:
  "holds_ok r \<Longrightarrow> rm_txns r i = RedeemHolds n h k now \<Longrightarrow> \<exists>t \<in> set (rm_rows r). t_id t = n \<and> live h k now t"
  unfolding holds_ok_def by blast

definition spent_ok :: "room \<Rightarrow> bool" where
  "spent_ok r \<longleftrightarrow> distinct (rm_spent r) \<and> set (rm_spent r) \<subseteq> set (rm_issued r) \<and>
     (\<forall>t \<in> set (rm_rows r). t_hash t \<in> set (rm_spent r) \<longrightarrow> t_used_at t \<noteq> None)"

definition room_ok :: "room \<Rightarrow> bool" where
  "room_ok r \<longleftrightarrow> locks_ok r \<and> rows_ok r \<and> pending_ok r \<and> holds_ok r \<and> spent_ok r"

lemma room_simps [simp]:
  "rm_rows (enter i p r) = rm_rows r" "rm_next (enter i p r) = rm_next r" "rm_lock (enter i p r) = rm_lock r"
  "rm_issued (enter i p r) = rm_issued r" "rm_spent (enter i p r) = rm_spent r" "rm_txns (enter i p r) = (rm_txns r)(i := p)"
  "rm_rows (over i r) = rm_rows r" "rm_next (over i r) = rm_next r" "rm_lock (over i r) = release i (rm_lock r)"
  "rm_issued (over i r) = rm_issued r" "rm_spent (over i r) = rm_spent r" "rm_txns (over i r) = (rm_txns r)(i := Over)"
  by (simp_all add: over_def enter_def)

lemma locks_step:
  assumes "room_step e r = Some r'" and "locks_ok r"
  shows "locks_ok r'"
  using assms
  by (cases rule: room_step_cases)
    (auto simp: locks_ok_def lock_rows_def release_def free_for_def)

lemma rows_update_ok:
  assumes "rows_ok r" and "\<And>t. t_id (f t) = t_id t \<and> t_hash (f t) = t_hash t"
  shows "rows_ok (r\<lparr>rm_rows := update_rows p f (rm_rows r)\<rparr>)"
  using assms by (auto simp: rows_ok_def map_key_update set_update_rows)

lemma rows_step:
  assumes "room_step e r = Some r'" and "rows_ok r" and "pending_ok r"
  shows "rows_ok r'"
  using assms(1)
proof (cases rule: room_step_cases)
  case (leaves i n)
  with assms(2) show ?thesis by (fastforce simp: rows_ok_def)
next
  case (creates i ids u k h e now)
  with assms(2) show ?thesis by (fastforce simp: rows_ok_def)
next
  case (redeems i n h k now)
  then show ?thesis
    using rows_update_ok [OF assms(2), of "\<lambda>t. t\<lparr>t_used_at := Some now\<rparr>"] by (simp add: rows_ok_def)
next
  case (issues i ids row now)
  with assms(3) have "t_id row < rm_next r" "t_hash row \<in> set (rm_issued r)"
    "\<forall>t \<in> set (rm_rows r). t_id t \<noteq> t_id row \<and> t_hash t \<noteq> t_hash row"
    using pendingD [of r i row] by auto
  with issues(2) assms(2) show ?thesis
    by (auto simp: rows_ok_def map_key_update set_update_rows)
next
  case (cleans now)
  with assms(2) show ?thesis by (auto simp: rows_ok_def clean_rows_def distinct_map_filter_rows)
qed (use assms(2) in \<open>simp_all add: rows_ok_def\<close>)

lemma pending_quiet:
  assumes "pending_ok r" and "\<And>i row. inserted (rm_txns r' i) = Some row \<Longrightarrow> inserted (rm_txns r i) = Some row"
    and "rm_next r \<le> rm_next r'" and "rm_issued r' = rm_issued r" and "rm_spent r' = rm_spent r"
    and "set (rm_rows r') \<subseteq> set (rm_rows r)"
  shows "pending_ok r'"
proof (rule pending_mono [OF assms(1) assms(2,3,4)])
  fix i row
  assume "inserted (rm_txns r' i) = Some row"
  then have old: "inserted (rm_txns r i) = Some row" by (rule assms(2))
  from pendingD(3) [OF assms(1) old] assms(5) show "t_hash row \<notin> set (rm_spent r')" by simp
  show "t_id t \<noteq> t_id row \<and> t_hash t \<noteq> t_hash row" if "t \<in> set (rm_rows r')" for t
    using pendingD(4) [OF assms(1) old] assms(6) that by blast
qed

lemma pending_step:
  assumes "room_step e r = Some r'" and "rows_ok r" and "pending_ok r" and "spent_ok r" and "holds_ok r"
  shows "pending_ok r'"
  using assms(1)
proof (cases rule: room_step_cases)
  case (creates i ids u k h e now)
  have old: "\<forall>t \<in> set (rm_rows r). t_id t \<noteq> rm_next r \<and> t_hash t \<noteq> h" "h \<notin> set (rm_spent r)"
    using assms(2,4) creates(2) by (auto simp: rows_ok_def spent_ok_def)
  have others: "t_id row < rm_next r \<and> t_hash row \<noteq> h" if "inserted (rm_txns r j) = Some row" for j row
    using pendingD(1,2) [OF assms(3) that] creates(2) by blast
  show ?thesis
    unfolding creates(3) pending_ok_def room_simps
    by (intro allI impI) (use old others pendingD [OF assms(3)] in \<open>fastforce split: if_splits\<close>)
next
  case (redeems i n h k now)
  from holdsD [OF assms(5) redeems(1)] obtain t where t: "t \<in> set (rm_rows r)" "t_hash t = h" by (auto simp: live_def)
  show ?thesis
    by (rule pending_mono [OF assms(3)])
      (use pendingD(3,4) [OF assms(3)] t in \<open>fastforce simp: redeems(2) set_update_rows split: if_splits\<close>)+
next
  case (issues i ids row now)
  then have row: "inserted (rm_txns r i) = Some row" by simp
  show ?thesis
    by (rule pending_mono [OF assms(3)])
      (use pendingD(3,4) [OF assms(3)] pendingD(5) [OF assms(3) _ row] in \<open>fastforce simp: issues(2) set_update_rows split: if_splits\<close>)+
next
  case enters
  then show ?thesis by (intro pending_quiet [OF assms(3)]) (auto split: if_splits)
next
  case consumes
  then show ?thesis by (intro pending_quiet [OF assms(3)]) (auto split: if_splits)
next
  case leaves
  then show ?thesis by (intro pending_quiet [OF assms(3)]) (auto split: if_splits)
next
  case expires
  then show ?thesis by (intro pending_quiet [OF assms(3)]) (auto split: if_splits)
next
  case cleans
  then show ?thesis by (intro pending_quiet [OF assms(3)]) (auto simp: clean_rows_def)
qed

text \<open>Rows that another transaction has locked stay as they are.\<close>

lemma holds_rows:
  assumes "holds_ok r" and "\<And>i n h k now. rm_txns r' i = RedeemHolds n h k now \<Longrightarrow> rm_txns r i = RedeemHolds n h k now"
    and "\<And>i n h k now t. rm_txns r' i = RedeemHolds n h k now \<Longrightarrow> t \<in> set (rm_rows r) \<Longrightarrow> t_id t = n \<Longrightarrow> t \<in> set (rm_rows r')"
  shows "holds_ok r'"
  unfolding holds_ok_def
proof (intro allI impI)
  fix i n h k now
  assume a: "rm_txns r' i = RedeemHolds n h k now"
  from holdsD [OF assms(1) assms(2) [OF a]] obtain t where "t \<in> set (rm_rows r)" "t_id t = n" "live h k now t" by blast
  with assms(3) [OF a] show "\<exists>t \<in> set (rm_rows r'). t_id t = n \<and> live h k now t" by blast
qed

lemma locked:
  "locks_ok r \<Longrightarrow> rm_txns r i = RedeemHolds n h k now \<Longrightarrow> rm_lock r n = Some i"
  "locks_ok r \<Longrightarrow> rm_txns r i = IssueInserted ids row now \<Longrightarrow> n \<in> set ids \<Longrightarrow> rm_lock r n = Some i"
  unfolding locks_ok_def by force+

lemma in_update_rows: "t \<in> set rows \<Longrightarrow> \<not> p t \<Longrightarrow> t \<in> set (update_rows p f rows)"
  by (simp add: set_update_rows)

lemma holds_step:
  assumes "room_step e r = Some r'" and "locks_ok r" and "holds_ok r"
  shows "holds_ok r'"
  using assms(1)
proof (cases rule: room_step_cases)
  case (consumes i h k now t)
  then have "t \<in> set (rm_rows r)" "live h k now t" by (auto dest: find_SomeD)
  with holdsD [OF assms(3)] show ?thesis unfolding consumes(4) holds_ok_def by auto
next
  case (redeems i n h k now)
  show ?thesis
  proof (rule holds_rows [OF assms(3)])
    fix j n' h' k' now' t
    assume j: "rm_txns r' j = RedeemHolds n' h' k' now'" "t \<in> set (rm_rows r)" "t_id t = n'"
    then have "rm_txns r j = RedeemHolds n' h' k' now'" "j \<noteq> i" by (auto simp: redeems(2) split: if_splits)
    with locked(1) [OF assms(2) redeems(1)] locked(1) [OF assms(2), of j] have "n' \<noteq> n" by auto
    with j show "t \<in> set (rm_rows r')" by (simp add: redeems(2) in_update_rows)
  qed (simp add: redeems(2) split: if_splits)
next
  case (issues i ids row now)
  show ?thesis
  proof (rule holds_rows [OF assms(3)])
    fix j n' h' k' now' t
    assume j: "rm_txns r' j = RedeemHolds n' h' k' now'" "t \<in> set (rm_rows r)" "t_id t = n'"
    then have "rm_txns r j = RedeemHolds n' h' k' now'" "j \<noteq> i" by (auto simp: issues(2) split: if_splits)
    with locked(2) [OF assms(2) issues(1), of n'] locked(1) [OF assms(2), of j] have "n' \<notin> set ids" by auto
    with j show "t \<in> set (rm_rows r')" by (simp add: issues(2) in_update_rows)
  qed (simp add: issues(2) split: if_splits)
next
  case (cleans now)
  show ?thesis
    by (rule holds_rows [OF assms(3)]) (auto simp: cleans clean_rows_def dest: locked(1) [OF assms(2)])
next
  case (enters i p)
  show ?thesis
    by (rule holds_rows [OF assms(3)]) (use enters(2) in \<open>auto simp: enters(4) split: if_splits\<close>)
next
  case leaves
  then show ?thesis by (intro holds_rows [OF assms(3)]) (auto split: if_splits)
next
  case expires
  then show ?thesis by (intro holds_rows [OF assms(3)]) (auto split: if_splits)
next
  case creates
  then show ?thesis by (intro holds_rows [OF assms(3)]) (auto split: if_splits)
qed

lemma spent_step:
  assumes "room_step e r = Some r'" and "rows_ok r" and "pending_ok r" and "holds_ok r" and "spent_ok r"
  shows "spent_ok r'"
  using assms(1)
proof (cases rule: room_step_cases)
  case (redeems i n h k now)
  from holdsD [OF assms(4) redeems(1)] obtain t where t: "t \<in> set (rm_rows r)" "t_id t = n" "t_hash t = h" "t_used_at t = None"
    by (auto simp: live_def)
  from t(1) assms(2) have same: "s = t" if "s \<in> set (rm_rows r)" "t_hash s = h" for s
    using that t(3) by (auto simp: rows_ok_def distinct_map dest: inj_onD)
  have "h \<notin> set (rm_spent r)" "h \<in> set (rm_issued r)" using assms(2,5) t by (auto simp: spent_ok_def rows_ok_def)
  with assms(5) show ?thesis
    unfolding redeems(2) by (auto simp: spent_ok_def set_update_rows t(2) dest: same)
next
  case (issues i ids row now)
  then have "t_hash row \<notin> set (rm_spent r)" using pendingD(3) [OF assms(3), of i row] by simp
  with assms(5) show ?thesis unfolding issues(2) by (auto simp: spent_ok_def set_update_rows)
next
  case (cleans now)
  with assms(5) show ?thesis by (auto simp: spent_ok_def clean_rows_def)
qed (use assms(5) in \<open>auto simp: spent_ok_def\<close>)

lemma room_run_ok:
  "room_run es r = Some r' \<Longrightarrow> room_ok r \<Longrightarrow> room_ok r'"
proof (induction es arbitrary: r)
  case (Cons e es)
  then obtain u where u: "room_step e r = Some u" "room_run es u = Some r'" by (auto simp: bind_eq_Some_conv)
  from Cons.prems(2) have "room_ok u"
    using locks_step [OF u(1)] rows_step [OF u(1)] pending_step [OF u(1)] holds_step [OF u(1)] spent_step [OF u(1)]
    by (simp add: room_ok_def)
  with Cons.IH u(2) show ?case by blast
qed simp

lemma open_room_ok:
  "tokens_ok ids ts n \<Longrightarrow> room_ok (open_room ts n)"
  by (auto simp: tokens_ok_def room_ok_def open_room_def locks_ok_def rows_ok_def pending_ok_def holds_ok_def spent_ok_def)

lemma consume_rows_held:
  assumes "room_ok r" and "rm_txns r i = RedeemHolds n h k now"
  shows "\<exists>u. consume_rows h k now (rm_rows r) =
     (Inr u, update_rows (\<lambda>t. t_id t = n) (\<lambda>t. t\<lparr>t_used_at := Some now\<rparr>) (rm_rows r))"
proof -
  from assms(1) have ok: "rows_ok r" "holds_ok r" by (simp_all add: room_ok_def)
  from holdsD [OF ok(2) assms(2)] obtain t where t: "t \<in> set (rm_rows r)" "t_id t = n" "live h k now t" by blast
  from ok(1) have d: "distinct (map t_id (rm_rows r))" "hashes_unique (rm_rows r)" by (simp_all add: rows_ok_def)
  have only: "live h k now s \<longleftrightarrow> t_id s = n" if "s \<in> set (rm_rows r)" for s
    using live_unique [OF d(2) t(1) that t(3), of k now] d(1) t that by (auto simp: distinct_map dest: inj_onD)
  have "find (live h k now) (rm_rows r) \<noteq> None" using t by (auto simp: find_None_iff)
  moreover have "update_rows (live h k now) f (rm_rows r) = update_rows (\<lambda>t. t_id t = n) f (rm_rows r)" for f
    unfolding update_rows_def by (rule map_cong) (use only in auto)
  ultimately show ?thesis by (auto simp: consume_rows_def select_one_def)
qed

section \<open>Emailed tokens under concurrency\<close>

text \<open>C8: Emailed tokens are redeemed at most once even when any number of redeeming flows, token requests
  and cleanups run at the same time on the default isolation of the database: the hashes that committed
  transactions have redeemed are distinct, none of them can be redeemed any more, and a redemption that
  commits has the effect of \<open>ConsumeUserToken\<close> run alone at the moment of its commit.
\<close>

theorem redemptions_linearize:
  assumes "tokens_ok ids ts n" and "room_run es (open_room ts n) = Some r"
  shows "distinct (rm_spent r) \<and> (\<forall>h \<in> set (rm_spent r). \<forall>k now. redeemable (rm_rows r) h k now = None) \<and>
     (\<forall>i m h k now r'. rm_txns r i = RedeemHolds m h k now \<and> room_step (Commit i) r = Some r' \<longrightarrow>
        (\<exists>u. consume_rows h k now (rm_rows r) = (Inr u, rm_rows r')))"
proof -
  have ok: "room_ok r" by (rule room_run_ok [OF assms(2) open_room_ok [OF assms(1)]])
  then have s: "spent_ok r" by (simp add: room_ok_def)
  have "redeemable (rm_rows r) h k now = None" if "h \<in> set (rm_spent r)" for h k now
    using s that by (auto simp: redeemable_def spent_ok_def live_def find_None_iff)
  moreover have "\<exists>u. consume_rows h k now (rm_rows r) = (Inr u, rm_rows r')"
    if "rm_txns r i = RedeemHolds m h k now" "room_step (Commit i) r = Some r'" for i m h k now r'
    using consume_rows_held [OF ok that(1)] that by auto
  ultimately show ?thesis using s by (auto simp: spent_ok_def)
qed

definition shared_token :: user_token where
  "shared_token = \<lparr>t_id = 1, t_user_id = 1, t_kind = PasswordReset, t_hash = ''h'', t_expires_at = 100,
     t_used_at = None, t_created_at = 0\<rparr>"

text \<open>Two resets with the same token: the second has to wait for the first, and is refused.\<close>

definition two_resets :: "event list" where
  "two_resets = [BeginRedeem 0 ''h'' PasswordReset 5, BeginRedeem 1 ''h'' PasswordReset 6, Consume 0]"

theorem redemptions_linearize_witness:
  "room_run (two_resets @ [Consume 1]) (open_room [shared_token] 2) = None \<and>
   (\<exists>r. room_run (two_resets @ [Commit 0, Consume 1]) (open_room [shared_token] 2) = Some r \<and>
     rm_txns r 1 = Over \<and> rm_spent r = [''h''] \<and> redeemable (rm_rows r) ''h'' PasswordReset 7 = None)"
proof -
  let ?es = "two_resets @ [Commit 0, Consume 1]"
  note defs = two_resets_def open_room_def shared_token_def begin_step_def free_for_def lock_rows_def release_def
    enter_def over_def live_def update_rows_def
  have wait: "room_run (two_resets @ [Consume 1]) (open_room [shared_token] 2) = None" by (simp add: defs)
  obtain r where r: "room_run ?es (open_room [shared_token] 2) = Some r" "rm_txns r 1 = Over" "rm_spent r = [''h'']"
    by (simp add: defs)
  have "tokens_ok {1} [shared_token] 2" by (simp add: tokens_ok_def shared_token_def)
  from redemptions_linearize [OF this r(1)] r wait show ?thesis by auto
qed

text \<open>A request that runs alone has the effect of its two statements, as \<open>SqlcAuth\<close> states them.\<close>

lemma request_alone:
  assumes "no_faults x" and "tokens_ok (user_ids (wdb w)) (user_tokens (wdb w)) n" and "u \<in> user_ids (wdb w)"
    and "h \<notin> t_hash ` set (user_tokens (wdb w))" and "sq_tokens (seqs (wdb w)) = n"
  shows "\<exists>r t. room_run [BeginIssue 0 u k h e (wdbnow w), Expire 0 (map t_id (user_tokens (wdb w))), Create 0, Commit 0]
       (open_room (user_tokens (wdb w)) n) = Some r \<and>
     snd (andthen (ExpireUserTokens x u k) (\<lambda>_. CreateUserToken x u k h e) w) = t \<and> rm_rows r = user_tokens (wdb t)"
proof -
  let ?ts = "user_tokens (wdb w)" and ?now = "wdbnow w"
  let ?ids = "map t_id (filter (expirable u k ?now) ?ts)"
  have "distinct (map t_id ?ts)" using assms(2) by (simp add: tokens_ok_def)
  then have "t_id t \<in> set ?ids \<longleftrightarrow> expirable u k ?now t" if "t \<in> set ?ts" for t
    using that by (auto simp: distinct_map dest: inj_onD)
  then have "update_rows (\<lambda>t. t_id t \<in> set ?ids) (\<lambda>t. t\<lparr>t_expires_at := ?now\<rparr>) ?ts =
      update_rows (expirable u k ?now) (\<lambda>t. t\<lparr>t_expires_at := ?now\<rparr>) ?ts"
    unfolding update_rows_def by (intro map_cong) auto
  moreover have "filter (\<lambda>t. t_id t \<in> t_id ` set ?ts \<and> expirable u k ?now t) ?ts = filter (expirable u k ?now) ?ts"
    by (rule filter_cong) auto
  moreover have "expirable u k ?now = (\<lambda>t. t_user_id t = u \<and> t_kind t = k \<and> t_used_at t = None \<and> ?now < t_expires_at t)"
    by (rule ext) (simp add: expirable_def)
  moreover have "t_hash ` set (update_rows p (\<lambda>t. t\<lparr>t_expires_at := ?now\<rparr>) ?ts) = t_hash ` set ?ts" for p
    unfolding set_map [symmetric] by (subst map_key_update) simp_all
  ultimately show ?thesis
    using assms by (auto simp: open_room_def begin_step_def enter_def over_def free_for_def user_ids_def
        ExpireUserTokens_def CreateUserToken_def query_def no_faults_def andthen_def Let_def image_iff)
qed

text \<open>
  Token requests are not protected in the same way. Alone, a request leaves one live token of its kind;
  two that overlap leave two, because neither statement of one sees
  the row that the other has not committed.
\<close>

definition overlap :: "int \<Rightarrow> token_kind \<Rightarrow> string \<Rightarrow> string \<Rightarrow> time \<Rightarrow> time \<Rightarrow> event list" where
  "overlap u k h h' e now = [BeginIssue 0 u k h e now, BeginIssue 1 u k h' e now, Expire 0 [], Expire 1 [],
     Create 0, Create 1, Commit 0, Commit 1]"

lemma overlapping_requests_two_live:
  assumes "h \<noteq> h'" and "later < e"
  shows "\<exists>r. room_run (overlap u k h h' e now) (open_room [] 1) = Some r \<and>
     length (filter (\<lambda>t. t_user_id t = u \<and> live (t_hash t) k later t) (rm_rows r)) = 2"
  using assms
  by (simp add: overlap_def open_room_def begin_step_def enter_def over_def free_for_def lock_rows_def release_def
      update_rows_def live_def expirable_def)

end
