(* ===== verification/Guesses.thy ===== *)
theory Guesses
  imports Lockout EndToEnd
begin

text \<open>
  Wrong guesses that run at the same time. Each has passed the checks of \<open>LoginWithPassword\<close> on what it
  read before, and has two statements left, those of \<open>handleFailedLogin\<close>, which the database runs one at a
  time and in any order among the guesses; time passes in between.
\<close>

datatype guess = Wrong | Counted | Settled

definition guess_step :: "ext \<Rightarrow> service \<Rightarrow> int \<Rightarrow> guess \<Rightarrow> world \<Rightarrow> guess \<times> world" where
  "guess_step x s i g w = (case g of
     Wrong \<Rightarrow> (case RecordFailedLogin x (failure_window s) i w of
         (Inl e, t) \<Rightarrow> (Settled, t)
       | (Inr updated, t) \<Rightarrow>
           (if sec_failed_login_threshold (sv_security s) \<le> u_failed_login_count updated then Counted else Settled, t))
   | Counted \<Rightarrow> (case LockUserUntil x i (Some (wnow w + sec_failed_login_window (sv_security s)))
         (Some ''failed_login_attempts'') w of (r, t) \<Rightarrow> (Settled, t))
   | Settled \<Rightarrow> (Settled, w))"

text \<open>Alone, the two statements are \<open>handleFailedLogin\<close>.\<close>

lemma guess_alone:
  "(case guess_step x s (u_id u) Wrong w of (g, t) \<Rightarrow> snd (guess_step x s (u_id u) g t)) = snd (handleFailedLogin x s u w)"
  by (auto simp: guess_step_def handleFailedLogin_def failure_window_def Let_def andthen_def time_Now_def ret_def
      split: prod.splits sum.splits)

text \<open>A schedule: the turn of one guess, or time passing on both clocks.\<close>

datatype move = Turn nat | Pass duration

fun guess_move :: "ext \<Rightarrow> service \<Rightarrow> int \<Rightarrow> move \<Rightarrow> guess list \<times> world \<Rightarrow> guess list \<times> world" where
  "guess_move x s i (Turn k) (gs, w) =
     (if k < length gs then (case guess_step x s i (gs ! k) w of (g, t) \<Rightarrow> (gs[k := g], t)) else (gs, w))"
| "guess_move x s i (Pass d) (gs, w) = (gs, w\<lparr>wnow := wnow w + d, wdbnow := wdbnow w + d\<rparr>)"

definition guess_run :: "ext \<Rightarrow> service \<Rightarrow> int \<Rightarrow> move list \<Rightarrow> guess list \<times> world \<Rightarrow> guess list \<times> world" where
  "guess_run x s i ms c = foldl (\<lambda>c m. guess_move x s i m c) c ms"

fun passed :: "move \<Rightarrow> duration" where
  "passed (Turn k) = 0"
| "passed (Pass d) = d"

section \<open>The invariant\<close>

definition recorded :: "guess list \<Rightarrow> nat" where
  "recorded gs = length (filter (\<lambda>g. g \<noteq> Wrong) gs)"

text \<open>
  After \<open>n\<close> recorded guesses, \<open>e\<close> nanoseconds after the start at the instants \<open>now\<close> and \<open>dbnow\<close> of the two
  clocks: the count has reached \<open>n\<close>, the last failure is not older than the start, and once the count is at
  the threshold, either the account is locked or a guess is about to lock it.
\<close>

definition counts :: "service \<Rightarrow> int \<Rightarrow> int \<Rightarrow> time \<Rightarrow> time \<Rightarrow> guess list \<Rightarrow> user \<Rightarrow> bool" where
  "counts s i c0 now dbnow gs u \<longleftrightarrow> u_id u = i \<and>
     int (recorded gs) \<le> u_failed_login_count u \<and> u_failed_login_count u \<le> c0 + int (recorded gs) \<and>
     (0 < recorded gs \<longrightarrow> (\<exists>f \<ge> dbnow. u_last_failed_login_at u = Some f)) \<and>
     (0 < recorded gs \<and> sec_failed_login_threshold (sv_security s) \<le> int (recorded gs) \<longrightarrow>
        Counted \<in> set gs \<or> (\<exists>l \<ge> now + sec_failed_login_window (sv_security s). u_locked_until u = Some l))"

definition counting :: "service \<Rightarrow> string \<Rightarrow> int \<Rightarrow> int \<Rightarrow> time \<Rightarrow> time \<Rightarrow> duration \<Rightarrow> guess list \<Rightarrow> world \<Rightarrow> bool" where
  "counting s email i c0 now dbnow e gs w \<longleftrightarrow> db_ok (wdb w) \<and> 0 \<le> e \<and> wnow w = now + e \<and> wdbnow w = dbnow + e \<and>
     (\<exists>u. account_of email (wdb w) = Some u \<and> counts s i c0 now dbnow gs u)"

lemma recorded_update:
  "k < length gs \<Longrightarrow> g \<noteq> Wrong \<Longrightarrow> recorded (gs[k := g]) = (if gs ! k = Wrong then Suc (recorded gs) else recorded gs)"
proof (induction gs arbitrary: k)
  case (Cons a gs)
  then show ?case by (cases k) (auto simp: recorded_def)
qed (simp add: recorded_def)

lemma recorded_le: "recorded gs \<le> length gs"
  by (simp add: recorded_def)

lemma record_runs:
  assumes "no_faults x" and "db_ok (wdb w)" and "account_of email (wdb w) = Some u"
    and "next_failed_count (wdbnow w) (failure_window s) u < 2 ^ 31"
  obtains v t where "RecordFailedLogin x (failure_window s) (u_id u) w = (Inr v, t)" "db_ok (wdb t)"
    "wnow t = wnow w" "wdbnow t = wdbnow w" "account_of email (wdb t) = Some v"
    "u_id v = u_id u" "u_failed_login_count v = next_failed_count (wdbnow w) (failure_window s) u"
    "u_last_failed_login_at v = Some (wdbnow w)" "u_locked_until v = u_locked_until u"
proof -
  let ?c = "next_failed_count (wdbnow w) (failure_window s) u"
  let ?f = "\<lambda>u. u\<lparr>u_failed_login_count := next_failed_count (wdbnow w) (failure_window s) u, u_last_failed_login_at := Some (wdbnow w)\<rparr>"
  let ?t = "after ''RecordFailedLogin'' (update_user (u_id u) ?f (wdbnow w)) w"
  have "find (\<lambda>v. u_id v = u_id u) (users (wdb w)) = Some u"
    using account_user_at [OF assms(2,3)] by (simp add: user_at_def)
  then have run: "RecordFailedLogin x (failure_window s) (u_id u) w = (Inr ((?f u)\<lparr>u_updated_at := wdbnow w\<rparr>), ?t)"
    using assms(1,4) by (simp add: RecordFailedLogin_Inr)
  have "db_ok (wdb ?t)" using framedD [OF RecordFailedLogin_ok run] assms(2) by (simp add: keeps_ok_def)
  moreover have "account_of email (wdb ?t) = Some ((?f u)\<lparr>u_updated_at := wdbnow w\<rparr>)"
    using account_of_update [of ?f email "u_id u" "wdbnow w" "wdb w"] assms(3) by simp
  ultimately show thesis using that [OF run] by simp
qed

lemma lock_runs:
  assumes "no_faults x" and "db_ok (wdb w)" and "account_of email (wdb w) = Some u"
  obtains t where "LockUserUntil x (u_id u) l reason w = (Inr (), t)" "db_ok (wdb t)"
    "wnow t = wnow w" "wdbnow t = wdbnow w"
    "account_of email (wdb t) = Some (u\<lparr>u_locked_until := l, u_disabled_reason := reason, u_updated_at := wdbnow w\<rparr>)"
proof -
  let ?f = "\<lambda>u. u\<lparr>u_locked_until := l, u_disabled_reason := reason\<rparr>"
  let ?t = "after ''LockUserUntil'' (update_user (u_id u) ?f (wdbnow w)) w"
  have run: "LockUserUntil x (u_id u) l reason w = (Inr (), ?t)" using assms(1) by (simp add: user_writes_Inr)
  have "db_ok (wdb ?t)" using framedD [OF writes_users_ok(1) run] assms(2) by (simp add: keeps_ok_def)
  moreover have "account_of email (wdb ?t) = Some ((?f u)\<lparr>u_updated_at := wdbnow w\<rparr>)"
    using account_of_update [of ?f email "u_id u" "wdbnow w" "wdb w"] assms(3) by simp
  ultimately show thesis using that [OF run] by simp
qed

lemma set_update_other: "k < length gs \<Longrightarrow> gs ! k \<noteq> a \<Longrightarrow> a \<in> set gs \<Longrightarrow> a \<in> set (gs[k := b])"
  by (metis in_set_conv_nth length_list_update nth_list_update_neq)

lemma next_count_bounds:
  assumes "counts s i c0 now dbnow gs u" and "0 \<le> e" and "e \<le> failure_window s * second" and "t = dbnow + e"
  defines "c \<equiv> next_failed_count t (failure_window s) u"
  shows "int (Suc (recorded gs)) \<le> c \<and> c \<le> c0 + int (Suc (recorded gs))"
proof -
  have "c = u_failed_login_count u + 1 \<or> (recorded gs = 0 \<and> c = 1)"
  proof (cases "recorded gs = 0")
    case True
    then show ?thesis by (simp add: c_def next_failed_count_def split: option.split)
  next
    case False
    with assms(1) obtain a where "dbnow \<le> a" "u_last_failed_login_at u = Some a" by (auto simp: counts_def)
    with assms(2-4) show ?thesis using next_failed_count_recent [of u a t "failure_window s"] by (simp add: c_def)
  qed
  with assms(1) show ?thesis by (auto simp: counts_def)
qed

lemma counting_turn:
  assumes "no_faults x" and c: "counting s email i c0 now dbnow e gs w" and e: "e \<le> failure_window s * second"
    and bound: "c0 + int (length gs) < 2 ^ 31" and k: "k < length gs" and move: "guess_step x s i (gs ! k) w = (g, t)"
  shows "counting s email i c0 now dbnow e (gs[k := g]) t"
proof -
  let ?win = "sec_failed_login_window (sv_security s)" and ?thr = "sec_failed_login_threshold (sv_security s)"
  from c obtain u where u: "db_ok (wdb w)" "account_of email (wdb w) = Some u" and cu: "counts s i c0 now dbnow gs u"
    and clock: "0 \<le> e" "wnow w = now + e" "wdbnow w = dbnow + e"
    unfolding counting_def by blast
  from cu have n: "int (recorded gs) \<le> u_failed_login_count u" "u_failed_login_count u \<le> c0 + int (recorded gs)"
    and f: "0 < recorded gs \<Longrightarrow> \<exists>f \<ge> dbnow. u_last_failed_login_at u = Some f" and i: "u_id u = i"
    by (simp_all add: counts_def)
  show ?thesis
  proof (cases "gs ! k")
    case Wrong
    let ?c = "next_failed_count (wdbnow w) (failure_window s) u"
    have r: "recorded (gs[k := h]) = Suc (recorded gs)" if "h \<noteq> Wrong" for h using recorded_update [OF k that] Wrong by simp
    have lt: "Suc (recorded gs) \<le> length gs" using r [of Settled] recorded_le [of "gs[k := Settled]"] by simp
    from next_count_bounds [OF cu clock(1) e clock(3)]
    have cs: "int (Suc (recorded gs)) \<le> ?c" "?c \<le> c0 + int (Suc (recorded gs))" by simp_all    then have "?c < 2 ^ 31" using lt bound by linarith
    from record_runs [OF assms(1) u(1,2) this] obtain v t' where v: "RecordFailedLogin x (failure_window s) (u_id u) w = (Inr v, t')" "db_ok (wdb t')"
      "wnow t' = wnow w" "wdbnow t' = wdbnow w" "account_of email (wdb t') = Some v"
      "u_id v = u_id u" "u_failed_login_count v = ?c" "u_last_failed_login_at v = Some (wdbnow w)" by blast
    with move Wrong i have g: "g = (if ?thr \<le> ?c then Counted else Settled)" and t: "t = t'"
      by (auto simp: guess_step_def)
    then have "g \<noteq> Wrong" by simp
    from r [OF this] show ?thesis
      unfolding counting_def counts_def using v clock cs i k g by (auto simp: t set_update_memI)
  next
    case Counted
    from lock_runs [OF assms(1) u(1,2)] obtain t' where v: "LockUserUntil x (u_id u) (Some (wnow w + ?win)) (Some ''failed_login_attempts'') w = (Inr (), t')"
      "db_ok (wdb t')" "wnow t' = wnow w" "wdbnow t' = wdbnow w"
      "account_of email (wdb t') = Some (u\<lparr>u_locked_until := Some (wnow w + ?win), u_disabled_reason := Some ''failed_login_attempts'', u_updated_at := wdbnow w\<rparr>)"
      by blast
    with move Counted i have gt: "g = Settled" "t = t'" by (auto simp: guess_step_def)
    moreover have "recorded (gs[k := Settled]) = recorded gs" using recorded_update [OF k] Counted by simp
    ultimately show ?thesis unfolding counting_def counts_def using v clock n f i by auto
  next
    case Settled
    with move have "g = gs ! k" "t = w" by (auto simp: guess_step_def)
    with c show ?thesis by simp
  qed
qed

lemma counting_run:
  assumes "no_faults x" and "c0 + int (length gs) < 2 ^ 31" and "\<forall>m \<in> set ms. 0 \<le> passed m"
    and "e + sum_list (map passed ms) \<le> failure_window s * second" and "counting s email i c0 now dbnow e gs w"
    and "guess_run x s i ms (gs, w) = (gs', w')"
  shows "counting s email i c0 now dbnow (e + sum_list (map passed ms)) gs' w' \<and> length gs' = length gs"
  using assms(2-)
proof (induction ms arbitrary: e gs w)
  case Nil
  then show ?case by (simp add: guess_run_def)
next
  case (Cons m ms)
  obtain gs1 w1 where m: "guess_move x s i m (gs, w) = (gs1, w1)" by fastforce
  with Cons.prems(5) have run: "guess_run x s i ms (gs1, w1) = (gs', w')" by (simp add: guess_run_def)
  have "0 \<le> sum_list (map passed ms)" using Cons.prems(2) by (intro sum_list_nonneg) auto
  with Cons.prems(2,3) have e: "0 \<le> passed m" "e \<le> failure_window s * second" by auto
  have "counting s email i c0 now dbnow (e + passed m) gs1 w1 \<and> length gs1 = length gs"
  proof (cases m)
    case (Turn k)
    show ?thesis
    proof (cases "k < length gs")
      case True
      obtain g t where g: "guess_step x s i (gs ! k) w = (g, t)" by fastforce
      from counting_turn [OF assms(1) Cons.prems(4) e(2) Cons.prems(1) True g] m Turn True g
      show ?thesis by auto
    qed (use m Turn Cons.prems(4) in simp)
  next
    case (Pass d)
    with m Cons.prems(4) e(1) show ?thesis by (auto simp: counting_def)
  qed
  with Cons.IH [of gs1 "e + passed m" w1] Cons.prems run show ?case by (simp add: add.assoc)
qed

text \<open>C11: Wrong guesses cannot escape the lock by running at the same time: when at least as many as the
  threshold have passed the checks before any failure was recorded, then in whatever order the database
  runs their statements, once they are done all of them have been counted, the account is locked and
  no input logs in.
\<close>

theorem concurrent_guesses_lock:
  assumes "no_faults x" and "db_ok (wdb w)" and "account_of email (wdb w) = Some u"
    and "0 < n" and "sec_failed_login_threshold (sv_security s) \<le> int n" and "u_failed_login_count u + int n < 2 ^ 31"
    and "guess_run x s (u_id u) ms (replicate n Wrong, w) = (gs, t)" and "\<forall>g \<in> set gs. g = Settled"
    and "\<forall>m \<in> set ms. 0 \<le> passed m"
    and "sum_list (map passed ms) < min (sec_failed_login_window (sv_security s)) (failure_window s * second)"
    and "normalize x (li_email inp) = email"
  shows "(\<exists>v. account_of email (wdb t) = Some v \<and> int n \<le> u_failed_login_count v \<and> locked_at v (wnow t)) \<and>
     fst (LoginWithPassword x s inp t) \<noteq> Inr p"
proof -
  let ?e = "sum_list (map passed ms)"
  have "0 \<le> u_failed_login_count u"
    using assms(2,3) by (auto simp: account_of_def db_ok_def dest!: find_SomeD users_ok_bounds)
  then have "counting s email (u_id u) (u_failed_login_count u) (wnow w) (wdbnow w) 0 (replicate n Wrong) w"
    using assms(2,3) by (auto simp: counting_def counts_def recorded_def)
  from counting_run [OF assms(1) _ assms(9) _ this assms(7)] assms(6,10)
  have fin: "counting s email (u_id u) (u_failed_login_count u) (wnow w) (wdbnow w) ?e gs t" "length gs = n" by auto
  have "filter (\<lambda>g. g \<noteq> Wrong) gs = gs" by (rule filter_True) (use assms(8) in auto)
  with fin(2) have r: "recorded gs = n" by (simp add: recorded_def)
  from fin(1) obtain v where v: "account_of email (wdb t) = Some v" "wnow t = wnow w + ?e"
    and cv: "counts s (u_id u) (u_failed_login_count u) (wnow w) (wdbnow w) gs v" unfolding counting_def by blast
  have "Counted \<notin> set gs" using assms(8) by auto
  with cv r assms(4,5) obtain l where l: "wnow w + sec_failed_login_window (sv_security s) \<le> l" "u_locked_until v = Some l"
    "int n \<le> u_failed_login_count v" by (auto simp: counts_def)
  with v(2) assms(10) have "locked_at v (wnow t)" by (simp add: locked_at_def)
  with locked_no_login [of x inp t v s p] v(1) l(3) assms(11) show ?thesis by auto
qed

text \<open>Two guesses against a threshold of two, both past the checks when the first is recorded.\<close>

definition pair_service :: service where
  "pair_service = demo_service\<lparr>sv_cfg := demo_config\<lparr>cfg_security := (cfg_security demo_config)\<lparr>sec_failed_login_threshold := 2\<rparr>\<rparr>\<rparr>"

theorem concurrent_guesses_lock_witness:
  "\<forall>p. fst (LoginWithPassword demo_ext pair_service (wrong_login\<lparr>li_password := ''correct horse battery'', li_totp_code := ''123456''\<rparr>)
     (snd (guess_run demo_ext pair_service 1 [Turn 0, Pass 5, Turn 1, Turn 1] ([Wrong, Wrong], demo_world)))) \<noteq> Inr p"
proof -
  let ?ms = "[Turn 0, Pass 5, Turn 1, Turn 1]"
  have acc: "account_of ''ada@example'' (wdb demo_world) = Some demo_user" by (simp add: account_of_def demo_simps)
  obtain t where run: "guess_run demo_ext pair_service 1 ?ms ([Wrong, Wrong], demo_world) = ([Settled, Settled], t)"
    by (simp add: guess_run_def guess_step_def RecordFailedLogin_def LockUserUntil_def query_def select_one_def update_user_def
        update_rows_def next_failed_count_def failure_window_def trunc_div_def pair_service_def demo_service_def demo_config_def
        demo_simps initial_db_def)
  have "fst (LoginWithPassword demo_ext pair_service inp t) \<noteq> Inr p" if "normalize demo_ext (li_email inp) = ''ada@example''" for inp p
    using concurrent_guesses_lock [of demo_ext demo_world "''ada@example''" demo_user 2 pair_service ?ms "[Settled, Settled]" t inp p] that acc run
    by (simp add: no_faults_def demo_world_def demo_db_ok numeral_2_eq_2 demo_user_def pair_service_def demo_service_def
        demo_config_def failure_window_def trunc_div_def)
  then show ?thesis
    unfolding run snd_conv by (simp add: wrong_login_def normalize_def trim_simps to_lower_id)
qed

end
