(* ===== verification/MailHeaders.thy ===== *)
theory MailHeaders
  imports AuthSystem MailProps
begin

text \<open>
  The messages that leave the program: a reader of the message format finds in each of them exactly the
  five headers of \<open>buildMessage\<close> and the rendered body, whatever text an address or a payload contains.
\<close>

section \<open>A reader of messages\<close>

text \<open>The text before the first line break, and what follows it.\<close>

fun take_line :: "string \<Rightarrow> (string \<times> string) option" where
  "take_line (c # d # s) = (if [c, d] = crlf then Some ('''', s)
     else map_option (\<lambda>(l, rest). (c # l, rest)) (take_line (d # s)))"
| "take_line _ = None"

lemma take_line_shorter: "take_line s = Some (l, rest) \<Longrightarrow> length rest < length s"
  by (induction s arbitrary: l rule: take_line.induct) (auto split: if_splits)

text \<open>Header lines up to an empty line; the rest is the body.\<close>

function read_message :: "string \<Rightarrow> (string list \<times> string) option" where
  "read_message s = (case take_line s of
     None \<Rightarrow> None
   | Some (l, rest) \<Rightarrow> if l = '''' then Some ([], rest)
       else map_option (\<lambda>(ls, body). (l # ls, body)) (read_message rest))"
  by pat_completeness auto

termination
  by (relation "measure length") (auto dest: take_line_shorter)

declare read_message.simps [simp del]

definition one_line :: "string \<Rightarrow> bool" where
  "one_line s \<longleftrightarrow> CHR 0x0D \<notin> set s \<and> CHR 0x0A \<notin> set s"

lemma take_line_crlf: "one_line l \<Longrightarrow> take_line (l @ crlf @ s) = Some (l, s)"
proof (induction l)
  case Nil
  then show ?case by (simp add: crlf_def)
next
  case (Cons c l)
  obtain d t where d: "l @ crlf @ s = d # t" by (cases l) (auto simp: crlf_def)
  from Cons.prems have "[c, d] \<noteq> crlf" "one_line l" by (auto simp: one_line_def crlf_def)
  with Cons.IH d show ?case by simp
qed

lemma read_line:
  "one_line l \<Longrightarrow> l \<noteq> '''' \<Longrightarrow> read_message (l @ crlf @ s) = map_option (\<lambda>(ls, body). (l # ls, body)) (read_message s)"
  "read_message (crlf @ s) = Some ([], s)"
  using take_line_crlf [of l s] take_line_crlf [of "''''" s] by (simp_all add: read_message.simps [of "_ @ _"] one_line_def)

definition headers :: "string \<Rightarrow> string \<Rightarrow> string \<Rightarrow> string list" where
  "headers sender to subject = [''From: '' @ sender, ''To: '' @ to, ''Subject: '' @ subject, ''MIME-Version: 1.0'',
     ''Content-Type: text/plain; charset=utf-8'']"

lemma read_buildMessage:
  assumes "one_line sender" and "one_line to" and "one_line subject"
  shows "read_message (buildMessage sender to subject content) = Some (headers sender to subject, content)"
proof -
  have l: "one_line (''From: '' @ sender)" "one_line (''To: '' @ to)" "one_line (''Subject: '' @ subject)"
    "one_line ''MIME-Version: 1.0''" "one_line ''Content-Type: text/plain; charset=utf-8''"
    using assms by (simp_all add: one_line_def)
  have "buildMessage sender to subject content = (''From: '' @ sender) @ crlf @ (''To: '' @ to) @ crlf @
     (''Subject: '' @ subject) @ crlf @ ''MIME-Version: 1.0'' @ crlf @
     ''Content-Type: text/plain; charset=utf-8'' @ crlf @ crlf @ content"
    by (simp add: buildMessage_def)
  then show ?thesis
    by (simp only: read_line(1) [OF l(1)] read_line(1) [OF l(2)] read_line(1) [OF l(3)] read_line(1) [OF l(4)]
        read_line(1) [OF l(5)] read_line(2) headers_def list.distinct append_is_Nil_conv not_False_eq_True
        option.map prod.case simp_thms)
qed

section \<open>Subjects\<close>

definition plain_subjects :: "db \<Rightarrow> bool" where
  "plain_subjects d \<longleftrightarrow> (\<forall>e \<in> set (outbox d). em_subject e \<in> account_subjects)"

definition plain_le :: "db \<Rightarrow> db \<Rightarrow> bool" where
  "plain_le d e \<longleftrightarrow> (plain_subjects d \<longrightarrow> plain_subjects e)"

lemma plain_leI: "outbox e = outbox d \<Longrightarrow> plain_le d e"
  "outbox e = filter p (outbox d) \<Longrightarrow> plain_le d e"
  by (auto simp: plain_le_def plain_subjects_def)

interpretation plain_base: db_frame plain_le
  by unfold_locales (auto simp: plain_le_def plain_subjects_def)

lemma plain_statements:
  "plain_base.obeys (CreateUser x username email)" "plain_base.obeys (DisableInactiveUsers x before)"
  "plain_base.obeys (LockUserUntil x i until reason)" "plain_base.obeys (MarkUserEmailVerified x i)"
  "plain_base.obeys (ResetLoginFailures x i)" "plain_base.obeys (RestoreUserAccess x i)"
  "plain_base.obeys (TouchUserSeen x i)" "plain_base.obeys (UpdateUserLastLogin x i)"
  "plain_base.obeys (SetUserPasswordHash x i h)" "plain_base.obeys (IncrementUserAuthVersion x i)"
  "plain_base.obeys (RecordFailedLogin x window i)"
  "plain_base.obeys (GetUserByEmail x email)" "plain_base.obeys (GetUserByID x i)"
  "plain_base.obeys (GetUserWithPasswordByEmail x email)"
  "plain_base.obeys (ConsumeUserToken x hash kind)" "plain_base.obeys (CreateUserToken x i kind hash expires)"
  "plain_base.obeys (DeleteExpiredUserTokens x)" "plain_base.obeys (DeleteUsedUserTokens x)"
  "plain_base.obeys (ExpireUserTokens x i kind)" "plain_base.obeys (UseUserToken x i)" "plain_base.obeys (GetUserToken x hash kind)"
  "plain_base.obeys (AddUserRole x i r)" "plain_base.obeys (GetRoleByName x name)" "plain_base.obeys (ListUserRoleNames x i)"
  "plain_base.obeys (DeleteTotpConfigurationByUserID x i)" "plain_base.obeys (EnableTotpConfiguration x i)"
  "plain_base.obeys (GetTotpConfigurationByUserID x i)" "plain_base.obeys (UpsertTotpConfiguration x i ct nonce enabled)"
  "plain_base.obeys (GetOAuthAccountByProviderIdentity x p pid)" "plain_base.obeys (GetOAuthAccountByUserIDAndProvider x i p)"
  "plain_base.obeys (UpsertOAuthAccount x i p pid access refresh texp)"
  "plain_base.obeys (CreatePasskeyCredential x pk)" "plain_base.obeys (DeletePasskeyCredential x i uid)"
  "plain_base.obeys (ListPasskeyCredentialsByUserID x uid)" "plain_base.obeys (UpdatePasskeyCredential x pk)"
  unfolding statement_defs
  by (rule plain_base.obeys_query; rule plain_leI(1); auto simp: Let_def split: sum.splits option.splits)+

lemma plain_outbox:
  "plain_base.obeys (DeleteFailedEmailsBefore x b)" "plain_base.obeys (DeleteSentEmailsBefore x c)"
  "plain_base.obeys (ListPendingEmails x n)" "plain_base.obeys (MarkEmailFailed x error delay e)" "plain_base.obeys (MarkEmailSent x e)"
  "subject \<in> account_subjects \<Longrightarrow> plain_base.obeys (EnqueueEmail x template recipient subject payload available)"
  unfolding statement_defs
  by (rule plain_base.obeys_query; auto simp: Let_def plain_le_def plain_subjects_def set_update_rows)+

interpretation plain: sqlc_frame "\<lambda>w t. plain_le (wdb w) (wdb t)"
  by unfold_locales (rule plain_statements plain_outbox | assumption)+

interpretation plain: db_system plain_le
  by unfold_locales

section \<open>What is written to the server\<close>

lemma log_grows_new:
  assumes "log_grows w t" and "c \<in> set new" and "wlog t = new @ wlog w" and "log_grows w u" and "log_grows u t"
  obtains mid late where "wlog u = mid @ wlog w" "wlog t = late @ wlog u" "c \<in> set mid \<or> c \<in> set late"
proof -
  from assms(4,5) obtain mid late where ml: "wlog u = mid @ wlog w" "wlog t = late @ wlog u"
    by (auto simp: log_grows_def)
  with assms(3) have "new = late @ mid" by simp
  with assms(2) that ml show thesis by auto
qed

text \<open>A command that the first part cannot have sent was sent after the first part succeeded.\<close>

lemma sent_later:
  assumes "andthen m (\<lambda>_. k) w = (r, t)" and "wlog t = new @ wlog w" and "c \<in> set new"
    and "framed log_grows m" and "framed log_grows k"
    and "\<And>r u mid. m w = (r, u) \<Longrightarrow> wlog u = mid @ wlog w \<Longrightarrow> c \<notin> set mid"
  obtains u late where "m w = (Inr (), u)" "k u = (r, t)" "wlog t = late @ wlog u" "c \<in> set late"
proof -
  obtain r' u where m: "m w = (r', u)" by fastforce
  have wu: "log_grows w u" using framedD [OF assms(4) m] .
  have ut: "log_grows u t"
    using andthen_ends [OF assms(1) m] framedD [OF assms(5)] logs.refl by blast
  from log_grows_new [OF logs.trans [OF wu ut] assms(3,2) wu ut] obtain mid late
    where ml: "wlog u = mid @ wlog w" "wlog t = late @ wlog u" "c \<in> set mid \<or> c \<in> set late" by blast
  with assms(6) [OF m ml(1)] have late: "c \<in> set late" by blast
  then have "t \<noteq> u" using ml(2) by auto
  with andthen_ends [OF assms(1) m] have "r' = Inr ()" "k u = (r, t)" by auto
  with that m ml(2) late show thesis by blast
qed

lemma step_sends: "smtp_step smtp what cmd a w = (r, u) \<Longrightarrow> wlog u = mid @ wlog w \<Longrightarrow> mid = [CSmtp cmd a]"
  using smtp_step_effect by fastforce

lemma starttls_sends:
  "starttls smtp cfg w = (r, u) \<Longrightarrow> wlog u = mid @ wlog w \<Longrightarrow> CSmtp ''WRITE'' msg \<notin> set mid"
  by (auto simp: starttls_def smtp_step_def smtp_call_def attempt_def extern_def ret_def fail_def
      Cons_eq_append_conv split: if_splits option.splits)

lemma authenticate_sends:
  "authenticate smtp auth w = (r, u) \<Longrightarrow> wlog u = mid @ wlog w \<Longrightarrow> CSmtp ''WRITE'' msg \<notin> set mid"
  by (auto simp: authenticate_def ret_def split: option.splits dest: step_sends)

lemma logs_authenticate: "framed log_grows (authenticate smtp auth)"
  unfolding authenticate_def by (intro logs.framed_intros logs_smtp_step)

text \<open>From the world \<open>v\<close> on, the computation \<open>k\<close> ends in \<open>t\<close> and writes the message \<open>a\<close>.\<close>

definition writes :: "string \<Rightarrow> err + unit \<Rightarrow> world \<Rightarrow> unit io \<Rightarrow> world \<Rightarrow> bool" where
  "writes a r t k v \<longleftrightarrow> (\<exists>new. k v = (r, t) \<and> wlog t = new @ wlog v \<and> CSmtp ''WRITE'' a \<in> set new)"

lemma writes_after:
  assumes "writes a r t (andthen m (\<lambda>_. k)) v" and "framed log_grows m" and "framed log_grows k"
    and "\<And>q u mid. m v = (q, u) \<Longrightarrow> wlog u = mid @ wlog v \<Longrightarrow> CSmtp ''WRITE'' a \<notin> set mid"
  shows "\<exists>u. m v = (Inr (), u) \<and> writes a r t k u"
proof -
  from assms(1) obtain new where n: "andthen m (\<lambda>_. k) v = (r, t)" "wlog t = new @ wlog v" "CSmtp ''WRITE'' a \<in> set new"
    unfolding writes_def by blast
  from n assms(2,3,4) obtain u late where "m v = (Inr (), u)" "k u = (r, t)" "wlog t = late @ wlog u" "CSmtp ''WRITE'' a \<in> set late"
    by (rule sent_later)
  then show ?thesis unfolding writes_def by blast
qed

lemma writes_after_step:
  assumes "writes a r t (andthen (smtp_step smtp what cmd b) (\<lambda>_. k)) v" and "cmd \<noteq> ''WRITE'' \<or> a \<noteq> b" and "framed log_grows k"
  shows "\<exists>u. smtp (CSmtp cmd b # wlog v) cmd b = None \<and> writes a r t k u"
proof -
  have quiet: "CSmtp ''WRITE'' a \<notin> set mid" if "smtp_step smtp what cmd b v = (q, u)" "wlog u = mid @ wlog v" for q u mid
    using step_sends [OF that] assms(2) by auto
  from writes_after [OF assms(1) logs_smtp_step assms(3)] quiet obtain u where
    "smtp_step smtp what cmd b v = (Inr (), u)" "writes a r t k u" by blast
  with smtp_step_effect [OF this(1)] show ?thesis by blast
qed

text \<open>The message is written only after the server has taken both addresses.\<close>

lemma sendSMTP_written:
  assumes "writes a r t (sendSMTP smtp cfg address auth recipient msg) w"
  shows "a = msg \<and> (\<exists>l. smtp l ''MAIL'' (mailer_from cfg) = None) \<and> (\<exists>l. smtp l ''RCPT'' recipient = None)"
proof -
  note frames = logs_smtp_step logs_starttls logs_authenticate logs.framed_andthen
  let ?quit = "smtp_step smtp ''smtp quit'' ''QUIT'' ''''"
  let ?close = "andthen (smtp_step smtp ''smtp close data'' ''CLOSE'' '''') (\<lambda>_. ?quit)"
  let ?written = "andthen (smtp_step smtp ''smtp write'' ''WRITE'' msg) (\<lambda>_. ?close)"
  let ?data = "andthen (smtp_step smtp ''smtp data'' ''DATA'' '''') (\<lambda>_. ?written)"
  let ?rcpt = "andthen (smtp_step smtp ''smtp rcpt to'' ''RCPT'' recipient) (\<lambda>_. ?data)"
  let ?mail = "andthen (smtp_step smtp ''smtp mail from'' ''MAIL'' (mailer_from cfg)) (\<lambda>_. ?rcpt)"
  let ?auth = "andthen (authenticate smtp auth) (\<lambda>_. ?mail)"
  let ?tls = "andthen (starttls smtp cfg) (\<lambda>_. ?auth)"
  have fr: "framed log_grows ?rcpt" "framed log_grows ?data" "framed log_grows ?written" "framed log_grows ?close"
    "framed log_grows ?mail" "framed log_grows ?auth" "framed log_grows ?tls"
    "framed log_grows (andthen (smtp_step smtp ''create smtp client'' ''CLIENT'' (mailer_host cfg)) (\<lambda>_. ?tls))"
    by (intro frames)+
  from writes_after_step [OF assms [unfolded sendSMTP_def] _ fr(8)] obtain u1 where
    "writes a r t (andthen (smtp_step smtp ''create smtp client'' ''CLIENT'' (mailer_host cfg)) (\<lambda>_. ?tls)) u1" by auto
  from writes_after_step [OF this _ fr(7)] obtain u2 where "writes a r t ?tls u2" by auto
  from writes_after [OF this logs_starttls fr(6)] starttls_sends obtain u3 where "writes a r t ?auth u3" by blast
  from writes_after [OF this logs_authenticate fr(5)] authenticate_sends obtain u4 where "writes a r t ?mail u4" by blast
  from writes_after_step [OF this _ fr(1)] obtain u5 l1 where m: "smtp l1 ''MAIL'' (mailer_from cfg) = None" "writes a r t ?rcpt u5" by auto
  from writes_after_step [OF m(2) _ fr(2)] obtain u6 l2 where c: "smtp l2 ''RCPT'' recipient = None" "writes a r t ?data u6" by auto
  from writes_after_step [OF c(2) _ fr(3)] obtain u7 where w: "writes a r t ?written u7" by auto
  have "a = msg"
  proof (rule ccontr)
    assume "a \<noteq> msg"
    with writes_after_step [OF w _ fr(4)] obtain u8 where "writes a r t ?close u8" by auto
    from writes_after_step [OF this _ logs_smtp_step] obtain u9 where "writes a r t ?quit u9" by auto
    then show False by (auto simp: writes_def dest: step_sends)
  qed
  with m(1) c(1) show ?thesis by blast
qed

text \<open>What the documentation of \<open>net/smtp\<close> says of its two commands with an address.\<close>

definition refuses_breaks :: "smtp \<Rightarrow> bool" where
  "refuses_breaks smtp \<longleftrightarrow> (\<forall>l a. \<not> one_line a \<longrightarrow> smtp l ''MAIL'' a \<noteq> None \<and> smtp l ''RCPT'' a \<noteq> None)"

lemma refuses_breaksD:
  "refuses_breaks smtp \<Longrightarrow> smtp l ''MAIL'' a = None \<Longrightarrow> one_line a"
  "refuses_breaks smtp \<Longrightarrow> smtp l ''RCPT'' a = None \<Longrightarrow> one_line a"
  unfolding refuses_breaks_def by blast+

text \<open>C20: No text that a user or a provider supplied can forge a header: in every state the running system
  reaches, a message that the delivery of a queued email writes is read as the five headers of the
  program, with the configured sender, the recipient and one of its three subjects, followed by the
  rendered body. The SMTP client only has to refuse addresses with line breaks, as it documents.
\<close>

theorem written_message_headers:
  assumes "\<forall>n. passes (sy_chi y n)" and "reaches y s t" and "plain_subjects (wdb (wb_world s))"
    and "refuses_breaks smtp" and "e \<in> set (outbox (wdb (wb_world t)))"
    and "Send smtp m e w = (r, u)" and "wlog u = new @ wlog w" and "CSmtp ''WRITE'' msg \<in> set new"
  shows "\<exists>content. renderBody e = Inr content \<and> em_subject e \<in> account_subjects \<and>
     read_message msg = Some (headers (mailer_from (ml_cfg m)) (em_recipient e) (em_subject e), content)"
proof -
  have "plain_subjects (wdb (wb_world t))"
    using plain.reaches_keeps [OF assms(1,2)] assms(3) by (simp add: plain_le_def)
  with assms(5) have subject: "em_subject e \<in> account_subjects" by (simp add: plain_subjects_def)
  then have line: "one_line (em_subject e)" by (auto simp: account_subjects_def one_line_def)
  have "wlog u \<noteq> wlog w" using assms(7,8) by auto
  then obtain content address auth where c: "renderBody e = Inr content"
    and "sendSMTP smtp (ml_cfg m) address auth (em_recipient e)
      (buildMessage (mailer_from (ml_cfg m)) (em_recipient e) (em_subject e) content) w = (r, u)"
    using assms(6) by (cases "renderBody e") (auto simp: Send_def Let_def lift_def fail_def andthen_def split: if_splits)
  then have "writes msg r u (sendSMTP smtp (ml_cfg m) address auth (em_recipient e)
      (buildMessage (mailer_from (ml_cfg m)) (em_recipient e) (em_subject e) content)) w"
    using assms(7,8) by (auto simp: writes_def)
  note sent = sendSMTP_written [OF this]
  then have "one_line (mailer_from (ml_cfg m))" "one_line (em_recipient e)"
    using refuses_breaksD [OF assms(4)] by blast+
  with sent line c subject show ?thesis by (auto simp: read_buildMessage)
qed

text \<open>A delivery to a server that takes every address of one line.\<close>

definition strict_smtp :: smtp where
  "strict_smtp = (\<lambda>l cmd a. if one_line a \<or> cmd = ''WRITE'' then None else Some (ErrText ''line break''))"

definition hello_email :: email_outbox where
  "hello_email = demo_email\<lparr>em_subject := ''Reset your password''\<rparr>"

definition hello_message :: string where
  "hello_message = buildMessage ''noreply@example'' ''a@b'' ''Reset your password'' (''Template: verify'' @ newline @ newline)"

lemma hello_send:
  "Send strict_smtp plain_mailer hello_email w = (Inr (), w\<lparr>wlog := [CSmtp ''QUIT'' '''', CSmtp ''CLOSE'' '''',
     CSmtp ''WRITE'' hello_message, CSmtp ''DATA'' '''', CSmtp ''RCPT'' ''a@b'', CSmtp ''MAIL'' ''noreply@example'',
     CSmtp ''CLIENT'' ''mail'', CSmtp ''DIAL'' ''mail:25''] @ wlog w\<rparr>)"
  by (simp add: Send_def renderBody_def payload_keys_def hello_email_def demo_email_def plain_mailer_def New_mailer_def
      demo_config_def sendSMTP_def smtp_step_def smtp_call_def starttls_def authenticate_def run_simps show_25
      strict_smtp_def one_line_def hello_message_def)

theorem written_message_headers_witness:
  "\<exists>content. read_message hello_message = Some (headers ''noreply@example'' ''a@b'' ''Reset your password'', content)"
proof -
  let ?s = "(demo_web 1)\<lparr>wb_world := demo_world\<lparr>wdb := mail_db\<lparr>outbox := [hello_email]\<rparr>\<rparr>\<rparr>"
  have "\<exists>content. renderBody hello_email = Inr content \<and> em_subject hello_email \<in> account_subjects \<and>
     read_message hello_message = Some (headers (mailer_from (ml_cfg plain_mailer)) (em_recipient hello_email) (em_subject hello_email), content)"
  proof (rule written_message_headers [OF demo_passes reaches.start, of ?s])
    show "plain_subjects (wdb (wb_world ?s))"
      by (simp add: plain_subjects_def hello_email_def account_subjects_def)
    show "refuses_breaks strict_smtp" by (simp add: refuses_breaks_def strict_smtp_def)
    show "hello_email \<in> set (outbox (wdb (wb_world ?s)))" by simp
    show "Send strict_smtp plain_mailer hello_email demo_world = (Inr (), snd (Send strict_smtp plain_mailer hello_email demo_world))"
      by (simp add: hello_send)
    show "wlog (snd (Send strict_smtp plain_mailer hello_email demo_world)) = [CSmtp ''QUIT'' '''', CSmtp ''CLOSE'' '''',
        CSmtp ''WRITE'' hello_message, CSmtp ''DATA'' '''', CSmtp ''RCPT'' ''a@b'', CSmtp ''MAIL'' ''noreply@example'',
        CSmtp ''CLIENT'' ''mail'', CSmtp ''DIAL'' ''mail:25''] @ wlog demo_world"
      by (simp add: hello_send)
  qed simp
  then show ?thesis
    by (auto simp: plain_mailer_def New_mailer_def demo_config_def hello_email_def demo_email_def)
qed

end
