(* ===== verification/LoginLimit.thy ===== *)
theory LoginLimit
  imports WebProps MiddlewareProps
begin

text \<open>
  The login limit per client, through the layers that it depends on: \<open>realip.go\<close> replaces the address
  of the request by the client that the trusted proxies report, \<open>clientIP\<close> of \<open>handlers/auth.go\<close> reads
  it back, and \<open>enforceRateLimit\<close> of \<open>service.go\<close> names the bucket after it.
\<close>

section \<open>Printed addresses\<close>

lemma digits_of_no_zero: "0 < n \<Longrightarrow> hd (digits_of n) \<noteq> CHR ''0''"
proof (induction n rule: digits_of.induct)
  case (1 n)
  show ?case
  proof (cases "n < 10")
    case True
    then have "n \<in> set [0..<10]" by simp
    moreover have "\<forall>n \<in> set [0..<10]. 0 < n \<longrightarrow> hd (digits_of n) \<noteq> CHR ''0''" by code_simp
    ultimately show ?thesis using 1 by blast
  next
    case False
    with 1 show ?thesis by (simp add: digits_of.simps [of n])
  qed
qed

lemma octet_digits: "n < 256 \<Longrightarrow> octet (digits_of n) = Some n"
proof (cases "n = 0")
  case True
  then show ?thesis by (simp add: octet_def digits_of.simps is_digit_def)
next
  case False
  assume "n < 256"
  with False digits_of_no_zero [of n] show ?thesis by (simp add: octet_def digits_of_digits)
qed

lemma digits_chars: "c \<in> set (digits_of n) \<Longrightarrow> is_digit c"
  using digits_of_digits [of n] by (auto simp: list_all_iff)

lemma byte_drop:
  "unat (take_bit 8 (drop_bit i w)) = unat w div 2 ^ i mod 256" for w :: "32 word"
proof -
  have "unat (take_bit 8 (drop_bit i w)) = take_bit 8 (unat (drop_bit i w))" by (rule unsigned_take_bit_eq)
  also have "\<dots> = drop_bit i (unat w) mod 2 ^ 8" by (simp only: unat_drop_bit_eq take_bit_eq_mod)
  finally show ?thesis by (simp add: drop_bit_eq_div)
qed

lemma join_bytes:
  assumes "n < 2 ^ 32"
  shows "((n div 2 ^ 24 mod 256 * 256 + n div 2 ^ 16 mod 256) * 256 + n div 2 ^ 8 mod 256) * 256 + n div 2 ^ 0 mod 256 = (n :: nat)"
proof -
  have "n div 2 ^ 24 mod 256 = n div 256 div 256 div 256" using assms by (simp add: div_mult2_eq [symmetric])
  moreover have "n div 2 ^ 16 = n div 256 div 256" "n div 2 ^ 8 = n div 256" by (simp_all add: div_mult2_eq [symmetric])
  ultimately show ?thesis by simp
qed

text \<open>An IPv4 address is parsed back from its text.\<close>

theorem parse_string4: "ParseAddr (string4 w) = Some (V4 w)"
proof -
  define b where "b i = unat (take_bit 8 (drop_bit i w))" for i
  have b: "b i = unat w div 2 ^ i mod 256" for i by (simp only: b_def byte_drop)
  then have small: "b i < 256" for i by simp
  have "split_on (CHR ''.'') (string4 w) = map (\<lambda>i. digits_of (b i)) [24, 16, 8, 0]"
    unfolding string4_def b_def [symmetric] by (rule split_on_join) (auto dest: digits_chars simp: is_digit_def)
  with octet_digits [OF small]
  have "parseIPv4 (string4 w) = Some (of_nat (((b 24 * 256 + b 16) * 256 + b 8) * 256 + b 0))"
    by (simp add: parseIPv4_def)
  also have "((b 24 * 256 + b 16) * 256 + b 8) * 256 + b 0 = unat w"
    unfolding b by (rule join_bytes) (use unsigned_less [of w] in simp)
  finally have four: "parseIPv4 (string4 w) = Some w" by simp
  have "find (\<lambda>c. c \<in> {CHR ''.'', CHR '':'', CHR ''%''}) (digits_of n @ CHR ''.'' # s) = Some (CHR ''.'')" for n s
  proof -
    have "\<forall>c \<in> set ds. is_digit c \<Longrightarrow>
        find (\<lambda>c. c \<in> {CHR ''.'', CHR '':'', CHR ''%''}) (ds @ CHR ''.'' # s) = Some (CHR ''.'')" for ds
      by (induction ds) (auto simp: is_digit_def)
    with digits_chars show ?thesis by blast
  qed
  then have "find (\<lambda>c. c \<in> {CHR ''.'', CHR '':'', CHR ''%''}) (string4 w) = Some (CHR ''.'')"
    by (simp add: string4_def)
  with four show ?thesis by (simp add: ParseAddr_def)
qed

definition hex_char :: "char \<Rightarrow> bool" where
  "hex_char c \<longleftrightarrow> is_digit c \<or> c \<in> set ''abcdef''"

definition addr_char :: "char \<Rightarrow> bool" where
  "addr_char c \<longleftrightarrow> hex_char c \<or> c \<in> {CHR ''.'', CHR '':''}"

lemma join_chars: "c \<in> set (join d ps) \<Longrightarrow> c \<in> set d \<or> (\<exists>p \<in> set ps. c \<in> set p)"
  by (induction d ps rule: join.induct) auto

lemma hex_digit_char: "n < 16 \<Longrightarrow> hex_char (hex_digit n)"
proof -
  have "\<forall>n \<in> set [0..<16]. hex_char (hex_digit n)" by code_simp
  then show "n < 16 \<Longrightarrow> hex_char (hex_digit n)" by simp
qed

lemma hex_of_chars: "c \<in> set (hex_of n) \<Longrightarrow> hex_char c"
proof (induction n rule: hex_of.induct)
  case (1 n)
  then show ?case by (cases "n < 16") (auto simp: hex_of.simps [of n] hex_digit_char)
qed

lemma string4_chars: "c \<in> set (string4 w) \<Longrightarrow> addr_char c"
  by (auto simp: string4_def addr_char_def hex_char_def dest: digits_chars)

lemma string6_chars: "c \<in> set (string6 w []) \<Longrightarrow> addr_char c"
  by (auto simp: string6_def addr_char_def Let_def dest!: join_chars hex_of_chars split: option.splits dest: in_set_takeD in_set_dropD)

lemma addr_String_chars: "Zone a = [] \<Longrightarrow> c \<in> set (addr_String a) \<Longrightarrow> addr_char c"
  by (cases a) (auto simp: string4_chars addr_char_def hex_char_def dest!: string4_chars string6_chars split: if_splits)

lemma trim_addr: "Zone a = [] \<Longrightarrow> trim_space (addr_String a) = addr_String a"
proof (rule trim_space_id)
  assume a: "Zone a = []"
  from addr_String_chars [OF a] show "ascii (addr_String a)"
    by (force simp: ascii_def addr_char_def hex_char_def is_digit_def)
  from addr_String_chars [OF a] show "\<forall>c \<in> set (addr_String a). \<not> is_space (byte c)"
    by (force simp: is_space_def addr_char_def hex_char_def is_digit_def)
qed

section \<open>The client that the handler sees\<close>

lemma join_seps: "length ps \<le> Suc (count_list (join [d] ps) d)"
  by (induction "[d]" ps rule: join.induct) auto

lemma string6_colons: "2 \<le> count_list (string6 w z) (CHR '':'')"
proof (cases "zero_range (groups_of w)")
  case None
  have "8 \<le> Suc (count_list (join '':'' (map hex_of (groups_of w))) (CHR '':''))"
    using join_seps [of "map hex_of (groups_of w)" "CHR '':''"] by (simp add: groups_of_def)
  with None show ?thesis by (simp add: string6_def Let_def)
qed (auto simp: string6_def Let_def)

lemma SplitHostPort_colons:
  assumes "2 \<le> count_list s (CHR '':'')" and "hd s \<noteq> CHR ''[''"
  shows "SplitHostPort s = None"
proof -
  have c: "CHR '':'' \<in> set s" using assms(1) count_list_0_iff [of s "CHR '':''"] by force
  obtain front port where lc: "last_colon s = (front, port)" by fastforce
  with last_colon_app [OF c] have s: "front @ CHR '':'' # port = s" and "CHR '':'' \<notin> set port" by auto
  then have "count_list port (CHR '':'') = 0" by (simp add: count_list_0_iff)
  with arg_cong [OF s, of "\<lambda>s. count_list s (CHR '':'')"] assms(1) have "count_list front (CHR '':'') \<noteq> 0" by simp
  then have "CHR '':'' \<in> set front" by (simp add: count_list_0_iff)
  with c lc assms(2) show ?thesis by (simp add: SplitHostPort_def)
qed

lemma SplitHostPort_addr: "Zone a = [] \<Longrightarrow> SplitHostPort (addr_String a) = None"
proof -
  assume z: "Zone a = []"
  show ?thesis
  proof (cases "CHR '':'' \<in> set (addr_String a)")
    case False
    then show ?thesis by (simp add: SplitHostPort_def)
  next
    case True
    then have ne: "addr_String a \<noteq> []" by auto
    from addr_String_chars [OF z hd_in_set [OF ne]] have "hd (addr_String a) \<noteq> CHR ''[''"
      by (auto simp: addr_char_def hex_char_def is_digit_def)
    moreover have "CHR '':'' \<notin> set (string4 w)" for w
      by (auto simp: string4_def is_digit_def dest: digits_chars)
    with True have "2 \<le> count_list (addr_String a) (CHR '':'')"
      by (cases a) (auto simp: string6_colons)
    ultimately show ?thesis by (rule SplitHostPort_colons [rotated])
  qed
qed

lemma clientIP_addr: "Zone a = [] \<Longrightarrow> clientIP (rq\<lparr>rq_remote_addr := addr_String a\<rparr>) = addr_String a"
  by (simp add: clientIP_def trim_addr SplitHostPort_addr)


text \<open>
  The trusted proxies report the client \<open>a\<close>: the connection comes from one of them, the last hops are
  theirs, and the one before these is \<open>a\<close>; what stands in front is any list of addresses.
\<close>

definition forwarded :: "string list \<Rightarrow> request \<Rightarrow> addr \<Rightarrow> bool" where
  "forwarded trusted rq a \<longleftrightarrow>
     (let ps = newTrustedProxyMatcher trusted; header = Header_Get rq ''X-Forwarded-For'' in
      (\<exists>proxy. parseRemoteIP (rq_remote_addr rq) = Some proxy \<and> matcher_Contains ps proxy) \<and>
      trim_space header \<noteq> '''' \<and>
      (\<exists>front client hops. header = join '','' (front @ client # hops) \<and>
         (\<forall>p \<in> set (front @ client # hops). CHR '','' \<notin> set p) \<and> (\<forall>p \<in> set front. parseRemoteIP p \<noteq> None) \<and>
         parseRemoteIP client = Some a \<and> \<not> matcher_Contains ps a \<and> (\<forall>p \<in> set hops. trusted_hop ps p)))"

lemma forwardedI:
  assumes "parseRemoteIP (rq_remote_addr rq) = Some proxy" and "matcher_Contains (newTrustedProxyMatcher trusted) proxy"
    and "Header_Get rq ''X-Forwarded-For'' = join '','' (front @ client # hops)"
    and "trim_space (Header_Get rq ''X-Forwarded-For'') \<noteq> ''''"
    and "\<forall>p \<in> set (front @ client # hops). CHR '','' \<notin> set p" and "\<forall>p \<in> set front. parseRemoteIP p \<noteq> None"
    and "parseRemoteIP client = Some a" and "\<not> matcher_Contains (newTrustedProxyMatcher trusted) a"
    and "\<forall>p \<in> set hops. trusted_hop (newTrustedProxyMatcher trusted) p"
  shows "forwarded trusted rq a"
  unfolding forwarded_def Let_def using assms by blast

lemma RealIP_forwarded:
  assumes "forwarded trusted rq a"
  shows "RealIP trusted next rq = next (rq\<lparr>rq_remote_addr := addr_String a\<rparr>)"
proof -
  let ?ps = "newTrustedProxyMatcher trusted"
  from assms obtain proxy front client hops where p: "parseRemoteIP (rq_remote_addr rq) = Some proxy"
    "matcher_Contains ?ps proxy" and h: "Header_Get rq ''X-Forwarded-For'' = join '','' (front @ client # hops)"
    "trim_space (Header_Get rq ''X-Forwarded-For'') \<noteq> ''''"
    and parts: "\<forall>p \<in> set (front @ client # hops). CHR '','' \<notin> set p" "\<forall>p \<in> set front. parseRemoteIP p \<noteq> None"
      "parseRemoteIP client = Some a" "\<not> matcher_Contains ?ps a" "\<forall>p \<in> set hops. trusted_hop ?ps p"
    unfolding forwarded_def Let_def by blast
  from clientAddr_rightmost [OF _ parts] h
  have "clientAddrFromForwardedFor (Header_Get rq ''X-Forwarded-For'') ?ps = Some a" by simp
  with p show ?thesis by (simp add: RealIP_def real_remote_def)
qed

section \<open>The limit\<close>

lemma LoginWithPassword_agent:
  "LoginWithPassword x s \<lparr>li_email = e, li_password = p, li_totp_code = c, li_ip_address = ip, li_user_agent = ua\<rparr> =
   LoginWithPassword x s \<lparr>li_email = e, li_password = p, li_totp_code = c, li_ip_address = ip, li_user_agent = ua'\<rparr>"
  unfolding LoginWithPassword_def login_input.simps by (rule refl)

lemma DecodeAndValidate_body:
  assumes "rq_body rq = rq_body rq'"
  shows "DecodeAndValidate st p rq = DecodeAndValidate st p rq'"
  unfolding DecodeAndValidate_def DecodeJSON_def assms by (rule refl)

lemma LoginHandler_client:
  assumes "rq_body rq = rq_body rq'" and "clientIP rq = clientIP rq'"
  shows "LoginHandler st rq = LoginHandler st rq'"
proof -
  have body: "with_body st login_payload rq k = with_body st login_payload rq' k" for k
    unfolding with_body_def fun_eq_iff DecodeAndValidate_body [OF assms(1)] by simp
  show ?thesis
    unfolding LoginHandler_def assms(2) body
      LoginWithPassword_agent [where ua = "Header_Get rq ''User-Agent''" and ua' = "Header_Get rq' ''User-Agent''"] by (rule refl)
qed

text \<open>The answer of the limiter for the address, asked after the one for the email.\<close>

definition address_admitted :: "ext \<Rightarrow> service \<Rightarrow> string \<Rightarrow> string \<Rightarrow> call list \<Rightarrow> bool" where
  "address_admitted x s email ip l \<longleftrightarrow>
     (let b = login_bucket (wrap64 (sec_failed_login_threshold (sv_security s) * 4)) (sec_failed_login_window (sv_security s)) in
      case x_limiter x (CLimiter (login_ip_key ip) b # CLimiter (login_email_key email) (sv_limit s) # l) (login_ip_key ip) b of
        Inl _ \<Rightarrow> False | Inr d \<Rightarrow> dec_allowed d)"

lemma enforceRateLimit_address:
  "enforceRateLimit x s email ip w = (Inr v, t) \<Longrightarrow> ip \<noteq> '''' \<Longrightarrow> address_admitted x s email ip (wlog w)"
  by (auto simp: enforceRateLimit_def address_admitted_def go_inv Let_def split: if_splits)

lemma addr_String_nonempty: "addr_String a \<noteq> ''''"
proof (cases a)
  case (V6 w z)
  then show ?thesis using string6_colons [of w z] by auto
qed (simp add: string4_def)

lemma LoginWithPassword_address:
  "LoginWithPassword x s inp w = (Inr p, t) \<Longrightarrow> li_ip_address inp \<noteq> '''' \<Longrightarrow>
     address_admitted x s (normalize x (li_email inp)) (li_ip_address inp) (wlog w)"
  by (auto simp: LoginWithPassword_def Let_def andthen_Inr dest: enforceRateLimit_address)


section \<open>Witness\<close>

text \<open>The same login, once as sent and once with a forged address in front and through another proxy.\<close>

definition hop_request :: request where
  "hop_request = demo_login_request\<lparr>rq_remote_addr := ''10.0.0.1:4000'',
     rq_headers := [(''X-Forwarded-For'', ''5.6.7.8'')]\<rparr>"

definition forged_request :: request where
  "forged_request = demo_login_request\<lparr>rq_remote_addr := ''10.0.0.1:4000'',
     rq_headers := [(''X-Forwarded-For'', ''1.2.3.4,5.6.7.8,10.0.0.2''), (''User-Agent'', ''other'')]\<rparr>"

lemma demo_forwarded:
  "forwarded [''10.0.0.0/8''] hop_request (V4 0x05060708)" "forwarded [''10.0.0.0/8''] forged_request (V4 0x05060708)"
proof -
  show "forwarded [''10.0.0.0/8''] hop_request (V4 0x05060708)"
    by (rule forwardedI [where proxy = "V4 0x0A000001" and front = "[]" and client = "''5.6.7.8''" and hops = "[]"])
      (simp add: hop_request_def demo_addresses, simp add: demo_network demo_contains, simp add: hop_request_def first_of_def,
        simp add: hop_request_def first_of_def trim_simps, simp_all add: demo_addresses demo_network demo_contains)
  show "forwarded [''10.0.0.0/8''] forged_request (V4 0x05060708)"
    by (rule forwardedI [where proxy = "V4 0x0A000001" and front = "[''1.2.3.4'']" and client = "''5.6.7.8''" and hops = "[''10.0.0.2'']"])
      (simp add: forged_request_def demo_addresses, simp add: demo_network demo_contains, simp add: forged_request_def first_of_def,
        simp add: forged_request_def first_of_def trim_simps, simp_all add: demo_addresses demo_network demo_contains demo_hop)
qed
text \<open>
  Only the first line of the header is read: behind a proxy that reports the client in a line of its
  own, as \<open>option forwardfor\<close> of HAProxy does, a client that sends such a line itself chooses its
  address, whatever the proxy's line says.
\<close>

lemma later_lines_ignored:
  assumes "parseRemoteIP (rq_remote_addr rq) = Some proxy" and "matcher_Contains (newTrustedProxyMatcher trusted) proxy"
    and "rq_headers rq = (''X-Forwarded-For'', string4 v) # others" and "\<not> matcher_Contains (newTrustedProxyMatcher trusted) (V4 v)"
  shows "RealIP trusted next rq = next (rq\<lparr>rq_remote_addr := string4 v\<rparr>)"
proof -
  have trim: "trim_space (string4 v) = string4 v" using trim_addr [of "V4 v"] by simp
  have parse: "parseRemoteIP (string4 v) = Some (V4 v)"
    using SplitHostPort_addr [of "V4 v"] addr_String_nonempty [of "V4 v"]
    by (simp add: parseRemoteIP_def trim parse_string4)
  have "forwarded trusted rq (V4 v)"
  proof (rule forwardedI [where front = "[]" and client = "string4 v" and hops = "[]"])
    show "\<forall>p \<in> set ([] @ [string4 v]). CHR '','' \<notin> set p"
      by (auto simp: addr_char_def hex_char_def is_digit_def dest: string4_chars)
    show "trim_space (Header_Get rq ''X-Forwarded-For'') \<noteq> ''''"
      using addr_String_nonempty [of "V4 v"] by (simp add: assms(3) first_of_def trim)
  qed (use assms parse in \<open>simp_all add: first_of_def\<close>)
  from RealIP_forwarded [OF this] show ?thesis by simp
qed


end
