(* ===== verification/Bodies.thy ===== *)
theory Bodies
  imports Requests
begin

text \<open>
  The bodies that \<open>jsonio.DecodeJSON\<close> accepts, as types: which members a body may have, which values
  they may hold, and which value of the request type they stand for.
\<close>

section \<open>Types of bodies\<close>

datatype member_type = Text | Raw

type_synonym body_type = "(string \<times> member_type) list"

text \<open>The member of the type that a key names: its own name, or the first that differs from it in case only.\<close>

definition resolve :: "body_type \<Rightarrow> string \<Rightarrow> string option" where
  "resolve T k = (if k \<in> set (map fst T) then Some k else find (equal_fold k) (map fst T))"

definition member_fits :: "body_type \<Rightarrow> string \<times> json \<Rightarrow> bool" where
  "member_fits T = (\<lambda>(k, v). case Option.bind (resolve T k) (map_of T) of
     None \<Rightarrow> False | Some Raw \<Rightarrow> True | Some Text \<Rightarrow> (case v of JNull \<Rightarrow> True | JStr _ \<Rightarrow> True | _ \<Rightarrow> False))"

text \<open>The members of a well-typed body: at most a megabyte, one value, \<open>null\<close> or an object.\<close>

definition typed_members :: "site \<Rightarrow> body_type \<Rightarrow> request \<Rightarrow> (string \<times> json) list option" where
  "typed_members st T rq =
     (if max_body < length (rq_body rq) then None
      else (case si_json st (rq_body rq) of
          ([JNull], True) \<Rightarrow> Some []
        | ([JObj kvs], True) \<Rightarrow> if list_all (member_fits T) kvs then Some kvs else None
        | _ \<Rightarrow> None))"

text \<open>The value of a member: the last text given for it, and the last value.\<close>

definition text_at :: "body_type \<Rightarrow> (string \<times> json) list \<Rightarrow> string \<Rightarrow> string" where
  "text_at T kvs n = last ('''' # List.map_filter (\<lambda>(k, v). if resolve T k = Some n
     then (case v of JStr s \<Rightarrow> Some s | _ \<Rightarrow> None) else None) kvs)"

definition raw_at :: "body_type \<Rightarrow> (string \<times> json) list \<Rightarrow> string \<Rightarrow> json option" where
  "raw_at T kvs n = last (None # map (\<lambda>(k, v). Some v) (filter (\<lambda>(k, v). resolve T k = Some n) kvs))"

section \<open>Structs as types\<close>

datatype 'r slot = TextSlot "string \<Rightarrow> 'r \<Rightarrow> 'r" | RawSlot "json \<Rightarrow> 'r \<Rightarrow> 'r"

fun slot_field :: "'r slot \<Rightarrow> json \<Rightarrow> 'r \<Rightarrow> 'r option" where
  "slot_field (TextSlot put) = string_field put"
| "slot_field (RawSlot put) = raw_field put"

fun slot_type :: "'r slot \<Rightarrow> member_type" where
  "slot_type (TextSlot put) = Text"
| "slot_type (RawSlot put) = Raw"

fun slot_put :: "'r slot \<Rightarrow> json \<Rightarrow> 'r \<Rightarrow> 'r" where
  "slot_put (TextSlot put) (JStr s) r = put s r"
| "slot_put (TextSlot put) _ r = r"
| "slot_put (RawSlot put) v r = put v r"

type_synonym 'r layout = "(string \<times> 'r slot) list"

definition layout_fields :: "'r layout \<Rightarrow> 'r field list" where
  "layout_fields L = map (\<lambda>(n, s). (n, slot_field s)) L"

definition layout_type :: "'r layout \<Rightarrow> body_type" where
  "layout_type L = map (\<lambda>(n, s). (n, slot_type s)) L"

definition put_member :: "'r layout \<Rightarrow> 'r \<Rightarrow> string \<times> json \<Rightarrow> 'r" where
  "put_member L r = (\<lambda>(k, v). case Option.bind (resolve (layout_type L) k) (map_of L) of
     None \<Rightarrow> r | Some s \<Rightarrow> slot_put s v r)"

lemma layout_names: "map fst (layout_type L) = map fst L" "map fst (layout_fields L) = map fst L"
  by (auto simp: layout_type_def layout_fields_def)

lemma map_of_layout_type: "map_of (layout_type L) n = map_option slot_type (map_of L n)"
  by (induction L) (auto simp: layout_type_def)

lemma map_of_layout_fields: "map_of (layout_fields L) n = map_option slot_field (map_of L n)"
  by (induction L) (auto simp: layout_fields_def)

lemma find_fst_map_of: "find (\<lambda>f. fst f = k) fs = map_option (Pair k) (map_of fs k)"
  by (induction fs) auto

lemma find_fst: "distinct (map fst fs) \<Longrightarrow>
    find (\<lambda>f. P (fst f)) fs = (case find P (map fst fs) of None \<Rightarrow> None | Some n \<Rightarrow> map_option (Pair n) (map_of fs n))"
proof (induction fs)
  case (Cons f fs)
  then show ?case
    by (cases f) (auto split: option.splits dest!: find_SomeD simp: map_of_eq_None_iff)
qed simp

lemma field_for_layout:
  assumes "distinct (map fst L)"
  shows "field_for (layout_fields L) k = (case resolve (layout_type L) k of None \<Rightarrow> None
     | Some n \<Rightarrow> map_option (\<lambda>s. (n, slot_field s)) (map_of L n))"
proof (cases "k \<in> set (map fst L)")
  case True
  then obtain s where "map_of L k = Some s" by (metis map_of_eq_None_iff not_None_eq set_map)
  with True show ?thesis
    by (simp add: field_for_def resolve_def layout_names find_fst_map_of map_of_layout_fields)
next
  case False
  then have "map_of L k = None" by (simp add: map_of_eq_None_iff)
  with False find_fst [of "layout_fields L" "equal_fold k"] assms show ?thesis
    by (auto simp: field_for_def resolve_def layout_names find_fst_map_of map_of_layout_fields option.map_comp o_def
        split: option.splits)
qed

section \<open>Decoding is typing\<close>

lemma slot_field_fits:
  "slot_field s v r = (if slot_type s = Raw \<or> v = JNull \<or> (\<exists>t. v = JStr t) then Some (slot_put s v r) else None)"
  by (cases s; cases v) (auto simp: raw_field_def)

lemma member_fits_layout:
  "member_fits (layout_type L) (k, v) \<longleftrightarrow> (\<exists>n s. resolve (layout_type L) k = Some n \<and> map_of L n = Some s \<and>
     (slot_type s = Raw \<or> v = JNull \<or> (\<exists>t. v = JStr t)))"
  by (auto simp: member_fits_def map_of_layout_type bind_eq_Some_conv split: option.splits member_type.splits json.splits)

lemma resolve_layout: "resolve (layout_type L) k = Some n \<Longrightarrow> \<exists>s. map_of L n = Some s"
  unfolding resolve_def layout_names
  by (auto split: if_splits dest!: find_SomeD simp: map_of_eq_None_iff simp flip: not_None_eq)

lemma decode_layout:
  assumes "distinct (map fst L)"
  shows "decode_strict (layout_fields L) (JObj kvs) r =
     (if list_all (member_fits (layout_type L)) kvs then Some (foldl (put_member L) r kvs) else None)"
proof -
  let ?fs = "layout_fields L"
  have one: "(case field_for ?fs k of None \<Rightarrow> False | Some f \<Rightarrow> snd f v r \<noteq> None) = member_fits (layout_type L) (k, v)"
    "member_fits (layout_type L) (k, v) \<Longrightarrow> \<exists>f. field_for ?fs k = Some f \<and> snd f v r = Some (put_member L r (k, v))" for k v r
    by (auto simp: field_for_layout [OF assms] member_fits_layout slot_field_fits put_member_def
        split: option.splits if_splits dest: resolve_layout)
  have "(\<forall>(k, v) \<in> set kvs. field_for ?fs k \<noteq> None) \<Longrightarrow> decode_members ?fs kvs r =
     (if list_all (member_fits (layout_type L)) kvs then Some (foldl (put_member L) r kvs) else None)" for r
  proof (induction kvs arbitrary: r)
    case (Cons m kvs)
    obtain k v where m: "m = (k, v)" by fastforce
    show ?case
    proof (cases "member_fits (layout_type L) m")
      case True
      with one(2) [where k = k and v = v and r = r] Cons m show ?thesis by auto
    next
      case False
      with one(1) [where k = k and v = v and r = r] Cons.prems m show ?thesis by (auto split: option.splits)
    qed
  qed simp
  moreover have "list_all (member_fits (layout_type L)) kvs \<Longrightarrow> \<forall>(k, v) \<in> set kvs. field_for ?fs k \<noteq> None"
    using one(2) by (fastforce simp: list_all_iff)
  moreover have "decode_strict ?fs (JObj kvs) r =
      (if \<forall>(k, v) \<in> set kvs. field_for ?fs k \<noteq> None then decode_members ?fs kvs r else None)"
    by (auto simp: decode_strict_def)
  ultimately show ?thesis by presburger
qed

text \<open>What a getter reads after the members have been stored.\<close>

definition keeps_slot :: "('r \<Rightarrow> 'v) \<Rightarrow> 'r slot \<Rightarrow> bool" where
  "keeps_slot get s \<longleftrightarrow> (\<forall>v r. get (slot_put s v r) = get r)"

lemma keeps_slotI:
  "(\<And>t r. get (put t r) = get r) \<Longrightarrow> keeps_slot get (TextSlot put)"
  "(\<And>v r. get (rput v r) = get r) \<Longrightarrow> keeps_slot get (RawSlot rput)"
proof -
  assume p: "\<And>t r. get (put t r) = get r"
  have "get (slot_put (TextSlot put) v r) = get r" for v r by (cases v) (auto simp: p)
  then show "keeps_slot get (TextSlot put)" by (simp add: keeps_slot_def)
qed (simp add: keeps_slot_def)

lemma other_kept: "list_all (\<lambda>(m, s). m = n \<or> keeps_slot get s) L \<Longrightarrow> map_of L m = Some s \<Longrightarrow> m \<noteq> n \<Longrightarrow>
    get (slot_put s v r) = get r"
  by (auto simp: list_all_iff keeps_slot_def dest!: map_of_SomeD)

lemma text_at_layout:
  assumes "map_of L n = Some (TextSlot put)" and "\<And>s r. get (put s r) = s"
    and "list_all (\<lambda>(m, s). m = n \<or> keeps_slot get s) L" and "get r = ''''"
  shows "get (foldl (put_member L) r kvs) = text_at (layout_type L) kvs n"
proof -
  have "get (foldl (put_member L) r kvs) = last (get r # List.map_filter (\<lambda>(k, v). if resolve (layout_type L) k = Some n
     then (case v of JStr s \<Rightarrow> Some s | _ \<Rightarrow> None) else None) kvs)" for r
  proof (induction kvs arbitrary: r)
    case (Cons m kvs)
    obtain k v where m: "m = (k, v)" by fastforce
    have "get (put_member L r m) = (if resolve (layout_type L) k = Some n then (case v of JStr s \<Rightarrow> s | _ \<Rightarrow> get r) else get r)"
      using assms(1,2) other_kept [OF assms(3)] by (auto simp: m put_member_def bind_eq_Some_conv split: option.splits json.splits)
    with Cons.IH [of "put_member L r m"] show ?case
      by (auto simp: m map_filter_simps split: json.splits)
  qed (simp add: map_filter_simps)
  with assms(4) show ?thesis by (simp add: text_at_def)
qed

lemma raw_at_layout:
  assumes "map_of L n = Some (RawSlot put)" and "\<And>v r. get (put v r) = Some v"
    and "list_all (\<lambda>(m, s). m = n \<or> keeps_slot get s) L" and "get r = None"
  shows "get (foldl (put_member L) r kvs) = raw_at (layout_type L) kvs n"
proof -
  have "get (foldl (put_member L) r kvs) =
      last (get r # map (\<lambda>(k, v). Some v) (filter (\<lambda>(k, v). resolve (layout_type L) k = Some n) kvs))" for r
  proof (induction kvs arbitrary: r)
    case (Cons m kvs)
    obtain k v where m: "m = (k, v)" by fastforce
    have "get (put_member L r m) = (if resolve (layout_type L) k = Some n then Some v else get r)"
      using assms(1,2) other_kept [OF assms(3)] by (auto simp: m put_member_def bind_eq_Some_conv split: option.splits)
    with Cons.IH [of "put_member L r m"] show ?case by (auto simp: m)
  qed simp
  with assms(4) show ?thesis by (simp add: raw_at_def)
qed

lemma DecodeJSON_layout:
  assumes "pl_fields p = layout_fields L" and "distinct (map fst L)"
  shows "DecodeJSON st p rq = (case typed_members st (layout_type L) rq of
     None \<Rightarrow> Inl invalid_json | Some kvs \<Rightarrow> Inr (foldl (put_member L) (pl_zero p) kvs))"
proof (cases "typed_members st (layout_type L) rq")
  case None
  have "DecodeJSON st p rq \<noteq> Inr r" for r
    using None
    by (auto simp: DecodeJSON_Inr typed_members_def assms decode_layout split: json.splits if_splits)
      (auto simp: decode_strict_def split: json.splits)
  moreover have "DecodeJSON st p rq = Inl e \<Longrightarrow> e = invalid_json" for e
    by (auto simp: DecodeJSON_def split: prod.splits list.splits option.splits if_splits)
  ultimately show ?thesis using None by (cases "DecodeJSON st p rq") auto
next
  case (Some kvs)
  then show ?thesis
    by (auto simp: DecodeJSON_Inr typed_members_def assms decode_layout split: json.splits if_splits prod.splits list.splits bool.splits)
      (auto simp: decode_strict_def)
qed

section \<open>The requests\<close>

definition register_layout :: "registerRequest layout" where
  "register_layout = [(''username'', TextSlot (\<lambda>v r. r\<lparr>rr_username := v\<rparr>)), (''email'', TextSlot (\<lambda>v r. r\<lparr>rr_email := v\<rparr>)),
     (''password'', TextSlot (\<lambda>v r. r\<lparr>rr_password := v\<rparr>))]"

definition login_layout :: "loginRequest layout" where
  "login_layout = [(''email'', TextSlot (\<lambda>v r. r\<lparr>lr_email := v\<rparr>)), (''password'', TextSlot (\<lambda>v r. r\<lparr>lr_password := v\<rparr>)),
     (''totp_code'', TextSlot (\<lambda>v r. r\<lparr>lr_totp_code := v\<rparr>))]"

definition passkey_registration_layout :: "passkeyRegistrationRequest layout" where
  "passkey_registration_layout = [(''credential'', RawSlot (\<lambda>v r. r\<lparr>pr_credential := Some v\<rparr>)),
     (''name'', TextSlot (\<lambda>v r. r\<lparr>pr_name := v\<rparr>))]"

definition passkey_login_layout :: "passkeyLoginRequest layout" where
  "passkey_login_layout = [(''credential'', RawSlot (\<lambda>v r. r\<lparr>pl_credential := Some v\<rparr>))]"

definition email_layout :: "emailRequest layout" where
  "email_layout = [(''email'', TextSlot (\<lambda>v r. r\<lparr>er_email := v\<rparr>))]"

definition token_password_layout :: "tokenPasswordRequest layout" where
  "token_password_layout = [(''token'', TextSlot (\<lambda>v r. r\<lparr>tr_token := v\<rparr>)), (''password'', TextSlot (\<lambda>v r. r\<lparr>tr_password := v\<rparr>))]"

definition enable_totp_layout :: "enableTOTPRequest layout" where
  "enable_totp_layout = [(''code'', TextSlot (\<lambda>v r. r\<lparr>et_code := v\<rparr>))]"

lemmas layout_defs = register_layout_def login_layout_def passkey_registration_layout_def passkey_login_layout_def
  email_layout_def token_password_layout_def enable_totp_layout_def

lemma layouts [simp]:
  "pl_fields register_payload = layout_fields register_layout" "distinct (map fst register_layout)"
  "pl_fields login_payload = layout_fields login_layout" "distinct (map fst login_layout)"
  "pl_fields passkey_registration_payload = layout_fields passkey_registration_layout" "distinct (map fst passkey_registration_layout)"
  "pl_fields passkey_login_payload = layout_fields passkey_login_layout" "distinct (map fst passkey_login_layout)"
  "pl_fields email_payload = layout_fields email_layout" "distinct (map fst email_layout)"
  "pl_fields token_password_payload = layout_fields token_password_layout" "distinct (map fst token_password_layout)"
  "pl_fields enable_totp_payload = layout_fields enable_totp_layout" "distinct (map fst enable_totp_layout)"
  by (simp_all add: layout_fields_def layout_defs register_payload_def login_payload_def passkey_registration_payload_def
      passkey_login_payload_def email_payload_def token_password_payload_def enable_totp_payload_def)

text \<open>The types of the bodies.\<close>

definition register_body :: body_type where
  "register_body = [(''username'', Text), (''email'', Text), (''password'', Text)]"

definition login_body :: body_type where
  "login_body = [(''email'', Text), (''password'', Text), (''totp_code'', Text)]"

definition passkey_registration_body :: body_type where
  "passkey_registration_body = [(''credential'', Raw), (''name'', Text)]"

definition passkey_login_body :: body_type where
  "passkey_login_body = [(''credential'', Raw)]"

definition email_body :: body_type where
  "email_body = [(''email'', Text)]"

definition token_password_body :: body_type where
  "token_password_body = [(''token'', Text), (''password'', Text)]"

definition enable_totp_body :: body_type where
  "enable_totp_body = [(''code'', Text)]"

lemmas body_defs = register_body_def login_body_def passkey_registration_body_def passkey_login_body_def
  email_body_def token_password_body_def enable_totp_body_def

lemma layout_types:
  "layout_type register_layout = register_body" "layout_type login_layout = login_body"
  "layout_type passkey_registration_layout = passkey_registration_body" "layout_type passkey_login_layout = passkey_login_body"
  "layout_type email_layout = email_body" "layout_type token_password_layout = token_password_body"
  "layout_type enable_totp_layout = enable_totp_body"
  by (simp_all add: layout_type_def layout_defs body_defs)

lemmas read_slots = layout_defs keeps_slotI register_payload_def login_payload_def passkey_registration_payload_def
  passkey_login_payload_def email_payload_def token_password_payload_def enable_totp_payload_def

lemma stored_texts:
  "rr_username (foldl (put_member register_layout) (pl_zero register_payload) kvs) = text_at register_body kvs ''username''"
  "rr_email (foldl (put_member register_layout) (pl_zero register_payload) kvs) = text_at register_body kvs ''email''"
  "rr_password (foldl (put_member register_layout) (pl_zero register_payload) kvs) = text_at register_body kvs ''password''"
  "lr_email (foldl (put_member login_layout) (pl_zero login_payload) kvs) = text_at login_body kvs ''email''"
  "lr_password (foldl (put_member login_layout) (pl_zero login_payload) kvs) = text_at login_body kvs ''password''"
  "lr_totp_code (foldl (put_member login_layout) (pl_zero login_payload) kvs) = text_at login_body kvs ''totp_code''"
  "pr_name (foldl (put_member passkey_registration_layout) (pl_zero passkey_registration_payload) kvs) =
     text_at passkey_registration_body kvs ''name''"
  "er_email (foldl (put_member email_layout) (pl_zero email_payload) kvs) = text_at email_body kvs ''email''"
  "tr_token (foldl (put_member token_password_layout) (pl_zero token_password_payload) kvs) = text_at token_password_body kvs ''token''"
  "tr_password (foldl (put_member token_password_layout) (pl_zero token_password_payload) kvs) = text_at token_password_body kvs ''password''"
  "et_code (foldl (put_member enable_totp_layout) (pl_zero enable_totp_payload) kvs) = text_at enable_totp_body kvs ''code''"
  unfolding layout_types [symmetric]
  by - (rule text_at_layout [where get = rr_username], simp add: layout_defs, (simp_all add: read_slots)[3],
     rule text_at_layout [where get = rr_email], simp add: layout_defs, (simp_all add: read_slots)[3],
     rule text_at_layout [where get = rr_password], simp add: layout_defs, (simp_all add: read_slots)[3],
     rule text_at_layout [where get = lr_email], simp add: layout_defs, (simp_all add: read_slots)[3],
     rule text_at_layout [where get = lr_password], simp add: layout_defs, (simp_all add: read_slots)[3],
     rule text_at_layout [where get = lr_totp_code], simp add: layout_defs, (simp_all add: read_slots)[3],
     rule text_at_layout [where get = pr_name], simp add: layout_defs, (simp_all add: read_slots)[3],
     rule text_at_layout [where get = er_email], simp add: layout_defs, (simp_all add: read_slots)[3],
     rule text_at_layout [where get = tr_token], simp add: layout_defs, (simp_all add: read_slots)[3],
     rule text_at_layout [where get = tr_password], simp add: layout_defs, (simp_all add: read_slots)[3],
     rule text_at_layout [where get = et_code], simp add: layout_defs, (simp_all add: read_slots)[3])

lemma stored_raws:
  "pr_credential (foldl (put_member passkey_registration_layout) (pl_zero passkey_registration_payload) kvs) =
     raw_at passkey_registration_body kvs ''credential''"
  "pl_credential (foldl (put_member passkey_login_layout) (pl_zero passkey_login_payload) kvs) =
     raw_at passkey_login_body kvs ''credential''"
  unfolding layout_types [symmetric]
  by - (rule raw_at_layout [where get = pr_credential], simp add: layout_defs, (simp_all add: read_slots)[3],
     rule raw_at_layout [where get = pl_credential], simp add: layout_defs, (simp_all add: read_slots)[3])

text \<open>C33: The decoder accepts exactly the well-typed bodies of each request type: at most a megabyte, one
  JSON value, \<open>null\<close> or an object whose members all name a member of the type and hold a text or \<open>null\<close>
  (anything for a credential). The value is then, member by member, the last text given; every other
  body gets the same answer and no handler runs on it.
\<close>

theorem bodies_typed:
  "DecodeJSON st register_payload rq = (case typed_members st register_body rq of None \<Rightarrow> Inl invalid_json
     | Some kvs \<Rightarrow> Inr \<lparr>rr_username = text_at register_body kvs ''username'', rr_email = text_at register_body kvs ''email'',
         rr_password = text_at register_body kvs ''password''\<rparr>) \<and>
   DecodeJSON st login_payload rq = (case typed_members st login_body rq of None \<Rightarrow> Inl invalid_json
     | Some kvs \<Rightarrow> Inr \<lparr>lr_email = text_at login_body kvs ''email'', lr_password = text_at login_body kvs ''password'',
         lr_totp_code = text_at login_body kvs ''totp_code''\<rparr>) \<and>
   DecodeJSON st passkey_registration_payload rq = (case typed_members st passkey_registration_body rq of
       None \<Rightarrow> Inl invalid_json
     | Some kvs \<Rightarrow> Inr \<lparr>pr_credential = raw_at passkey_registration_body kvs ''credential'',
         pr_name = text_at passkey_registration_body kvs ''name''\<rparr>) \<and>
   DecodeJSON st passkey_login_payload rq = (case typed_members st passkey_login_body rq of None \<Rightarrow> Inl invalid_json
     | Some kvs \<Rightarrow> Inr \<lparr>pl_credential = raw_at passkey_login_body kvs ''credential''\<rparr>) \<and>
   DecodeJSON st email_payload rq = (case typed_members st email_body rq of None \<Rightarrow> Inl invalid_json
     | Some kvs \<Rightarrow> Inr \<lparr>er_email = text_at email_body kvs ''email''\<rparr>) \<and>
   DecodeJSON st token_password_payload rq = (case typed_members st token_password_body rq of None \<Rightarrow> Inl invalid_json
     | Some kvs \<Rightarrow> Inr \<lparr>tr_token = text_at token_password_body kvs ''token'',
         tr_password = text_at token_password_body kvs ''password''\<rparr>) \<and>
   DecodeJSON st enable_totp_payload rq = (case typed_members st enable_totp_body rq of None \<Rightarrow> Inl invalid_json
     | Some kvs \<Rightarrow> Inr \<lparr>et_code = text_at enable_totp_body kvs ''code''\<rparr>)"
  by (intro conjI) (simp_all add: DecodeJSON_layout layout_types stored_texts [symmetric] stored_raws [symmetric] split: option.split)

end
