(* ===== verification/TestDatabase.thy ===== *)
theory TestDatabase
  imports GoStrings
begin

text \<open>
  \<open>internal/testutil/postgres.go\<close>: the databases of the tests. One container is started for all tests of
  a process; every test gets a database of its own in it, dropped when the test ends. Starting the
  container, opening connections, executing statements and parsing URLs are arguments.
\<close>

section \<open>Names\<close>

definition name_char :: "char \<Rightarrow> bool" where
  "name_char c \<longleftrightarrow> is_digit c \<or> (97 \<le> byte c \<and> byte c \<le> 122) \<or> c = CHR ''_''"

text \<open>\<open>ReplaceAllString\<close> with the pattern of the other characters: each longest run becomes an underscore.\<close>

function replace_runs :: "string \<Rightarrow> string" where
  "replace_runs [] = []"
| "replace_runs (c # s) = (if name_char c then c # replace_runs s
     else CHR ''_'' # replace_runs (dropWhile (\<lambda>c. \<not> name_char c) s))"
  by pat_completeness auto
termination by (relation "measure length") (auto intro: le_imp_less_Suc length_dropWhile_le)

definition makeDatabaseName :: "(nat \<Rightarrow> nat) \<Rightarrow> string \<Rightarrow> string \<Rightarrow> string" where
  "makeDatabaseName ul uuid testName =
     (let sanitized = strip (\<lambda>c. c = CHR ''_'') (replace_runs (to_lower ul testName));
          sanitized = (if sanitized = '''' then ''test'' else sanitized);
          suffix = take 12 (filter (\<lambda>c. c \<noteq> CHR ''-'') uuid); pre = ''test_'';
          maxBaseLen = 63 - length pre - 1 - length suffix
      in pre @ take maxBaseLen sanitized @ ''_'' @ suffix)"

definition quoteIdentifier :: "string \<Rightarrow> string" where
  "quoteIdentifier s = CHR 0x22 # concat (map (\<lambda>c. if c = CHR 0x22 then [c, c] else [c]) s) @ [CHR 0x22]"

text \<open>A parsed URL, with its path and the text it is printed as.\<close>

record 'u url_ops =
  url_Parse :: "string \<Rightarrow> string + 'u"
  url_set_Path :: "string \<Rightarrow> 'u \<Rightarrow> 'u"
  url_String :: "'u \<Rightarrow> string"

definition withDatabaseName :: "'u url_ops \<Rightarrow> string \<Rightarrow> string \<Rightarrow> string + string" where
  "withDatabaseName U rawURL databaseName = (case url_Parse U rawURL of
     Inl e \<Rightarrow> Inl e
   | Inr parsed \<Rightarrow> Inr (url_String U (url_set_Path U (CHR ''/'' # databaseName) parsed)))"

section \<open>The container\<close>

text \<open>The variables behind \<open>sync.Once\<close>: \<^const>\<open>None\<close> until the first call, then its result for ever. The container
  is started by the first call; \<open>run\<close> is its outcome, with that of asking for the connection string.\<close>

definition sharedPostgresConnectionString ::
  "(string + (string + string)) \<Rightarrow> (string + string) option \<Rightarrow> (string + string) \<times> (string + string) option" where
  "sharedPostgresConnectionString run shared = (case shared of
     Some r \<Rightarrow> (r, shared)
   | None \<Rightarrow> (let r = (case run of Inl e \<Rightarrow> Inl (''postgres.Run(): '' @ e)
        | Inr (Inl e) \<Rightarrow> Inl (''ConnectionString(): '' @ e)
        | Inr (Inr url) \<Rightarrow> Inr url) in (r, Some r)))"

text \<open>On Windows a missing \<open>DOCKER_HOST\<close> is set for the test.\<close>

definition ensureDockerHost :: "string \<Rightarrow> string \<Rightarrow> (string \<rightharpoonup> string) \<Rightarrow> string \<rightharpoonup> string" where
  "ensureDockerHost goos DefaultDockerHost environment =
     (if goos \<noteq> ''windows'' then environment
      else if environment ''DOCKER_HOST'' \<noteq> None then environment
      else environment(''DOCKER_HOST'' \<mapsto> DefaultDockerHost))"

section \<open>The database of a test\<close>

text \<open>
  The environment and the shared container of the process, the statements that a test has run on the
  server, and the cleanups that wait for its end, as databases.
\<close>

record test =
  ts_environment :: "string \<rightharpoonup> string"
  ts_shared :: "(string + string) option"
  ts_statements :: "string list"
  ts_cleanups :: "string list"

text \<open>The platform and its container, and what connecting and executing answer.\<close>

record server =
  sr_goos :: string
  sr_DefaultDockerHost :: string
  sr_run :: "string + (string + string)"
  sr_Open :: "string \<Rightarrow> string option"
  sr_Exec :: "string \<Rightarrow> string option"

definition FreshPostgresDatabaseURL ::
  "server \<Rightarrow> 'u url_ops \<Rightarrow> (nat \<Rightarrow> nat) \<Rightarrow> string \<Rightarrow> string \<Rightarrow> test \<Rightarrow> (string + string) \<times> test" where
  "FreshPostgresDatabaseURL srv U ul uuid testName t0 =
     (let (conn, shared) = sharedPostgresConnectionString (sr_run srv) (ts_shared t0);
          t = t0\<lparr>ts_environment := ensureDockerHost (sr_goos srv) (sr_DefaultDockerHost srv) (ts_environment t0), ts_shared := shared\<rparr> in
      case conn of Inl e \<Rightarrow> (Inl (''sharedPostgresConnectionString() error = '' @ e), t)
      | Inr adminURL \<Rightarrow> (let databaseName = makeDatabaseName ul uuid testName in
         case sr_Open srv adminURL of Some e \<Rightarrow> (Inl (''sql.Open(admin) error = '' @ e), t)
         | None \<Rightarrow> (let create = ''CREATE DATABASE '' @ quoteIdentifier databaseName;
              t1 = t\<lparr>ts_statements := ts_statements t @ [create]\<rparr> in
            case sr_Exec srv create of
              Some e \<Rightarrow> (Inl (''CREATE DATABASE '' @ databaseName @ '' error = '' @ e), t1)
            | None \<Rightarrow> (let t2 = t1\<lparr>ts_cleanups := databaseName # ts_cleanups t1\<rparr> in
                case withDatabaseName U adminURL databaseName of
                  Inl e \<Rightarrow> (Inl (''withDatabaseName('' @ databaseName @ '') error = '' @ e), t2)
                | Inr url \<Rightarrow> (Inr url, t2)))))"

definition terminate_statement :: string where
  "terminate_statement = ''SELECT pg_terminate_backend(pid) FROM pg_stat_activity WHERE datname = $1 AND pid <> pg_backend_pid()''"

text \<open>The function given to \<open>t.Cleanup\<close> (its first statement up to white space): it closes the connections to the database and drops it.\<close>

definition drop_database :: "server \<Rightarrow> string \<Rightarrow> string \<Rightarrow> test \<Rightarrow> string option \<times> test" where
  "drop_database srv adminURL databaseName t =
     (case sr_Open srv adminURL of Some e \<Rightarrow> (Some (''sql.Open(cleanup admin) error = '' @ e), t)
      | None \<Rightarrow> (let t1 = t\<lparr>ts_statements := ts_statements t @ [terminate_statement]\<rparr> in
         case sr_Exec srv terminate_statement of
           Some e \<Rightarrow> (Some (''terminate connections for '' @ databaseName @ '' error = '' @ e), t1)
         | None \<Rightarrow> (let drop = ''DROP DATABASE IF EXISTS '' @ quoteIdentifier databaseName;
              t2 = t1\<lparr>ts_statements := ts_statements t1 @ [drop]\<rparr> in
            case sr_Exec srv drop of
              Some e \<Rightarrow> (Some (''DROP DATABASE '' @ databaseName @ '' error = '' @ e), t2)
            | None \<Rightarrow> (None, t2))))"

section \<open>Isolation of the tests\<close>

lemma replace_runs_chars: "c \<in> set (replace_runs s) \<Longrightarrow> name_char c"
  by (induction s rule: replace_runs.induct) (auto simp: name_char_def split: if_splits)

definition database_suffix :: "string \<Rightarrow> string" where
  "database_suffix uuid = take 12 (filter (\<lambda>c. c \<noteq> CHR ''-'') uuid)"

text \<open>The texts of \<open>uuid.NewString\<close>, as far as it matters: hexadecimal digits and dashes, at least twelve digits.\<close>

definition uuid_text :: "string \<Rightarrow> bool" where
  "uuid_text uuid \<longleftrightarrow> list_all (\<lambda>c. name_char c \<or> c = CHR ''-'') uuid \<and> 12 \<le> length (filter (\<lambda>c. c \<noteq> CHR ''-'') uuid)"

lemma database_suffix: "uuid_text uuid \<Longrightarrow> length (database_suffix uuid) = 12"
  "uuid_text uuid \<Longrightarrow> c \<in> set (database_suffix uuid) \<Longrightarrow> name_char c"
  using set_take_subset [of 12 "filter (\<lambda>c. c \<noteq> CHR ''-'') uuid"]
  by (auto simp: database_suffix_def uuid_text_def list_all_iff)

lemma makeDatabaseName_parts:
  assumes "uuid_text uuid"
  obtains base where "makeDatabaseName ul uuid testName = ''test_'' @ base @ ''_'' @ database_suffix uuid"
    "length base \<le> 45" "\<forall>c \<in> set base. name_char c"
proof -
  let ?s = "strip (\<lambda>c. c = CHR ''_'') (replace_runs (to_lower ul testName))"
  let ?base = "take 45 (if ?s = '''' then ''test'' else ?s)"
  have "\<forall>c \<in> set ?s. name_char c"
    using strip_set [of "\<lambda>c. c = CHR ''_''" "replace_runs (to_lower ul testName)"] by (auto dest: replace_runs_chars)
  then have "\<forall>c \<in> set ?base. name_char c" by (auto simp: name_char_def dest: in_set_takeD)
  moreover have "makeDatabaseName ul uuid testName = ''test_'' @ ?base @ ''_'' @ database_suffix uuid"
    using database_suffix(1) [OF assms] by (simp add: makeDatabaseName_def Let_def database_suffix_def)
  moreover have "length ?base \<le> 45" by simp
  ultimately show thesis using that by blast
qed

lemma quoteIdentifier_plain: "\<forall>c \<in> set s. name_char c \<Longrightarrow> quoteIdentifier s = CHR 0x22 # s @ [CHR 0x22]"
proof -
  assume "\<forall>c \<in> set s. name_char c"
  then have "concat (map (\<lambda>c. if c = CHR 0x22 then [c, c] else [c]) s) = s"
    by (induction s) (auto simp: name_char_def is_digit_def)
  then show ?thesis by (simp add: quoteIdentifier_def)
qed

text \<open>
  A test gets a database of its own, whatever the test is called: the statement creates exactly the
  database that the cleanup drops; its name needs no quoting and is not cut by the server; and
  a test whose random suffix differs gets another one. Once the statement has succeeded the cleanup is
  registered, also when the test fails after it.
\<close>

theorem test_databases_isolated:
  assumes "uuid_text uuid" and "FreshPostgresDatabaseURL srv U ul uuid testName t = (r, t')"
    and "r = Inr url \<or> ts_cleanups t' \<noteq> ts_cleanups t"
  shows "\<exists>name. ts_statements t' = ts_statements t @ [''CREATE DATABASE '' @ [CHR 0x22] @ name @ [CHR 0x22]] \<and>
     ts_cleanups t' = name # ts_cleanups t \<and> length name \<le> 63 \<and> (\<forall>c \<in> set name. name_char c) \<and>
     (\<forall>uuid' other. uuid_text uuid' \<and> database_suffix uuid' \<noteq> database_suffix uuid \<longrightarrow>
        makeDatabaseName ul uuid' other \<noteq> name)"
proof -
  let ?name = "makeDatabaseName ul uuid testName"
  from makeDatabaseName_parts [OF assms(1), of ul testName] obtain base where n: "?name = ''test_'' @ base @ ''_'' @ database_suffix uuid"
    and b: "length base \<le> 45" "\<forall>c \<in> set base. name_char c" .
  have chars: "\<forall>c \<in> set ?name. name_char c"
    using b(2) database_suffix(2) [OF assms(1)] unfolding n by (auto simp: name_char_def)
  have "makeDatabaseName ul uuid' other \<noteq> ?name" if u: "uuid_text uuid'" "database_suffix uuid' \<noteq> database_suffix uuid" for uuid' other
  proof
    assume same: "makeDatabaseName ul uuid' other = ?name"
    obtain base' where n': "makeDatabaseName ul uuid' other = ''test_'' @ base' @ ''_'' @ database_suffix uuid'"
      using u(1) by (rule makeDatabaseName_parts)
    have "(''test_'' @ base' @ ''_'') @ database_suffix uuid' = (''test_'' @ base @ ''_'') @ database_suffix uuid"
      using same unfolding n n' by simp
    moreover have "length (database_suffix uuid') = length (database_suffix uuid)"
      using database_suffix(1) u(1) assms(1) by metis
    ultimately show False using u(2) append_eq_append_conv by blast
  qed
  moreover have "length ?name \<le> 63" using b(1) database_suffix(1) [OF assms(1)] by (simp add: n)
  moreover have "ts_statements t' = ts_statements t @ [''CREATE DATABASE '' @ quoteIdentifier ?name] \<and>
      ts_cleanups t' = ?name # ts_cleanups t"
    using assms(2,3) by (auto simp: FreshPostgresDatabaseURL_def Let_def split: option.splits sum.splits prod.splits)
  ultimately show ?thesis using chars quoteIdentifier_plain [OF chars] by (intro exI [of _ ?name]) simp
qed

text \<open>A test with a name that has to be cleaned.\<close>

lemma sample_name:
  "makeDatabaseName id ''0f8fad5b-d9cb-469f-a165-70867728950e'' ''TestLogin/empty body'' = ''test_testlogin_empty_body_0f8fad5bd9cb''"
  by (simp add: makeDatabaseName_def to_lower_def ascii_def lower_code_def char_of_def name_char_def is_digit_def strip_def bit_0)

end
