(* ===== verification/SessionFixation.thy ===== *)
theory SessionFixation
  imports AuthSystem MiddlewareProps
begin

text \<open>
  Session fixation. A client can be made to send a session token that somebody else chose or knows; the
  program is safe against this if no such token ever comes to stand for a signed-in user. The property is
  proved of every handler as a relation on the request state, and from there of the routes, of the
  router and of every reachable state.
\<close>

section \<open>Tokens and users\<close>

definition user_in :: "(string \<rightharpoonup> sval) \<Rightarrow> int" where
  "user_in vs = (case vs ''user_id'' of Some (SInt i) \<Rightarrow> i | _ \<Rightarrow> 0)"

definition later :: "world \<Rightarrow> world \<Rightarrow> bool" where
  "later w t \<longleftrightarrow> (\<exists>cs. wlog t = cs @ wlog w)"

text \<open>The token was generated after the calls made so far.\<close>

definition drawn :: "site \<Rightarrow> world \<Rightarrow> string \<Rightarrow> bool" where
  "drawn st w token \<longleftrightarrow> (\<exists>cs. cs \<noteq> [] \<and> scs_token (si_scs st) (cs @ wlog w) = Inr token)"

lemma later_refl [simp]: "later w w"
  by (simp add: later_def)

lemma later_trans: "later w t \<Longrightarrow> later t u \<Longrightarrow> later w u"
  by (auto simp: later_def)

lemma drawn_later: "later w t \<Longrightarrow> drawn st t token \<Longrightarrow> drawn st w token"
  by (auto simp: later_def drawn_def)

lemma history_later: "history w t \<Longrightarrow> later w t"
  by (auto simp: history_def later_def)

text \<open>
  What a handler may do: delete saved sessions, and leave the session with the user and token it had, empty
  it, or give it a new token.
\<close>

definition renews :: "site \<Rightarrow> web \<Rightarrow> web \<Rightarrow> bool" where
  "renews st s t \<longleftrightarrow> (sessions_documented (si_scs st) \<longrightarrow>
     later (wb_world s) (wb_world t) \<and> (\<forall>k. wb_store t k = None \<or> wb_store t k = wb_store s k) \<and>
     ((user_in (ss_values (wb_session t)) = user_in (ss_values (wb_session s)) \<and>
         ss_token (wb_session t) = ss_token (wb_session s)) \<or>
      (user_in (ss_values (wb_session t)) = 0 \<and> ss_token (wb_session t) = '''') \<or>
      drawn st (wb_world s) (ss_token (wb_session t))))"

text \<open>What a request may do to the saved sessions: a token stands for a user only if it did before, or is new.\<close>

definition fixed :: "site \<Rightarrow> web \<Rightarrow> web \<Rightarrow> bool" where
  "fixed st s t \<longleftrightarrow> (sessions_documented (si_scs st) \<longrightarrow> later (wb_world s) (wb_world t) \<and>
     (\<forall>token vs. wb_store t token = Some vs \<and> user_in vs \<noteq> 0 \<longrightarrow>
        (\<exists>vs0. wb_store s token = Some vs0 \<and> user_in vs0 = user_in vs) \<or> drawn st (wb_world s) token))"

lemma renews_refl: "renews st s s"
  by (simp add: renews_def)

lemma renews_trans:
  assumes "renews st s t" and "renews st t u"
  shows "renews st s u"
  unfolding renews_def
proof
  assume d: "sessions_documented (si_scs st)"
  have "later (wb_world s) (wb_world u)" and "drawn st (wb_world t) token \<Longrightarrow> drawn st (wb_world s) token" for token
    using assms d by (auto simp: renews_def intro: later_trans drawn_later)
  with assms d show "later (wb_world s) (wb_world u) \<and> (\<forall>k. wb_store u k = None \<or> wb_store u k = wb_store s k) \<and>
     ((user_in (ss_values (wb_session u)) = user_in (ss_values (wb_session s)) \<and>
         ss_token (wb_session u) = ss_token (wb_session s)) \<or>
      (user_in (ss_values (wb_session u)) = 0 \<and> ss_token (wb_session u) = '''') \<or>
      drawn st (wb_world s) (ss_token (wb_session u)))"
    unfolding renews_def by (smt (verit, best))
qed

lemma fixed_trans:
  assumes "fixed st s t" and "fixed st t u"
  shows "fixed st s u"
  unfolding fixed_def
proof (intro impI conjI allI)
  assume d: "sessions_documented (si_scs st)"
  show "later (wb_world s) (wb_world u)" using assms d by (auto simp: fixed_def intro: later_trans)
  have "drawn st (wb_world t) token \<Longrightarrow> drawn st (wb_world s) token" for token
    using assms(1) d by (auto simp: fixed_def intro: drawn_later)
  with assms d show "(\<exists>vs0. wb_store s token = Some vs0 \<and> user_in vs0 = user_in vs) \<or> drawn st (wb_world s) token"
    if "wb_store u token = Some vs \<and> user_in vs \<noteq> 0" for token vs
    using that unfolding fixed_def by metis
qed

lemma renews_fixed: "renews st s t \<Longrightarrow> fixed st s t"
  unfolding renews_def fixed_def by (metis option.distinct(1))

section \<open>The session's operations\<close>

text \<open>What leaves the session alone and at most deletes saved ones.\<close>

definition trims :: "web \<Rightarrow> web \<Rightarrow> bool" where
  "trims s t \<longleftrightarrow> later (wb_world s) (wb_world t) \<and> wb_session t = wb_session s \<and>
     (\<forall>k. wb_store t k = None \<or> wb_store t k = wb_store s k)"

lemma session_io_later: "session_io oper f s = (r, t) \<Longrightarrow> later (wb_world s) (wb_world t)"
  by (auto simp: later_def dest: session_io_keeps)

lemma drawn_next: "scs_token (si_scs st) (c # wlog w) = Inr token \<Longrightarrow> drawn st w token"
  unfolding drawn_def by (intro exI [of _ "[c]"]) simp

lemma RenewToken_effect:
  assumes "sessions_documented (si_scs st)" and "RenewToken st s = (r, t)"
  shows "(r \<noteq> Inr () \<and> trims s t) \<or>
     (r = Inr () \<and> later (wb_world s) (wb_world t) \<and> (\<forall>k. wb_store t k = None \<or> wb_store t k = wb_store s k) \<and>
      drawn st (wb_world s) (ss_token (wb_session t)))"
  using assms(2) documented_io(1) [OF assms(1), of "CSession ''RenewToken'' # wlog (wb_world s)" "wb_session s" "wb_store s"]
    session_io_later [OF assms(2) [unfolded RenewToken_def]] drawn_next [of st "CSession ''RenewToken''" "wb_world s"]
  by (cases r) (auto simp: RenewToken_def session_io_Inv renewed_def trims_def deleted_def split: if_splits)

lemma completeLogin_renews: "framed (renews st) (completeLogin st p)"
proof (rule framedI)
  fix s r t
  assume run: "completeLogin st p s = (r, t)"
  obtain q u where renew: "RenewToken st s = (q, u)" by fastforce
  from RenewToken_effect [OF _ renew] run show "renews st s t"
    by (auto simp: completeLogin_def attempt_def andthen_def fail_def session_step_def Put_def renew renews_def trims_def
        split: sum.splits)
qed

lemma Destroy_renews: "framed (renews st) (Destroy st)"
proof (rule framedI)
  fix s r t
  assume run: "Destroy st s = (r, t)"
  show "renews st s t"
    unfolding renews_def
    using run documented_io(2) [of "si_scs st" "wb_session s" "wb_store s" "CSession ''Destroy'' # wlog (wb_world s)"]
      session_io_later [OF run [unfolded Destroy_def]]
    by (cases r) (auto simp: Destroy_def session_io_Inv destroyed_def user_in_def deleted_def split: if_splits)
qed

lemma key_renews:
  "k \<noteq> ''user_id'' \<Longrightarrow> renews st s (Put k v s)" "k \<noteq> ''user_id'' \<Longrightarrow> renews st s (Remove k s)"
  by (auto simp: renews_def Put_def Remove_def user_in_def)

section \<open>A request with its session\<close>

lemma load_session_outcome:
  assumes "sessions_documented (si_scs st)" and "load_session st cookie s = (r, t)"
  shows "later (wb_world s) (wb_world t) \<and> wb_store t = wb_store s \<and>
     (r = Inr () \<longrightarrow> wb_session t = session_of (wb_store s) cookie)"
  using assms(2) documented_Load [OF assms(1)] session_io_later [OF assms(2) [unfolded load_session_def]]
  by (auto simp: load_session_def session_io_Inv split: sum.splits)

lemma commit_session_effect:
  assumes "sessions_documented (si_scs st)" and "commit_session st s = (r, t)"
  shows "later (wb_world s) (wb_world t) \<and> (wb_store t = wb_store s \<or>
     (\<exists>token. wb_store t = (wb_store s)(token \<mapsto> ss_values (wb_session s)) \<and>
        (token = ss_token (wb_session s) \<and> token \<noteq> '''' \<or> drawn st (wb_world s) token)))"
  using assms(2) documented_io(3) [OF assms(1), of "CSession ''Commit'' # wlog (wb_world s)" "wb_session s" "wb_store s"]
    session_io_later [OF assms(2) [unfolded commit_session_def]] drawn_next [of st "CSession ''Commit''" "wb_world s"]
  by (cases "ss_status (wb_session s)") (auto simp: commit_session_def session_io_Inv committed_def split: if_split_asm)

text \<open>What a handler leaves in the session that was loaded may be saved.\<close>

lemma saved_fixed:
  assumes loaded: "later (wb_world s) (wb_world t)" "wb_store t = wb_store s"
      "wb_session t = no_session \<or> (\<exists>vs. wb_store s (ss_token (wb_session t)) = Some vs \<and> ss_values (wb_session t) = vs)"
    and documented: "sessions_documented (si_scs st)" and handled: "renews st t u"
    and committed: "later (wb_world u) (wb_world v)" "wb_store v = wb_store u \<or>
       (\<exists>token. wb_store v = (wb_store u)(token \<mapsto> ss_values (wb_session u)) \<and>
          (token = ss_token (wb_session u) \<and> token \<noteq> '''' \<or> drawn st (wb_world u) token))"
  shows "fixed st s v"
proof -
  have st: "fixed st s t" using loaded by (auto simp: fixed_def)
  have tu: "fixed st t u" by (rule renews_fixed [OF handled])
  from handled have later: "later (wb_world s) (wb_world u)"
    using later_trans [OF loaded(1)] documented by (simp add: renews_def)
  have drawn: "drawn st (wb_world s) token" if "drawn st (wb_world u) token \<or> drawn st (wb_world t) token" for token
    using that drawn_later [OF later] drawn_later [OF loaded(1)] by blast
  have token: "drawn st (wb_world s) (ss_token (wb_session u)) \<or>
      (\<exists>vs. wb_store s (ss_token (wb_session u)) = Some vs \<and> user_in vs = user_in (ss_values (wb_session u)))"
    if "ss_token (wb_session u) \<noteq> ''''" "user_in (ss_values (wb_session u)) \<noteq> 0"
    using handled documented loaded(3) that drawn by (auto simp: renews_def no_session_def)
  from committed(2) consider "wb_store v = wb_store u"
    | token where "wb_store v = (wb_store u)(token \<mapsto> ss_values (wb_session u))"
      "token = ss_token (wb_session u) \<and> token \<noteq> '''' \<or> drawn st (wb_world u) token"
    by blast
  then show ?thesis
  proof cases
    case 1
    then have "fixed st u v" using committed(1) by (auto simp: fixed_def)
    then show ?thesis by (rule fixed_trans [OF fixed_trans [OF st tu]])
  next
    case put: 2
    show ?thesis
      unfolding fixed_def
    proof (intro impI conjI allI)
      show "later (wb_world s) (wb_world v)" by (rule later_trans [OF later committed(1)])
      fix tk vs
      assume saved: "wb_store v tk = Some vs \<and> user_in vs \<noteq> 0"
      show "(\<exists>vs0. wb_store s tk = Some vs0 \<and> user_in vs0 = user_in vs) \<or> drawn st (wb_world s) tk"
      proof (cases "tk = token")
        case True
        with saved put token drawn show ?thesis by auto
      next
        case False
        with saved put(1) have "wb_store u tk = Some vs \<and> user_in vs \<noteq> 0" by auto
        with fixed_trans [OF st tu] documented show ?thesis by (auto simp: fixed_def)
      qed
    qed
  qed
qed

interpretation renewing: web_relation "renews st" for st
  by unfold_locales (auto intro: renews_refl renews_trans)

interpretation fixing: web_relation "fixed st" for st
  by unfold_locales (auto intro: fixed_trans renews_fixed [OF renews_refl])

lemma LoadAndSave_fixed:
  assumes "renewing.serves st h"
  shows "fixing.serves st (LoadAndSave st h)"
  unfolding fixing.serves_def fixing.leads_def
proof (intro allI)
  fix rq :: request and s
  obtain r t where load: "load_session st (rq_cookie rq) s = (r, t)" by fastforce
  obtain a u where handled: "h rq t = (a, u)" by fastforce
  with assms have renewed: "renews st t u"
    unfolding renewing.serves_def renewing.leads_def by (metis snd_conv)
  obtain c v where commit: "commit_session st u = (c, v)" by fastforce
  show "fixed st s (snd (LoadAndSave st h rq s))"
  proof (cases "sessions_documented (si_scs st)")
    case True
    note loaded = load_session_outcome [OF True load] and saved = commit_session_effect [OF True commit]
    show ?thesis
    proof (cases r)
      case (Inl e)
      with load loaded show ?thesis by (auto simp: LoadAndSave_def on_error_def fixed_def)
    next
      case (Inr _)
      have "session_of m k = no_session \<or> (\<exists>vs. m (ss_token (session_of m k)) = Some vs \<and> ss_values (session_of m k) = vs)" for m k
        by (auto simp: session_of_def split: option.splits)
      with loaded saved Inr have "fixed st s v"
        by (intro saved_fixed [OF _ _ _ True renewed]) auto
      with load Inr handled commit show ?thesis
        by (simp add: LoadAndSave_def on_error_def respond_def split: sum.splits)
    qed
  qed (simp add: fixed_def)
qed

interpretation fixation: system_frame "renews st" history st "fixed st" for st
proof unfold_locales
  show "history (wb_world s) w \<Longrightarrow> renews st s (s\<lparr>wb_world := w\<rparr>)" for s w
    by (auto simp: renews_def dest: history_later)
  show "renews st s (s\<lparr>wb_roles := c\<rparr>)" for s c by (simp add: renews_def)
  show "renewing.serves st h \<Longrightarrow> fixing.serves st (LoadAndSave st h)" for h by (rule LoadAndSave_fixed)
  show "renews st s t \<Longrightarrow> fixed st s t" for s t by (rule renews_fixed)
qed (auto simp: fixed_def later_def intro: key_renews completeLogin_renews Destroy_renews)

section \<open>No session is fixed\<close>

text \<open>C3: However requests, jobs and expiries are interleaved and whatever fails, a session token stands for a
  signed-in user in a later state only if it stood for that same user before, or was drawn by the generator
  of session tokens after that: a token known in advance never comes to stand for anybody who signs in.
\<close>

theorem no_session_fixation:
  assumes "sessions_documented (si_scs (sy_site y))" and "\<forall>n. passes (sy_chi y n)" and "reaches y s t"
    and "wb_store t token = Some vs" and "vs ''user_id'' = Some (SInt i)" and "i \<noteq> 0"
  shows "(\<exists>vs0. wb_store s token = Some vs0 \<and> vs0 ''user_id'' = Some (SInt i)) \<or>
     (\<exists>cs. cs \<noteq> [] \<and> scs_token (si_scs (sy_site y)) (cs @ wlog (wb_world s)) = Inr token)"
proof -
  have "user_in vs = i" using assms(5) by (simp add: user_in_def)
  moreover have "vs0 ''user_id'' = Some (SInt i)" if "user_in vs0 = i" for vs0
    using that assms(6) by (auto simp: user_in_def split: option.splits sval.splits)
  ultimately show ?thesis
    using fixation.reaches_keeps [OF assms(2) HOL.refl assms(3)] assms(1,4,6) unfolding fixed_def drawn_def by blast
qed

theorem no_session_fixation_witness:
  "let s = (demo_web 1)\<lparr>wb_store := [''old'' \<mapsto> demo_values 1]\<rparr>;
       t = run_job demo_system EmailOutbox (s\<lparr>wb_store := (wb_store s)(''tok'' := None)\<rparr>)
   in wb_store t ''old'' = Some (demo_values 1) \<and>
     ((\<exists>vs0. wb_store s ''old'' = Some vs0 \<and> vs0 ''user_id'' = Some (SInt 1)) \<or>
      (\<exists>cs. cs \<noteq> [] \<and> scs_token (si_scs (sy_site demo_system)) (cs @ wlog (wb_world s)) = Inr ''old''))"
proof -
  let ?s = "(demo_web 1)\<lparr>wb_store := [''old'' \<mapsto> demo_values 1]\<rparr>"
  let ?t = "run_job demo_system EmailOutbox (?s\<lparr>wb_store := (wb_store ?s)(''tok'' := None)\<rparr>)"
  have "wb_store ?t ''old'' = Some (demo_values 1)"
    by (simp add: run_job_def Let_def in_world_def split: prod.splits)
  with no_session_fixation [OF _ demo_passes demo_reaches this, of 1] demo_sessions show ?thesis
    by (simp add: demo_values_def demo_system_def Let_def)
qed

end
