(* ===== verification/Spec2Isabelle.thy ===== *)
theory Spec2Isabelle
  imports WebProps MiddlewareProps OAuthProps PasskeyProps AppProps ConfigProps MailProps CacheThreads
    Transactions CoverageFilter Dbtype Outbox Redemption Guesses MailHeaders LoginLimit Bodies
    TestDatabase SessionFixation
begin

text \<open>
  A verification development for the backend template of this repository: an HTTP service in Go with
  accounts, password, OAuth and passkey sign-in, sessions, an email outbox and periodic jobs over
  PostgreSQL. This theory imports all others and holds this overview.

  How the program fits together. \<open>cmd/app/main.go\<close> loads a configuration (\<open>internal/config\<close>) and builds
  the application (\<open>internal/app\<close>): it opens the database (\<open>internal/database\<close>), runs the migrations,
  creates the account service (\<open>internal/auth\<close>), the mailer, the job client (\<open>internal/river\<close>), the cache
  of roles (\<open>internal/cache\<close>) and the router (\<open>internal/httpapi\<close>). A request passes the middleware and
  reaches a handler, which decodes and validates the body (\<open>jsonio\<close>, \<open>internal/validation\<close>), calls one
  operation of the service and reads or writes the session. An operation of the service is a sequence
  of generated statements (\<open>internal/store/sqlc\<close>), mostly in one transaction. Emails are queued in a
  table and delivered by a job.

  How it is modelled. A computation is a function of a state that returns an error or a value and the
  state it leaves (\<open>Prelude\<close>: \<open>go\<close>, with \<open>andthen\<close> for the early return on an error and \<open>attempt\<close> where the
  code handles one). The state of the service is a \<open>world\<close>: the database, the clocks of the application
  and of the database host, and the log of all calls made to the outside. Everything that is not in
  the repository is a field of \<open>ext\<close> (theory \<open>Externals\<close>) or an argument: a function of the log, so that
  a library may fail or answer differently at every call. Nothing is assumed of these functions
  except in the hypotheses of a theorem: of the session manager, for instance, \<open>sessions_documented\<close> states
  what its documentation says. The state of the HTTP layer (\<open>web\<close>) adds the session of the
  request, the saved sessions and the cache of roles. Go strings are byte strings, integers are
  mathematical with the wrap-around of 64 and 32 bits written out where values can reach it, times and
  durations count nanoseconds.

  The theories, in the order of the layers:
  \<^item> \<open>Prelude\<close>, \<open>GoStrings\<close>, \<open>GoValues\<close>, \<open>GoJson\<close>, \<open>NetIP\<close>: the state monad with errors and frames
    (what a computation may do to the state), and the parts of Go's library the program uses: strings
    and UTF-8, numbers and durations, JSON documents and their decoding into structs, IP addresses
    and prefixes on machine words.
  \<^item> \<open>Config\<close>, \<open>ConfigProps\<close>: \<open>internal/config/config.go\<close>. Sources, defaults and checks of \<open>Load\<close>, the mapping
    from environment variables to keys by the types of the configuration (its termination is proved
    with a measure on types and tokens) and the conversion of values.
  \<^item> \<open>Models\<close>, \<open>Externals\<close>, \<open>SqlcUsers\<close>, \<open>SqlcAuth\<close>, \<open>SqlcTables\<close>, \<open>SqlcRules\<close>, \<open>Dbtype\<close>:
    \<open>internal/store\<close>. The tables, the constraints of the schema (\<open>db_ok\<close>), and one definition per
    generated statement; that each keeps the constraints, and inversion rules for the layers above.
    The locale \<open>token_ledger\<close> is the contract of single-use tokens.
  \<^item> \<open>Database\<close>, \<open>Transactions\<close>: \<open>internal/database\<close>. Transactions, and that the flows built on them are all
    or nothing.
  \<^item> \<open>Crypto\<close>, \<open>Accounts\<close>, \<open>AccountFlows\<close>, \<open>AccountInvariants\<close>, \<open>AccountProps\<close>, \<open>Lockout\<close>,
    \<open>Registration\<close>, \<open>EndToEnd\<close>, \<open>Redemption\<close>, \<open>Guesses\<close>: \<open>crypto.go\<close>, \<open>password.go\<close>, \<open>tokens.go\<close> and \<open>service.go\<close> of
    \<open>internal/auth\<close>. Soundness and completeness of the password login, single use of tokens, effects of
    reset and recovery, lockout, and the way from a registration to a login. \<open>Redemption\<close> interleaves the
    statements of concurrent transactions on the table of tokens, with its row locks, and \<open>Guesses\<close> those of
    concurrent failed logins.
  \<^item> \<open>OAuth\<close>, \<open>OAuthProps\<close>, \<open>Passkeys\<close>, \<open>PasskeyProps\<close>: \<open>oauth.go\<close> and \<open>passkeys.go\<close> of \<open>internal/auth\<close>.
  \<^item> \<open>Cache\<close>, \<open>CacheThreads\<close>: \<open>internal/cache\<close>. The contract with its client as the locale \<open>ttl_cache\<close>, and
    the critical sections as a step relation that refines a map of stored values.
  \<^item> \<open>Validation\<close>, \<open>Web\<close>, \<open>Requests\<close>, \<open>Middleware\<close>, \<open>MiddlewareProps\<close>, \<open>Handlers\<close>, \<open>Router\<close>,
    \<open>WebInvariants\<close>, \<open>WebProps\<close>, \<open>Bodies\<close>, \<open>LoginLimit\<close>: \<open>internal/validation\<close> and \<open>internal/httpapi\<close>. The locale \<open>service_frame\<close>
    carries a relation that the service's operations keep through every handler and the router. \<open>Bodies\<close>
    gives every request a type of JSON documents, \<open>LoginLimit\<close> composes proxies, handler and rate limit.
  \<^item> \<open>Mailer\<close>, \<open>Jobs\<close>, \<open>MailProps\<close>, \<open>Outbox\<close>: \<open>internal/mailer\<close> and \<open>internal/river\<close>; a round of the
    outbox, and the rounds that work off a backlog.
  \<^item> \<open>AuthSystem\<close>: requests, jobs, the clock and expiring sessions as one step relation, with the
    invariants of all reachable states. \<open>SessionFixation\<close> adds one on the tokens of signed-in sessions,
    \<open>MailHeaders\<close> one on the subjects of queued emails, and it reads back the messages that the mailer writes.
  \<^item> \<open>App\<close>, \<open>AppProps\<close>: \<open>internal/app\<close>, \<open>migrate.go\<close> and \<open>cmd/app\<close>. \<open>CoverageFilter\<close>: \<open>cmd/coveragefilter\<close>.
    \<open>TestDatabase\<close>: \<open>internal/testutil\<close>.
  \<^item> \<open>Samples\<close>, \<open>WebSamples\<close>: a concrete environment and store, on which every property with hypotheses is
    applied.

  Interfaces. A \<open>frame\<close> is a reflexive and transitive relation between states. On worlds it is an \<open>io_frame\<close>
  when it holds over a logged call and over a rolled back transaction, and a \<open>db_frame\<close> when it looks at the
  database only. A \<open>sqlc_frame\<close> also holds over every statement, and with them over every operation of the
  service and every job: it gives a \<open>service_frame\<close>, which is what the handlers rely on. \<open>web_frame\<close> is a relation
  on the state of requests that holds over what the service keeps and over the few things that handlers do
  to the session; it then holds over every handler. \<open>router_frame\<close> adds the loading and saving of sessions,
  and gives every route and the router; \<open>system_frame\<close> adds the passing of time and expired sessions, and
  gives every reachable state. They are interpreted on the constraints of the schema (\<open>ok\<close>), on what
  every account keeps (\<open>versions\<close>), on the subjects of emails (\<open>plain\<close>), on reading (\<open>read_only\<close>), on the clocks and
  the log of calls (\<open>history\<close>, \<open>logs\<close>), on equal tables (\<open>tables\<close>), on what the cleanup may drop (\<open>trims\<close>) and on
  the tokens of sessions (\<open>fixation\<close>).

  Bounds. No definition uses fuel: every loop of the code is over a list it holds or, in
  \<open>matchEnvTokens\<close>, has a proved measure (and so has \<open>read_message\<close>, which reads a mail back). Ids and
  session versions are at most \<open>2 ^ 63 - 1\<close>, counters at most \<open>2 ^ 31 - 1\<close>, as the columns are; a statement that would pass them fails. The outbox handles 25
  emails per round, bodies have at most \<open>2 ^ 20\<close> bytes, lines of a coverage profile fewer than 65536.

  Simplifications. The steps of one request or job are not interleaved with those of another, except
  in the cache, on the table of tokens and between failed logins; clocks stand still during a
  request. Log lines, deadlines and the closing of network connections are left out. Values are immutable, so copies made against aliasing are identities.

  Not modelled: reading the YAML file and merging it with the environment (package koanf), the SQL of
  the migrations except for their constraints, the libraries for sessions, routing, WebAuthn, TOTP, rate
  limiting, jobs, SMTP and cryptography, the splitting of the command line, and the container of the tests.
\<close>

end
